(* ===== verification/Prelude.thy ===== *)
theory Prelude
  imports Main "HOL-Library.Word" "HOL-Library.AList"
begin

text \<open>
  The vocabulary every component of the model shares: fixed-width integers, the result of a
  Rust expression (a value, an error, or a panic), the collection of fallible maps, and
  explicit world passing for code that performs effects. The lemmas below are the only place
  where these combinators are unfolded; the components use them through the collections
  \<open>res_simps\<close> (rewriting of results) and \<open>io_steps\<close> (what an effect may do to
  the world).
\<close>

named_theorems res_simps \<open>equations and equivalences for results of Rust expressions\<close>
named_theorems io_steps \<open>introduction rules for the world relation of an effect\<close>
named_theorems io_eval \<open>unfolding equations that evaluate effects on a concrete world\<close>

type_synonym u8 = "8 word"
type_synonym u16 = "16 word"
type_synonym u32 = "32 word"
type_synonym u64 = "64 word"
type_synonym u128 = "128 word"
type_synonym u256 = "256 word"
type_synonym bytes = "8 word list"

section \<open>Results\<close>

text \<open>
  A Rust expression of type \<open>Result<T, E>\<close> yields \<open>Ok\<close> or \<open>Err\<close>; it can also
  panic (an index out of range, an \<open>expect\<close> or \<open>unwrap\<close> that fails, an overflow in a
  checked build), which unwinds and returns neither. \<open>Panic\<close> carries the reason. An
  \<open>anyhow::Error\<close> is represented by its message, a string.
\<close>

datatype ('e, 'a) res = Ok 'a | Err 'e | Panic string

text \<open>The \<open>?\<close> operator: continue with the value, propagate the error or the panic.\<close>

fun and_then :: "('e, 'a) res \<Rightarrow> ('a \<Rightarrow> ('e, 'b) res) \<Rightarrow> ('e, 'b) res" where
  "and_then (Ok a) f = f a"
| "and_then (Err e) f = Err e"
| "and_then (Panic p) f = Panic p"

fun map_err :: "('e \<Rightarrow> 'f) \<Rightarrow> ('e, 'a) res \<Rightarrow> ('f, 'a) res" where
  "map_err g (Ok a) = Ok a"
| "map_err g (Err e) = Err (g e)"
| "map_err g (Panic p) = Panic p"

fun ok_or :: "'e \<Rightarrow> 'a option \<Rightarrow> ('e, 'a) res" where
  "ok_or e None = Err e"
| "ok_or e (Some a) = Ok a"

fun is_ok :: "('e, 'a) res \<Rightarrow> bool" where
  "is_ok (Ok a) = True"
| "is_ok (Err e) = False"
| "is_ok (Panic p) = False"

fun is_panic :: "('e, 'a) res \<Rightarrow> bool" where
  "is_panic (Ok a) = False"
| "is_panic (Err e) = False"
| "is_panic (Panic p) = True"

lemma and_then_Ok_iff [res_simps]:
  "and_then r f = Ok b \<longleftrightarrow> (\<exists>a. r = Ok a \<and> f a = Ok b)"
  by (cases r) auto

lemma and_then_Err_iff [res_simps]:
  "and_then r f = Err e \<longleftrightarrow> r = Err e \<or> (\<exists>a. r = Ok a \<and> f a = Err e)"
  by (cases r) auto

lemma map_err_Ok_iff [res_simps]: "map_err g r = Ok a \<longleftrightarrow> r = Ok a"
  by (cases r) auto

lemma ok_or_Ok_iff [res_simps]: "ok_or e r = Ok a \<longleftrightarrow> r = Some a"
  by (cases r) auto

lemma is_ok_iff: "is_ok r \<longleftrightarrow> (\<exists>a. r = Ok a)"
  by (cases r) auto

lemma and_then_assoc: "and_then (and_then r f) g = and_then r (\<lambda>a. and_then (f a) g)"
  by (cases r) auto

lemma and_then_not_panic:
  "\<not> is_panic r \<Longrightarrow> (\<And>a. r = Ok a \<Longrightarrow> \<not> is_panic (f a)) \<Longrightarrow> \<not> is_panic (and_then r f)"
  by (cases r) auto

lemma is_panic_and_then:
  "is_panic (and_then r f) \<longleftrightarrow> is_panic r \<or> (\<exists>a. r = Ok a \<and> is_panic (f a))"
  by (cases r) auto

lemma is_panic_and_then_eq: "(\<And>a. \<not> is_panic (f a)) \<Longrightarrow> is_panic (and_then r f) = is_panic r"
  by (cases r) auto

lemma is_panic_map_err [simp]: "is_panic (map_err g r) = is_panic r"
  by (cases r) auto

lemma is_panic_ok_or [simp]: "\<not> is_panic (ok_or e r)"
  by (cases r) auto

text \<open>\<open>iter().map(f).collect::<Result<Vec<_>, _>>()\<close>: the first failure decides.\<close>

fun traverse :: "('a \<Rightarrow> ('e, 'b) res) \<Rightarrow> 'a list \<Rightarrow> ('e, 'b list) res" where
  "traverse f [] = Ok []"
| "traverse f (x # xs) =
     and_then (f x) (\<lambda>y. and_then (traverse f xs) (\<lambda>ys. Ok (y # ys)))"

lemma traverse_Ok_iff: "traverse f xs = Ok ys \<longleftrightarrow> list_all2 (\<lambda>x y. f x = Ok y) xs ys"
  by (induction xs arbitrary: ys) (auto simp: res_simps list_all2_Cons1)

lemma traverse_map_Ok: "(\<And>x. x \<in> set xs \<Longrightarrow> f x = Ok (g x)) \<Longrightarrow> traverse f xs = Ok (map g xs)"
  by (induction xs) auto

lemma traverse_length: "traverse f xs = Ok ys \<Longrightarrow> length ys = length xs"
  by (auto simp: traverse_Ok_iff dest: list_all2_lengthD)

lemma traverse_left_inverse:
  assumes "traverse f xs = Ok ys" and "\<And>x y. x \<in> set xs \<Longrightarrow> f x = Ok y \<Longrightarrow> g y = Ok x"
  shows "traverse g ys = Ok xs"
  using assms by (induction xs arbitrary: ys) (auto simp: res_simps)

lemma traverse_not_panic:
  "(\<And>x. x \<in> set xs \<Longrightarrow> \<not> is_panic (f x)) \<Longrightarrow> \<not> is_panic (traverse f xs)"
  by (induction xs) (simp_all add: is_panic_and_then)

lemma traverse_Err_first:
  assumes "traverse f xs = Err e"
  shows "\<exists>ys x zs. xs = ys @ x # zs \<and> (\<forall>y\<in>set ys. is_ok (f y)) \<and> f x = Err e"
  using assms
proof (induction xs)
  case Nil
  then show ?case by simp
next
  case (Cons x xs)
  show ?case
  proof (cases "f x")
    case (Ok a)
    with Cons.prems have "traverse f xs = Err e" by (auto simp: res_simps)
    from Cons.IH [OF this] obtain ys z zs
      where "xs = ys @ z # zs" and "\<forall>y\<in>set ys. is_ok (f y)" and "f z = Err e" by blast
    with Ok show ?thesis by (intro exI [of _ "x # ys"] exI [of _ z] exI [of _ zs]) simp
  next
    case (Err e')
    with Cons.prems have "f x = Err e" by simp
    then show ?thesis by (intro exI [of _ "[]"] exI [of _ x] exI [of _ xs]) simp
  next
    case (Panic p)
    with Cons.prems show ?thesis by simp
  qed
qed

section \<open>Effects\<close>

text \<open>
  An effectful function takes the world and returns a result with the next world. The world
  is threaded through errors and panics too: what was done before a failure stays done.
\<close>

type_synonym ('w, 'e, 'a) eio = "'w \<Rightarrow> ('e, 'a) res \<times> 'w"

type_synonym ('w, 'a) io = "('w, string, 'a) eio"

definition ret :: "'a \<Rightarrow> ('w, 'e, 'a) eio" where
  "ret a = (\<lambda>w. (Ok a, w))"

definition lift :: "('e, 'a) res \<Rightarrow> ('w, 'e, 'a) eio" where
  "lift r = (\<lambda>w. (r, w))"

definition bail :: "'e \<Rightarrow> ('w, 'e, 'a) eio" where
  "bail e = (\<lambda>w. (Err e, w))"

definition bind_io :: "('w, 'e, 'a) eio \<Rightarrow> ('a \<Rightarrow> ('w, 'e, 'b) eio) \<Rightarrow> ('w, 'e, 'b) eio" where
  "bind_io m f = (\<lambda>w. case m w of
       (Ok a, w') \<Rightarrow> f a w'
     | (Err e, w') \<Rightarrow> (Err e, w')
     | (Panic p, w') \<Rightarrow> (Panic p, w'))"

definition map_err_io :: "('e \<Rightarrow> 'f) \<Rightarrow> ('w, 'e, 'a) eio \<Rightarrow> ('w, 'f, 'a) eio" where
  "map_err_io g m = (\<lambda>w. case m w of (r, w') \<Rightarrow> (map_err g r, w'))"

text \<open>\<open>for x in xs { body?; }\<close>\<close>

fun for_io :: "'a list \<Rightarrow> ('a \<Rightarrow> ('w, 'e, unit) eio) \<Rightarrow> ('w, 'e, unit) eio" where
  "for_io [] f = ret ()"
| "for_io (x # xs) f = bind_io (f x) (\<lambda>_. for_io xs f)"

lemmas io_defs = ret_def lift_def bail_def bind_io_def map_err_io_def

declare ret_def [io_eval] lift_def [io_eval] bail_def [io_eval] bind_io_def [io_eval]
  map_err_io_def [io_eval]

lemma bind_io_Ok_iff:
  "bind_io m f w = (Ok b, w') \<longleftrightarrow> (\<exists>a w1. m w = (Ok a, w1) \<and> f a w1 = (Ok b, w'))"
  by (auto simp: bind_io_def split: prod.splits res.splits)

lemma bind_io_cases:
  assumes "bind_io m f w = (r, w')"
  obtains (stop) r1 where "m w = (r1, w')" "\<not> is_ok r1" "\<not> is_ok r"
    | (go) a w1 where "m w = (Ok a, w1)" "f a w1 = (r, w')"
  using assms by (cases "fst (m w)"; cases "m w") (auto simp: bind_io_def)

lemma bind_ret [simp]: "bind_io (ret a) f = f a"
  by (simp add: bind_io_def ret_def)

lemma bind_bail [simp]: "bind_io (bail e) f = bail e"
  by (simp add: bind_io_def bail_def)

lemma bind_lift_Ok [simp]: "bind_io (lift (Ok a)) f = f a"
  by (simp add: bind_io_def lift_def)

lemma bind_lift_Err [simp]: "bind_io (lift (Err e)) f = bail e"
  by (simp add: bind_io_def lift_def bail_def)

lemma snd_ret [simp]: "snd (ret a w) = w"
  by (simp add: ret_def)

lemma snd_bail [simp]: "snd (bail e w) = w"
  by (simp add: bail_def)

lemma snd_lift [simp]: "snd (lift r w) = w"
  by (simp add: lift_def)

lemma snd_map_err_io [simp]: "snd (map_err_io g m w) = snd (m w)"
  by (simp add: map_err_io_def split: prod.splits)

lemma snd_bind_cases:
  "snd (bind_io m f w) = (case fst (m w) of Ok a \<Rightarrow> snd (f a (snd (m w))) | _ \<Rightarrow> snd (m w))"
  by (simp add: bind_io_def split: prod.splits res.splits)

text \<open>
  \<open>io_rel R m\<close>: whatever the outcome of \<open>m\<close>, the world after it is \<open>R\<close>-related to the
  world before. With \<open>R\<close> reflexive and transitive the relation is inherited by every
  composition, so a frame or monotonicity property of a handler follows from that of the
  calls it makes.
\<close>

definition io_rel :: "('w \<Rightarrow> 'w \<Rightarrow> bool) \<Rightarrow> ('w, 'e, 'a) eio \<Rightarrow> bool" where
  "io_rel R m \<longleftrightarrow> (\<forall>w. R w (snd (m w)))"

lemma io_relD: "io_rel R m \<Longrightarrow> R w (snd (m w))"
  by (simp add: io_rel_def)

lemma io_rel_ret [io_steps]: "reflp R \<Longrightarrow> io_rel R (ret a)"
  by (simp add: io_rel_def reflpD)

lemma io_rel_bail [io_steps]: "reflp R \<Longrightarrow> io_rel R (bail e)"
  by (simp add: io_rel_def reflpD)

lemma io_rel_lift [io_steps]: "reflp R \<Longrightarrow> io_rel R (lift r)"
  by (simp add: io_rel_def reflpD)

lemma io_rel_map_err [io_steps]: "io_rel R m \<Longrightarrow> io_rel R (map_err_io g m)"
  by (simp add: io_rel_def)

lemma io_rel_bind [io_steps]:
  "transp R \<Longrightarrow> io_rel R m \<Longrightarrow> (\<And>a. io_rel R (f a)) \<Longrightarrow> io_rel R (bind_io m f)"
  unfolding io_rel_def by (auto simp: snd_bind_cases split: res.split intro: transpE)

lemma io_rel_for [io_steps]:
  "reflp R \<Longrightarrow> transp R \<Longrightarrow> (\<And>x. x \<in> set xs \<Longrightarrow> io_rel R (f x)) \<Longrightarrow> io_rel R (for_io xs f)"
  by (induction xs) (auto intro!: io_steps)

section \<open>Lists and association lists\<close>

lemma concat_map_filter_empty:
  "(\<And>x. x \<in> set xs \<Longrightarrow> f x = []) \<Longrightarrow> concat (map f xs) = []"
  by (induction xs) auto

lemma take_Suc_snoc: "i < length xs \<Longrightarrow> take (Suc i) xs = take i xs @ [xs ! i]"
  by (rule take_Suc_conv_app_nth)

lemma map_of_distinct_iff:
  "distinct (map fst al) \<Longrightarrow> map_of al k = Some v \<longleftrightarrow> (k, v) \<in> set al"
  by (rule map_of_eq_Some_iff)

lemma map_of_update: "map_of (AList.update k v al) = (map_of al)(k \<mapsto> v)"
  by (rule update_conv')

lemma update_fresh: "k \<notin> fst ` set al \<Longrightarrow> AList.update k v al = al @ [(k, v)]"
  by (induction al) auto

lemma map_of_delete: "map_of (AList.delete k al) = (map_of al)(k := None)"
  by (rule delete_conv')

declare AList.distinct_update [simp] AList.distinct_delete [simp]

text \<open>Printing and parsing: a value that can be printed is read back as itself.\<close>

locale codec =
  fixes print :: "'v \<Rightarrow> string"
    and parse :: "string \<Rightarrow> ('e, 'v) res"
    and valid :: "'v \<Rightarrow> bool"
  assumes parse_print: "valid v \<Longrightarrow> parse (print v) = Ok v"
begin

lemma print_inj: "valid v \<Longrightarrow> valid w \<Longrightarrow> print v = print w \<longleftrightarrow> v = w"
  by (metis parse_print res.inject(1))

lemma parse_print_list:
  "(\<And>v. v \<in> set vs \<Longrightarrow> valid v) \<Longrightarrow> traverse parse (map print vs) = Ok vs"
  by (induction vs) (auto simp: parse_print)

end

section \<open>Sequences of calls\<close>

fun run_calls :: "('c \<Rightarrow> 's \<Rightarrow> 'r \<times> 's) \<Rightarrow> 'c list \<Rightarrow> 's \<Rightarrow> 'r list \<times> 's" where
  "run_calls step [] s = ([], s)"
| "run_calls step (c # cs) s = (case step c s of (r, s1) \<Rightarrow> (case run_calls step cs s1 of (rs, s2) \<Rightarrow> (r # rs, s2)))"

text \<open>A simulation step by step gives one of all sequences.\<close>

lemma run_calls_simulation:
  assumes step: "\<And>c s. I s \<Longrightarrow> P c \<Longrightarrow>
      \<exists>s'. conc c s = (fst (spec c (alpha s)), s') \<and> I s' \<and> alpha s' = snd (spec c (alpha s))"
    and "I s" "list_all P cs"
  shows "\<exists>s'. run_calls conc cs s = (fst (run_calls spec cs (alpha s)), s') \<and> I s' \<and> alpha s' = snd (run_calls spec cs (alpha s))"
  using assms(2,3)
proof (induction cs arbitrary: s)
  case (Cons c cs)
  from step [of s c] Cons.prems obtain s1 where s1: "conc c s = (fst (spec c (alpha s)), s1)" "I s1" "alpha s1 = snd (spec c (alpha s))"
    by auto
  from Cons.IH [OF s1(2)] Cons.prems(2) obtain s2 where
      "run_calls conc cs s1 = (fst (run_calls spec cs (alpha s1)), s2)" "I s2" "alpha s2 = snd (run_calls spec cs (alpha s1))"
    by auto
  with s1 show ?case by (simp add: case_prod_beta)
qed simp

end
