(* ===== verification/Eth_Fees.thy ===== *)
theory Eth_Fees
  imports Prelude
begin

text \<open>
  The fee estimation of \<open>ipc/provider/src/manager/evm/manager.rs\<close>: \<open>base_fee_surged\<close>,
  \<open>estimate_priority_fee\<close> and the fee cap of \<open>premium_estimation\<close>. \<open>U256\<close> and
  \<open>I256\<close> operations panic on overflow; the threshold is a constant of \<open>ethers\<close> and a
  parameter here.
\<close>

section \<open>Checked 256-bit arithmetic\<close>

definition u256_of :: "int \<Rightarrow> (string, u256) res" where
  "u256_of n = (if 0 \<le> n \<and> n < 2 ^ 256 then Ok (word_of_int n) else Panic ''arithmetic operation overflow'')"

definition i256_of :: "int \<Rightarrow> (string, int) res" where
  "i256_of n = (if - (2 ^ 255) \<le> n \<and> n < 2 ^ 255 then Ok n else Panic ''overflow'')"

lemma u256_of_Ok: "0 \<le> n \<Longrightarrow> n < 2 ^ 256 \<Longrightarrow> u256_of n = Ok (word_of_int n)"
  by (simp add: u256_of_def)

lemma uint_u256 [simp]: "0 \<le> n \<Longrightarrow> n < 2 ^ 256 \<Longrightarrow> uint (word_of_int n :: u256) = n"
  by (simp add: uint_word_of_int_eq take_bit_int_eq_self)

lemma u256_of_uint: "u256_of n = Ok p \<Longrightarrow> uint p = n"
  by (auto simp: u256_of_def split: if_splits)

lemma uint_u256_lt: "uint (w :: u256) < 2 ^ 256"
  using unsigned_less [of w, where 'a = int] by simp

section \<open>Base fee\<close>

definition base_fee_surged :: "u256 \<Rightarrow> (string, u256) res" where
  "base_fee_surged b =
     (if uint b \<le> 40000000000 then u256_of (uint b * 2)
      else if uint b \<le> 100000000000 then and_then (u256_of (uint b * 16)) (\<lambda>p. Ok (p div 10))
      else if uint b \<le> 200000000000 then and_then (u256_of (uint b * 14)) (\<lambda>p. Ok (p div 10))
      else and_then (u256_of (uint b * 12)) (\<lambda>p. Ok (p div 10)))"

section \<open>Priority fee\<close>

definition first_reward :: "u256 list \<Rightarrow> (string, u256) res" where
  "first_reward r = (case r of [] \<Rightarrow> Panic ''index out of bounds: the len is 0 but the index is 0'' | x # _ \<Rightarrow> Ok x)"

text \<open>\<open>I256::try_from(..).expect(..)\<close> and the change from \<open>a\<close> to \<open>b\<close> in per cent.\<close>

definition percentage :: "u256 \<times> u256 \<Rightarrow> (string, int) res" where
  "percentage = (\<lambda>(a, b).
     if uint a < 2 ^ 255 \<and> uint b < 2 ^ 255 then
       and_then (i256_of (uint b - uint a)) (\<lambda>d.
       and_then (i256_of (d * 100)) (\<lambda>m.
         Ok (if m < 0 then - ((- m) div uint a) else m div uint a)))
     else Panic ''priority fee overflow'')"

definition find_position :: "int \<Rightarrow> int list \<Rightarrow> nat" where
  "find_position c xs = length (takeWhile (\<lambda>x. x \<noteq> c) xs)"

definition estimate_priority_fee :: "int \<Rightarrow> u256 list list \<Rightarrow> (string, u256) res" where
  "estimate_priority_fee threshold rewards0 =
     and_then (traverse first_reward rewards0) (\<lambda>firsts.
     (let rewards = filter (\<lambda>r. r > 0) firsts in
      if rewards = [] then Ok 0
      else if length rewards = 1 then Ok (rewards ! 0)
      else
        (let sorted = sort rewards;
             copy = rotate1 sorted in
         and_then (traverse percentage (zip sorted copy)) (\<lambda>changes0.
         (let changes = butlast changes0;
              max_change = Max (set changes);
              index = find_position max_change changes;
              vals = (if max_change \<ge> threshold \<and> index \<ge> length sorted div 2
                      then drop index sorted else sorted)
          in Ok (vals ! (length vals div 2)))))))"

section \<open>Fee cap\<close>

text \<open>The pair returned by \<open>premium_estimation\<close> once the block and the history are known.\<close>

definition premium_of :: "int \<Rightarrow> u256 \<Rightarrow> u256 list list \<Rightarrow> (string, u256 \<times> u256) res" where
  "premium_of threshold base_fee history =
     and_then (estimate_priority_fee threshold history) (\<lambda>prio.
     and_then (base_fee_surged base_fee) (\<lambda>pot.
     and_then (if prio > pot then u256_of (uint prio + uint pot) else Ok pot) (\<lambda>cap.
       Ok (prio, cap))))"

section \<open>Helper lemmas\<close>

lemma div_word_le: "(p :: u256) div 10 \<le> p"
  by (simp add: word_le_nat_alt unat_div)

lemma uint_div10: "uint ((p :: u256) div 10) = uint p div 10"
  by (simp add: uint_div)

lemma u256_of_mult:
  "0 \<le> k \<Longrightarrow> uint b * k < 2 ^ 256 \<Longrightarrow> \<exists>p. u256_of (uint b * k) = Ok p \<and> uint p = uint b * k"
  by (intro exI [of _ "word_of_int (uint b * k)"]) (simp only: u256_of_Ok uint_u256 mult_nonneg_nonneg unsigned_greater_eq simp_thms)

lemma traverse_first_rewards:
  "traverse first_reward rs = Ok xs \<Longrightarrow> set xs = hd ` set rs \<and> length xs = length rs"
  by (induction rs arbitrary: xs) (auto simp: res_simps first_reward_def split: list.splits)

lemma percentage_Ok:
  assumes "0 < uint a" "uint a < 2 ^ 248" "uint b < 2 ^ 248"
  shows "\<exists>c. percentage (a, b) = Ok c"
proof -
  have "- (2 ^ 248) < uint b - uint a" "uint b - uint a < 2 ^ 248"
    using assms unsigned_greater_eq [of a, where 'a = int] unsigned_greater_eq [of b, where 'a = int] by linarith+
  then show ?thesis using assms by (simp add: percentage_def i256_of_def)
qed

lemma position_lt: "c \<in> set xs \<Longrightarrow> find_position c xs < length xs"
  by (induction xs) (auto simp: find_position_def)

text \<open>The middle of a suffix of a sorted list is not below the middle of the list.\<close>

lemma suffix_median:
  assumes "sorted xs" "i < length xs"
  shows "xs ! (length xs div 2) \<le> drop i xs ! (length (drop i xs) div 2)"
proof -
  have "length xs div 2 \<le> i + (length xs - i) div 2" and "i + (length xs - i) div 2 < length xs"
    using assms(2) by auto
  with assms show ?thesis by (simp add: sorted_nth_mono)
qed

lemma traverse_total: "(\<And>x. x \<in> set xs \<Longrightarrow> \<exists>y. f x = Ok y) \<Longrightarrow> \<exists>ys. traverse f xs = Ok ys"
  by (induction xs) fastforce+

lemma traverse_firsts: "\<forall>r\<in>set rows. r \<noteq> [] \<Longrightarrow> traverse first_reward rows = Ok (map hd rows)"
  by (induction rows) (auto simp: first_reward_def split: list.splits)

text \<open>With at least two positive rewards the result is an element of the sorted rewards at or
  above the middle.\<close>

lemma estimate_two:
  assumes "\<forall>r\<in>set rows. r \<noteq> []" and "xs = filter (\<lambda>r. r > 0) (map hd rows)" and "2 \<le> length xs"
    and "\<forall>x\<in>set xs. uint x < 2 ^ 248"
  shows "\<exists>v. estimate_priority_fee thr rows = Ok v \<and> v \<in> set xs \<and> sort xs ! (length xs div 2) \<le> v"
proof -
  let ?s = "sort xs"
  have elems: "0 < uint a \<and> uint a < 2 ^ 248" if "a \<in> set ?s" for a
  proof -
    have "a \<in> set xs" using that by simp
    moreover have "0 < a" using that assms(2) by auto
    ultimately show ?thesis using assms(4) by (simp add: word_less_def)
  qed
  have "\<exists>c. percentage ab = Ok c" if "ab \<in> set (zip ?s (rotate1 ?s))" for ab
  proof -
    obtain a b where ab: "ab = (a, b)" by (cases ab)
    then have "a \<in> set ?s" "b \<in> set ?s" using that by (auto dest: set_zip_leftD set_zip_rightD)
    with elems percentage_Ok [of a b] ab show ?thesis by auto
  qed
  then obtain cs where cs: "traverse percentage (zip ?s (rotate1 ?s)) = Ok cs" using traverse_total by blast
  have len: "length cs = length xs" using traverse_length [OF cs] by simp
  let ?c = "butlast cs"
  let ?m = "Max (set ?c)" and ?i = "find_position (Max (set ?c)) ?c"
  have "?c \<noteq> []" using len assms(3) by (cases cs rule: rev_cases) auto
  then have "?m \<in> set ?c" by (intro Max_in) auto
  then have "?i < length ?s" using position_lt [of ?m ?c] len by simp
  note med = suffix_median [OF sorted_sort this]
  let ?v = "if ?m \<ge> thr \<and> ?i \<ge> length ?s div 2 then drop ?i ?s else ?s"
  have run: "estimate_priority_fee thr rows = Ok (?v ! (length ?v div 2))"
    unfolding estimate_priority_fee_def traverse_firsts [OF assms(1)] and_then.simps assms(2) [symmetric] Let_def
    using assms(3) cs by auto
  have mid: "?v ! (length ?v div 2) \<in> set ?v"
    using assms(3) \<open>?i < length ?s\<close> by (intro nth_mem) (auto split: if_splits)
  moreover have "set ?v \<subseteq> set xs" by (auto dest: in_set_dropD)
  moreover have "?s ! (length xs div 2) \<le> ?v ! (length ?v div 2)" using med by auto
  ultimately show ?thesis using run by blast
qed

section \<open>Properties\<close>

text \<open>C33: For a fee history whose rewards stay below \<open>2^248\<close> the estimate never panics. It
  is zero exactly when no block paid a reward; otherwise it is one of the positive rewards and
  not below their median.\<close>

theorem priority_fee_median:
  assumes rows: "\<forall>r\<in>set rows. r \<noteq> [] \<and> uint (hd r) < 2 ^ 248"
  shows "\<exists>v. estimate_priority_fee thr rows = Ok v \<and>
     (if filter (\<lambda>r. r > 0) (map hd rows) = [] then v = 0
      else v \<in> set (filter (\<lambda>r. r > 0) (map hd rows)) \<and>
           sort (filter (\<lambda>r. r > 0) (map hd rows)) ! (length (filter (\<lambda>r. r > 0) (map hd rows)) div 2) \<le> v)"
proof -
  define xs where "xs = filter (\<lambda>r. r > 0) (map hd rows)"
  have ne: "\<forall>r\<in>set rows. r \<noteq> []" and bound: "\<forall>x\<in>set xs. uint x < 2 ^ 248"
    using rows by (auto simp: xs_def)
  consider "xs = []" | x where "xs = [x]" | "2 \<le> length xs"
    by (cases xs rule: remdups_adj.cases) auto
  then show ?thesis
  proof cases
    case 1
    then show ?thesis using ne
      by (simp add: estimate_priority_fee_def traverse_firsts Let_def flip: xs_def)
  next
    case 2
    then show ?thesis using ne
      by (simp add: estimate_priority_fee_def traverse_firsts Let_def flip: xs_def)
  next
    case 3
    then have "xs \<noteq> []" by auto
    with estimate_two [OF ne xs_def 3 bound, of thr] show ?thesis by (simp flip: xs_def)
  qed
qed

lemma priority_fee_median_witness:
  "\<exists>v. estimate_priority_fee 200 [[3], [0], [5, 9]] = Ok v \<and> v \<in> {3, 5} \<and> 5 \<le> v"
  using priority_fee_median [of "[[3], [0], [5, 9]]" 200] by auto

text \<open>C32: The surged base fee lies between the base fee and twice the base fee (for base fees
  below \<open>2^250\<close>), and the fee cap offered is never below the priority fee offered, whatever
  the history: no transaction is rejected for a priority fee above its cap.\<close>

theorem fee_cap_covers_priority:
  "(uint b < 2 ^ 250 \<longrightarrow> (\<exists>r. base_fee_surged b = Ok r \<and> uint b \<le> uint r \<and> uint r \<le> 2 * uint b)) \<and>
   (premium_of thr b history = Ok (prio, cap) \<longrightarrow> prio \<le> cap)"
proof (intro conjI impI)
  assume b: "uint b < 2 ^ 250"
  have pos: "0 \<le> uint b" by simp
  show "\<exists>r. base_fee_surged b = Ok r \<and> uint b \<le> uint r \<and> uint r \<le> 2 * uint b"
    using u256_of_mult [where b = b and k = 2] u256_of_mult [where b = b and k = 16]
      u256_of_mult [where b = b and k = 14] u256_of_mult [where b = b and k = 12] b pos
    by (auto simp: base_fee_surged_def uint_div10)
next
  assume p: "premium_of thr b history = Ok (prio, cap)"
  then obtain pot where "(if prio > pot then u256_of (uint prio + uint pot) else Ok pot) = (Ok cap :: (string, u256) res)"
    by (auto simp: premium_of_def res_simps)
  then show "prio \<le> cap"
    using u256_of_uint [of "uint prio + uint pot" cap]
    by (cases "prio > pot") (auto simp: word_le_def word_less_def)
qed

lemma fee_cap_covers_priority_witness:
  "\<exists>r. base_fee_surged 100 = Ok r \<and> uint (100 :: u256) \<le> uint r \<and> uint r \<le> 2 * uint (100 :: u256)"
  using fee_cap_covers_priority [of 100 0 "[]" 0 0] by simp

end
