(* ===== verification/Rust_Std.thy ===== *)
theory Rust_Std
  imports Prelude
begin

text \<open>
  The parts of the Rust standard library the program computes with: string splitting and
  slicing (a string is its UTF-8 bytes, one \<open>char\<close> each), decimal printing and parsing of
  unsigned integers, and fixed-width big-endian encodings.
\<close>

section \<open>Strings\<close>

text \<open>\<open>str::split\<close> on a one-character pattern: always at least one piece.\<close>

fun str_split :: "char \<Rightarrow> string \<Rightarrow> string list" where
  "str_split c [] = [[]]"
| "str_split c (x # xs) =
     (if x = c then [] # str_split c xs
      else (case str_split c xs of [] \<Rightarrow> [[x]] | p # ps \<Rightarrow> (x # p) # ps))"

lemma str_split_not_Nil [simp]: "str_split c s \<noteq> []"
  by (induction s) (auto split: list.splits)

lemma str_split_free: "c \<notin> set s \<Longrightarrow> str_split c s = [s]"
  by (induction s) auto

lemma str_split_append: "c \<notin> set s \<Longrightarrow> str_split c (s @ c # t) = s # str_split c t"
  by (induction s) auto

lemma str_split_pieces: "p \<in> set (str_split c s) \<Longrightarrow> c \<notin> set p"
  by (induction s arbitrary: p) (auto split: list.splits if_splits)

lemma str_split_segments:
  "(\<And>p. p \<in> set ps \<Longrightarrow> c \<notin> set p) \<Longrightarrow>
   str_split c (concat (map (\<lambda>p. c # p) ps)) = [] # ps"
proof (induction ps)
  case (Cons p ps)
  then show ?case
    by (cases ps) (auto simp: str_split_free str_split_append)
qed simp

text \<open>
  The slice \<open>&s[1..]\<close>: it panics on an empty string and where byte 1 is the continuation
  of a multi-byte character (\<open>0x80..0xBF\<close>).
\<close>

definition is_continuation :: "char \<Rightarrow> bool" where
  "is_continuation c \<longleftrightarrow> 128 \<le> (of_char c :: nat) \<and> (of_char c :: nat) < 192"

fun str_from_1 :: "string \<Rightarrow> ('e, string) res" where
  "str_from_1 [] = Panic ''byte index 1 is out of bounds''"
| "str_from_1 [x] = Ok []"
| "str_from_1 (x # y # ys) =
     (if is_continuation y then Panic ''byte index 1 is not a char boundary'' else Ok (y # ys))"

text \<open>A string and its bytes.\<close>

definition as_bytes :: "string \<Rightarrow> bytes" where
  "as_bytes s = map (\<lambda>c. of_nat (of_char c)) s"

definition from_bytes :: "bytes \<Rightarrow> string" where
  "from_bytes bs = map (\<lambda>b. char_of (unat b)) bs"

lemma of_char_lt_256: "(of_char c :: nat) < 256"
  using of_char_mod_256 [of c, where 'a = nat] by (metis mod_less_divisor zero_less_numeral)

lemma from_as_bytes [simp]: "from_bytes (as_bytes s) = s"
proof -
  have "char_of (unat (of_nat (of_char c) :: 8 word)) = c" for c
    using of_char_lt_256 [of c] by (simp add: unsigned_of_nat take_bit_nat_eq_self)
  then show ?thesis by (simp add: from_bytes_def as_bytes_def map_idI)
qed

lemma as_from_bytes [simp]: "as_bytes (from_bytes bs) = bs"
proof -
  have "of_nat (of_char (char_of (unat b) :: char)) = b" for b :: "8 word"
    using unsigned_less [of b, where 'a = nat] by (simp add: of_char_of)
  then show ?thesis by (simp add: from_bytes_def as_bytes_def map_idI)
qed

lemma length_from_bytes [simp]: "length (from_bytes bs) = length bs"
  by (simp add: from_bytes_def)

lemma length_as_bytes [simp]: "length (as_bytes s) = length s"
  by (simp add: as_bytes_def)

text \<open>\<open>str::strip_prefix\<close> and \<open>str::starts_with\<close>.\<close>

fun strip_prefix :: "string \<Rightarrow> string \<Rightarrow> string option" where
  "strip_prefix [] s = Some s"
| "strip_prefix (p # ps) [] = None"
| "strip_prefix (p # ps) (x # xs) = (if p = x then strip_prefix ps xs else None)"

definition starts_with :: "string \<Rightarrow> string \<Rightarrow> bool" where
  "starts_with s p \<longleftrightarrow> strip_prefix p s \<noteq> None"

lemma strip_prefix_Some_iff [simp]: "strip_prefix p s = Some r \<longleftrightarrow> s = p @ r"
  by (induction p s rule: strip_prefix.induct) auto

lemma strip_prefix_append: "strip_prefix p (p @ r) = Some r"
  by simp

lemma starts_with_iff: "starts_with s p \<longleftrightarrow> (\<exists>r. s = p @ r)"
  by (auto simp: starts_with_def)

section \<open>Decimal integers\<close>

definition digit_char :: "nat \<Rightarrow> char" where
  "digit_char d = char_of (48 + d)"

definition char_digit :: "char \<Rightarrow> nat option" where
  "char_digit c = (let n = of_char c in if 48 \<le> n \<and> n \<le> 57 then Some (n - 48) else None)"

fun show_nat :: "nat \<Rightarrow> string" where
  "show_nat n = (if n < 10 then [digit_char n] else show_nat (n div 10) @ [digit_char (n mod 10)])"

declare show_nat.simps [simp del]

text \<open>The digit loop of \<open>u64::from_str\<close>, with its checked multiplication and addition.\<close>

fun parse_digits :: "nat \<Rightarrow> nat \<Rightarrow> string \<Rightarrow> nat option" where
  "parse_digits mx acc [] = Some acc"
| "parse_digits mx acc (c # cs) =
     (case char_digit c of
        None \<Rightarrow> None
      | Some d \<Rightarrow> if acc * 10 + d > mx then None else parse_digits mx (acc * 10 + d) cs)"

definition parse_unsigned :: "nat \<Rightarrow> string \<Rightarrow> nat option" where
  "parse_unsigned mx s =
     (if s = [] \<or> s = ''+'' \<or> s = ''-'' then None
      else case strip_prefix ''+'' s of
             Some r \<Rightarrow> parse_digits mx 0 r
           | None \<Rightarrow> parse_digits mx 0 s)"

definition parse_u64 :: "string \<Rightarrow> u64 option" where
  "parse_u64 s = map_option of_nat (parse_unsigned (2 ^ 64 - 1) s)"

definition show_u64 :: "u64 \<Rightarrow> string" where
  "show_u64 n = show_nat (unat n)"

definition show_int :: "int \<Rightarrow> string" where
  "show_int n = (if n < 0 then ''-'' @ show_nat (nat (- n)) else show_nat (nat n))"

definition show_bool :: "bool \<Rightarrow> string" where
  "show_bool b = (if b then ''true'' else ''false'')"

lemma char_digit_digit_char [simp]: "d < 10 \<Longrightarrow> char_digit (digit_char d) = Some d"
  by (simp add: char_digit_def digit_char_def of_char_of)

lemma digit_char_eq_iff_of: "d < 10 \<Longrightarrow> digit_char d = c \<Longrightarrow> of_char c = 48 + d"
  by (auto simp: digit_char_def of_char_of)

lemma show_nat_not_Nil [simp]: "show_nat n \<noteq> []"
  by (subst show_nat.simps) simp

lemma show_nat_chars: "c \<in> set (show_nat n) \<Longrightarrow> \<exists>d<10. c = digit_char d"
proof (induction n rule: show_nat.induct)
  case (1 n)
  show ?case
  proof (cases "n < 10")
    case True
    then show ?thesis using "1.prems" by (auto simp: show_nat.simps [of n])
  next
    case False
    then have "c \<in> set (show_nat (n div 10)) \<or> c = digit_char (n mod 10)"
      using "1.prems" by (subst (asm) show_nat.simps [of n]) auto
    then show ?thesis using False "1.IH" by (auto intro: exI [of _ "n mod 10"])
  qed
qed

lemma show_nat_range: "c \<in> set (show_nat n) \<Longrightarrow> 48 \<le> (of_char c :: nat) \<and> (of_char c :: nat) \<le> 57"
  by (drule show_nat_chars) (auto simp: digit_char_def of_char_of)

lemma parse_digits_append:
  "parse_digits mx acc (s @ t) =
     (case parse_digits mx acc s of None \<Rightarrow> None | Some v \<Rightarrow> parse_digits mx v t)"
  by (induction s arbitrary: acc) (auto split: option.splits)

lemma parse_digits_show: "n \<le> mx \<Longrightarrow> parse_digits mx 0 (show_nat n) = Some n"
proof (induction n rule: show_nat.induct)
  case (1 n)
  show ?case
  proof (cases "n < 10")
    case True
    then show ?thesis using "1.prems" by (simp add: show_nat.simps [of n])
  next
    case False
    have "parse_digits mx 0 (show_nat (n div 10)) = Some (n div 10)"
      using False "1" by simp
    then show ?thesis
      using False "1.prems" by (subst show_nat.simps) (simp add: parse_digits_append)
  qed
qed

lemma parse_digits_bound: "parse_digits mx acc s = Some v \<Longrightarrow> acc \<le> mx \<Longrightarrow> v \<le> mx"
  by (induction s arbitrary: acc) (auto split: option.splits if_splits)

lemma parse_unsigned_bound: "parse_unsigned mx s = Some v \<Longrightarrow> v \<le> mx"
  by (auto simp: parse_unsigned_def split: if_splits option.splits dest: parse_digits_bound)

lemma parse_unsigned_show: "n \<le> mx \<Longrightarrow> parse_unsigned mx (show_nat n) = Some n"
proof -
  assume n: "n \<le> mx"
  have plus: "CHR ''+'' \<notin> set (show_nat n)" and minus: "CHR ''-'' \<notin> set (show_nat n)"
    using show_nat_range by fastforce+
  have "strip_prefix ''+'' (show_nat n) = None"
    using plus by (cases "show_nat n") auto
  moreover have "show_nat n \<noteq> ''+''" "show_nat n \<noteq> ''-''" using plus minus by auto
  ultimately show ?thesis by (simp add: parse_unsigned_def parse_digits_show n)
qed

lemma parse_show_u64 [simp]: "parse_u64 (show_u64 n) = Some n"
proof -
  have "unat n \<le> 2 ^ 64 - 1" using unsigned_less [of n, where 'a = nat] by simp
  then show ?thesis by (simp add: parse_u64_def show_u64_def parse_unsigned_show)
qed

lemma show_u64_free: "c \<in> set (show_u64 n) \<Longrightarrow> 48 \<le> (of_char c :: nat) \<and> (of_char c :: nat) \<le> 57"
  unfolding show_u64_def by (rule show_nat_range)

lemma show_u64_not_Nil [simp]: "show_u64 n \<noteq> []"
  by (simp add: show_u64_def)

interpretation u64_dec: codec show_u64 "\<lambda>s. ok_or () (parse_u64 s)" "\<lambda>_. True"
  by unfold_locales simp

section \<open>Big-endian bytes\<close>

text \<open>\<open>to_be_bytes\<close> and \<open>from_be_bytes\<close> of a \<open>k\<close>-byte integer.\<close>

fun be_bytes :: "nat \<Rightarrow> nat \<Rightarrow> bytes" where
  "be_bytes 0 n = []"
| "be_bytes (Suc k) n = be_bytes k (n div 256) @ [of_nat (n mod 256)]"

definition from_be :: "bytes \<Rightarrow> nat" where
  "from_be bs = foldl (\<lambda>acc b. acc * 256 + unat b) 0 bs"

lemma from_be_snoc [simp]: "from_be (bs @ [b]) = from_be bs * 256 + unat b"
  by (simp add: from_be_def)

lemma length_be_bytes [simp]: "length (be_bytes k n) = k"
  by (induction k arbitrary: n) auto

lemma from_be_bytes: "n < 256 ^ k \<Longrightarrow> from_be (be_bytes k n) = n"
proof (induction k arbitrary: n)
  case (Suc k)
  then have "n div 256 < 256 ^ k" by (simp add: less_mult_imp_div_less mult.commute)
  moreover have "unat (of_nat (n mod 256) :: 8 word) = n mod 256"
    by (simp add: unsigned_of_nat take_bit_nat_eq_self)
  ultimately show ?case using Suc.IH by simp
qed (simp add: from_be_def)

lemma unat_byte_lt: "unat (b :: 8 word) < 256"
  using unsigned_less [of b, where 'a = nat] by simp

lemma be_bytes_from: "be_bytes (length bs) (from_be bs) = bs"
  by (induction bs rule: rev_induct) (simp_all add: unat_byte_lt)

lemma from_be_lt: "from_be bs < 256 ^ length bs"
proof (induction bs rule: rev_induct)
  case (snoc b bs)
  then have "from_be bs + 1 \<le> 256 ^ length bs" by simp
  then have "(from_be bs + 1) * 256 \<le> 256 ^ length bs * 256" by (rule mult_le_mono1)
  then show ?case using unat_byte_lt [of b] by simp
qed (simp add: from_be_def)

end
