(* ===== verification/Rust_Fs.thy ===== *)
theory Rust_Fs
  imports Rust_Std
begin

text \<open>
  The parts of \<open>std::path\<close> and \<open>std::fs\<close> the key stores and the configuration use. A path is
  its sequence of normal components and whether it starts at the root; a file system is the
  directories and the contents of the files, with an oracle for the failures of the operating
  system: \<open>fault p\<close> is the error any access to \<open>p\<close> meets, and \<open>write_fault p\<close> says
  how many bytes still reach the file and whether the writer learns of the failure (an error met
  while a \<open>BufWriter\<close> is dropped is lost).
\<close>

section \<open>Paths\<close>

record path =
  absolute :: bool
  comps :: "string list"

definition empty_path :: path where
  "empty_path = \<lparr>absolute = False, comps = []\<rparr>"

text \<open>\<open>Path::parent\<close>: none for the root and for the empty path.\<close>

definition path_parent :: "path \<Rightarrow> path option" where
  "path_parent p = (if comps p = [] then None else Some (p\<lparr>comps := butlast (comps p)\<rparr>))"

text \<open>\<open>Path::join\<close> and \<open>PathBuf::push\<close>: an absolute argument replaces the path.\<close>

definition path_join :: "path \<Rightarrow> path \<Rightarrow> path" where
  "path_join p q = (if absolute q then q else p\<lparr>comps := comps p @ comps q\<rparr>)"

definition file_in :: "path \<Rightarrow> string \<Rightarrow> path" where
  "file_in p name = p\<lparr>comps := comps p @ [name]\<rparr>"

definition path_display :: "path \<Rightarrow> string" where
  "path_display p = (if absolute p then ''/'' else []) @
     (case comps p of [] \<Rightarrow> [] | c # cs \<Rightarrow> c @ concat (map (\<lambda>x. CHR ''/'' # x) cs))"

text \<open>\<open>{:?}\<close> on a path puts it in quotes.\<close>

definition path_debug :: "path \<Rightarrow> string" where
  "path_debug p = [CHR 0x22] @ path_display p @ [CHR 0x22]"

text \<open>The path a string names, for access to the file system.\<close>

definition path_of_string :: "string \<Rightarrow> path" where
  "path_of_string s = \<lparr>absolute = starts_with s ''/'',
     comps = filter (\<lambda>c. c \<noteq> [] \<and> c \<noteq> ''.'') (str_split (CHR ''/'') s)\<rparr>"

text \<open>\<open>Path::parent\<close> as text: the text up to the component before the last one. Empty pieces, and \<open>.\<close> anywhere but
  at the start of a relative path, are not components.\<close>

fun join_slash :: "string list \<Rightarrow> string" where
  "join_slash [] = []"
| "join_slash [p] = p"
| "join_slash (p # q # ps) = p @ ''/'' @ join_slash (q # ps)"

definition is_component :: "bool \<Rightarrow> nat \<Rightarrow> string \<Rightarrow> bool" where
  "is_component rooted i p \<longleftrightarrow> p \<noteq> [] \<and> (p \<noteq> ''.'' \<or> i = 0 \<and> \<not> rooted)"

definition path_parent_text :: "string \<Rightarrow> string option" where
  "path_parent_text s =
     (let rooted = starts_with s ''/'';
          ps = (if rooted then tl (str_split (CHR ''/'') s) else str_split (CHR ''/'') s);
          is = filter (\<lambda>i. is_component rooted i (ps ! i)) [0..<length ps]
      in case rev is of
           [] \<Rightarrow> None
         | [_] \<Rightarrow> Some (if rooted then ''/'' else [])
         | _ # j # _ \<Rightarrow> Some ((if rooted then ''/'' else []) @ join_slash (take (j + 1) ps)))"

lemma path_parent_text_examples:
  "path_parent_text ''/root/.ipc/config.toml'' = Some ''/root/.ipc''" "path_parent_text ''/a//b/'' = Some ''/a''"
  "path_parent_text ''./b'' = Some ''.''" "path_parent_text ''b'' = Some []" "path_parent_text ''/'' = None"
  by code_simp+

lemma path_parent_file_in [simp]: "path_parent (file_in p n) = Some p"
  by (cases p) (simp add: path_parent_def file_in_def)

section \<open>Files\<close>

datatype io_error = NotFound | OtherIo string

fun io_error_display :: "io_error \<Rightarrow> string" where
  "io_error_display NotFound = ''No such file or directory (os error 2)''"
| "io_error_display (OtherIo e) = e"

record fs =
  files :: "(path \<times> string) list"
  dirs :: "path list"
  fault :: "path \<Rightarrow> string option"
  write_fault :: "path \<Rightarrow> (nat \<times> string option) option"

definition is_dir :: "fs \<Rightarrow> path \<Rightarrow> bool" where
  "is_dir f p \<longleftrightarrow> p \<noteq> empty_path \<and> (p \<in> set (dirs f) \<or> comps p = [])"

definition path_exists :: "fs \<Rightarrow> path \<Rightarrow> bool" where
  "path_exists f p \<longleftrightarrow> p \<noteq> empty_path \<and> (is_dir f p \<or> map_of (files f) p \<noteq> None)"

text \<open>\<open>File::open\<close>, and reading an opened file to its end.\<close>

definition fs_open :: "fs \<Rightarrow> path \<Rightarrow> (io_error, unit) res" where
  "fs_open f p =
     (case fault f p of
        Some e \<Rightarrow> Err (OtherIo e)
      | None \<Rightarrow> if path_exists f p then Ok () else Err NotFound)"

definition fs_contents :: "fs \<Rightarrow> path \<Rightarrow> (string, string) res" where
  "fs_contents f p =
     (if is_dir f p then Err ''Is a directory (os error 21)''
      else ok_or ''No such file or directory (os error 2)'' (map_of (files f) p))"

text \<open>\<open>fs::read_to_string\<close> accepts UTF-8 only: no stray continuation bytes, overlong
  forms, surrogates or code points above \<open>10FFFF\<close>.\<close>

definition cont_byte :: "nat \<Rightarrow> bool" where
  "cont_byte b \<longleftrightarrow> 128 \<le> b \<and> b \<le> 191"

fun utf8_valid :: "nat list \<Rightarrow> bool" where
  "utf8_valid [] = True"
| "utf8_valid (a # bs) =
     (if a \<le> 127 then utf8_valid bs
      else case bs of
        [] \<Rightarrow> False
      | b # cs \<Rightarrow>
          if 194 \<le> a \<and> a \<le> 223 then cont_byte b \<and> utf8_valid cs
          else (case cs of
              [] \<Rightarrow> False
            | c # ds \<Rightarrow>
                if 224 \<le> a \<and> a \<le> 239 then
                  cont_byte b \<and> cont_byte c \<and> (a = 224 \<longrightarrow> 160 \<le> b) \<and> (a = 237 \<longrightarrow> b \<le> 159) \<and> utf8_valid ds
                else (case ds of
                    [] \<Rightarrow> False
                  | d # es \<Rightarrow>
                      240 \<le> a \<and> a \<le> 244 \<and> cont_byte b \<and> cont_byte c \<and> cont_byte d
                      \<and> (a = 240 \<longrightarrow> 144 \<le> b) \<and> (a = 244 \<longrightarrow> b \<le> 143) \<and> utf8_valid es)))"

definition fs_read_to_string :: "fs \<Rightarrow> path \<Rightarrow> (string, string) res" where
  "fs_read_to_string f p =
     and_then (map_err io_error_display (fs_open f p)) (\<lambda>_.
     and_then (fs_contents f p) (\<lambda>t.
       if utf8_valid (map of_char t) then Ok t else Err ''stream did not contain valid UTF-8''))"

text \<open>\<open>fs::create_dir\<close>: the parent must exist.\<close>

definition fs_create_dir :: "path \<Rightarrow> (fs, unit) io" where
  "fs_create_dir p f =
     (case fault f p of
        Some e \<Rightarrow> (Err e, f)
      | None \<Rightarrow>
          if path_exists f p then (Err ''File exists (os error 17)'', f)
          else (case path_parent p of
              None \<Rightarrow> (Err ''No such file or directory (os error 2)'', f)
            | Some d \<Rightarrow>
                if d = empty_path \<or> is_dir f d then (Ok (), f\<lparr>dirs := dirs f @ [p]\<rparr>)
                else (Err ''No such file or directory (os error 2)'', f)))"

text \<open>\<open>fs::create_dir_all\<close>: the empty path needs no directory.\<close>

fun prefixes_of :: "'b list \<Rightarrow> 'b list list" where
  "prefixes_of [] = []"
| "prefixes_of (x # xs) = [x] # map ((#) x) (prefixes_of xs)"

definition fs_create_dir_all :: "path \<Rightarrow> (fs, unit) io" where
  "fs_create_dir_all p f =
     (if p = empty_path then (Ok (), f)
      else case fault f p of
        Some e \<Rightarrow> (Err e, f)
      | None \<Rightarrow>
          (let ps = map (\<lambda>cs. p\<lparr>comps := cs\<rparr>) (prefixes_of (comps p)) in
           if \<exists>q\<in>set ps. map_of (files f) q \<noteq> None then (Err ''Not a directory (os error 20)'', f)
           else (Ok (), f\<lparr>dirs := dirs f @ filter (\<lambda>q. q \<notin> set (dirs f)) ps\<rparr>)))"

text \<open>\<open>File::create\<close> makes the file or truncates it.\<close>

definition fs_create :: "path \<Rightarrow> (fs, unit) io" where
  "fs_create p f =
     (case fault f p of
        Some e \<Rightarrow> (Err e, f)
      | None \<Rightarrow>
          if is_dir f p then (Err ''Is a directory (os error 21)'', f)
          else (case path_parent p of
              None \<Rightarrow> (Err ''No such file or directory (os error 2)'', f)
            | Some d \<Rightarrow>
                if d = empty_path \<or> is_dir f d then (Ok (), f\<lparr>files := AList.update p [] (files f)\<rparr>)
                else (Err ''No such file or directory (os error 2)'', f)))"

definition fs_write :: "path \<Rightarrow> string \<Rightarrow> (fs, unit) io" where
  "fs_write p s f =
     (case write_fault f p of
        None \<Rightarrow> (Ok (), f\<lparr>files := AList.update p s (files f)\<rparr>)
      | Some (k, e) \<Rightarrow>
          ((case e of None \<Rightarrow> Ok () | Some m \<Rightarrow> Err m), f\<lparr>files := AList.update p (take k s) (files f)\<rparr>))"

text \<open>\<open>fs::write\<close>: create or truncate, then write with every error reported.\<close>

definition fs_write_file :: "path \<Rightarrow> string \<Rightarrow> (fs, unit) io" where
  "fs_write_file p s =
     bind_io (fs_create p) (\<lambda>_ f.
       case write_fault f p of
         None \<Rightarrow> fs_write p s f
       | Some (k, e) \<Rightarrow> (Err (case e of Some m \<Rightarrow> m | None \<Rightarrow> ''write error''), snd (fs_write p s f)))"

text \<open>A file whose directory is there and which the operating system lets the program use.\<close>

definition writable :: "fs \<Rightarrow> path \<Rightarrow> bool" where
  "writable f p \<longleftrightarrow> fault f p = None \<and> write_fault f p = None \<and> \<not> is_dir f p \<and> p \<noteq> empty_path \<and>
     (case path_parent p of
        None \<Rightarrow> False
      | Some d \<Rightarrow> d \<noteq> empty_path \<and> is_dir f d \<and> fault f d = None \<and>
          (\<forall>cs\<in>set (prefixes_of (comps d)). map_of (files f) (d\<lparr>comps := cs\<rparr>) = None))"

definition store_file :: "path \<Rightarrow> string \<Rightarrow> fs \<Rightarrow> fs" where
  "store_file p s f = f\<lparr>files := AList.update p s (files f)\<rparr>"

lemma fault_store_file [simp]: "fault (store_file p s f) = fault f" "write_fault (store_file p s f) = write_fault f"
  "dirs (store_file p s f) = dirs f"
  by (simp_all add: store_file_def)

lemma is_dir_store_file [simp]: "is_dir (store_file p s f) q = is_dir f q"
  by (simp add: is_dir_def)

lemma map_of_store_file: "map_of (files (store_file p s f)) q = (if q = p then Some s else map_of (files f) q)"
  by (simp add: store_file_def update_conv')

lemma store_store_file [simp]: "store_file p s (store_file p t f) = store_file p s f"
  by (simp add: store_file_def)

lemma length_prefixes: "cs \<in> set (prefixes_of xs) \<Longrightarrow> length cs \<le> length xs"
  by (induction xs arbitrary: cs) auto

lemma prefixes_not_Nil: "cs \<in> set (prefixes_of xs) \<Longrightarrow> cs \<noteq> []"
  by (induction xs arbitrary: cs) auto

lemma dir_prefix_neq:
  assumes "path_parent p = Some d" and "cs \<in> set (prefixes_of (comps d))"
  shows "d\<lparr>comps := cs\<rparr> \<noteq> p"
proof
  assume "d\<lparr>comps := cs\<rparr> = p"
  then have "comps p = cs" by auto
  moreover have "length (comps d) < length (comps p)"
    using assms(1) by (auto simp: path_parent_def split: if_splits)
  ultimately show False using length_prefixes [OF assms(2)] by simp
qed

lemma writable_store_file [simp]: "writable f p \<Longrightarrow> writable (store_file p s f) p"
proof -
  assume w: "writable f p"
  then obtain d where d: "path_parent p = Some d" by (auto simp: writable_def split: option.splits)
  with w dir_prefix_neq [OF d] show ?thesis by (simp add: writable_def map_of_store_file)
qed

lemma fs_write_writable:
  assumes "writable f p"
  shows "fs_create p f = (Ok (), store_file p [] f)" "fs_write p s f = (Ok (), store_file p s f)"
  using assms
  by (auto simp: writable_def fs_create_def fs_write_def store_file_def split: option.splits)

text \<open>Creating the directory of a writable file may add directories and keeps it writable.\<close>

definition ensure_dirs :: "path \<Rightarrow> fs \<Rightarrow> fs" where
  "ensure_dirs d f =
     f\<lparr>dirs := dirs f @ filter (\<lambda>q. q \<notin> set (dirs f)) (map (\<lambda>cs. d\<lparr>comps := cs\<rparr>) (prefixes_of (comps d)))\<rparr>"

lemma ensure_dirs_files [simp]: "files (ensure_dirs d f) = files f" "fault (ensure_dirs d f) = fault f"
  "write_fault (ensure_dirs d f) = write_fault f"
  by (simp_all add: ensure_dirs_def)

lemma create_dir_all_writable:
  assumes "writable f p" and "path_parent p = Some d"
  shows "fs_create_dir_all d f = (Ok (), ensure_dirs d f)" and "writable (ensure_dirs d f) p"
proof -
  show "fs_create_dir_all d f = (Ok (), ensure_dirs d f)"
    using assms by (simp add: writable_def fs_create_dir_all_def ensure_dirs_def)
  show "writable (ensure_dirs d f) p"
    using assms dir_prefix_neq [OF assms(2)]
    by (auto simp: writable_def is_dir_def ensure_dirs_def)
qed

lemma fs_read_store [simp]:
  assumes "writable f p"
  shows "fs_open (store_file p s f) p = Ok ()" "fs_contents (store_file p s f) p = Ok s"
  using assms by (simp_all add: writable_def fs_open_def fs_contents_def path_exists_def map_of_store_file)

lemma fs_write_file_writable:
  "writable f p \<Longrightarrow> fs_write_file p s f = (Ok (), store_file p s f)"
  using fs_write_writable [of f p] fs_write_writable(2) [of "store_file p [] f" p s]
  by (simp add: fs_write_file_def bind_io_def) (simp add: writable_def)

end
