(* ===== verification/Libs.thy ===== *)
theory Libs
  imports Rust_Std
begin

text \<open>
  The third-party code the program calls for data conversion, as one record of functions: the
  address type of \<open>fvm_shared\<close> (the type variable \<open>'a\<close>), the integer and address types
  of \<open>ethers\<close>, the address codec of the contract bindings, hexadecimal text and the FNV
  hasher. Every definition of the model that reaches one of them takes the record as its first
  argument. What a property relies on is one of the predicates \<open>addr_ok\<close>,
  \<open>eth_addr_ok\<close>, \<open>abi_addr_ok\<close>, \<open>amount_ok\<close>: documented round trips of
  those libraries, at the values concerned. \<open>demo_libs\<close> is an executable instance
  that satisfies them.
\<close>

unbundle bit_operations_syntax

section \<open>Interfaces\<close>

text \<open>\<open>fvm_shared::address::Payload\<close> and \<open>Protocol\<close>, as the program matches on them.\<close>

datatype payload =
    PayloadID u64
  | PayloadSecp256k1 bytes
  | PayloadActor bytes
  | PayloadBLS bytes
  | PayloadDelegated u64 bytes

datatype protocol = ID | Secp256k1 | Actor | BLS | Delegated

fun protocol_of :: "payload \<Rightarrow> protocol" where
  "protocol_of (PayloadID _) = ID"
| "protocol_of (PayloadSecp256k1 _) = Secp256k1"
| "protocol_of (PayloadActor _) = Actor"
| "protocol_of (PayloadBLS _) = BLS"
| "protocol_of (PayloadDelegated _ _) = Delegated"

record 'a libs =
  addr_to_string :: "'a \<Rightarrow> string"
  addr_from_str :: "string \<Rightarrow> (string, 'a) res"
  addr_payload :: "'a \<Rightarrow> payload"
  addr_new_id :: "u64 \<Rightarrow> 'a"
  addr_from_eth :: "bytes \<Rightarrow> 'a"
  addr_to_abi :: "'a \<Rightarrow> (string, bytes) res"
  addr_from_abi :: "bytes \<Rightarrow> (string, 'a) res"
  h160_debug :: "bytes \<Rightarrow> string"
  eth_from_str :: "string \<Rightarrow> (string, bytes) res"
  bigint_to_string :: "int \<Rightarrow> string"
  bigint_from_str :: "string \<Rightarrow> (string, int) res"
  u256_to_string :: "u256 \<Rightarrow> string"
  u256_from_dec_str :: "string \<Rightarrow> (string, u256) res"
  fnv_hash :: "string \<Rightarrow> u64"
  hex_encode :: "bytes \<Rightarrow> string"
  hex_decode :: "string \<Rightarrow> (string, bytes) res"
  METHOD_SEND :: u64
  token_display :: "int \<Rightarrow> string"

text \<open>An address prints to text that reads back and holds none of the separators.\<close>

definition addr_ok :: "'a libs \<Rightarrow> 'a \<Rightarrow> bool" where
  "addr_ok L a \<longleftrightarrow> addr_from_str L (addr_to_string L a) = Ok a \<and> addr_to_string L a \<noteq> []
     \<and> CHR ''/'' \<notin> set (addr_to_string L a) \<and> CHR '':'' \<notin> set (addr_to_string L a)"

text \<open>An Ethereum address: twenty bytes, its debug text reads back, and the Filecoin address
  made of it is the delegated one (namespace 10) with these bytes.\<close>

definition eth_addr_ok :: "'a libs \<Rightarrow> bytes \<Rightarrow> bool" where
  "eth_addr_ok L e \<longleftrightarrow> length e = 20 \<and> eth_from_str L (h160_debug L e) = Ok e
     \<and> addr_payload L (addr_from_eth L e) = PayloadDelegated 10 e"

text \<open>A Filecoin address that the contract bindings can encode and decode.\<close>

definition abi_addr_ok :: "'a libs \<Rightarrow> 'a \<Rightarrow> bool" where
  "abi_addr_ok L a \<longleftrightarrow> (case addr_to_abi L a of Ok b \<Rightarrow> addr_from_abi L b = Ok a | _ \<Rightarrow> False)"

text \<open>A token amount that both integer libraries print and read as the same number.\<close>

definition amount_ok :: "'a libs \<Rightarrow> int \<Rightarrow> bool" where
  "amount_ok L n \<longleftrightarrow> 0 \<le> n \<and> n < 2 ^ 256
     \<and> u256_from_dec_str L (bigint_to_string L n) = Ok (word_of_int n)
     \<and> bigint_from_str L (u256_to_string L (word_of_int n)) = Ok n"

section \<open>An executable instance\<close>

text \<open>Actor ids print as \<open>f0<id>\<close>; Ethereum addresses as \<open>f410f<hex>\<close>.\<close>

datatype demo_addr = DemoId u64 | DemoEth bytes

definition nibble_char :: "nat \<Rightarrow> char" where
  "nibble_char n = (if n < 10 then char_of (48 + n) else char_of (87 + n))"

definition char_nibble :: "char \<Rightarrow> nat option" where
  "char_nibble c = (let n = of_char c in
     if 48 \<le> n \<and> n \<le> 57 then Some (n - 48)
     else if 97 \<le> n \<and> n \<le> 102 then Some (n - 87) else None)"

fun demo_hex :: "bytes \<Rightarrow> string" where
  "demo_hex [] = []"
| "demo_hex (b # bs) = nibble_char (unat b div 16) # nibble_char (unat b mod 16) # demo_hex bs"

fun demo_unhex :: "string \<Rightarrow> (string, bytes) res" where
  "demo_unhex [] = Ok []"
| "demo_unhex [c] = Err ''odd number of digits''"
| "demo_unhex (c # d # cs) =
     (case (char_nibble c, char_nibble d) of
        (Some x, Some y) \<Rightarrow> and_then (demo_unhex cs) (\<lambda>bs. Ok (of_nat (16 * x + y) # bs))
      | _ \<Rightarrow> Err ''invalid character'')"

text \<open>Cells of text: dotted characters closed by a semicolon.\<close>

definition demo_cell :: "string \<Rightarrow> string" where
  "demo_cell s = concat (map (\<lambda>c. [CHR ''.'', c]) s) @ '';''"

fun demo_cells :: "string \<Rightarrow> string \<Rightarrow> string list option" where
  "demo_cells acc [] = (if acc = [] then Some [] else None)"
| "demo_cells acc (x # xs) =
     (if x = CHR '';'' then map_option ((#) acc) (demo_cells [] xs)
      else case xs of [] \<Rightarrow> None | c # cs \<Rightarrow> if x = CHR ''.'' then demo_cells (acc @ [c]) cs else None)"

fun demo_addr_to_string :: "demo_addr \<Rightarrow> string" where
  "demo_addr_to_string (DemoId n) = ''f0'' @ show_u64 n"
| "demo_addr_to_string (DemoEth e) = ''f410f'' @ demo_hex e"

definition demo_addr_from_str :: "string \<Rightarrow> (string, demo_addr) res" where
  "demo_addr_from_str s =
     (case strip_prefix ''f410f'' s of
        Some r \<Rightarrow> and_then (demo_unhex r) (\<lambda>e. Ok (DemoEth e))
      | None \<Rightarrow> (case strip_prefix ''f0'' s of
            Some r \<Rightarrow> (case parse_u64 r of Some n \<Rightarrow> Ok (DemoId n) | None \<Rightarrow> Err ''invalid payload'')
          | None \<Rightarrow> Err ''unknown protocol''))"

fun demo_payload :: "demo_addr \<Rightarrow> payload" where
  "demo_payload (DemoId n) = PayloadID n"
| "demo_payload (DemoEth e) = PayloadDelegated 10 e"

fun demo_to_abi :: "demo_addr \<Rightarrow> (string, bytes) res" where
  "demo_to_abi (DemoId n) = Ok (0 # as_bytes (show_u64 n))"
| "demo_to_abi (DemoEth e) = Ok (4 # e)"

fun demo_from_abi :: "bytes \<Rightarrow> (string, demo_addr) res" where
  "demo_from_abi [] = Err ''empty address''"
| "demo_from_abi (p # bs) =
     (if p = 4 then Ok (DemoEth bs)
      else if p = 0 then
        (case parse_u64 (from_bytes bs) of Some n \<Rightarrow> Ok (DemoId n) | None \<Rightarrow> Err ''invalid id'')
      else Err ''unknown protocol'')"

definition demo_bigint_to_string :: "int \<Rightarrow> string" where
  "demo_bigint_to_string n = (if n < 0 then ''-'' @ show_nat (nat (- n)) else show_nat (nat n))"

definition demo_bigint_from_str :: "string \<Rightarrow> (string, int) res" where
  "demo_bigint_from_str s =
     (case parse_unsigned (2 ^ 300) s of Some n \<Rightarrow> Ok (int n) | None \<Rightarrow> Err ''invalid digit'')"

definition demo_u256_from_dec_str :: "string \<Rightarrow> (string, u256) res" where
  "demo_u256_from_dec_str s =
     (case parse_unsigned (2 ^ 256 - 1) s of Some n \<Rightarrow> Ok (of_nat n) | None \<Rightarrow> Err ''invalid number'')"

definition demo_eth_from_str :: "string \<Rightarrow> (string, bytes) res" where
  "demo_eth_from_str s =
     (case strip_prefix ''0x'' s of
        None \<Rightarrow> Err ''missing 0x''
      | Some r \<Rightarrow> and_then (demo_unhex r)
          (\<lambda>e. if length e = 20 then Ok e else Err ''wrong length''))"

definition demo_libs :: "demo_addr libs" where
  "demo_libs = \<lparr>
     addr_to_string = demo_addr_to_string,
     addr_from_str = demo_addr_from_str,
     addr_payload = demo_payload,
     addr_new_id = DemoId,
     addr_from_eth = DemoEth,
     addr_to_abi = demo_to_abi,
     addr_from_abi = demo_from_abi,
     h160_debug = (\<lambda>e. ''0x'' @ demo_hex e),
     eth_from_str = demo_eth_from_str,
     bigint_to_string = demo_bigint_to_string,
     bigint_from_str = demo_bigint_from_str,
     u256_to_string = (\<lambda>n. show_nat (unat n)),
     u256_from_dec_str = demo_u256_from_dec_str,
     fnv_hash = (\<lambda>s. foldl (\<lambda>h c. (h XOR of_nat (of_char c)) * 1099511628211) 14695981039346656037 s),
     hex_encode = demo_hex,
     hex_decode = demo_unhex,
     METHOD_SEND = 0,
     token_display = demo_bigint_to_string\<rparr>"

lemmas demo_sel [simp] = libs.select_convs [of demo_addr_to_string demo_addr_from_str demo_payload
  DemoId DemoEth demo_to_abi demo_from_abi "\<lambda>e. ''0x'' @ demo_hex e" demo_eth_from_str
  demo_bigint_to_string demo_bigint_from_str "\<lambda>n. show_nat (unat n)" demo_u256_from_dec_str
  "\<lambda>s. foldl (\<lambda>h c. (h XOR of_nat (of_char c)) * 1099511628211) 14695981039346656037 s"
  demo_hex demo_unhex 0 demo_bigint_to_string "()", folded demo_libs_def]

text \<open>The instance satisfies the documented laws at all its values.\<close>

lemma demo_cells_cell: "demo_cells acc (demo_cell s @ r) = map_option ((#) (acc @ s)) (demo_cells [] r)"
  by (induction s arbitrary: acc) (auto simp: demo_cell_def)

lemma char_nibble_nibble_char [simp]: "n < 16 \<Longrightarrow> char_nibble (nibble_char n) = Some n"
  by (auto simp: char_nibble_def nibble_char_def of_char_of Let_def)

lemma demo_unhex_hex [simp]: "demo_unhex (demo_hex bs) = Ok bs"
proof (induction bs)
  case (Cons b bs)
  have "unat b < 256" using unsigned_less [of b, where 'a = nat] by simp
  then have "unat b div 16 < 16" by simp
  with Cons show ?case by (simp add: mult.commute)
qed simp

lemma demo_hex_chars: "c \<in> set (demo_hex bs) \<Longrightarrow> \<exists>n<16. c = nibble_char n"
proof (induction bs)
  case (Cons b bs)
  have "unat b < 256" using unsigned_less [of b, where 'a = nat] by simp
  then have "unat b div 16 < 16" "unat b mod 16 < 16" by simp_all
  moreover from Cons.prems
  have "c = nibble_char (unat b div 16) \<or> c = nibble_char (unat b mod 16) \<or> c \<in> set (demo_hex bs)"
    by simp
  ultimately show ?case using Cons.IH by blast
qed simp

lemma demo_hex_range: "c \<in> set (demo_hex bs) \<Longrightarrow>
    48 \<le> (of_char c :: nat) \<and> (of_char c :: nat) \<le> 57 \<or> 97 \<le> (of_char c :: nat)"
  by (drule demo_hex_chars) (auto simp: nibble_char_def of_char_of split: if_splits)

lemma demo_addr_from_to [simp]: "demo_addr_from_str (demo_addr_to_string a) = Ok a"
  by (cases a) (simp_all add: demo_addr_from_str_def)

lemma demo_unhex_not_panic: "\<not> is_panic (demo_unhex s)"
  by (induction s rule: demo_unhex.induct) (auto simp: is_panic_and_then split: option.splits)

lemma demo_addr_from_str_not_panic [simp]: "\<not> is_panic (demo_addr_from_str s)"
  by (auto simp: demo_addr_from_str_def is_panic_and_then demo_unhex_not_panic split: option.splits)

lemma demo_addr_ok [simp]: "addr_ok demo_libs a"
proof (cases a)
  case (DemoId n)
  have "CHR ''/'' \<notin> set (show_u64 n)" "CHR '':'' \<notin> set (show_u64 n)"
    using show_u64_free by fastforce+
  with DemoId demo_addr_from_to [of a] show ?thesis by (simp add: addr_ok_def)
next
  case (DemoEth e)
  have "CHR ''/'' \<notin> set (demo_hex e)" "CHR '':'' \<notin> set (demo_hex e)"
    using demo_hex_range by fastforce+
  with DemoEth demo_addr_from_to [of a] show ?thesis by (simp add: addr_ok_def)
qed

lemma demo_eth_addr_ok [simp]: "length e = 20 \<Longrightarrow> eth_addr_ok demo_libs e"
  by (simp add: eth_addr_ok_def demo_eth_from_str_def)

lemma demo_abi_addr_ok [simp]: "abi_addr_ok demo_libs a"
  by (cases a) (simp_all add: abi_addr_ok_def)

lemma demo_amount_ok [simp]: "0 \<le> n \<Longrightarrow> n < 2 ^ 256 \<Longrightarrow> amount_ok demo_libs n"
proof -
  assume n: "0 \<le> n" "n < 2 ^ 256"
  then have le: "nat n \<le> 2 ^ 256 - 1" by simp
  then have le': "nat n \<le> 2 ^ 300" by simp
  from n have w: "unat (word_of_int n :: u256) = nat n"
    by (simp add: unat_eq_nat_uint uint_word_of_int_eq take_bit_int_eq_self)
  show ?thesis
    using n parse_unsigned_show [OF le] parse_unsigned_show [OF le']
    by (simp add: amount_ok_def demo_bigint_to_string_def demo_bigint_from_str_def
        demo_u256_from_dec_str_def w)
qed

end
