(* ===== verification/Evm_Keystore.thy ===== *)
theory Evm_Keystore
  imports Rust_Fs Libs
begin

text \<open>
  \<open>ipc/identity/src/evm\<close>: the store of Ethereum keys. \<open>mem_\<close> operations are those of
  \<open>MemoryKeyStore\<close> (\<open>memory.rs\<close>), \<open>pks_\<close> operations those of
  \<open>PersistentKeyStore\<close> (\<open>persistent.rs\<close>) on a file system. The \<open>KeyStore\<close> trait
  (\<open>mod.rs\<close>) is the locale \<open>evm_keystore\<close>; both stores are instances of it. A
  \<open>HashMap\<close> is an association list without repeated keys, whose order nothing relies on.
\<close>

section \<open>Keys\<close>

definition DEFAULT_KEYSTORE_NAME :: string where
  "DEFAULT_KEYSTORE_NAME = ''evm_keystore.json''"

record key_info =
  private_key :: bytes

definition key_info_new :: "bytes \<Rightarrow> key_info" where
  "key_info_new k = \<lparr>private_key = k\<rparr>"

text \<open>\<open>KeyInfo::drop\<close> overwrites the key material.\<close>

definition key_info_drop :: "key_info \<Rightarrow> key_info" where
  "key_info_drop i = i\<lparr>private_key := map (\<lambda>_. 0) (private_key i)\<rparr>"

text \<open>The bounds \<open>TryFrom<KeyInfo> + Default + ToString\<close> on the key type.\<close>

record 'k key_ops =
  key_of :: "key_info \<Rightarrow> 'k option"
  dflt_key :: 'k
  key_to_string :: "'k \<Rightarrow> string"

text \<open>\<open>EthKeyAddress\<close>: the address \<open>Wallet::from_bytes\<close> derives (a parameter), the zero
  address as the default key.\<close>

type_synonym eth_key_address = bytes

definition eth_key_default :: eth_key_address where
  "eth_key_default = replicate 20 0"

definition eth_key_to_string :: "'a libs \<Rightarrow> eth_key_address \<Rightarrow> string" where
  "eth_key_to_string L k = (if k = eth_key_default then ''default-key'' else h160_debug L k)"

definition eth_key_to_fil :: "'a libs \<Rightarrow> eth_key_address \<Rightarrow> (string, 'a) res" where
  "eth_key_to_fil L k =
     and_then (eth_from_str L (eth_key_to_string L k)) (\<lambda>e. Ok (addr_from_eth L e))"

definition eth_key_ops :: "'a libs \<Rightarrow> (bytes \<Rightarrow> bytes option) \<Rightarrow> eth_key_address key_ops" where
  "eth_key_ops L wallet_address =
     \<lparr>key_of = (\<lambda>i. wallet_address (private_key i)), dflt_key = eth_key_default,
      key_to_string = eth_key_to_string L\<rparr>"

section \<open>MemoryKeyStore\<close>

record 'k memory_key_store =
  data :: "('k \<times> key_info) list"
  default_key :: "'k option"

definition mem_get :: "'k \<Rightarrow> 'k memory_key_store \<Rightarrow> (string, key_info option) res" where
  "mem_get addr s = Ok (map_of (data s) addr)"

definition mem_list :: "'k memory_key_store \<Rightarrow> (string, 'k list) res" where
  "mem_list s = Ok (map fst (data s))"

definition mem_put :: "'k key_ops \<Rightarrow> key_info \<Rightarrow> ('k memory_key_store, 'k) io" where
  "mem_put K info s =
     (case key_of K info of
        None \<Rightarrow> (Err ''cannot convert private key to public key'', s)
      | Some addr \<Rightarrow> (Ok addr, s\<lparr>data := AList.update addr info (data s)\<rparr>))"

text \<open>Removing the default key first clears the default, then removes its entry.\<close>

function mem_remove :: "'k key_ops \<Rightarrow> 'k \<Rightarrow> ('k memory_key_store, unit) io" where
  "mem_remove K addr s =
     (if default_key s = Some addr then
        (case mem_remove K (dflt_key K) (s\<lparr>default_key := None\<rparr>) of
           (Ok _, s') \<Rightarrow> (Ok (), s'\<lparr>data := AList.delete addr (data s')\<rparr>)
         | (Err e, s') \<Rightarrow> (Err e, s')
         | (Panic p, s') \<Rightarrow> (Panic p, s'))
      else (Ok (), s\<lparr>data := AList.delete addr (data s)\<rparr>))"
  by pat_completeness auto
termination
  by (relation "measure (\<lambda>(K, addr, s). case default_key s of None \<Rightarrow> 0 | Some _ \<Rightarrow> 1)") auto

declare mem_remove.simps [simp del]

definition mem_set_default :: "'k key_ops \<Rightarrow> 'k \<Rightarrow> ('k memory_key_store, unit) io" where
  "mem_set_default K addr s =
     (case map_of (data s) addr of
        Some i \<Rightarrow> (Ok (), s\<lparr>data := AList.update (dflt_key K) i (data s), default_key := Some addr\<rparr>)
      | None \<Rightarrow> (Err ''can't set default key: not found in keystore'', s))"

definition mem_get_default :: "'k key_ops \<Rightarrow> ('k memory_key_store, 'k option) io" where
  "mem_get_default K s =
     (if default_key s = None then
        (case map_of (data s) (dflt_key K) of
           Some info \<Rightarrow>
             (case key_of K info of
                Some k \<Rightarrow> (Ok (Some k), s\<lparr>default_key := Some k\<rparr>)
              | None \<Rightarrow> (Err ''couldn't get address from key info'', s))
         | None \<Rightarrow> (Ok (default_key s), s))
      else (Ok (default_key s), s))"

section \<open>PersistentKeyStore\<close>

record persistent_key_info =
  pki_address :: string
  pki_private_key :: string

text \<open>\<open>serde_json\<close> on the list of key records is a parameter.\<close>

record key_json =
  keys_to_json :: "persistent_key_info list \<Rightarrow> (string, string) res"
  keys_from_json :: "string \<Rightarrow> (string, persistent_key_info list) res"

record 'k persistent_key_store =
  memory :: "'k memory_key_store"
  file_path :: path

text \<open>\<open>flush_no_encryption\<close>: the file is truncated before the keys are serialised.\<close>

definition to_persist :: "'a libs \<Rightarrow> 'k key_ops \<Rightarrow> 'k memory_key_store \<Rightarrow> persistent_key_info list" where
  "to_persist L K s = map (\<lambda>(key, val).
     \<lparr>pki_address = key_to_string K key, pki_private_key = hex_encode L (private_key val)\<rparr>) (data s)"

definition flush_no_encryption ::
    "'a libs \<Rightarrow> 'k key_ops \<Rightarrow> key_json \<Rightarrow> 'k persistent_key_store \<Rightarrow> (fs, unit) io" where
  "flush_no_encryption L K J s =
     bind_io (lift (ok_or ''Key store parent path not exists'' (path_parent (file_path s)))) (\<lambda>dir.
     bind_io (fs_create_dir_all dir) (\<lambda>_.
     bind_io (fs_create (file_path s)) (\<lambda>_.
       map_err_io (\<lambda>e. ''failed to serialize and write key info: '' @ e)
         (bind_io (lift (keys_to_json J (to_persist L K (memory s)))) (\<lambda>text.
            fs_write (file_path s) text)))))"

text \<open>The loop of \<open>new\<close> over the persisted keys: the address is inferred from the key
  unless the record is that of the default key.\<close>

definition infer_addr :: "'k key_ops \<Rightarrow> persistent_key_info \<Rightarrow> key_info \<Rightarrow> (string, 'k) res" where
  "infer_addr K info ki =
     (if pki_address info \<noteq> key_to_string K (dflt_key K)
      then ok_or ''cannot convert private key to address'' (key_of K ki)
      else Ok (dflt_key K))"

fun load_keys :: "'a libs \<Rightarrow> 'k key_ops \<Rightarrow> persistent_key_info list \<Rightarrow> ('k \<times> key_info) list
    \<Rightarrow> (string, ('k \<times> key_info) list) res" where
  "load_keys L K [] acc = Ok acc"
| "load_keys L K (info # infos) acc =
     and_then (hex_decode L (pki_private_key info)) (\<lambda>pk.
     (let ki = \<lparr>private_key = pk\<rparr> in
      and_then (infer_addr K info ki) (\<lambda>addr.
      load_keys L K infos (AList.update addr ki acc))))"

definition pks_new ::
    "'a libs \<Rightarrow> 'k key_ops \<Rightarrow> key_json \<Rightarrow> path \<Rightarrow> fs \<Rightarrow> (string, 'k persistent_key_store) res" where
  "pks_new L K J p f =
     (if (case path_parent p of Some d \<Rightarrow> \<not> path_exists f d | None \<Rightarrow> False)
      then Err ''parent does not exist for key store''
      else case fs_open f p of
        Err NotFound \<Rightarrow> Ok \<lparr>memory = \<lparr>data = [], default_key = None\<rparr>, file_path = p\<rparr>
      | Err (OtherIo e) \<Rightarrow> Err (''cannot create key store: '' @ e)
      | Panic m \<Rightarrow> Panic m
      | Ok _ \<Rightarrow>
          and_then (map_err (\<lambda>e. ''failed to deserialize keyfile, initializing new keystore at: ''
                       @ path_debug p @ '' due to: '' @ e)
                     (and_then (fs_contents f p) (keys_from_json J))) (\<lambda>infos.
          and_then (load_keys L K infos []) (\<lambda>key_infos.
          and_then (case map_of key_infos (dflt_key K) of
                      Some i \<Rightarrow> and_then (ok_or ''couldn't get info for default key'' (key_of K i)) (\<lambda>k. Ok (Some k))
                    | None \<Rightarrow> Ok None) (\<lambda>dflt.
            Ok \<lparr>memory = \<lparr>data = key_infos, default_key = dflt\<rparr>, file_path = p\<rparr>))))"

text \<open>The trait operations act on the store in memory and then on its file.\<close>

type_synonym 'k pks_world = "'k persistent_key_store \<times> fs"

definition in_memory :: "('k memory_key_store, 'b) io \<Rightarrow> ('k pks_world, 'b) io" where
  "in_memory m = (\<lambda>(s, f). case m (memory s) of (r, mem) \<Rightarrow> (r, (s\<lparr>memory := mem\<rparr>, f)))"

definition flushed :: "'a libs \<Rightarrow> 'k key_ops \<Rightarrow> key_json \<Rightarrow> ('k pks_world, unit) io" where
  "flushed L K J = (\<lambda>(s, f). case flush_no_encryption L K J s f of (r, f') \<Rightarrow> (r, (s, f')))"

definition pks_get :: "'k \<Rightarrow> 'k persistent_key_store \<Rightarrow> (string, key_info option) res" where
  "pks_get addr s = mem_get addr (memory s)"

definition pks_list :: "'k persistent_key_store \<Rightarrow> (string, 'k list) res" where
  "pks_list s = mem_list (memory s)"

definition pks_put :: "'a libs \<Rightarrow> 'k key_ops \<Rightarrow> key_json \<Rightarrow> key_info \<Rightarrow> ('k pks_world, 'k) io" where
  "pks_put L K J info =
     bind_io (in_memory (mem_put K info)) (\<lambda>addr. bind_io (flushed L K J) (\<lambda>_. ret addr))"

definition pks_remove :: "'a libs \<Rightarrow> 'k key_ops \<Rightarrow> key_json \<Rightarrow> 'k \<Rightarrow> ('k pks_world, unit) io" where
  "pks_remove L K J addr = bind_io (in_memory (mem_remove K addr)) (\<lambda>_. flushed L K J)"

definition pks_set_default :: "'a libs \<Rightarrow> 'k key_ops \<Rightarrow> key_json \<Rightarrow> 'k \<Rightarrow> ('k pks_world, unit) io" where
  "pks_set_default L K J addr = bind_io (in_memory (mem_set_default K addr)) (\<lambda>_. flushed L K J)"

definition pks_get_default :: "'a libs \<Rightarrow> 'k key_ops \<Rightarrow> key_json \<Rightarrow> ('k pks_world, 'k option) io" where
  "pks_get_default L K J =
     bind_io (in_memory (mem_get_default K)) (\<lambda>dflt. bind_io (flushed L K J) (\<lambda>_. ret dflt))"

lemmas pks_defs = pks_put_def pks_remove_def pks_set_default_def pks_get_default_def
  in_memory_def flushed_def

section \<open>The trait as an interface\<close>

text \<open>
  What a client of the trait may rely on. \<open>inv\<close> relates the default key to its entry: the
  entry stored under the default key is the one the default address was derived from.
\<close>

locale evm_keystore =
  fixes lookup :: "'s \<Rightarrow> 'k \<Rightarrow> key_info option"
    and dflt_of :: "'s \<Rightarrow> 'k option"
    and put :: "key_info \<Rightarrow> ('s, 'k) io"
    and remove :: "'k \<Rightarrow> ('s, unit) io"
    and set_default :: "'k \<Rightarrow> ('s, unit) io"
    and get_default :: "('s, 'k option) io"
    and K :: "'k key_ops"
    and inv :: "'s \<Rightarrow> bool"
  assumes inv_key: "inv s \<Longrightarrow> k \<noteq> dflt_key K \<Longrightarrow> lookup s k = Some i \<Longrightarrow> key_of K i = Some k"
    and inv_dflt: "inv s \<Longrightarrow> dflt_of s = Option.bind (lookup s (dflt_key K)) (key_of K)"
    and put_law: "inv s \<Longrightarrow> key_of K i = Some k \<Longrightarrow> k \<noteq> dflt_key K \<Longrightarrow>
      \<exists>s'. put i s = (Ok k, s') \<and> inv s' \<and> lookup s' = (lookup s)(k \<mapsto> i)"
    and remove_law: "inv s \<Longrightarrow> k \<noteq> dflt_key K \<Longrightarrow>
      \<exists>s'. remove k s = (Ok (), s') \<and> inv s' \<and>
           lookup s' = (lookup s)(k := None,
             dflt_key K := if dflt_of s = Some k then None else lookup s (dflt_key K))"
    and set_default_law: "inv s \<Longrightarrow> k \<noteq> dflt_key K \<Longrightarrow> lookup s k = Some i \<Longrightarrow>
      \<exists>s'. set_default k s = (Ok (), s') \<and> inv s' \<and> lookup s' = (lookup s)(dflt_key K \<mapsto> i)"
    and get_default_law: "inv s \<Longrightarrow> \<exists>s'. get_default s = (Ok (dflt_of s), s') \<and> inv s' \<and> lookup s' = lookup s"
begin

lemma set_then_get_default:
  assumes "inv s" "k \<noteq> dflt_key K" "lookup s k = Some i"
  shows "fst (get_default (snd (set_default k s))) = Ok (Some k)"
proof -
  obtain s' where s': "set_default k s = (Ok (), s')" "inv s'" "lookup s' = (lookup s)(dflt_key K \<mapsto> i)"
    using set_default_law [OF assms] by blast
  have "key_of K i = Some k" using inv_key [OF assms(1,2,3)] .
  then have "dflt_of s' = Some k" using inv_dflt [OF s'(2)] s'(3) by simp
  with get_default_law [OF s'(2)] s'(1) show ?thesis by auto
qed

lemma removed_default:
  assumes "inv s" "k \<noteq> dflt_key K" "dflt_of s = Some k"
  shows "\<exists>s'. remove k s = (Ok (), s') \<and> lookup s' k = None \<and> dflt_of s' = None
             \<and> fst (get_default s') = Ok None"
proof -
  obtain s' where s': "remove k s = (Ok (), s')" "inv s'"
      "lookup s' = (lookup s)(k := None, dflt_key K := None)"
    using remove_law [OF assms(1,2)] assms(3) by auto
  then have "dflt_of s' = None" using inv_dflt [OF s'(2)] by simp
  with get_default_law [OF s'(2)] s' assms(2) show ?thesis by auto
qed

lemma other_removed_default:
  assumes "inv s" "k \<noteq> dflt_key K" "dflt_of s \<noteq> Some k"
  shows "fst (get_default (snd (remove k s))) = Ok (dflt_of s)"
proof -
  obtain s' where s': "remove k s = (Ok (), s')" "inv s'"
      "lookup s' = (lookup s)(k := None, dflt_key K := lookup s (dflt_key K))"
    using remove_law [OF assms(1,2)] assms(3) by auto
  then have "dflt_of s' = dflt_of s" using inv_dflt [OF s'(2)] inv_dflt [OF assms(1)] by simp
  with get_default_law [OF s'(2)] s'(1) show ?thesis by auto
qed

end

section \<open>The memory store implements the trait\<close>

definition mem_inv :: "'k key_ops \<Rightarrow> 'k memory_key_store \<Rightarrow> bool" where
  "mem_inv K s \<longleftrightarrow> distinct (map fst (data s))
     \<and> (\<forall>k i. k \<noteq> dflt_key K \<and> map_of (data s) k = Some i \<longrightarrow> key_of K i = Some k)
     \<and> (\<forall>i. map_of (data s) (dflt_key K) = Some i \<longrightarrow> key_of K i \<noteq> None)
     \<and> default_key s = Option.bind (map_of (data s) (dflt_key K)) (key_of K)"

definition mem_lookup :: "'k memory_key_store \<Rightarrow> 'k \<Rightarrow> key_info option" where
  "mem_lookup s k = map_of (data s) k"

lemma mem_remove_run:
  "default_key s \<noteq> Some k \<Longrightarrow> mem_remove K k s = (Ok (), s\<lparr>data := AList.delete k (data s)\<rparr>)"
  "default_key s = Some k \<Longrightarrow> mem_remove K k s =
     (Ok (), s\<lparr>data := AList.delete k (AList.delete (dflt_key K) (data s)), default_key := None\<rparr>)"
  by (simp_all add: mem_remove.simps [of K k s] mem_remove.simps [of K "dflt_key K"])


lemma mem_inv_data:
  assumes "mem_inv K s"
  shows "distinct (map fst (data s))" "map_of (data s) k = Some i \<Longrightarrow> k \<noteq> dflt_key K \<Longrightarrow> key_of K i = Some k"
    "default_key s = Option.bind (map_of (data s) (dflt_key K)) (key_of K)"
  using assms by (auto simp: mem_inv_def)

lemma mem_put_inv:
  "mem_inv K s \<Longrightarrow> key_of K i = Some k \<Longrightarrow> k \<noteq> dflt_key K \<Longrightarrow>
   mem_inv K (s\<lparr>data := AList.update k i (data s)\<rparr>)"
  by (auto simp: mem_inv_def map_of_update)

lemma mem_remove_inv:
  assumes "mem_inv K s" "k \<noteq> dflt_key K"
  shows "mem_inv K (snd (mem_remove K k s))"
proof (cases "default_key s = Some k")
  case True
  with assms show ?thesis
    by (simp add: mem_remove_run(2) mem_inv_def map_of_delete distinct_delete)
next
  case False
  with assms show ?thesis
    by (simp add: mem_remove_run(1) mem_inv_def map_of_delete distinct_delete)
qed

lemma mem_set_default_inv:
  assumes "mem_inv K s" "k \<noteq> dflt_key K" "map_of (data s) k = Some i"
  shows "mem_inv K (s\<lparr>data := AList.update (dflt_key K) i (data s), default_key := Some k\<rparr>)"
  using assms by (auto simp: mem_inv_def map_of_update)

lemma mem_get_default_run: "mem_inv K s \<Longrightarrow> mem_get_default K s = (Ok (default_key s), s)"
  by (auto simp: mem_inv_def mem_get_default_def split: option.splits)

lemma mem_lookup_simps [simp]: "mem_lookup s = map_of (data s)"
  by (simp add: mem_lookup_def fun_eq_iff)

interpretation mem: evm_keystore mem_lookup default_key "mem_put K" "mem_remove K"
    "mem_set_default K" "mem_get_default K" K "mem_inv K" for K :: "'k key_ops"
proof unfold_locales
  fix s :: "'k memory_key_store" and k i
  assume inv: "mem_inv K s"
  show "\<exists>s'. mem_get_default K s = (Ok (default_key s), s') \<and> mem_inv K s' \<and> mem_lookup s' = mem_lookup s"
    using inv by (simp add: mem_get_default_run)
  show "default_key s = Option.bind (mem_lookup s (dflt_key K)) (key_of K)"
    using mem_inv_data(3) [OF inv] by simp
  show "\<exists>s'. mem_put K i s = (Ok k, s') \<and> mem_inv K s' \<and> mem_lookup s' = (mem_lookup s)(k \<mapsto> i)"
    if "key_of K i = Some k" "k \<noteq> dflt_key K"
    using that mem_put_inv [OF inv that] by (simp add: mem_put_def map_of_update)
  assume k: "k \<noteq> dflt_key K"
  show "key_of K i = Some k" if "mem_lookup s k = Some i"
    using mem_inv_data(2) [OF inv _ k] that by simp
  show "\<exists>s'. mem_remove K k s = (Ok (), s') \<and> mem_inv K s' \<and> mem_lookup s' = (mem_lookup s)
      (k := None, dflt_key K := if default_key s = Some k then None else mem_lookup s (dflt_key K))"
    using mem_remove_inv [OF inv k] k
    by (cases "default_key s = Some k") (auto simp: mem_remove_run map_of_delete fun_eq_iff)
  show "\<exists>s'. mem_set_default K k s = (Ok (), s') \<and> mem_inv K s' \<and> mem_lookup s' = (mem_lookup s)(dflt_key K \<mapsto> i)"
    if "mem_lookup s k = Some i"
    using mem_set_default_inv [OF inv k] that by (simp add: mem_set_default_def map_of_update)
qed

section \<open>The persistent store implements the trait and survives a restart\<close>

text \<open>What the two encoders are relied on for, at the keys of a store.\<close>

definition codec_ok :: "'a libs \<Rightarrow> 'k key_ops \<Rightarrow> key_json \<Rightarrow> bool" where
  "codec_ok L K J \<longleftrightarrow> (\<forall>b. hex_decode L (hex_encode L b) = Ok b)
     \<and> (\<forall>xs. \<exists>t. keys_to_json J xs = Ok t \<and> keys_from_json J t = Ok xs)
     \<and> (\<forall>k. key_to_string K k = key_to_string K (dflt_key K) \<longrightarrow> k = dflt_key K)"

definition pks_inv :: "'k key_ops \<Rightarrow> 'k pks_world \<Rightarrow> bool" where
  "pks_inv K w \<longleftrightarrow> mem_inv K (memory (fst w)) \<and> writable (snd w) (file_path (fst w))"

definition pks_lookup :: "'k pks_world \<Rightarrow> 'k \<Rightarrow> key_info option" where
  "pks_lookup w = mem_lookup (memory (fst w))"

definition pks_default :: "'k pks_world \<Rightarrow> 'k option" where
  "pks_default w = default_key (memory (fst w))"

lemma flush_writable:
  assumes "writable f (file_path s)" and "codec_ok L K J"
  obtains f' t where "flush_no_encryption L K J s f = (Ok (), f')" "writable f' (file_path s)"
    "fs_open f' (file_path s) = Ok ()" "fs_contents f' (file_path s) = Ok t"
    "keys_from_json J t = Ok (to_persist L K (memory s))"
proof -
  obtain d where d: "path_parent (file_path s) = Some d"
    using assms(1) by (auto simp: writable_def split: option.splits)
  obtain t where t: "keys_to_json J (to_persist L K (memory s)) = Ok t"
      "keys_from_json J t = Ok (to_persist L K (memory s))"
    using assms(2) unfolding codec_ok_def by blast
  note dirs = create_dir_all_writable [OF assms(1) d]
  have "flush_no_encryption L K J s f = (Ok (), store_file (file_path s) t (ensure_dirs d f))"
    using dirs fs_write_writable [OF dirs(2)] fs_write_writable [OF writable_store_file [OF dirs(2)]] t
    by (simp add: flush_no_encryption_def d io_defs)
  with dirs(2) t(2) show ?thesis by (intro that [of "store_file (file_path s) t (ensure_dirs d f)" t]) simp_all
qed

lemma key_info_collapse: "\<lparr>private_key = private_key i\<rparr> = i"
  by (cases i) simp

lemma load_persisted:
  assumes "codec_ok L K J" and "mem_inv K s"
  shows "load_keys L K (to_persist L K s) [] = Ok (data s)"
proof -
  have key: "k \<noteq> dflt_key K \<Longrightarrow> key_of K i = Some k" if "(k, i) \<in> set (data s)" for k i
    using mem_inv_data(2) [OF assms(2)] map_of_is_SomeI [OF mem_inv_data(1) [OF assms(2)] that] by simp
  have "load_keys L K (map (\<lambda>(key, val). \<lparr>pki_address = key_to_string K key,
      pki_private_key = hex_encode L (private_key val)\<rparr>) kvs) acc = Ok (acc @ kvs)"
    if "set kvs \<subseteq> set (data s)" "distinct (map fst (acc @ kvs))" for kvs acc
    using that
  proof (induction kvs arbitrary: acc)
    case (Cons kv kvs)
    obtain k i where kv: "kv = (k, i)" by (cases kv)
    have upd: "AList.update k i acc = acc @ [(k, i)]"
      using Cons.prems(2) unfolding kv by (induction acc) auto
    have "infer_addr K \<lparr>pki_address = key_to_string K k, pki_private_key = p\<rparr> i = Ok k" for p
      using key [of k i] Cons.prems(1) assms(1)
      by (cases "k = dflt_key K") (auto simp: kv codec_ok_def infer_addr_def)
    then show ?case
      using Cons.IH [of "acc @ [(k, i)]"] Cons.prems assms(1)
      by (simp add: kv upd codec_ok_def Let_def key_info_collapse)
  qed simp
  from this [of "data s" "[]"] assms(2) show ?thesis by (simp add: to_persist_def mem_inv_def)
qed

text \<open>Whatever the trait operation, the file left behind restores the store.\<close>

lemma flushed_run:
  assumes "pks_inv K (s, f)" and "codec_ok L K J"
  obtains f' where "flushed L K J (s, f) = (Ok (), (s, f'))" "pks_inv K (s, f')"
    "pks_new L K J (file_path s) f' = Ok s"
proof -
  have w: "writable f (file_path s)" and inv: "mem_inv K (memory s)"
    using assms(1) by (simp_all add: pks_inv_def)
  obtain f' t where f': "flush_no_encryption L K J s f = (Ok (), f')" "writable f' (file_path s)"
      "fs_open f' (file_path s) = Ok ()" "fs_contents f' (file_path s) = Ok t"
    "keys_from_json J t = Ok (to_persist L K (memory s))"
    using flush_writable [OF w assms(2)] .
  have ex: "\<not> (case path_parent (file_path s) of Some d \<Rightarrow> \<not> path_exists f' d | None \<Rightarrow> False)"
    using f'(2) by (auto simp: writable_def path_exists_def split: option.splits)
  have dflt: "(case map_of (data (memory s)) (dflt_key K) of
        Some i \<Rightarrow> and_then (ok_or ''couldn't get info for default key'' (key_of K i)) (\<lambda>k. Ok (Some k))
      | None \<Rightarrow> Ok None) = Ok (default_key (memory s))"
    using inv by (auto simp: mem_inv_def split: option.splits)
  have "pks_new L K J (file_path s) f' = Ok s"
    unfolding pks_new_def if_not_P [OF ex] using f'(3,4,5) load_persisted [OF assms(2) inv] dflt by simp
  with f' inv show ?thesis by (intro that [of f']) (simp_all add: flushed_def pks_inv_def)
qed

text \<open>A trait operation on the persistent store is that of the memory store, then a flush.\<close>

lemma pks_step:
  assumes inv: "pks_inv K w" and ok: "codec_ok L K J"
    and run: "m (memory (fst w)) = (Ok r, mem)" and mem: "mem_inv K mem"
  obtains w' where "bind_io (in_memory m) (\<lambda>a. bind_io (flushed L K J) (\<lambda>_. ret a)) w = (Ok r, w')"
    "pks_inv K w'" "memory (fst w') = mem" "file_path (fst w') = file_path (fst w)"
    "pks_new L K J (file_path (fst w)) (snd w') = Ok (fst w')"
proof -
  obtain s f where w: "w = (s, f)" by (cases w)
  let ?s = "s\<lparr>memory := mem\<rparr>"
  have "pks_inv K (?s, f)" using inv mem by (simp add: w pks_inv_def)
  then obtain f' where f': "flushed L K J (?s, f) = (Ok (), (?s, f'))" "pks_inv K (?s, f')"
      "pks_new L K J (file_path ?s) f' = Ok ?s"
    using flushed_run [OF _ ok] by blast
  then show ?thesis
    using run by (intro that [of "(?s, f')"]) (simp_all add: w in_memory_def io_defs)
qed

lemma pks_ops_via_step:
  "pks_put L K J i = bind_io (in_memory (mem_put K i)) (\<lambda>a. bind_io (flushed L K J) (\<lambda>_. ret a))"
  "pks_remove L K J k = bind_io (in_memory (mem_remove K k)) (\<lambda>a. bind_io (flushed L K J) (\<lambda>_. ret a))"
  "pks_set_default L K J k = bind_io (in_memory (mem_set_default K k)) (\<lambda>a. bind_io (flushed L K J) (\<lambda>_. ret a))"
  "pks_get_default L K J = bind_io (in_memory (mem_get_default K)) (\<lambda>a. bind_io (flushed L K J) (\<lambda>_. ret a))"
  by (simp_all add: pks_defs bind_io_def ret_def fun_eq_iff split: prod.splits res.splits)

lemma pks_put_run:
  assumes inv: "pks_inv K w" and ok: "codec_ok L K J" and key: "key_of K i = Some k" "k \<noteq> dflt_key K"
  obtains w' where "pks_put L K J i w = (Ok k, w')" "pks_inv K w'" "file_path (fst w') = file_path (fst w)"
    "memory (fst w') = (memory (fst w))\<lparr>data := AList.update k i (data (memory (fst w)))\<rparr>"
    "pks_new L K J (file_path (fst w)) (snd w') = Ok (fst w')"
proof -
  have m: "mem_inv K (memory (fst w))" using inv by (simp add: pks_inv_def)
  have put: "mem_put K i (memory (fst w)) = (Ok k, (memory (fst w))\<lparr>data := AList.update k i (data (memory (fst w)))\<rparr>)"
    using key by (simp add: mem_put_def)
  show ?thesis
    by (rule pks_step [OF inv ok, where m = "mem_put K i", OF put mem_put_inv [OF m key]])
      (simp add: that pks_ops_via_step(1))
qed

interpretation pks: evm_keystore pks_lookup pks_default "pks_put L K J" "pks_remove L K J"
    "pks_set_default L K J" "pks_get_default L K J" K "\<lambda>w. pks_inv K w \<and> codec_ok L K J"
  for L :: "'a libs" and K :: "'k key_ops" and J :: key_json
proof unfold_locales
  fix w :: "'k pks_world" and k i
  assume a: "pks_inv K w \<and> codec_ok L K J"
  then have inv: "pks_inv K w" and ok: "codec_ok L K J" and m: "mem_inv K (memory (fst w))"
    by (simp_all add: pks_inv_def)
  note laws = pks_lookup_def pks_default_def
  show "pks_default w = Option.bind (pks_lookup w (dflt_key K)) (key_of K)"
    using mem.inv_dflt [OF m] by (simp add: laws)
  show "\<exists>s'. pks_get_default L K J w = (Ok (pks_default w), s') \<and> (pks_inv K s' \<and> codec_ok L K J) \<and> pks_lookup s' = pks_lookup w"
    using mem.get_default_law [OF m] pks_step [OF inv ok] ok unfolding pks_ops_via_step laws by metis
  show "\<exists>s'. pks_put L K J i w = (Ok k, s') \<and> (pks_inv K s' \<and> codec_ok L K J) \<and> pks_lookup s' = (pks_lookup w)(k \<mapsto> i)"
    if "key_of K i = Some k" "k \<noteq> dflt_key K"
    using mem.put_law [OF m that] pks_step [OF inv ok] ok unfolding pks_ops_via_step laws by metis
  assume k: "k \<noteq> dflt_key K"
  show "key_of K i = Some k" if "pks_lookup w k = Some i"
    using mem.inv_key [OF m k] that by (simp add: laws)
  show "\<exists>s'. pks_remove L K J k w = (Ok (), s') \<and> (pks_inv K s' \<and> codec_ok L K J) \<and> pks_lookup s' = (pks_lookup w)
      (k := None, dflt_key K := if pks_default w = Some k then None else pks_lookup w (dflt_key K))"
    using mem.remove_law [OF m k] pks_step [OF inv ok] ok unfolding pks_ops_via_step laws by metis
  show "\<exists>s'. pks_set_default L K J k w = (Ok (), s') \<and> (pks_inv K s' \<and> codec_ok L K J) \<and> pks_lookup s' = (pks_lookup w)(dflt_key K \<mapsto> i)"
    if "pks_lookup w k = Some i"
    using mem.set_default_law [OF m k] that pks_step [OF inv ok] ok unfolding pks_ops_via_step laws by metis
qed

section \<open>An executable instance\<close>

text \<open>Two cells of text per key record.\<close>

fun demo_pairs :: "string list \<Rightarrow> persistent_key_info list option" where
  "demo_pairs [] = Some []"
| "demo_pairs [x] = None"
| "demo_pairs (x # y # zs) = map_option ((#) \<lparr>pki_address = x, pki_private_key = y\<rparr>) (demo_pairs zs)"

definition demo_json :: key_json where
  "demo_json =
     \<lparr>keys_to_json = (\<lambda>ks. Ok (concat (map (\<lambda>k. demo_cell (pki_address k) @ demo_cell (pki_private_key k)) ks))),
      keys_from_json = (\<lambda>t. ok_or ''invalid JSON'' (Option.bind (demo_cells [] t) demo_pairs))\<rparr>"

text \<open>The address of a key is the key itself when it has twenty bytes and is not zero.\<close>

definition demo_wallet_address :: "bytes \<Rightarrow> bytes option" where
  "demo_wallet_address b = (if length b = 20 \<and> b \<noteq> eth_key_default then Some b else None)"

definition demo_keys :: "eth_key_address key_ops" where
  "demo_keys = eth_key_ops demo_libs demo_wallet_address"

lemma demo_json_parse:
  "demo_cells [] (concat (map (\<lambda>k. demo_cell (pki_address k) @ demo_cell (pki_private_key k)) ks)) =
     Some (concat (map (\<lambda>k. [pki_address k, pki_private_key k]) ks))"
  by (induction ks) (simp_all add: demo_cells_cell)

lemma demo_pairs_concat: "demo_pairs (concat (map (\<lambda>k. [pki_address k, pki_private_key k]) ks)) = Some ks"
  by (induction ks) simp_all

lemma demo_codec_ok [simp]: "codec_ok demo_libs demo_keys demo_json"
  by (auto simp: codec_ok_def demo_json_def demo_json_parse demo_pairs_concat demo_keys_def
      eth_key_ops_def eth_key_to_string_def split: if_splits)

text \<open>A writable file in an existing directory, and the empty store kept there.\<close>

definition demo_dir :: path where
  "demo_dir = \<lparr>absolute = True, comps = [''ipc'']\<rparr>"

definition demo_fs :: fs where
  "demo_fs = \<lparr>files = [], dirs = [demo_dir], fault = (\<lambda>_. None), write_fault = (\<lambda>_. None)\<rparr>"

definition demo_pks :: "eth_key_address pks_world" where
  "demo_pks = (\<lparr>memory = \<lparr>data = [], default_key = None\<rparr>, file_path = file_in demo_dir DEFAULT_KEYSTORE_NAME\<rparr>, demo_fs)"

lemma demo_pks_inv [simp]: "pks_inv demo_keys demo_pks"
  by (simp add: pks_inv_def demo_pks_def mem_inv_def writable_def demo_fs_def is_dir_def
      empty_path_def demo_dir_def) (simp add: file_in_def DEFAULT_KEYSTORE_NAME_def)

section \<open>Properties\<close>

text \<open>C14: Storing a key in a persistent store succeeds and leaves a file from which a new
  process restores exactly the store in memory, with the key in it, every other key kept, and
  the same default key.\<close>

theorem pks_put_durable:
  assumes inv: "pks_inv K w" and ok: "codec_ok L K J"
    and key: "key_of K i = Some k" "k \<noteq> dflt_key K"
  shows "\<exists>w'. pks_put L K J i w = (Ok k, w')
     \<and> pks_new L K J (file_path (fst w)) (snd w') = Ok (fst w')
     \<and> pks_get k (fst w') = Ok (Some i)
     \<and> (\<forall>k'. k' = k \<or> pks_get k' (fst w') = pks_get k' (fst w))
     \<and> default_key (memory (fst w')) = default_key (memory (fst w))"
proof -
  obtain w' where "pks_put L K J i w = (Ok k, w')" "pks_new L K J (file_path (fst w)) (snd w') = Ok (fst w')"
      "memory (fst w') = (memory (fst w))\<lparr>data := AList.update k i (data (memory (fst w)))\<rparr>"
    using pks_put_run [OF inv ok key] by metis
  then show ?thesis by (simp add: pks_get_def mem_get_def map_of_update)
qed

lemma pks_put_durable_witness:
  "\<exists>w'. pks_put demo_libs demo_keys demo_json \<lparr>private_key = replicate 20 7\<rparr> demo_pks = (Ok (replicate 20 7), w')
     \<and> pks_new demo_libs demo_keys demo_json (file_path (fst demo_pks)) (snd w') = Ok (fst w')
     \<and> pks_get (replicate 20 7) (fst w') = Ok (Some \<lparr>private_key = replicate 20 7\<rparr>)"
proof -
  have "key_of demo_keys \<lparr>private_key = replicate 20 7\<rparr> = Some (replicate 20 7)"
    "replicate 20 7 \<noteq> dflt_key demo_keys"
    by (simp_all add: demo_keys_def eth_key_ops_def demo_wallet_address_def eth_key_default_def)
  from pks_put_durable [OF demo_pks_inv demo_codec_ok this] show ?thesis by blast
qed

text \<open>Removing the default key from a persistent store also removes the default: no entry
  is left under that key or under the default key, \<open>get_default\<close> finds nothing, and the file
  restores that state.\<close>

lemma pks_remove_default:
  assumes inv: "pks_inv K w" and ok: "codec_ok L K J"
    and k: "k \<noteq> dflt_key K" "default_key (memory (fst w)) = Some k"
  shows "\<exists>w'. pks_remove L K J k w = (Ok (), w')
     \<and> pks_get k (fst w') = Ok None \<and> pks_get (dflt_key K) (fst w') = Ok None
     \<and> fst (pks_get_default L K J w') = Ok None
     \<and> pks_new L K J (file_path (fst w)) (snd w') = Ok (fst w')"
proof -
  let ?mem = "snd (mem_remove K k (memory (fst w)))"
  have m: "mem_inv K (memory (fst w))" using inv by (simp add: pks_inv_def)
  have "mem_remove K k (memory (fst w)) = (Ok (), ?mem)" using k(2) by (simp add: mem_remove_run(2))
  then obtain w' where w': "pks_remove L K J k w = (Ok (), w')" "memory (fst w') = ?mem"
      "pks_new L K J (file_path (fst w)) (snd w') = Ok (fst w')"
    using pks_step [OF inv ok _ mem_remove_inv [OF m k(1)]] unfolding pks_ops_via_step by metis
  have "fst (pks_get_default L K J w') = Ok None"
    using pks.removed_default [OF conjI [OF inv ok] k(1)] k(2) w'(1) by (auto simp: pks_default_def)
  with w' show ?thesis by (simp add: pks_get_def mem_get_def mem_remove_run(2) [OF k(2)] map_of_delete)
qed

text \<open>After \<open>set_default\<close> of a stored key \<open>get_default\<close> returns that key; a key that
  is not in the store is refused and nothing changes.\<close>

lemma pks_set_default_spec:
  assumes inv: "pks_inv K w" and ok: "codec_ok L K J" and k: "k \<noteq> dflt_key K"
  shows "(case map_of (data (memory (fst w))) k of
       Some i \<Rightarrow> fst (pks_set_default L K J k w) = Ok () \<and>
                 fst (pks_get_default L K J (snd (pks_set_default L K J k w))) = Ok (Some k)
     | None \<Rightarrow> pks_set_default L K J k w = (Err ''can't set default key: not found in keystore'', w))"
proof (cases "map_of (data (memory (fst w))) k")
  case None
  then show ?thesis
    by (cases w) (simp add: pks_set_default_def in_memory_def mem_set_default_def bind_io_def)
next
  case (Some i)
  then have l: "pks_lookup w k = Some i" by (simp add: pks_lookup_def)
  obtain w' where "pks_set_default L K J k w = (Ok (), w')"
    using pks.set_default_law [OF conjI [OF inv ok] k l] by blast
  with pks.set_then_get_default [OF conjI [OF inv ok] k l] Some show ?thesis by simp
qed

end
