(* ===== verification/Subnet_Id.thy ===== *)
theory Subnet_Id
  imports Libs "HOL-Library.Sublist"
begin

text \<open>
  \<open>ipc/sdk/src/subnet_id.rs\<close> and \<open>ipc/sdk/src/error.rs\<close>: the identifier of a subnet, its
  place in the hierarchy of subnets and its textual form. The abstract view is the tree order
  \<open>is_ancestor\<close>; the lemmas show that \<open>common_parent\<close> is the meet of that order and
  that \<open>parent\<close>, \<open>down\<close> and \<open>up\<close> move one level along it.
\<close>

section \<open>Data\<close>

datatype sdk_error = InvalidID | InvalidIPCAddr | FVMAddressError string

fun sdk_error_display :: "sdk_error \<Rightarrow> string" where
  "sdk_error_display InvalidID = ''invalid subnet id''"
| "sdk_error_display InvalidIPCAddr = ''invalid IPC address''"
| "sdk_error_display (FVMAddressError e) = ''fvm shared address error''"

record 'a subnet_id =
  root :: u64
  children :: "'a list"

definition MAX_CHAIN_ID :: u64 where
  "MAX_CHAIN_ID = 4503599627370476"

definition UNDEF :: "'a subnet_id" where
  "UNDEF = \<lparr>root = 0, children = []\<rparr>"

section \<open>Operations\<close>

definition subnet_new :: "u64 \<Rightarrow> 'a list \<Rightarrow> 'a subnet_id" where
  "subnet_new root_id cs = \<lparr>root = root_id, children = cs\<rparr>"

definition new_from_parent :: "'a subnet_id \<Rightarrow> 'a \<Rightarrow> 'a subnet_id" where
  "new_from_parent parent subnet_act = \<lparr>root = root parent, children = children parent @ [subnet_act]\<rparr>"

definition new_root :: "u64 \<Rightarrow> 'a subnet_id" where
  "new_root root_id = \<lparr>root = root_id, children = []\<rparr>"

definition is_root :: "'a subnet_id \<Rightarrow> bool" where
  "is_root s \<longleftrightarrow> children s = []"

text \<open>The \<open>Display\<close> implementation.\<close>

definition subnet_to_string :: "'a libs \<Rightarrow> 'a subnet_id \<Rightarrow> string" where
  "subnet_to_string L s =
     ''/r'' @ show_u64 (root s) @ foldl (\<lambda>output c. output @ ''/'' @ addr_to_string L c) [] (children s)"

definition chain_id :: "'a libs \<Rightarrow> 'a subnet_id \<Rightarrow> u64" where
  "chain_id L s =
     (if is_root s then root s else fnv_hash L (subnet_to_string L s) mod MAX_CHAIN_ID)"

definition f0_id :: "('a \<Rightarrow> 'a option) \<Rightarrow> 'a subnet_id \<Rightarrow> 'a subnet_id" where
  "f0_id resolve_address s =
     (let cs = children s in
      subnet_new (root s)
        (if cs = [] then cs
         else case resolve_address (last cs) of
                Some f0 \<Rightarrow> cs[length cs - 1 := f0]
              | None \<Rightarrow> cs))"

definition subnet_actor :: "'a libs \<Rightarrow> 'a subnet_id \<Rightarrow> 'a" where
  "subnet_actor L s = (if children s \<noteq> [] then last (children s) else addr_new_id L 0)"

definition parent :: "'a subnet_id \<Rightarrow> 'a subnet_id option" where
  "parent s =
     (if children s = [] then None
      else Some (subnet_new (root s) (take (length (children s) - 1) (children s))))"

definition common_parent :: "'a subnet_id \<Rightarrow> 'a subnet_id \<Rightarrow> (nat \<times> 'a subnet_id) option" where
  "common_parent s other =
     (if root s \<noteq> root other then None
      else let common = length (takeWhile (\<lambda>(a, b). a = b) (zip (children s) (children other)))
           in Some (common, subnet_new (root s) (take common (children s))))"

text \<open>
  The slices \<open>[..i + 1]\<close> and \<open>[..i - 1]\<close>: a slice end beyond the length panics, and so
  does the subtraction below zero.
\<close>

definition slice_to :: "nat \<Rightarrow> 'b list \<Rightarrow> ('e, 'b list) res" where
  "slice_to n xs = (if n \<le> length xs then Ok (take n xs) else Panic ''range end index out of range'')"

definition down :: "'a subnet_id \<Rightarrow> 'a subnet_id \<Rightarrow> (sdk_error, 'a subnet_id option) res" where
  "down s from =
     (if length (children s) \<le> length (children from) then Ok None
      else case common_parent s from of
             Some (i, _) \<Rightarrow> and_then (slice_to (i + 1) (children s)) (\<lambda>cs. Ok (Some (subnet_new (root s) cs)))
           | None \<Rightarrow> Ok None)"

definition up :: "'a subnet_id \<Rightarrow> 'a subnet_id \<Rightarrow> (sdk_error, 'a subnet_id option) res" where
  "up s from =
     (if length (children s) < length (children from) then Ok None
      else case common_parent s from of
             Some (i, _) \<Rightarrow>
               if i = 0 then Panic ''attempt to subtract with overflow''
               else and_then (slice_to (i - 1) (children s)) (\<lambda>cs. Ok (Some (subnet_new (root s) cs)))
           | None \<Rightarrow> Ok None)"

text \<open>The \<open>FromStr\<close> implementation. \<open>l[0]\<close> panics when no segment is left.\<close>

definition subnet_from_str :: "'a libs \<Rightarrow> string \<Rightarrow> (sdk_error, 'a subnet_id) res" where
  "subnet_from_str L ids =
     (case filter (\<lambda>elem. elem \<noteq> []) (str_split (CHR ''/'') ids) of
        [] \<Rightarrow> Panic ''index out of bounds''
      | l0 # ls \<Rightarrow>
          and_then (str_from_1 l0) (\<lambda>digits.
          and_then (ok_or InvalidID (parse_u64 digits)) (\<lambda>rt.
            (case traverse (addr_from_str L) ls of
               Ok cs \<Rightarrow> Ok \<lparr>root = rt, children = cs\<rparr>
             | Err e \<Rightarrow> Err InvalidID
             | Panic p \<Rightarrow> Panic p))))"

lemmas subnet_defs = subnet_new_def new_from_parent_def new_root_def is_root_def UNDEF_def
  subnet_actor_def parent_def

section \<open>The subnet hierarchy\<close>

text \<open>The abstract order: \<open>p\<close> lies on the route from the root network to \<open>s\<close>.\<close>

definition is_ancestor :: "'a subnet_id \<Rightarrow> 'a subnet_id \<Rightarrow> bool" where
  "is_ancestor p s \<longleftrightarrow> root p = root s \<and> prefix (children p) (children s)"

lemma subnet_id_eqI: "root s = root t \<Longrightarrow> children s = children t \<Longrightarrow> (s :: 'a subnet_id) = t"
  by (cases s; cases t) simp

lemma is_ancestor_refl [simp]: "is_ancestor s s"
  by (simp add: is_ancestor_def)

lemma is_ancestor_trans: "is_ancestor p q \<Longrightarrow> is_ancestor q s \<Longrightarrow> is_ancestor p s"
  by (auto simp: is_ancestor_def)

lemma is_ancestor_antisym: "is_ancestor p (s :: 'a subnet_id) \<Longrightarrow> is_ancestor s p \<Longrightarrow> p = s"
  by (auto simp: is_ancestor_def intro: subnet_id_eqI)

lemma parent_Some_iff:
  "parent s = Some p \<longleftrightarrow> (\<exists>a. s = new_from_parent (p :: 'a subnet_id) a)"
  by (cases s; cases p; cases "children s" rule: rev_cases) (auto simp: subnet_defs)

text \<open>The count of equal leading children is the length of their longest common prefix.\<close>

definition common_len :: "'a list \<Rightarrow> 'a list \<Rightarrow> nat" where
  "common_len xs ys = length (takeWhile (\<lambda>(a, b). a = b) (zip xs ys))"

lemma common_len_le: "common_len xs ys \<le> length xs" "common_len xs ys \<le> length ys"
  unfolding common_len_def using length_takeWhile_le [of "\<lambda>(a, b). a = b" "zip xs ys"] by auto

lemma take_common_len: "take (common_len xs ys) xs = longest_common_prefix xs ys"
proof (induction xs arbitrary: ys)
  case (Cons x xs)
  then show ?case by (cases ys) (auto simp: common_len_def)
qed (simp add: common_len_def)

lemma length_longest_common_prefix: "length (longest_common_prefix xs ys) = common_len xs ys"
  using common_len_le(1) [of xs ys] by (simp flip: take_common_len)

lemma common_parent_unfold:
  "common_parent s t = (if root s \<noteq> root t then None else
     Some (common_len (children s) (children t),
           \<lparr>root = root s, children = longest_common_prefix (children s) (children t)\<rparr>))"
  by (simp add: common_parent_def Let_def subnet_new_def flip: common_len_def take_common_len)

lemma prefix_common_iff:
  "prefix zs (longest_common_prefix xs ys) \<longleftrightarrow> prefix zs xs \<and> prefix zs ys"
  using longest_common_prefix_prefix1 longest_common_prefix_prefix2
  by (metis longest_common_prefix_max_prefix prefix_order.order_trans)

lemma common_len_prefix: "prefix ys xs \<Longrightarrow> common_len xs ys = length ys"
  by (induction ys arbitrary: xs) (auto simp: common_len_def prefix_def)


section \<open>Text\<close>

lemma foldl_segments:
  "foldl (\<lambda>output c. output @ ''/'' @ g c) acc cs = acc @ concat (map (\<lambda>p. CHR ''/'' # p) (map g cs))"
  by (induction cs arbitrary: acc) auto

lemma subnet_to_string_segments:
  "subnet_to_string L s = concat (map (\<lambda>p. CHR ''/'' # p)
     ((CHR ''r'' # show_u64 (root s)) # map (addr_to_string L) (children s)))"
  using foldl_segments [where acc = "[]"] by (simp add: subnet_to_string_def)

lemma show_u64_seps: "CHR ''/'' \<notin> set (show_u64 n)" "CHR '':'' \<notin> set (show_u64 n)"
  using show_u64_free by fastforce+

lemma str_from_1_root: "str_from_1 (CHR ''r'' # show_u64 n) = Ok (show_u64 n)"
proof -
  obtain c cs where c: "show_u64 n = c # cs" by (cases "show_u64 n") auto
  then have "\<not> is_continuation c" using show_u64_free [of c n] by (simp add: is_continuation_def)
  with c show ?thesis by simp
qed

lemma subnet_segments:
  assumes "\<And>a. a \<in> set (children s) \<Longrightarrow> addr_ok L a"
  shows "filter (\<lambda>elem. elem \<noteq> []) (str_split (CHR ''/'') (subnet_to_string L s)) =
           (CHR ''r'' # show_u64 (root s)) # map (addr_to_string L) (children s)"
proof -
  have ok: "CHR ''/'' \<notin> set p"
    if "p \<in> set ((CHR ''r'' # show_u64 (root s)) # map (addr_to_string L) (children s))" for p
    using that assms show_u64_seps by (auto simp: addr_ok_def)
  have ne: "\<forall>p\<in>set (map (addr_to_string L) (children s)). p \<noteq> []"
    using assms by (auto simp: addr_ok_def)
  have "str_split (CHR ''/'') (subnet_to_string L s) =
      [] # (CHR ''r'' # show_u64 (root s)) # map (addr_to_string L) (children s)"
    unfolding subnet_to_string_segments by (rule str_split_segments) (rule ok)
  with filter_True [OF ne] show ?thesis by simp
qed

lemma traverse_addr_text:
  "(\<And>a. a \<in> set cs \<Longrightarrow> addr_ok L a) \<Longrightarrow>
   traverse (addr_from_str L) (map (addr_to_string L) cs) = Ok cs"
  by (induction cs) (simp_all add: addr_ok_def)

interpretation subnet_codec: codec "subnet_to_string L" "subnet_from_str L"
    "\<lambda>s. \<forall>a\<in>set (children s). addr_ok L a" for L :: "'a libs"
proof unfold_locales
  fix s :: "'a subnet_id"
  assume ok: "\<forall>a\<in>set (children s). addr_ok L a"
  have "traverse (addr_from_str L) (map (addr_to_string L) (children s)) = Ok (children s)"
    using ok by (intro traverse_addr_text) blast
  moreover have "filter (\<lambda>elem. elem \<noteq> []) (str_split (CHR ''/'') (subnet_to_string L s)) =
      (CHR ''r'' # show_u64 (root s)) # map (addr_to_string L) (children s)"
    by (rule subnet_segments) (use ok in blast)
  ultimately show "subnet_from_str L (subnet_to_string L s) = Ok s"
    by (simp add: subnet_from_str_def str_from_1_root)
qed

lemma subnet_to_string_no_colon:
  "(\<And>a. a \<in> set (children s) \<Longrightarrow> addr_ok L a) \<Longrightarrow> CHR '':'' \<notin> set (subnet_to_string L s)"
  using show_u64_seps by (auto simp: subnet_to_string_segments addr_ok_def)

section \<open>Properties\<close>

text \<open>C28: A subnet identifier printed with \<open>Display\<close> is read back by \<open>FromStr\<close>
  as the same identifier, for every root id and every route of printable addresses.\<close>

theorem subnet_id_roundtrip:
  assumes "\<forall>a\<in>set (children s). addr_ok L a"
  shows "subnet_from_str L (subnet_to_string L s) = Ok s"
  using assms by (rule subnet_codec.parse_print)

lemma subnet_id_roundtrip_witness:
  "subnet_from_str demo_libs (subnet_to_string demo_libs \<lparr>root = 123, children = [DemoId 1001, DemoId 7]\<rparr>)
     = Ok \<lparr>root = 123, children = [DemoId 1001, DemoId 7]\<rparr>"
  by (rule subnet_id_roundtrip) simp

text \<open>C13: \<open>common_parent\<close> is the meet of the hierarchy: it fails exactly for networks with
  different roots, its subnet is an ancestor of both arguments below which every common ancestor
  lies, and the index it returns is the depth of that subnet.\<close>

theorem common_parent_meet:
  "(common_parent s t = None \<longleftrightarrow> root s \<noteq> root t) \<and>
   (common_parent s t = Some (n, p) \<longleftrightarrow>
      n = length (children p) \<and> is_ancestor p s \<and> is_ancestor p t \<and>
      (\<forall>q :: 'a subnet_id. is_ancestor q s \<and> is_ancestor q t \<longrightarrow> is_ancestor q p))"
  (is "_ \<and> (?l \<longleftrightarrow> ?r)")
proof (rule conjI, simp add: common_parent_unfold, rule iffI)
  assume l: ?l
  then show ?r
    by (auto simp: common_parent_unfold is_ancestor_def prefix_common_iff
        length_longest_common_prefix longest_common_prefix_prefix1 longest_common_prefix_prefix2
        split: if_splits)
next
  assume r: ?r
  let ?m = "\<lparr>root = root s, children = longest_common_prefix (children s) (children t)\<rparr>"
  have m: "is_ancestor ?m s" "is_ancestor ?m t"
    using r longest_common_prefix_prefix1 longest_common_prefix_prefix2
    by (auto simp: is_ancestor_def)
  with r have "is_ancestor ?m p" by blast
  moreover have "is_ancestor p ?m" using r by (auto simp: is_ancestor_def prefix_common_iff)
  ultimately have "p = ?m" using is_ancestor_antisym by blast
  with r show ?l by (simp add: common_parent_unfold is_ancestor_def length_longest_common_prefix)
qed

lemma common_parent_meet_witness:
  "is_ancestor \<lparr>root = 5, children = [1 :: nat]\<rparr> \<lparr>root = 5, children = [1, 2]\<rparr>
   \<and> is_ancestor \<lparr>root = 5, children = [1 :: nat]\<rparr> \<lparr>root = 5, children = [1, 3]\<rparr>
   \<and> is_ancestor (new_root 5) \<lparr>root = 5, children = [1 :: nat]\<rparr>"
  using conjunct2 [OF common_parent_meet [of "\<lparr>root = 5, children = [1 :: nat, 2]\<rparr>"
      "\<lparr>root = 5, children = [1, 3]\<rparr>" 1 "\<lparr>root = 5, children = [1]\<rparr>"]]
  by (simp add: common_parent_def subnet_new_def new_root_def is_ancestor_def)

text \<open>Moving down from a proper ancestor \<open>from\<close> towards \<open>s\<close> never panics and yields
  the next subnet on the route: a child of \<open>from\<close> that is an ancestor of \<open>s\<close>.\<close>

lemma down_next_on_route:
  assumes "is_ancestor from s" and "from \<noteq> (s :: 'a subnet_id)"
  shows "\<exists>d. down s from = Ok (Some d) \<and> parent d = Some from \<and> is_ancestor d s"
proof -
  from assms(1) obtain zs where zs: "children s = children from @ zs" and rt: "root from = root s"
    by (auto simp: is_ancestor_def prefix_def)
  with assms(2) have "zs \<noteq> []" by (auto intro: subnet_id_eqI)
  then obtain a ys where "zs = a # ys" by (cases zs) auto
  with zs have s: "children s = children from @ a # ys" by simp
  then have "common_len (children s) (children from) = length (children from)"
    by (simp add: common_len_prefix)
  with s rt have "down s from = Ok (Some (new_from_parent from a))"
    by (simp add: down_def common_parent_unfold slice_to_def subnet_defs)
  moreover have "is_ancestor (new_from_parent from a) s"
    using s rt by (auto simp: is_ancestor_def subnet_defs)
  ultimately show ?thesis by (auto simp: parent_Some_iff)
qed

text \<open>C31: Moving up from an ancestor \<open>from\<close> of \<open>s\<close> yields the parent of \<open>from\<close>,
  except at the root network, where the subtraction in the slice bound underflows and the call
  panics.\<close>

theorem up_from_ancestor:
  assumes "is_ancestor from (s :: 'a subnet_id)"
  shows "up s from = (if is_root from then Panic ''attempt to subtract with overflow''
                      else Ok (parent from))"
proof -
  from assms obtain zs where zs: "children s = children from @ zs" and rt: "root from = root s"
    by (auto simp: is_ancestor_def prefix_def)
  then have "common_len (children s) (children from) = length (children from)"
    by (simp add: common_len_prefix)
  with zs rt show ?thesis
    by (simp add: up_def common_parent_unfold slice_to_def subnet_defs)
qed

lemma up_from_ancestor_witness:
  "up \<lparr>root = 5, children = [1 :: nat, 2]\<rparr> \<lparr>root = 5, children = [1]\<rparr> = Ok (Some \<lparr>root = 5, children = []\<rparr>)
   \<and> up \<lparr>root = 5, children = [1 :: nat, 2]\<rparr> \<lparr>root = 5, children = []\<rparr>
       = Panic ''attempt to subtract with overflow''"
  using up_from_ancestor [of "\<lparr>root = 5, children = [1]\<rparr>" "\<lparr>root = 5, children = [1 :: nat, 2]\<rparr>"]
    up_from_ancestor [of "\<lparr>root = 5, children = []\<rparr>" "\<lparr>root = 5, children = [1 :: nat, 2]\<rparr>"]
  by (simp add: is_ancestor_def is_root_def parent_def subnet_new_def)

text \<open>The chain id of a subnet below the root is within the range of chain ids Ethereum
  tools accept; the root network keeps its own id.\<close>

lemma chain_id_bound:
  "(is_root s \<longrightarrow> chain_id L s = root s) \<and> (\<not> is_root s \<longrightarrow> chain_id L s < MAX_CHAIN_ID)"
  by (simp add: chain_id_def MAX_CHAIN_ID_def word_mod_less_divisor)

text \<open>C40: Parsing a text with no segment between slashes panics instead of returning
  \<open>InvalidID\<close>, and it is the only way (besides a first segment whose second byte is not a
  character boundary, or a library panic) in which the parser can panic.\<close>

theorem subnet_from_str_panics:
  assumes "\<And>t. \<not> is_panic (addr_from_str L t)"
  shows "is_panic (subnet_from_str L s) \<longleftrightarrow>
     (case filter (\<lambda>e. e \<noteq> []) (str_split (CHR ''/'') s) of
        [] \<Rightarrow> True | l0 # ls \<Rightarrow> 2 \<le> length l0 \<and> is_continuation (l0 ! 1))"
proof (cases "filter (\<lambda>e. e \<noteq> []) (str_split (CHR ''/'') s)")
  case Nil
  then show ?thesis by (simp add: subnet_from_str_def)
next
  case (Cons l0 ls)
  have "\<not> is_panic (traverse (addr_from_str L) ls)" using assms by (rule traverse_not_panic)
  then have tail: "\<not> is_panic (case traverse (addr_from_str L) ls of
      Ok cs \<Rightarrow> Ok \<lparr>root = rt, children = cs\<rparr> | Err e \<Rightarrow> Err InvalidID | Panic p \<Rightarrow> Panic p)" for rt
    by (cases "traverse (addr_from_str L) ls") simp_all
  have "l0 \<in> set (filter (\<lambda>e. e \<noteq> []) (str_split (CHR ''/'') s))" unfolding Cons by simp
  then have "l0 \<noteq> []" by simp
  then have "is_panic (str_from_1 l0 :: (sdk_error, string) res)
      \<longleftrightarrow> 2 \<le> length l0 \<and> is_continuation (l0 ! 1)"
    by (cases l0 rule: str_from_1.cases) simp_all
  moreover have "is_panic (subnet_from_str L s) = is_panic (str_from_1 l0 :: (sdk_error, string) res)"
    unfolding subnet_from_str_def Cons list.case
    by (intro is_panic_and_then_eq) (simp add: is_panic_and_then tail)
  ultimately show ?thesis by (simp add: Cons)
qed

lemma subnet_from_str_panics_witness:
  "is_panic (subnet_from_str demo_libs ''//'')"
  using subnet_from_str_panics [of demo_libs "''//''"] by simp

end
