(* ===== verification/Ipc_Address.thy ===== *)
theory Ipc_Address
  imports Subnet_Id
begin

text \<open>
  \<open>ipc/sdk/src/address.rs\<close> and \<open>ipc/sdk/src/cross.rs\<close>: an address qualified by its
  subnet, and the messages between such addresses. The lemmas show the textual round trip and
  relate the direction of a message to the hierarchy of subnets.
\<close>

section \<open>Addresses\<close>

definition IPC_SEPARATOR_ADDR :: char where
  "IPC_SEPARATOR_ADDR = CHR '':''"

record 'a ipc_address =
  ipc_subnet :: "'a subnet_id"
  raw_address :: 'a

definition ipc_new :: "'a subnet_id \<Rightarrow> 'a \<Rightarrow> (sdk_error, 'a ipc_address) res" where
  "ipc_new sn addr = Ok \<lparr>ipc_subnet = sn, raw_address = addr\<rparr>"

definition subnet_of :: "'a ipc_address \<Rightarrow> (sdk_error, 'a subnet_id) res" where
  "subnet_of a = Ok (ipc_subnet a)"

definition raw_addr :: "'a ipc_address \<Rightarrow> (sdk_error, 'a) res" where
  "raw_addr a = Ok (raw_address a)"

definition ipc_to_string :: "'a libs \<Rightarrow> 'a ipc_address \<Rightarrow> (sdk_error, string) res" where
  "ipc_to_string L a =
     Ok (subnet_to_string L (ipc_subnet a) @ [IPC_SEPARATOR_ADDR] @ addr_to_string L (raw_address a))"

definition ipc_display :: "'a libs \<Rightarrow> 'a ipc_address \<Rightarrow> string" where
  "ipc_display L a =
     (subnet_to_string L (ipc_subnet a) @ [IPC_SEPARATOR_ADDR]) @ addr_to_string L (raw_address a)"

definition is_valid_contract_address :: "'a libs \<Rightarrow> 'a \<Rightarrow> bool" where
  "is_valid_contract_address L addr = (case protocol_of (addr_payload L addr) of
     Delegated \<Rightarrow> True | Actor \<Rightarrow> True | _ \<Rightarrow> False)"

definition is_valid_account_address :: "'a libs \<Rightarrow> 'a \<Rightarrow> bool" where
  "is_valid_account_address L addr = (case protocol_of (addr_payload L addr) of
     Delegated \<Rightarrow> True | BLS \<Rightarrow> True | Secp256k1 \<Rightarrow> True | ID \<Rightarrow> True | _ \<Rightarrow> False)"

definition ipc_from_str :: "'a libs \<Rightarrow> string \<Rightarrow> (sdk_error, 'a ipc_address) res" where
  "ipc_from_str L addr =
     (let r = str_split IPC_SEPARATOR_ADDR addr in
      if length r \<noteq> 2 then Err InvalidIPCAddr
      else and_then (map_err FVMAddressError (addr_from_str L (r ! 1))) (\<lambda>raw.
           and_then (subnet_from_str L (r ! 0)) (\<lambda>sn.
             Ok \<lparr>ipc_subnet = sn, raw_address = raw\<rparr>)))"

definition ipc_printable :: "'a libs \<Rightarrow> 'a ipc_address \<Rightarrow> bool" where
  "ipc_printable L a \<longleftrightarrow> addr_ok L (raw_address a) \<and> (\<forall>c\<in>set (children (ipc_subnet a)). addr_ok L c)"

interpretation ipc_codec: codec "ipc_display L" "ipc_from_str L" "ipc_printable L"
  for L :: "'a libs"
proof unfold_locales
  fix a :: "'a ipc_address"
  assume a: "ipc_printable L a"
  then have free: "IPC_SEPARATOR_ADDR \<notin> set (subnet_to_string L (ipc_subnet a))"
      "IPC_SEPARATOR_ADDR \<notin> set (addr_to_string L (raw_address a))"
    using subnet_to_string_no_colon [of "ipc_subnet a" L]
    by (auto simp: ipc_printable_def addr_ok_def IPC_SEPARATOR_ADDR_def)
  have "str_split IPC_SEPARATOR_ADDR (ipc_display L a) =
      [subnet_to_string L (ipc_subnet a), addr_to_string L (raw_address a)]"
    using free by (simp add: ipc_display_def str_split_append str_split_free)
  moreover have "subnet_from_str L (subnet_to_string L (ipc_subnet a)) = Ok (ipc_subnet a)"
    using a by (intro subnet_codec.parse_print) (simp add: ipc_printable_def)
  ultimately show "ipc_from_str L (ipc_display L a) = Ok a"
    using a by (simp add: ipc_from_str_def Let_def ipc_printable_def addr_ok_def)
qed

section \<open>Cross-network messages\<close>

record 'a storable_msg =
  msg_from :: "'a ipc_address"
  msg_to :: "'a ipc_address"
  msg_method :: u64
  msg_params :: bytes
  msg_value :: int
  msg_nonce :: u64
  msg_fee :: int

record 'a cross_msg =
  msg :: "'a storable_msg"
  wrapped :: bool

datatype ipc_msg_type = BottomUp | TopDown

record 'a cross_msgs =
  msgs :: "'a cross_msg list"

definition cross_msgs_new :: "'a cross_msgs" where
  "cross_msgs_new = \<lparr>msgs = []\<rparr>"

text \<open>
  \<open>CrossMsg::send\<close> of the feature \<open>fil-actor\<close>. The runtime an actor runs in and the
  CBOR encoding are parameters; a block of data is the type \<open>'b\<close>.
\<close>

record ('w, 'a, 'b) actor_runtime =
  rt_send :: "'a \<Rightarrow> u64 \<Rightarrow> 'b option \<Rightarrow> int \<Rightarrow> ('w, 'b option) io"
  block_of_raw :: "bytes \<Rightarrow> 'b option"
  block_data :: "'b \<Rightarrow> bytes"
  serialize_apply_msg :: "'a cross_msg \<Rightarrow> (string, 'b option) res"

definition cross_msg_send :: "('w, 'a, 'b) actor_runtime \<Rightarrow> 'a \<Rightarrow> 'a cross_msg \<Rightarrow> ('w, bytes) io" where
  "cross_msg_send R rto c =
     bind_io
       (if \<not> wrapped c
        then rt_send R rto (msg_method (msg c)) (block_of_raw R (msg_params (msg c))) (msg_value (msg c))
        else bind_io (lift (serialize_apply_msg R c)) (\<lambda>params.
               rt_send R rto (msg_method (msg c)) params (msg_value (msg c))))
       (\<lambda>blk. ret (case blk of Some b \<Rightarrow> block_data R b | None \<Rightarrow> []))"

text \<open>Wrapped or not, a message that is sent reaches the given actor with its own method and value, and
  the outcome is that of the runtime.\<close>

lemma cross_msg_send_once:
  assumes "\<not> wrapped c \<and> params = block_of_raw R (msg_params (msg c)) \<or> wrapped c \<and> serialize_apply_msg R c = Ok params"
    and "rt_send R rto (msg_method (msg c)) params (msg_value (msg c)) w = (r, w')"
  shows "snd (cross_msg_send R rto c w) = w'" "is_ok (fst (cross_msg_send R rto c w)) = is_ok r"
  using assms by (auto simp: cross_msg_send_def io_defs split: res.splits)

text \<open>The \<open>?\<close> on an SDK error inside an \<open>anyhow::Result\<close> keeps its message.\<close>

definition anyhow_sdk :: "(sdk_error, 'b) res \<Rightarrow> (string, 'b) res" where
  "anyhow_sdk r = map_err sdk_error_display r"

definition new_release_msg ::
    "'a libs \<Rightarrow> 'a subnet_id \<Rightarrow> 'a \<Rightarrow> 'a \<Rightarrow> int \<Rightarrow> int \<Rightarrow> (string, 'a storable_msg) res" where
  "new_release_msg L sub_id from to val fee =
     and_then (ok_or ''error getting parent for subnet addr'' (parent sub_id)) (\<lambda>s.
     and_then (anyhow_sdk (ipc_new s to)) (\<lambda>to'.
     and_then (anyhow_sdk (ipc_new sub_id from)) (\<lambda>from'.
       Ok \<lparr>msg_from = from', msg_to = to', msg_method = METHOD_SEND L, msg_params = [],
           msg_value = val, msg_nonce = 0, msg_fee = fee\<rparr>)))"

definition new_fund_msg ::
    "'a libs \<Rightarrow> 'a subnet_id \<Rightarrow> 'a \<Rightarrow> 'a \<Rightarrow> int \<Rightarrow> (string, 'a storable_msg) res" where
  "new_fund_msg L sub_id from to val =
     and_then (ok_or ''error getting parent for subnet addr'' (parent sub_id)) (\<lambda>s.
     and_then (anyhow_sdk (ipc_new s from)) (\<lambda>from'.
     and_then (anyhow_sdk (ipc_new sub_id to)) (\<lambda>to'.
       Ok \<lparr>msg_from = from', msg_to = to', msg_method = METHOD_SEND L, msg_params = [],
           msg_value = val, msg_nonce = 0, msg_fee = 0\<rparr>)))"

definition is_bottomup :: "'a subnet_id \<Rightarrow> 'a subnet_id \<Rightarrow> bool" where
  "is_bottomup from to =
     (case common_parent from to of
        Some (index, _) \<Rightarrow> length (children from) > index
      | None \<Rightarrow> False)"

definition ipc_type :: "'a storable_msg \<Rightarrow> (string, ipc_msg_type) res" where
  "ipc_type s =
     and_then (anyhow_sdk (subnet_of (msg_to s))) (\<lambda>sto.
     and_then (anyhow_sdk (subnet_of (msg_from s))) (\<lambda>sfrom.
       if is_bottomup sfrom sto then Ok BottomUp else Ok TopDown))"

definition apply_type :: "'a storable_msg \<Rightarrow> 'a subnet_id \<Rightarrow> (string, ipc_msg_type) res" where
  "apply_type s cur =
     and_then (anyhow_sdk (subnet_of (msg_to s))) (\<lambda>sto.
     and_then (anyhow_sdk (subnet_of (msg_from s))) (\<lambda>sfrom.
       if common_parent cur sto = common_parent sfrom sto then
         and_then (ipc_type s) (\<lambda>ty. if ty = BottomUp then Ok BottomUp else Ok TopDown)
       else Ok TopDown))"

lemmas cross_defs = new_release_msg_def new_fund_msg_def ipc_type_def apply_type_def ipc_new_def
  subnet_of_def raw_addr_def anyhow_sdk_def

section \<open>Direction of messages\<close>

text \<open>A message climbs exactly when its source does not lie on the route to its target.\<close>

lemma is_bottomup_iff: "is_bottomup s t \<longleftrightarrow> root s = root t \<and> \<not> is_ancestor s t"
proof (cases "root s = root t")
  case True
  have "length (children s) > common_len (children s) (children t) \<longleftrightarrow>
        \<not> prefix (children s) (children t)"
  proof
    assume lt: "length (children s) > common_len (children s) (children t)"
    show "\<not> prefix (children s) (children t)"
    proof
      assume "prefix (children s) (children t)"
      then have "longest_common_prefix (children s) (children t) = children s"
        by (metis longest_common_prefix_prefix1 prefix_common_iff prefix_order.antisym
            prefix_order.refl)
      with lt show False by (simp flip: length_longest_common_prefix)
    qed
  next
    assume np: "\<not> prefix (children s) (children t)"
    have "common_len (children s) (children t) \<noteq> length (children s)"
    proof
      assume "common_len (children s) (children t) = length (children s)"
      then have "children s = longest_common_prefix (children s) (children t)"
        using take_common_len [of "children s" "children t"] by simp
      with np show False using longest_common_prefix_prefix2 by metis
    qed
    with common_len_le(1) [of "children s" "children t"]
    show "length (children s) > common_len (children s) (children t)" by simp
  qed
  with True show ?thesis by (simp add: is_bottomup_def common_parent_unfold is_ancestor_def)
qed (simp add: is_bottomup_def common_parent_unfold)

lemma parent_is_ancestor: "parent s = Some p \<Longrightarrow> is_ancestor p s"
  by (auto simp: parent_Some_iff is_ancestor_def new_from_parent_def)

lemma not_ancestor_parent: "parent s = Some p \<Longrightarrow> \<not> is_ancestor s p"
  by (auto simp: parent_Some_iff is_ancestor_def new_from_parent_def dest: prefix_length_le)

section \<open>Properties\<close>

text \<open>An IPC address printed with \<open>Display\<close> (the same text as \<open>to_string\<close>) is
  read back by \<open>FromStr\<close> as the same address.\<close>

lemma ipc_address_roundtrip:
  assumes "ipc_printable L a"
  shows "ipc_to_string L a = Ok (ipc_display L a) \<and> ipc_from_str L (ipc_display L a) = Ok a"
  using ipc_codec.parse_print [OF assms] by (simp add: ipc_to_string_def ipc_display_def)

text \<open>A release message exists exactly for a subnet that has a parent; it goes from the
  subnet to its parent, carries the amount and the fee, and is classified bottom-up. The fund
  message is its mirror image, free of charge, and classified top-down. At the root network
  both constructors fail.\<close>

lemma fund_release_direction:
  "(case parent (s :: 'a subnet_id) of
      None \<Rightarrow> new_release_msg L s from to v fee = Err ''error getting parent for subnet addr''
              \<and> new_fund_msg L s from to v = Err ''error getting parent for subnet addr''
    | Some p \<Rightarrow>
        (\<exists>r f. new_release_msg L s from to v fee = Ok r \<and> new_fund_msg L s from to v = Ok f
           \<and> msg_from r = \<lparr>ipc_subnet = s, raw_address = from\<rparr> \<and> msg_to r = \<lparr>ipc_subnet = p, raw_address = to\<rparr>
           \<and> msg_from f = \<lparr>ipc_subnet = p, raw_address = from\<rparr> \<and> msg_to f = \<lparr>ipc_subnet = s, raw_address = to\<rparr>
           \<and> msg_value r = v \<and> msg_value f = v \<and> msg_fee r = fee \<and> msg_fee f = 0
           \<and> ipc_type r = Ok BottomUp \<and> ipc_type f = Ok TopDown))"
proof (cases "parent s")
  case (Some p)
  then have "is_bottomup s p" "\<not> is_bottomup p s"
    using not_ancestor_parent [OF Some] parent_is_ancestor [OF Some]
    by (auto simp: is_bottomup_iff is_ancestor_def)
  with Some show ?thesis by (simp add: cross_defs)
qed (simp add: cross_defs)

text \<open>A message is applied bottom-up at \<open>cur\<close> exactly when source and target share
  their root, the source is not on the route to the target, and \<open>cur\<close> meets the target where
  the source does; otherwise it is applied top-down. Classification never fails.\<close>

lemma apply_type_spec:
  "apply_type m cur =
     Ok (if common_parent cur (ipc_subnet (msg_to m)) =
              common_parent (ipc_subnet (msg_from m)) (ipc_subnet (msg_to m))
            \<and> root (ipc_subnet (msg_from m)) = root (ipc_subnet (msg_to m))
            \<and> \<not> is_ancestor (ipc_subnet (msg_from m)) (ipc_subnet (msg_to m))
         then BottomUp else TopDown)"
  by (simp add: cross_defs is_bottomup_iff)

end
