(* ===== verification/Evm_Convert.thy ===== *)
theory Evm_Convert
  imports Ipc_Address
begin

text \<open>
  The data types of \<open>ipc/sdk/src/{checkpoint,staking,validator,gateway,subnet}.rs\<close> and the
  conversions of \<open>ipc/sdk/src/{evm,lib,staking,validator}.rs\<close> between them and the structs
  of the Solidity contracts. The contract structs are the records prefixed \<open>evm_\<close>; the
  binding generator emits one copy per facet and the conversion macros are instantiated for
  each, so one copy stands for all. The lemmas show what a value looks like after a trip
  through the contract encoding and back.
\<close>

section \<open>Data of the SDK\<close>

type_synonym signature = bytes

record quorum_reached_event =
  qe_height :: int
  qe_checkpoint :: bytes
  quorum_weight :: int

record 'a bottom_up_checkpoint =
  cp_subnet_id :: "'a subnet_id"
  block_height :: int
  block_hash :: bytes
  next_configuration_number :: u64
  cross_messages_hash :: bytes

record 'a bottom_up_checkpoint_bundle =
  checkpoint :: "'a bottom_up_checkpoint"
  signatures :: "signature list"
  signatories :: "'a list"
  cross_msg_list :: "'a cross_msg list"

datatype staking_operation = Deposit | Withdraw | SetMetadata

record 'a staking_change =
  sc_op :: staking_operation
  sc_payload :: bytes
  sc_validator :: 'a

record 'a staking_change_request =
  configuration_number :: u64
  change :: "'a staking_change"

record validator_staking_info =
  confirmed_collateral :: int
  total_collateral :: int
  metadata :: bytes

record validator_info =
  staking :: validator_staking_info
  is_active :: bool
  is_waiting :: bool

record 'a validator =
  val_addr :: 'a
  val_metadata :: bytes
  val_weight :: int

datatype consensus_type = Mir

record 'a construct_params =
  par_parent :: "'a subnet_id"
  ipc_gateway_addr :: 'a
  consensus :: consensus_type
  min_validator_stake :: int
  min_validators :: u64
  bottomup_check_period :: int
  active_validators_limit :: u16
  min_cross_msg_fee :: int

datatype status = Active | Inactive | Killed

text \<open>The parameters of actor messages; the representation of a content identifier is the library's.\<close>

record 'a fund_params =
  fund_subnet :: "'a subnet_id"
  fund_to :: 'a

record 'a release_params =
  release_to :: 'a

record 'i propagate_params =
  postbox_cid :: 'i

record join_params =
  join_validator_net_addr :: string

definition MANIFEST_ID :: string where
  "MANIFEST_ID = ''ipc_subnet_actor''"

fun staking_operation_of :: "u8 \<Rightarrow> staking_operation" where
  "staking_operation_of v = (if v = 0 then Deposit else if v = 1 then Withdraw else SetMetadata)"

fun staking_operation_code :: "staking_operation \<Rightarrow> u8" where
  "staking_operation_code Deposit = 0"
| "staking_operation_code Withdraw = 1"
| "staking_operation_code SetMetadata = 2"

definition show_quorum_reached_event :: "'a libs \<Rightarrow> quorum_reached_event \<Rightarrow> string" where
  "show_quorum_reached_event L e =
     ''QuorumReachedEvent<height: '' @ show_int (qe_height e) @ '', checkpoint: ''
     @ hex_encode L (qe_checkpoint e) @ '', quorum_weight: '' @ token_display L (quorum_weight e) @ ''>''"

definition show_validator_staking_info :: "'a libs \<Rightarrow> validator_staking_info \<Rightarrow> string" where
  "show_validator_staking_info L v =
     ''ValidatorStaking(confirmed_collateral: '' @ token_display L (confirmed_collateral v)
     @ '', total_collateral: '' @ token_display L (total_collateral v)
     @ '', metadata: 0x'' @ hex_encode L (metadata v) @ '')''"

definition show_validator_info :: "'a libs \<Rightarrow> validator_info \<Rightarrow> string" where
  "show_validator_info L v =
     ''ValidatorInfo(staking: '' @ show_validator_staking_info L (staking v)
     @ '', is_active: '' @ show_bool (is_active v) @ '', is_waiting: '' @ show_bool (is_waiting v) @ '')''"

section \<open>Structs of the contracts\<close>

record evm_subnet_id =
  evm_root :: u64
  evm_route :: "bytes list"

record evm_ipc_address =
  evm_ia_subnet_id :: evm_subnet_id
  evm_raw_address :: bytes

record evm_storable_msg =
  evm_from :: evm_ipc_address
  evm_to :: evm_ipc_address
  evm_value :: u256
  evm_nonce :: u64
  evm_method :: bytes
  evm_params :: bytes
  evm_fee :: u256

record evm_cross_msg =
  evm_message :: evm_storable_msg
  evm_wrapped :: bool

record evm_checkpoint =
  evm_cp_subnet_id :: evm_subnet_id
  evm_block_height :: u64
  evm_block_hash :: bytes
  evm_next_configuration_number :: u64
  evm_cross_messages_hash :: bytes

record evm_staking_change =
  evm_op :: u8
  evm_payload :: bytes
  evm_sc_validator :: bytes

record evm_staking_change_request =
  evm_change :: evm_staking_change
  evm_configuration_number :: u64

record evm_validator =
  evm_addr :: bytes
  evm_weight :: u256
  evm_metadata :: bytes

record evm_validator_info =
  evm_confirmed_collateral :: u256
  evm_total_collateral :: u256
  evm_vi_metadata :: bytes

section \<open>Conversions\<close>

definition eth_to_fil_amount :: "'a libs \<Rightarrow> u256 \<Rightarrow> (string, int) res" where
  "eth_to_fil_amount L amount = bigint_from_str L (u256_to_string L amount)"

definition fil_to_eth_amount :: "'a libs \<Rightarrow> int \<Rightarrow> (string, u256) res" where
  "fil_to_eth_amount L amount = u256_from_dec_str L (bigint_to_string L amount)"

definition ethers_address_to_fil_address :: "'a libs \<Rightarrow> bytes \<Rightarrow> (string, 'a) res" where
  "ethers_address_to_fil_address L addr =
     and_then (eth_from_str L (h160_debug L addr)) (\<lambda>eth_addr. Ok (addr_from_eth L eth_addr))"

fun payload_to_evm_address :: "payload \<Rightarrow> (string, bytes) res" where
  "payload_to_evm_address (PayloadDelegated ns subaddress) =
     (if length subaddress < 20 then Panic ''range end index 20 out of range''
      else Ok (take 20 subaddress))"
| "payload_to_evm_address _ = Err ''address provided is not delegated''"

definition subnet_id_to_evm_addresses :: "'a libs \<Rightarrow> 'a subnet_id \<Rightarrow> (string, bytes list) res" where
  "subnet_id_to_evm_addresses L subnet =
     traverse (\<lambda>addr. payload_to_evm_address (addr_payload L addr)) (children subnet)"

definition vec_to_bytes32 :: "bytes \<Rightarrow> (string, bytes) res" where
  "vec_to_bytes32 v = (if length v \<noteq> 32 then Err ''invalid length'' else Ok v)"

definition subnet_id_to_evm :: "'a libs \<Rightarrow> 'a subnet_id \<Rightarrow> (string, evm_subnet_id) res" where
  "subnet_id_to_evm L subnet =
     and_then (subnet_id_to_evm_addresses L subnet) (\<lambda>route.
       Ok \<lparr>evm_root = root subnet, evm_route = route\<rparr>)"

definition subnet_id_from_evm :: "'a libs \<Rightarrow> evm_subnet_id \<Rightarrow> (string, 'a subnet_id) res" where
  "subnet_id_from_evm L v =
     and_then (traverse (ethers_address_to_fil_address L) (evm_route v)) (\<lambda>cs.
       Ok (subnet_new (evm_root v) cs))"

definition ipc_address_to_evm :: "'a libs \<Rightarrow> 'a ipc_address \<Rightarrow> (string, evm_ipc_address) res" where
  "ipc_address_to_evm L v =
     and_then (anyhow_sdk (subnet_of v)) (\<lambda>sn.
     and_then (subnet_id_to_evm L sn) (\<lambda>esn.
     and_then (anyhow_sdk (raw_addr v)) (\<lambda>raw.
     and_then (addr_to_abi L raw) (\<lambda>abi.
       Ok \<lparr>evm_ia_subnet_id = esn, evm_raw_address = abi\<rparr>))))"

definition ipc_address_from_evm :: "'a libs \<Rightarrow> evm_ipc_address \<Rightarrow> (string, 'a ipc_address) res" where
  "ipc_address_from_evm L v =
     and_then (addr_from_abi L (evm_raw_address v)) (\<lambda>addr.
     and_then (subnet_id_from_evm L (evm_ia_subnet_id v)) (\<lambda>sn.
       anyhow_sdk (ipc_new sn addr)))"

text \<open>The method number is cut to 32 bits (\<open>as u32\<close>) and sent as four big-endian bytes.\<close>

definition storable_msg_to_evm :: "'a libs \<Rightarrow> 'a storable_msg \<Rightarrow> (string, evm_storable_msg) res" where
  "storable_msg_to_evm L v =
     and_then (fil_to_eth_amount L (msg_value v)) (\<lambda>msg_val.
     and_then (fil_to_eth_amount L (msg_fee v)) (\<lambda>fee.
     and_then (map_err (\<lambda>e. ''cannot convert `from` ipc address msg due to: '' @ e)
                (ipc_address_to_evm L (msg_from v))) (\<lambda>from.
     and_then (map_err (\<lambda>e. ''cannot convert `to`` ipc address due to: '' @ e)
                (ipc_address_to_evm L (msg_to v))) (\<lambda>to.
       Ok \<lparr>evm_from = from, evm_to = to, evm_value = msg_val, evm_nonce = msg_nonce v,
           evm_method = be_bytes 4 (unat (ucast (msg_method v) :: u32)),
           evm_params = msg_params v, evm_fee = fee\<rparr>))))"

definition storable_msg_from_evm :: "'a libs \<Rightarrow> evm_storable_msg \<Rightarrow> (string, 'a storable_msg) res" where
  "storable_msg_from_evm L v =
     and_then (ipc_address_from_evm L (evm_from v)) (\<lambda>from.
     and_then (ipc_address_from_evm L (evm_to v)) (\<lambda>to.
     and_then (eth_to_fil_amount L (evm_value v)) (\<lambda>val.
     and_then (eth_to_fil_amount L (evm_fee v)) (\<lambda>fee.
       Ok \<lparr>msg_from = from, msg_to = to,
           msg_method = ucast (of_nat (from_be (evm_method v)) :: u32),
           msg_params = evm_params v, msg_value = val, msg_nonce = evm_nonce v, msg_fee = fee\<rparr>))))"

definition cross_msg_to_evm :: "'a libs \<Rightarrow> 'a cross_msg \<Rightarrow> (string, evm_cross_msg) res" where
  "cross_msg_to_evm L v =
     and_then (map_err (\<lambda>e. ''cannot convert storable msg due to: '' @ e)
                (storable_msg_to_evm L (msg v))) (\<lambda>message.
       Ok \<lparr>evm_message = message, evm_wrapped = wrapped v\<rparr>)"

definition cross_msg_from_evm :: "'a libs \<Rightarrow> evm_cross_msg \<Rightarrow> (string, 'a cross_msg) res" where
  "cross_msg_from_evm L v =
     and_then (storable_msg_from_evm L (evm_message v)) (\<lambda>m.
       Ok \<lparr>msg = m, wrapped = evm_wrapped v\<rparr>)"

text \<open>\<open>as u64\<close> and \<open>as ChainEpoch\<close> reinterpret the 64 bits.\<close>

definition checkpoint_to_evm :: "'a libs \<Rightarrow> 'a bottom_up_checkpoint \<Rightarrow> (string, evm_checkpoint) res" where
  "checkpoint_to_evm L c =
     and_then (subnet_id_to_evm L (cp_subnet_id c)) (\<lambda>sn.
     and_then (vec_to_bytes32 (block_hash c)) (\<lambda>bh.
     and_then (vec_to_bytes32 (cross_messages_hash c)) (\<lambda>ch.
       Ok \<lparr>evm_cp_subnet_id = sn, evm_block_height = word_of_int (block_height c),
           evm_block_hash = bh, evm_next_configuration_number = next_configuration_number c,
           evm_cross_messages_hash = ch\<rparr>)))"

definition checkpoint_from_evm :: "'a libs \<Rightarrow> evm_checkpoint \<Rightarrow> (string, 'a bottom_up_checkpoint) res" where
  "checkpoint_from_evm L v =
     and_then (subnet_id_from_evm L (evm_cp_subnet_id v)) (\<lambda>sn.
       Ok \<lparr>cp_subnet_id = sn, block_height = sint (evm_block_height v),
           block_hash = evm_block_hash v,
           next_configuration_number = evm_next_configuration_number v,
           cross_messages_hash = evm_cross_messages_hash v\<rparr>)"

definition staking_change_to_evm :: "'a libs \<Rightarrow> 'a staking_change \<Rightarrow> (string, evm_staking_change) res" where
  "staking_change_to_evm L v =
     and_then (payload_to_evm_address (addr_payload L (sc_validator v))) (\<lambda>val.
       Ok \<lparr>evm_op = staking_operation_code (sc_op v), evm_payload = sc_payload v,
           evm_sc_validator = val\<rparr>)"

definition staking_change_request_to_evm ::
    "'a libs \<Rightarrow> 'a staking_change_request \<Rightarrow> (string, evm_staking_change_request) res" where
  "staking_change_request_to_evm L v =
     and_then (staking_change_to_evm L (change v)) (\<lambda>c.
       Ok \<lparr>evm_change = c, evm_configuration_number = configuration_number v\<rparr>)"

text \<open>The event \<open>NewStakingChangeRequest\<close> has the fields of the request struct.\<close>

definition staking_change_request_from_event ::
    "'a libs \<Rightarrow> evm_staking_change_request \<Rightarrow> (string, 'a staking_change_request) res" where
  "staking_change_request_from_event L v =
     and_then (ethers_address_to_fil_address L (evm_sc_validator (evm_change v))) (\<lambda>val.
       Ok \<lparr>configuration_number = evm_configuration_number v,
           change = \<lparr>sc_op = staking_operation_of (evm_op (evm_change v)),
                     sc_payload = evm_payload (evm_change v), sc_validator = val\<rparr>\<rparr>)"

definition validator_staking_info_from_evm ::
    "'a libs \<Rightarrow> evm_validator_info \<Rightarrow> (string, validator_staking_info) res" where
  "validator_staking_info_from_evm L v =
     and_then (eth_to_fil_amount L (evm_confirmed_collateral v)) (\<lambda>c.
     and_then (eth_to_fil_amount L (evm_total_collateral v)) (\<lambda>t.
       Ok \<lparr>confirmed_collateral = c, total_collateral = t, metadata = evm_vi_metadata v\<rparr>))"

definition validator_to_evm :: "'a libs \<Rightarrow> 'a validator \<Rightarrow> (string, evm_validator) res" where
  "validator_to_evm L v =
     and_then (payload_to_evm_address (addr_payload L (val_addr v))) (\<lambda>addr.
     and_then (fil_to_eth_amount L (val_weight v)) (\<lambda>weight.
       Ok \<lparr>evm_addr = addr, evm_weight = weight, evm_metadata = val_metadata v\<rparr>))"

definition into_contract_validators :: "'a libs \<Rightarrow> 'a validator list \<Rightarrow> (string, evm_validator list) res" where
  "into_contract_validators L vals = traverse (validator_to_evm L) vals"

definition from_contract_validators :: "'a libs \<Rightarrow> evm_validator list \<Rightarrow> (string, 'a validator list) res" where
  "from_contract_validators L vals =
     traverse (\<lambda>v.
       and_then (ethers_address_to_fil_address L (evm_addr v)) (\<lambda>addr.
       and_then (eth_to_fil_amount L (evm_weight v)) (\<lambda>weight.
         Ok \<lparr>val_addr = addr, val_metadata = evm_metadata v, val_weight = weight\<rparr>))) vals"

section \<open>What survives a round trip\<close>

text \<open>The addresses that stand for an Ethereum address.\<close>

definition evm_compatible :: "'a libs \<Rightarrow> 'a \<Rightarrow> bool" where
  "evm_compatible L a \<longleftrightarrow> (\<exists>e. eth_addr_ok L e \<and> a = addr_from_eth L e)"

definition evm_ipc_ok :: "'a libs \<Rightarrow> 'a ipc_address \<Rightarrow> bool" where
  "evm_ipc_ok L a \<longleftrightarrow> abi_addr_ok L (raw_address a)
     \<and> (\<forall>c\<in>set (children (ipc_subnet a)). evm_compatible L c)"

lemma ethers_to_fil: "eth_addr_ok L e \<Longrightarrow> ethers_address_to_fil_address L e = Ok (addr_from_eth L e)"
  by (simp add: ethers_address_to_fil_address_def eth_addr_ok_def)

lemma fil_to_ethers: "eth_addr_ok L e \<Longrightarrow> payload_to_evm_address (addr_payload L (addr_from_eth L e)) = Ok e"
  by (simp add: eth_addr_ok_def)

lemma compatible_roundtrip:
  assumes "evm_compatible L a"
  obtains e where "eth_addr_ok L e" "payload_to_evm_address (addr_payload L a) = Ok e"
    "ethers_address_to_fil_address L e = Ok a"
  using assms by (auto simp: evm_compatible_def ethers_to_fil fil_to_ethers)

lemma amount_roundtrip:
  "amount_ok L n \<Longrightarrow> fil_to_eth_amount L n = Ok (word_of_int n) \<and> eth_to_fil_amount L (word_of_int n) = Ok n"
  by (simp add: amount_ok_def fil_to_eth_amount_def eth_to_fil_amount_def)

lemma subnet_id_roundtrip_evm:
  assumes "\<forall>c\<in>set (children s). evm_compatible L c"
  obtains v where "subnet_id_to_evm L s = Ok v" "subnet_id_from_evm L v = Ok s"
proof -
  have "\<exists>es. traverse (\<lambda>a. payload_to_evm_address (addr_payload L a)) cs = Ok es
      \<and> traverse (ethers_address_to_fil_address L) es = Ok cs"
    if "\<forall>c\<in>set cs. evm_compatible L c" for cs
    using that
  proof (induction cs)
    case (Cons c cs)
    then obtain es where "traverse (\<lambda>a. payload_to_evm_address (addr_payload L a)) cs = Ok es"
      "traverse (ethers_address_to_fil_address L) es = Ok cs" by auto
    moreover obtain e where "payload_to_evm_address (addr_payload L c) = Ok e"
      "ethers_address_to_fil_address L e = Ok c"
      using Cons.prems compatible_roundtrip by (metis list.set_intros(1))
    ultimately show ?case by (intro exI [of _ "e # es"]) simp
  qed simp
  from this [OF assms] obtain es
    where "traverse (\<lambda>a. payload_to_evm_address (addr_payload L a)) (children s) = Ok es"
      "traverse (ethers_address_to_fil_address L) es = Ok (children s)" by blast
  then show ?thesis
    by (intro that [of "\<lparr>evm_root = root s, evm_route = es\<rparr>"])
      (simp_all add: subnet_id_to_evm_def subnet_id_from_evm_def subnet_id_to_evm_addresses_def
        subnet_new_def)
qed

lemma ipc_address_roundtrip_evm:
  assumes "evm_ipc_ok L a"
  obtains v where "ipc_address_to_evm L a = Ok v" "ipc_address_from_evm L v = Ok a"
proof -
  from assms obtain sn where sn: "subnet_id_to_evm L (ipc_subnet a) = Ok sn"
      "subnet_id_from_evm L sn = Ok (ipc_subnet a)"
    using subnet_id_roundtrip_evm [of "ipc_subnet a" L] unfolding evm_ipc_ok_def by blast
  from assms obtain b where b: "addr_to_abi L (raw_address a) = Ok b" "addr_from_abi L b = Ok (raw_address a)"
    by (auto simp: evm_ipc_ok_def abi_addr_ok_def split: res.splits)
  from sn b show ?thesis
    by (intro that [of "\<lparr>evm_ia_subnet_id = sn, evm_raw_address = b\<rparr>"])
      (simp_all add: ipc_address_to_evm_def ipc_address_from_evm_def cross_defs)
qed

lemma route_roundtrip_sdk:
  assumes "\<forall>e\<in>set es. eth_addr_ok L e"
  shows "traverse (ethers_address_to_fil_address L) es = Ok (map (addr_from_eth L) es)"
    and "traverse (\<lambda>a. payload_to_evm_address (addr_payload L a)) (map (addr_from_eth L) es) = Ok es"
  using assms by (induction es) (simp_all add: ethers_to_fil fil_to_ethers)

lemma method_bytes: "ucast (of_nat (from_be (be_bytes 4 (unat (ucast w :: u32)))) :: u32) = take_bit 32 (w :: u64)"
proof -
  have "unat (ucast w :: u32) < 256 ^ 4" using unsigned_less [of "ucast w :: u32", where 'a = nat] by simp
  then have "from_be (be_bytes 4 (unat (ucast w :: u32))) = unat (ucast w :: u32)"
    by (rule from_be_bytes)
  then have "ucast (of_nat (from_be (be_bytes 4 (unat (ucast w :: u32)))) :: u32) = (ucast (ucast w :: u32) :: u64)"
    by (simp only: of_nat_unat ucast_id)
  also have "\<dots> = take_bit 32 w"
    by (rule bit_word_eqI) (auto simp: bit_unsigned_iff bit_take_bit_iff)
  finally show ?thesis .
qed

section \<open>Properties\<close>

text \<open>C29: A cross-network message between addresses the contracts can represent converts to
  the contract struct, and converting it back gives the same message with its method number
  reduced to its low 32 bits: every other field survives.\<close>

theorem storable_msg_evm_roundtrip:
  assumes "evm_ipc_ok L (msg_from m)" and "evm_ipc_ok L (msg_to m)"
    and "amount_ok L (msg_value m)" and "amount_ok L (msg_fee m)"
  shows "\<exists>v. storable_msg_to_evm L m = Ok v \<and>
             storable_msg_from_evm L v = Ok (m\<lparr>msg_method := take_bit 32 (msg_method m)\<rparr>)"
proof -
  obtain f where f: "ipc_address_to_evm L (msg_from m) = Ok f" "ipc_address_from_evm L f = Ok (msg_from m)"
    using assms(1) by (rule ipc_address_roundtrip_evm)
  obtain t where t: "ipc_address_to_evm L (msg_to m) = Ok t" "ipc_address_from_evm L t = Ok (msg_to m)"
    using assms(2) by (rule ipc_address_roundtrip_evm)
  show ?thesis
    using f t amount_roundtrip [OF assms(3)] amount_roundtrip [OF assms(4)]
    by (simp add: storable_msg_to_evm_def storable_msg_from_evm_def method_bytes)
qed

lemma storable_msg_evm_roundtrip_witness:
  "\<exists>v. storable_msg_to_evm demo_libs
      \<lparr>msg_from = \<lparr>ipc_subnet = \<lparr>root = 5, children = [DemoEth (replicate 20 7)]\<rparr>, raw_address = DemoId 9\<rparr>,
       msg_to = \<lparr>ipc_subnet = \<lparr>root = 5, children = []\<rparr>, raw_address = DemoId 8\<rparr>,
       msg_method = 2 ^ 32 + 5, msg_params = [1], msg_value = 10, msg_nonce = 3, msg_fee = 1\<rparr> = Ok v \<and>
    storable_msg_from_evm demo_libs v = Ok
      \<lparr>msg_from = \<lparr>ipc_subnet = \<lparr>root = 5, children = [DemoEth (replicate 20 7)]\<rparr>, raw_address = DemoId 9\<rparr>,
       msg_to = \<lparr>ipc_subnet = \<lparr>root = 5, children = []\<rparr>, raw_address = DemoId 8\<rparr>,
       msg_method = 5, msg_params = [1], msg_value = 10, msg_nonce = 3, msg_fee = 1\<rparr>"
proof -
  let ?m = "\<lparr>msg_from = \<lparr>ipc_subnet = \<lparr>root = 5, children = [DemoEth (replicate 20 7)]\<rparr>, raw_address = DemoId 9\<rparr>,
       msg_to = \<lparr>ipc_subnet = \<lparr>root = 5, children = []\<rparr>, raw_address = DemoId 8\<rparr>,
       msg_method = 2 ^ 32 + 5, msg_params = [1], msg_value = 10, msg_nonce = 3, msg_fee = 1\<rparr>"
  have "evm_compatible demo_libs (DemoEth (replicate 20 7))"
    unfolding evm_compatible_def by (intro exI [of _ "replicate 20 7"]) simp
  then show ?thesis
    using storable_msg_evm_roundtrip [of demo_libs ?m] by (simp add: evm_ipc_ok_def)
qed

text \<open>C34: A checkpoint of the contract converts to the client's type and back to the same
  checkpoint, the block height included whatever its sign as a signed number, when its route
  consists of Ethereum addresses and both hashes have 32 bytes.\<close>

theorem checkpoint_evm_roundtrip:
  assumes "\<forall>e\<in>set (evm_route (evm_cp_subnet_id v)). eth_addr_ok L e"
    and "length (evm_block_hash v) = 32" and "length (evm_cross_messages_hash v) = 32"
  shows "\<exists>c. checkpoint_from_evm L v = Ok c \<and> checkpoint_to_evm L c = Ok v"
  using route_roundtrip_sdk [OF assms(1)] assms(2,3)
  by (simp add: checkpoint_from_evm_def checkpoint_to_evm_def subnet_id_from_evm_def
      subnet_id_to_evm_def subnet_id_to_evm_addresses_def subnet_new_def vec_to_bytes32_def)

lemma checkpoint_evm_roundtrip_witness:
  "\<exists>c. checkpoint_from_evm demo_libs
        \<lparr>evm_cp_subnet_id = \<lparr>evm_root = 5, evm_route = [replicate 20 7]\<rparr>, evm_block_height = - 1,
         evm_block_hash = replicate 32 1, evm_next_configuration_number = 2,
         evm_cross_messages_hash = replicate 32 3\<rparr> = Ok c \<and>
      checkpoint_to_evm demo_libs c = Ok
        \<lparr>evm_cp_subnet_id = \<lparr>evm_root = 5, evm_route = [replicate 20 7]\<rparr>, evm_block_height = - 1,
         evm_block_hash = replicate 32 1, evm_next_configuration_number = 2,
         evm_cross_messages_hash = replicate 32 3\<rparr>"
  by (rule checkpoint_evm_roundtrip) simp_all

text \<open>A validator list converts to the contract type and back unchanged, in order, when
  the validators are Ethereum addresses and the weights fit in 256 bits.\<close>

lemma validators_evm_roundtrip:
  assumes "\<forall>v\<in>set vals. evm_compatible L (val_addr v) \<and> amount_ok L (val_weight v)"
  shows "\<exists>es. into_contract_validators L vals = Ok es \<and> from_contract_validators L es = Ok vals"
  using assms
proof (induction vals)
  case (Cons v vals)
  then obtain es where es: "into_contract_validators L vals = Ok es"
    "from_contract_validators L es = Ok vals" by auto
  obtain e where "payload_to_evm_address (addr_payload L (val_addr v)) = Ok e"
    "ethers_address_to_fil_address L e = Ok (val_addr v)"
    using Cons.prems compatible_roundtrip by (metis list.set_intros(1))
  moreover have "amount_ok L (val_weight v)" using Cons.prems by simp
  ultimately show ?case
    using es amount_roundtrip [of L "val_weight v"]
    by (simp add: into_contract_validators_def from_contract_validators_def validator_to_evm_def)
qed (simp add: into_contract_validators_def from_contract_validators_def)

end
