(* ===== verification/Config.thy ===== *)
theory Config
  imports Rust_Fs Evm_Convert
begin

text \<open>
  \<open>ipc/provider/src/config\<close>: the client's configuration, its file and its reloading. The TOML
  text is the library's (\<open>toml_libs\<close>); what the program adds is the shape of the document
  and the conversion of its fields, which are the definitions below on a raw document.
\<close>

section \<open>Data (\<open>mod.rs\<close>, \<open>subnet.rs\<close>)\<close>

definition JSON_RPC_VERSION :: string where
  "JSON_RPC_VERSION = ''2.0''"

record 'a evm_subnet =
  provider_http :: string
  evm_auth_token :: "string option"
  registry_addr :: 'a
  evm_gateway_addr :: 'a

text \<open>The parameters of a Filecoin subnet; no variant of the configuration uses them.\<close>

record 'a fvm_subnet =
  fvm_gateway_addr :: 'a
  jsonrpc_api_http :: string
  fvm_auth_token :: "string option"

datatype 'a subnet_config = Fevm (fevm: "'a evm_subnet")

datatype network_type = FevmNetwork

record 'a subnet =
  sn_id :: "'a subnet_id"
  sn_config :: "'a subnet_config"

record 'a config =
  keystore_path :: "string option"
  subnets :: "('a subnet_id \<times> 'a subnet) list"

definition network_type_of :: "'a subnet \<Rightarrow> network_type" where
  "network_type_of s = (case sn_config s of Fevm _ \<Rightarrow> FevmNetwork)"

definition auth_token :: "'a subnet \<Rightarrow> string option" where
  "auth_token s = (case sn_config s of Fevm e \<Rightarrow> evm_auth_token e)"

definition rpc_http :: "'a subnet \<Rightarrow> string" where
  "rpc_http s = (case sn_config s of Fevm e \<Rightarrow> provider_http e)"

definition gateway_addr :: "'a subnet \<Rightarrow> 'a" where
  "gateway_addr s = (case sn_config s of Fevm e \<Rightarrow> evm_gateway_addr e)"

definition config_new :: "'a config" where
  "config_new = \<lparr>keystore_path = None, subnets = []\<rparr>"

definition add_subnet :: "'a subnet \<Rightarrow> 'a config \<Rightarrow> 'a config" where
  "add_subnet s c = c\<lparr>subnets := AList.update (sn_id s) s (subnets c)\<rparr>"

definition remove_subnet :: "'a subnet_id \<Rightarrow> 'a config \<Rightarrow> 'a config" where
  "remove_subnet i c = c\<lparr>subnets := AList.delete i (subnets c)\<rparr>"

section \<open>The document\<close>

record raw_evm_subnet =
  raw_network_type :: string
  raw_provider_http :: string
  raw_auth_token :: "string option"
  raw_registry_addr :: string
  raw_gateway_addr :: string

record raw_subnet =
  raw_id :: string
  raw_config :: raw_evm_subnet

record raw_document =
  raw_keystore_path :: "string option"
  raw_subnets :: "raw_subnet list option"

text \<open>The TOML reader and writer, the URL parser (a URL is its normal form) and the debug text
  of an Ethereum address of \<open>primitives\<close>.\<close>

record toml_libs =
  toml_read :: "string \<Rightarrow> (string, raw_document) res"
  toml_write :: "raw_document \<Rightarrow> (string, string) res"
  url_parse :: "string \<Rightarrow> (string, string) res"
  eth_debug :: "bytes \<Rightarrow> string"

section \<open>Deserialisation (\<open>deserialize.rs\<close>)\<close>

definition eth_addr_str_to_address :: "'a libs \<Rightarrow> string \<Rightarrow> (string, 'a) res" where
  "eth_addr_str_to_address L s = and_then (eth_from_str L s) (\<lambda>addr. Ok (addr_from_eth L addr))"

definition deserialize_eth_address_from_str :: "'a libs \<Rightarrow> string \<Rightarrow> (string, 'a) res" where
  "deserialize_eth_address_from_str L v = eth_addr_str_to_address L v"

definition deserialize_address_from_str :: "'a libs \<Rightarrow> string \<Rightarrow> (string, 'a) res" where
  "deserialize_address_from_str L v = addr_from_str L v"

definition deserialize_subnet_id :: "'a libs \<Rightarrow> string \<Rightarrow> (string, 'a subnet_id) res" where
  "deserialize_subnet_id L v = map_err sdk_error_display (subnet_from_str L v)"

definition deserialize_subnet :: "'a libs \<Rightarrow> toml_libs \<Rightarrow> raw_subnet \<Rightarrow> (string, 'a subnet) res" where
  "deserialize_subnet L T r =
     and_then (deserialize_subnet_id L (raw_id r)) (\<lambda>i.
     (let c = raw_config r in
      if raw_network_type c \<noteq> ''fevm''
      then Err (''unknown variant `'' @ raw_network_type c @ ''`, expected `fevm`'')
      else
        and_then (url_parse T (raw_provider_http c)) (\<lambda>url.
        and_then (deserialize_eth_address_from_str L (raw_registry_addr c)) (\<lambda>reg.
        and_then (deserialize_eth_address_from_str L (raw_gateway_addr c)) (\<lambda>gw.
          Ok \<lparr>sn_id = i, sn_config = Fevm \<lparr>provider_http = url, evm_auth_token = raw_auth_token c,
              registry_addr = reg, evm_gateway_addr = gw\<rparr>\<rparr>)))))"

definition deserialize_subnets_from_vec ::
    "'a libs \<Rightarrow> toml_libs \<Rightarrow> raw_subnet list \<Rightarrow> (string, ('a subnet_id \<times> 'a subnet) list) res" where
  "deserialize_subnets_from_vec L T rs =
     and_then (traverse (deserialize_subnet L T) rs) (\<lambda>ss.
       Ok (foldl (\<lambda>m s. AList.update (sn_id s) s m) [] ss))"

definition from_toml_str :: "'a libs \<Rightarrow> toml_libs \<Rightarrow> string \<Rightarrow> (string, 'a config) res" where
  "from_toml_str L T s =
     and_then (toml_read T s) (\<lambda>d.
     and_then (case raw_subnets d of None \<Rightarrow> Ok [] | Some rs \<Rightarrow> deserialize_subnets_from_vec L T rs) (\<lambda>ss.
       Ok \<lparr>keystore_path = raw_keystore_path d, subnets = ss\<rparr>))"

definition from_file :: "'a libs \<Rightarrow> toml_libs \<Rightarrow> string \<Rightarrow> fs \<Rightarrow> (string, 'a config) res" where
  "from_file L T p f = and_then (fs_read_to_string f (path_of_string p)) (from_toml_str L T)"

section \<open>Serialisation (\<open>serialize.rs\<close>)\<close>

definition address_to_eth_address :: "'a libs \<Rightarrow> 'a \<Rightarrow> (string, bytes) res" where
  "address_to_eth_address L addr =
     (case addr_payload L addr of
        PayloadDelegated ns sub \<Rightarrow>
          if length sub < 20 then Panic ''range end index 20 out of range'' else Ok (take 20 sub)
      | _ \<Rightarrow> Err ''not eth address'')"

definition serialize_eth_address_to_str :: "'a libs \<Rightarrow> toml_libs \<Rightarrow> 'a \<Rightarrow> (string, string) res" where
  "serialize_eth_address_to_str L T addr =
     and_then (address_to_eth_address L addr) (\<lambda>e. Ok (''0x'' @ eth_debug T e))"

definition serialize_address_to_str :: "'a libs \<Rightarrow> 'a \<Rightarrow> (string, string) res" where
  "serialize_address_to_str L addr = Ok (addr_to_string L addr)"

definition serialize_subnet_id_to_str :: "'a libs \<Rightarrow> 'a subnet_id \<Rightarrow> (string, string) res" where
  "serialize_subnet_id_to_str L i = Ok (subnet_to_string L i)"

definition serialize_subnet :: "'a libs \<Rightarrow> toml_libs \<Rightarrow> 'a subnet \<Rightarrow> (string, raw_subnet) res" where
  "serialize_subnet L T s =
     (case sn_config s of Fevm e \<Rightarrow>
        and_then (serialize_subnet_id_to_str L (sn_id s)) (\<lambda>i.
        and_then (serialize_eth_address_to_str L T (registry_addr e)) (\<lambda>reg.
        and_then (serialize_eth_address_to_str L T (evm_gateway_addr e)) (\<lambda>gw.
          Ok \<lparr>raw_id = i, raw_config = \<lparr>raw_network_type = ''fevm'', raw_provider_http = provider_http e,
              raw_auth_token = evm_auth_token e, raw_registry_addr = reg, raw_gateway_addr = gw\<rparr>\<rparr>))))"

definition serialize_subnets_to_str ::
    "'a libs \<Rightarrow> toml_libs \<Rightarrow> ('a subnet_id \<times> 'a subnet) list \<Rightarrow> (string, raw_subnet list) res" where
  "serialize_subnets_to_str L T ss = traverse (serialize_subnet L T) (map snd ss)"

definition config_to_string :: "'a libs \<Rightarrow> toml_libs \<Rightarrow> 'a config \<Rightarrow> (string, string) res" where
  "config_to_string L T c =
     and_then (serialize_subnets_to_str L T (subnets c)) (\<lambda>rs.
       toml_write T \<lparr>raw_keystore_path = keystore_path c, raw_subnets = Some rs\<rparr>)"

definition write_to_file :: "'a libs \<Rightarrow> toml_libs \<Rightarrow> 'a config \<Rightarrow> string \<Rightarrow> (fs, unit) io" where
  "write_to_file L T c p =
     bind_io (lift (config_to_string L T c)) (\<lambda>content. fs_write_file (path_of_string p) content)"

section \<open>Reloading (\<open>reload.rs\<close>)\<close>

text \<open>\<open>notified\<close> counts the messages sent on the broadcast channel; one receiver is kept
  alive, and a failure to send is ignored.\<close>

record 'a reloadable_config =
  rc_path :: string
  rc_config :: "'a config"
  notified :: nat

definition reloadable_new :: "'a libs \<Rightarrow> toml_libs \<Rightarrow> string \<Rightarrow> fs \<Rightarrow> (string, 'a reloadable_config) res" where
  "reloadable_new L T p f =
     and_then (from_file L T p f) (\<lambda>c. Ok \<lparr>rc_path = p, rc_config = c, notified = 0\<rparr>)"

definition get_config :: "'a reloadable_config \<Rightarrow> 'a config" where
  "get_config r = rc_config r"

definition set_path :: "string \<Rightarrow> 'a reloadable_config \<Rightarrow> 'a reloadable_config" where
  "set_path p r = r\<lparr>rc_path := p\<rparr>"

definition get_config_repo :: "'a reloadable_config \<Rightarrow> string option" where
  "get_config_repo r = path_parent_text (rc_path r)"

text \<open>A subscriber is told of the notifications after its subscription.\<close>

definition new_subscriber :: "'a reloadable_config \<Rightarrow> nat" where
  "new_subscriber r = notified r"

definition reload :: "'a libs \<Rightarrow> toml_libs \<Rightarrow> fs \<Rightarrow> ('a reloadable_config, unit) io" where
  "reload L T f = (\<lambda>r.
     case from_file L T (rc_path r) f of
       Ok c \<Rightarrow> (Ok (), r\<lparr>rc_config := c, notified := notified r + 1\<rparr>)
     | Err e \<Rightarrow> (Err e, r)
     | Panic p \<Rightarrow> (Panic p, r))"

section \<open>Invariant and round trip\<close>

text \<open>The TOML library writes the document and reads it back.\<close>

definition toml_ok :: "toml_libs \<Rightarrow> raw_document \<Rightarrow> bool" where
  "toml_ok T d = (case toml_write T d of
     Ok t \<Rightarrow> toml_read T t = Ok d \<and> utf8_valid (map of_char t) | _ \<Rightarrow> False)"

text \<open>Every subnet is filed under its own identifier.\<close>

definition config_inv :: "'a config \<Rightarrow> bool" where
  "config_inv c \<longleftrightarrow> distinct (map fst (subnets c)) \<and> (\<forall>i s. map_of (subnets c) i = Some s \<longrightarrow> sn_id s = i)"

lemma config_inv_ops:
  "config_inv config_new"
  "config_inv c \<Longrightarrow> config_inv (add_subnet s c)"
  "config_inv c \<Longrightarrow> config_inv (remove_subnet i c)"
  by (auto simp: config_inv_def config_new_def add_subnet_def remove_subnet_def distinct_delete
      map_of_update map_of_delete)

lemma load_subnets_inv:
  "config_inv \<lparr>keystore_path = k, subnets = al\<rparr> \<Longrightarrow>
   config_inv \<lparr>keystore_path = k, subnets = foldl (\<lambda>m s. AList.update (sn_id s) s m) al ss\<rparr>"
proof (induction ss arbitrary: al)
  case (Cons s ss)
  from config_inv_ops(2) [OF Cons.prems, of s] have "config_inv \<lparr>keystore_path = k, subnets = AList.update (sn_id s) s al\<rparr>"
    by (simp add: add_subnet_def)
  from Cons.IH [OF this] show ?case by simp
qed simp

lemma empty_subnets_inv: "config_inv \<lparr>keystore_path = k, subnets = []\<rparr>"
  by (simp add: config_inv_def)

lemma from_file_inv: "from_file L T p f = Ok c \<Longrightarrow> config_inv c"
  by (auto simp: from_file_def from_toml_str_def deserialize_subnets_from_vec_def res_simps empty_subnets_inv
      load_subnets_inv [OF empty_subnets_inv] split: option.splits)

text \<open>The values a configuration file can hold.\<close>

definition subnet_writable :: "'a libs \<Rightarrow> toml_libs \<Rightarrow> 'a subnet \<Rightarrow> bool" where
  "subnet_writable L T s \<longleftrightarrow> (\<forall>a\<in>set (children (sn_id s)). addr_ok L a)
     \<and> url_parse T (rpc_http s) = Ok (rpc_http s)
     \<and> (\<forall>a\<in>{registry_addr (fevm (sn_config s)), evm_gateway_addr (fevm (sn_config s))}.
          \<exists>e. a = addr_from_eth L e \<and> length e = 20 \<and> addr_payload L a = PayloadDelegated 10 e
             \<and> eth_from_str L (''0x'' @ eth_debug T e) = Ok e)"

lemma subnet_roundtrip_toml:
  assumes "subnet_writable L T s"
  obtains r where "serialize_subnet L T s = Ok r" "deserialize_subnet L T r = Ok s"
proof -
  obtain i e where s: "s = \<lparr>sn_id = i, sn_config = Fevm e\<rparr>"
    by (cases s; cases "sn_config s") simp
  obtain x where x: "registry_addr e = addr_from_eth L x" "length x = 20"
      "addr_payload L (addr_from_eth L x) = PayloadDelegated 10 x" "eth_from_str L (''0x'' @ eth_debug T x) = Ok x"
    using assms unfolding subnet_writable_def s by auto
  obtain y where y: "evm_gateway_addr e = addr_from_eth L y" "length y = 20"
      "addr_payload L (addr_from_eth L y) = PayloadDelegated 10 y" "eth_from_str L (''0x'' @ eth_debug T y) = Ok y"
    using assms unfolding subnet_writable_def s by auto
  have i: "subnet_from_str L (subnet_to_string L i) = Ok i" and u: "url_parse T (provider_http e) = Ok (provider_http e)"
    using assms subnet_codec.parse_print [of i L] by (simp_all add: subnet_writable_def s rpc_http_def)
  show ?thesis
    by (rule that [of "\<lparr>raw_id = subnet_to_string L i, raw_config = \<lparr>raw_network_type = ''fevm'',
        raw_provider_http = provider_http e, raw_auth_token = evm_auth_token e,
        raw_registry_addr = ''0x'' @ eth_debug T x, raw_gateway_addr = ''0x'' @ eth_debug T y\<rparr>\<rparr>"])
      (use x y i u in \<open>simp_all add: s serialize_subnet_def deserialize_subnet_def serialize_subnet_id_to_str_def
        serialize_eth_address_to_str_def address_to_eth_address_def deserialize_subnet_id_def
        deserialize_eth_address_from_str_def eth_addr_str_to_address_def Let_def\<close>)
qed

lemma config_subnets_fold:
  assumes "config_inv c"
  shows "foldl (\<lambda>m s. AList.update (sn_id s) s m) [] (map snd (subnets c)) = subnets c"
proof -
  have ids: "sn_id s = i" if "(i, s) \<in> set (subnets c)" for i s
    using that assms by (simp add: config_inv_def)
  have "foldl (\<lambda>m s. AList.update (sn_id s) s m) acc (map snd kvs) = acc @ kvs"
    if "set kvs \<subseteq> set (subnets c)" "distinct (map fst (acc @ kvs))" for kvs acc
    using that
  proof (induction kvs arbitrary: acc)
    case (Cons kv kvs)
    obtain i s where kv: "kv = (i, s)" by (cases kv)
    have "AList.update (sn_id s) s acc = acc @ [(i, s)]"
      using ids [of i s] Cons.prems by (auto simp: kv update_fresh)
    then show ?case using Cons.IH [of "acc @ [(i, s)]"] Cons.prems by (simp add: kv)
  qed simp
  from this [of "subnets c" "[]"] assms show ?thesis by (simp add: config_inv_def)
qed

lemma subnets_roundtrip_toml:
  assumes "\<forall>s\<in>set ss. subnet_writable L T s"
  obtains rs where "traverse (serialize_subnet L T) ss = Ok rs" "traverse (deserialize_subnet L T) rs = Ok ss"
proof -
  have "\<exists>rs. traverse (serialize_subnet L T) ss = Ok rs \<and> traverse (deserialize_subnet L T) rs = Ok ss"
    using assms
  proof (induction ss)
    case (Cons s ss)
    then obtain rs where "traverse (serialize_subnet L T) ss = Ok rs" "traverse (deserialize_subnet L T) rs = Ok ss"
      by auto
    moreover obtain r where "serialize_subnet L T s = Ok r" "deserialize_subnet L T r = Ok s"
      using subnet_roundtrip_toml [of L T s] Cons.prems by auto
    ultimately show ?case by (intro exI [of _ "r # rs"]) simp
  qed simp
  with that show ?thesis by blast
qed

section \<open>An executable instance\<close>

text \<open>A reader and writer for one document.\<close>

definition demo_toml :: toml_libs where
  "demo_toml = \<lparr>toml_read = (\<lambda>s. if s = ''one'' then Ok \<lparr>raw_keystore_path = Some ''~/.ipc'',
        raw_subnets = Some [\<lparr>raw_id = subnet_to_string demo_libs \<lparr>root = 5, children = []\<rparr>, raw_config = \<lparr>raw_network_type = ''fevm'', raw_provider_http = ''u'',
          raw_auth_token = None, raw_registry_addr = ''0x'' @ demo_hex (replicate 20 1),
          raw_gateway_addr = ''0x'' @ demo_hex (replicate 20 2)\<rparr>\<rparr>]\<rparr> else Err ''syntax error''),
     toml_write = (\<lambda>d. Ok ''one''),
     url_parse = Ok, eth_debug = demo_hex\<rparr>"

definition demo_subnet :: "demo_addr subnet" where
  "demo_subnet = \<lparr>sn_id = \<lparr>root = 5, children = []\<rparr>, sn_config = Fevm \<lparr>provider_http = ''u'', evm_auth_token = None,
     registry_addr = DemoEth (replicate 20 1), evm_gateway_addr = DemoEth (replicate 20 2)\<rparr>\<rparr>"

definition demo_config :: "demo_addr config" where
  "demo_config = \<lparr>keystore_path = Some ''~/.ipc'', subnets = [(\<lparr>root = 5, children = []\<rparr>, demo_subnet)]\<rparr>"

section \<open>Properties\<close>

text \<open>Adding and removing subnets keeps every subnet filed under its own identifier, a
  subnet just added is found under it, a removed one is not, and no other entry changes.\<close>

lemma config_add_remove:
  assumes "config_inv c"
  shows "config_inv (add_subnet s c) \<and> config_inv (remove_subnet i c)
    \<and> map_of (subnets (add_subnet s c)) = (map_of (subnets c))(sn_id s \<mapsto> s)
    \<and> map_of (subnets (remove_subnet i c)) = (map_of (subnets c))(i := None)"
  using config_inv_ops(2,3) [OF assms]
  by (simp add: add_subnet_def remove_subnet_def map_of_update map_of_delete)

text \<open>C27: A configuration written to a file is read back from it unchanged.\<close>

theorem config_file_roundtrip:
  assumes inv: "config_inv c" and wr: "\<forall>s\<in>snd ` set (subnets c). subnet_writable L T s"
    and toml: "\<And>rs. serialize_subnets_to_str L T (subnets c) = Ok rs \<Longrightarrow>
      toml_ok T \<lparr>raw_keystore_path = keystore_path c, raw_subnets = Some rs\<rparr>"
    and f: "writable f (path_of_string p)"
  shows "\<exists>f'. write_to_file L T c p f = (Ok (), f') \<and> from_file L T p f' = Ok c"
proof -
  obtain rs where rs: "traverse (serialize_subnet L T) (map snd (subnets c)) = Ok rs"
      "traverse (deserialize_subnet L T) rs = Ok (map snd (subnets c))"
    using subnets_roundtrip_toml [of "map snd (subnets c)" L T] wr by auto
  obtain t where t: "toml_write T \<lparr>raw_keystore_path = keystore_path c, raw_subnets = Some rs\<rparr> = Ok t"
      "toml_read T t = Ok \<lparr>raw_keystore_path = keystore_path c, raw_subnets = Some rs\<rparr>" "utf8_valid (map of_char t)"
    using toml [of rs] rs(1) by (auto simp: toml_ok_def serialize_subnets_to_str_def split: res.splits)
  have "write_to_file L T c p f = (Ok (), store_file (path_of_string p) t f)"
    using rs(1) t(1) fs_write_file_writable [OF f]
    by (simp add: write_to_file_def config_to_string_def serialize_subnets_to_str_def io_defs)
  moreover have "from_file L T p (store_file (path_of_string p) t f) = Ok c"
    using rs(2) t(2,3) fs_read_store [OF f] config_subnets_fold [OF inv]
    by (simp add: from_file_def fs_read_to_string_def from_toml_str_def deserialize_subnets_from_vec_def)
  ultimately show ?thesis by blast
qed

lemma config_file_roundtrip_witness:
  "\<exists>f'. write_to_file demo_libs demo_toml demo_config ''/config.toml''
          \<lparr>files = [], dirs = [], fault = (\<lambda>_. None), write_fault = (\<lambda>_. None)\<rparr> = (Ok (), f')
        \<and> from_file demo_libs demo_toml ''/config.toml'' f' = Ok demo_config"
proof (rule config_file_roundtrip)
  show "config_inv demo_config"
    by (simp add: config_inv_def demo_config_def demo_subnet_def)
  show "\<forall>s\<in>snd ` set (subnets demo_config). subnet_writable demo_libs demo_toml s"
    by (simp add: demo_config_def demo_subnet_def subnet_writable_def demo_toml_def demo_eth_from_str_def)
  show "writable \<lparr>files = [], dirs = [], fault = (\<lambda>_. None), write_fault = (\<lambda>_. None)\<rparr> (path_of_string ''/config.toml'')"
    by (simp add: writable_def path_of_string_def starts_with_def is_dir_def path_parent_def empty_path_def)
  fix rs
  assume "serialize_subnets_to_str demo_libs demo_toml (subnets demo_config) = Ok rs"
  then have "rs = [\<lparr>raw_id = subnet_to_string demo_libs \<lparr>root = 5, children = []\<rparr>, raw_config = \<lparr>raw_network_type = ''fevm'', raw_provider_http = ''u'',
          raw_auth_token = None, raw_registry_addr = ''0x'' @ demo_hex (replicate 20 1),
          raw_gateway_addr = ''0x'' @ demo_hex (replicate 20 2)\<rparr>\<rparr>]"
    by (simp add: serialize_subnets_to_str_def demo_config_def demo_subnet_def demo_toml_def serialize_subnet_def
        serialize_subnet_id_to_str_def serialize_eth_address_to_str_def address_to_eth_address_def)
  then show "toml_ok demo_toml \<lparr>raw_keystore_path = keystore_path demo_config, raw_subnets = Some rs\<rparr>"
    by (simp add: toml_ok_def demo_toml_def demo_config_def)
qed

text \<open>A reload either installs the configuration of the file at the current path and
  notifies the subscribers once, or fails and keeps the configuration in use, notifying
  nobody.\<close>

lemma reload_atomic:
  "(case from_file L T (rc_path r) f of
      Ok c \<Rightarrow> fst (reload L T f r) = Ok () \<and> get_config (snd (reload L T f r)) = c
             \<and> notified (snd (reload L T f r)) = notified r + 1
    | Err e \<Rightarrow> reload L T f r = (Err e, r)
    | Panic m \<Rightarrow> reload L T f r = (Panic m, r))
   \<and> rc_path (snd (reload L T f r)) = rc_path r"
  by (simp add: reload_def get_config_def split: res.split)

end
