(* ===== verification/Checkpoint_Manager.thy ===== *)
theory Checkpoint_Manager
  imports Config
begin

text \<open>
  \<open>ipc/provider/src/checkpoint.rs\<close>: the relayer that carries bottom-up checkpoints from a
  child subnet to its parent, generic in the trait \<open>BottomUpCheckpointRelayer\<close>
  (\<open>ipc/provider/src/manager/subnet.rs\<close>), a record of operations here. What the relayer
  expects of the two networks is the locale \<open>checkpoint_relay\<close>; its lemmas say which bundles
  are submitted and in which order.
\<close>

section \<open>The trait\<close>

record ('w, 'a) relayer =
  rl_submit_checkpoint :: "'a \<Rightarrow> 'a bottom_up_checkpoint_bundle \<Rightarrow> ('w, int) io"
  rl_last_bottom_up_checkpoint_height :: "'a subnet_id \<Rightarrow> ('w, int) io"
  rl_has_submitted_in_last_checkpoint_height :: "'a subnet_id \<Rightarrow> 'a \<Rightarrow> ('w, bool) io"
  rl_checkpoint_period :: "'a subnet_id \<Rightarrow> ('w, int) io"
  rl_checkpoint_bundle_at :: "int \<Rightarrow> ('w, 'a bottom_up_checkpoint_bundle) io"
  rl_quorum_reached_events :: "int \<Rightarrow> ('w, quorum_reached_event list) io"
  rl_current_epoch :: "('w, int) io"

section \<open>The manager\<close>

record ('w, 'a) checkpoint_manager =
  cm_parent :: "'a subnet"
  cm_child :: "'a subnet"
  period :: int
  parent_handler :: "('w, 'a) relayer"
  child_handler :: "('w, 'a) relayer"
  finalization_blocks :: int

definition cm_new :: "'a subnet \<Rightarrow> 'a subnet \<Rightarrow> ('w, 'a) relayer \<Rightarrow> ('w, 'a) relayer
    \<Rightarrow> ('w, ('w, 'a) checkpoint_manager) io" where
  "cm_new psn csn ph ch =
     bind_io (map_err_io (\<lambda>e. ''cannot get bottom up checkpoint period: '' @ e)
        (rl_checkpoint_period ph (sn_id csn))) (\<lambda>p.
       ret \<lparr>cm_parent = psn, cm_child = csn, period = p, parent_handler = ph,
            child_handler = ch, finalization_blocks = 0\<rparr>)"

definition with_finalization_blocks :: "int \<Rightarrow> ('w, 'a) checkpoint_manager \<Rightarrow> ('w, 'a) checkpoint_manager" where
  "with_finalization_blocks n cm = cm\<lparr>finalization_blocks := n\<rparr>"

definition cm_display :: "'a libs \<Rightarrow> ('w, 'a) checkpoint_manager \<Rightarrow> string" where
  "cm_display L cm = ''bottom-up relayer, parent: '' @ subnet_to_string L (sn_id (cm_parent cm))
     @ '', child: '' @ subnet_to_string L (sn_id (cm_child cm))"

text \<open>Arithmetic on \<open>ChainEpoch\<close>, a 64-bit signed integer.\<close>

definition epoch_of :: "int \<Rightarrow> (string, int) res" where
  "epoch_of n = (if - (2 ^ 63) \<le> n \<and> n < 2 ^ 63 then Ok n else Panic ''arithmetic overflow'')"

definition next_submission_height :: "('w, 'a) checkpoint_manager \<Rightarrow> ('w, int) io" where
  "next_submission_height cm =
     bind_io (map_err_io (\<lambda>e. ''cannot obtain the last bottom up checkpoint height due to: '' @ e)
        (rl_last_bottom_up_checkpoint_height (parent_handler cm) (sn_id (cm_child cm)))) (\<lambda>last.
       lift (epoch_of (last + period cm)))"

text \<open>Fetch a bundle from the child and submit it to the parent.\<close>

definition relay_at :: "('w, 'a) checkpoint_manager \<Rightarrow> 'a \<Rightarrow> int \<Rightarrow> ('w, unit) io" where
  "relay_at cm submitter h =
     bind_io (rl_checkpoint_bundle_at (child_handler cm) h) (\<lambda>bundle.
     bind_io (map_err_io (\<lambda>e. ''cannot submit bottom up checkpoint due to: '' @ e)
        (rl_submit_checkpoint (parent_handler cm) submitter bundle)) (\<lambda>_.
       ret ()))"

definition submit_last_epoch :: "('w, 'a) checkpoint_manager \<Rightarrow> 'a \<Rightarrow> ('w, unit) io" where
  "submit_last_epoch cm submitter =
     bind_io (rl_has_submitted_in_last_checkpoint_height (parent_handler cm) (sn_id (cm_child cm)) submitter) (\<lambda>has.
     if has then ret ()
     else bind_io (rl_last_bottom_up_checkpoint_height (parent_handler cm) (sn_id (cm_child cm))) (\<lambda>height.
       if height = 0 then ret () else relay_at cm submitter height))"

definition submit_events_at :: "('w, 'a) checkpoint_manager \<Rightarrow> 'a \<Rightarrow> int \<Rightarrow> ('w, unit) io" where
  "submit_events_at cm submitter h =
     bind_io (rl_quorum_reached_events (child_handler cm) h) (\<lambda>events.
       for_io events (\<lambda>event. relay_at cm submitter (qe_height event)))"

definition submit_next_epoch :: "('w, 'a) checkpoint_manager \<Rightarrow> 'a \<Rightarrow> ('w, unit) io" where
  "submit_next_epoch cm submitter =
     bind_io (next_submission_height cm) (\<lambda>next_height.
     bind_io (rl_current_epoch (child_handler cm)) (\<lambda>current_height.
     bind_io (lift (epoch_of (current_height - finalization_blocks cm))) (\<lambda>final.
     (let finalized_height = max 1 final in
      if finalized_height < next_height then ret ()
      else
        bind_io (lift (epoch_of (next_height - period cm))) (\<lambda>prev_h.
        bind_io (lift (epoch_of (prev_h + 1))) (\<lambda>start.
          for_io [start..finalized_height] (submit_events_at cm submitter)))))))"

definition cm_submit_checkpoint :: "('w, 'a) checkpoint_manager \<Rightarrow> 'a \<Rightarrow> ('w, unit) io" where
  "cm_submit_checkpoint cm submitter =
     bind_io (submit_last_epoch cm submitter) (\<lambda>_. submit_next_epoch cm submitter)"

text \<open>
  The daemon: \<open>relayer_run cm submitter w w'\<close> when a number of rounds leads from \<open>w\<close> to
  \<open>w'\<close>. A round that fails is logged and the loop goes on; a panic ends it.
\<close>

inductive relayer_run :: "('w, 'a) checkpoint_manager \<Rightarrow> 'a \<Rightarrow> 'w \<Rightarrow> 'w \<Rightarrow> bool"
  for cm :: "('w, 'a) checkpoint_manager" and submitter :: 'a where
  run_start: "relayer_run cm submitter w w"
| run_round: "relayer_run cm submitter w w1 \<Longrightarrow> cm_submit_checkpoint cm submitter w1 = (r, w2) \<Longrightarrow>
    \<not> is_panic r \<Longrightarrow> relayer_run cm submitter w w2"

section \<open>What is submitted\<close>

text \<open>
  The contract of the networks. \<open>subs\<close> is the list of submissions the parent has received,
  \<open>entry b\<close> the submission made of the bundle \<open>b\<close>; \<open>events_of\<close> and
  \<open>entry_at\<close> are the events of the child at a settled height and what the bundles they name are submitted as.
  A query submits nothing; a submission that reports success was received; one that reports a
  failure may or may not have been. Only the heights marked \<open>settled\<close> are fixed.
\<close>

locale checkpoint_relay =
  fixes par chi :: "('w, 'a) relayer"
    and subs :: "'w \<Rightarrow> 'l list"
    and entry :: "'a bottom_up_checkpoint_bundle \<Rightarrow> 'l"
    and events_of :: "int \<Rightarrow> quorum_reached_event list"
    and entry_at :: "int \<Rightarrow> 'l"
    and settled :: "int \<Rightarrow> bool"
    and inv :: "'w \<Rightarrow> bool"
  assumes events_law: "inv w \<Longrightarrow> rl_quorum_reached_events chi h w = (re, w') \<Longrightarrow>
      inv w' \<and> subs w' = subs w \<and> (\<forall>es. re = Ok es \<longrightarrow> settled h \<longrightarrow> es = events_of h)"
    and bundle_law: "inv w \<Longrightarrow> rl_checkpoint_bundle_at chi h w = (rb, w') \<Longrightarrow>
      inv w' \<and> subs w' = subs w \<and> (\<forall>b h' e. rb = Ok b \<longrightarrow> settled h' \<longrightarrow> e \<in> set (events_of h') \<longrightarrow> qe_height e = h \<longrightarrow> entry b = entry_at h)"
    and submit_law: "inv w \<Longrightarrow> rl_submit_checkpoint par a b w = (rh, w') \<Longrightarrow>
      inv w' \<and> (subs w' = subs w \<or> subs w' = subs w @ [entry b])
      \<and> (\<forall>e. rh = Ok e \<longrightarrow> subs w' = subs w @ [entry b])"
    and last_law: "inv w \<Longrightarrow> rl_last_bottom_up_checkpoint_height par s w = (rh, w') \<Longrightarrow> inv w' \<and> subs w' = subs w"
    and has_law: "inv w \<Longrightarrow> rl_has_submitted_in_last_checkpoint_height par s a w = (rs, w') \<Longrightarrow>
      inv w' \<and> subs w' = subs w"
    and epoch_law: "inv w \<Longrightarrow> rl_current_epoch chi w = (rh, w') \<Longrightarrow> inv w' \<and> subs w' = subs w"
begin

text \<open>\<open>submits m xs\<close>: \<open>m\<close> submits a prefix of \<open>xs\<close>, and all of \<open>xs\<close> if it succeeds.\<close>

definition submits :: "('w, unit) io \<Rightarrow> 'l list \<Rightarrow> bool" where
  "submits m xs \<longleftrightarrow> (\<forall>w r w'. inv w \<longrightarrow> m w = (r, w') \<longrightarrow>
     inv w' \<and> (\<exists>ys. prefix ys xs \<and> subs w' = subs w @ ys \<and> (r = Ok () \<longrightarrow> ys = xs)))"

lemma submitsD:
  "submits m xs \<Longrightarrow> inv w \<Longrightarrow> m w = (r, w') \<Longrightarrow>
   inv w' \<and> (\<exists>ys. prefix ys xs \<and> subs w' = subs w @ ys \<and> (r = Ok () \<longrightarrow> ys = xs))"
  unfolding submits_def by blast

lemma submits_ret: "submits (ret ()) []"
  by (auto simp: submits_def ret_def)

lemma submits_seq:
  assumes m: "submits m xs" and n: "submits n ys"
  shows "submits (bind_io m (\<lambda>_. n)) (xs @ ys)"
  unfolding submits_def
proof (intro allI impI)
  fix w r w'
  assume w: "inv w" and run: "bind_io m (\<lambda>_. n) w = (r, w')"
  obtain q w1 where q: "m w = (q, w1)" by (cases "m w")
  from submitsD [OF m w q] obtain us where us: "inv w1" "prefix us xs" "subs w1 = subs w @ us" "q = Ok () \<longrightarrow> us = xs"
    by blast
  show "inv w' \<and> (\<exists>zs. prefix zs (xs @ ys) \<and> subs w' = subs w @ zs \<and> (r = Ok () \<longrightarrow> zs = xs @ ys))"
  proof (cases "q = Ok ()")
    case True
    with run q have "n w1 = (r, w')" by (simp add: bind_io_def)
    from submitsD [OF n us(1) this] obtain vs where "inv w'" "prefix vs ys" "subs w' = subs w1 @ vs" "r = Ok () \<longrightarrow> vs = ys"
      by blast
    with us True show ?thesis by (auto simp: prefix_def)
  next
    case False
    with run q have "w' = w1" "r \<noteq> Ok ()" by (auto simp: bind_io_def split: res.splits)
    with us show ?thesis by (auto intro: prefix_order.trans [OF us(2)])
  qed
qed

lemma submits_for:
  "(\<And>x. x \<in> set xs \<Longrightarrow> submits (f x) (g x)) \<Longrightarrow> submits (for_io xs f) (concat (map g xs))"
proof (induction xs)
  case (Cons x xs)
  then show ?case using submits_seq [of "f x" "g x" "for_io xs f"] by simp
qed (simp add: submits_ret)

lemma submits_relay_at:
  assumes "parent_handler cm = par" "child_handler cm = chi"
    and ev: "settled h'" "e \<in> set (events_of h')" "qe_height e = h"
  shows "submits (relay_at cm a h) [entry_at h]"
  unfolding submits_def
proof (intro allI impI)
  fix w r w'
  assume w: "inv w" and run: "relay_at cm a h w = (r, w')"
  obtain q w1 where q: "rl_checkpoint_bundle_at chi h w = (q, w1)" by (cases "rl_checkpoint_bundle_at chi h w")
  note b = bundle_law [OF w q]
  show "inv w' \<and> (\<exists>ys. prefix ys [entry_at h] \<and> subs w' = subs w @ ys \<and> (r = Ok () \<longrightarrow> ys = [entry_at h]))"
  proof (cases q)
    case (Ok bun)
    obtain q2 w2 where q2: "rl_submit_checkpoint par a bun w1 = (q2, w2)" by (cases "rl_submit_checkpoint par a bun w1")
    from b Ok ev have bun: "entry bun = entry_at h" "inv w1" "subs w1 = subs w" by auto
    have "w' = w2" "r = Ok () \<Longrightarrow> \<exists>x. q2 = Ok x"
      using run q Ok q2 by (auto simp: relay_at_def assms bind_io_def map_err_io_def ret_def split: res.splits)
        (cases q2; simp)+
    with submit_law [OF bun(2) q2] bun show ?thesis
      by (cases "subs w2 = subs w1") (auto intro: exI [of _ "[]"])
  next
    case (Err x)
    with run q b show ?thesis by (auto simp: relay_at_def assms bind_io_def intro: exI [of _ "[]"])
  next
    case (Panic x)
    with run q b show ?thesis by (auto simp: relay_at_def assms bind_io_def intro: exI [of _ "[]"])
  qed
qed

text \<open>The submissions due for the events at height \<open>h\<close>, in order.\<close>

definition due :: "int \<Rightarrow> 'l list" where
  "due h = map (\<lambda>e. entry_at (qe_height e)) (events_of h)"

lemma submits_events_at:
  assumes "parent_handler cm = par" "child_handler cm = chi" and st: "settled h"
  shows "submits (submit_events_at cm a h) (due h)"
  unfolding submits_def
proof (intro allI impI)
  fix w r w'
  assume w: "inv w" and run: "submit_events_at cm a h w = (r, w')"
  obtain q w1 where q: "rl_quorum_reached_events chi h w = (q, w1)" by (cases "rl_quorum_reached_events chi h w")
  note ev = events_law [OF w q]
  show "inv w' \<and> (\<exists>ys. prefix ys (due h) \<and> subs w' = subs w @ ys \<and> (r = Ok () \<longrightarrow> ys = due h))"
  proof (cases "\<exists>es. q = Ok es")
    case True
    then have es: "q = Ok (events_of h)" using ev st by auto
    then have loop: "for_io (events_of h) (\<lambda>e. relay_at cm a (qe_height e)) w1 = (r, w')"
      using run q by (simp add: submit_events_at_def assms bind_io_def)
    have "submits (for_io (events_of h) (\<lambda>e. relay_at cm a (qe_height e))) (concat (map (\<lambda>e. [entry_at (qe_height e)]) (events_of h)))"
      by (rule submits_for) (rule submits_relay_at [OF assms _ refl])
    from submitsD [OF this _ loop] ev show ?thesis by (auto simp: due_def)
  next
    case False
    with run q ev show ?thesis
      by (cases q) (auto simp: submit_events_at_def assms bind_io_def intro: exI [of _ "[]"])
  qed
qed

lemma submits_range:
  assumes "parent_handler cm = par" "child_handler cm = chi" "\<And>h. i \<le> h \<Longrightarrow> h \<le> j \<Longrightarrow> settled h"
  shows "submits (for_io [i..j] (submit_events_at cm a)) (concat (map due [i..j]))"
  by (rule submits_for) (simp add: submits_events_at [OF assms(1,2)] assms(3))

text \<open>The list of submissions only grows, whatever the outcome of a round.\<close>

definition grows :: "('w, unit) io \<Rightarrow> bool" where
  "grows m \<longleftrightarrow> (\<forall>w r w'. inv w \<longrightarrow> m w = (r, w') \<longrightarrow> inv w' \<and> prefix (subs w) (subs w'))"

lemma submits_grows: "submits m xs \<Longrightarrow> grows m"
  unfolding grows_def using submitsD by (metis prefixI)

lemma grows_ret: "grows (ret ())"
  by (rule submits_grows) (rule submits_ret)

lemma grows_query:
  assumes q: "\<And>w r w'. inv w \<Longrightarrow> q w = (r, w') \<Longrightarrow> inv w' \<and> subs w' = subs w"
    and f: "\<And>x. grows (f x)"
  shows "grows (bind_io q f)"
  unfolding grows_def
proof (intro allI impI)
  fix w r w'
  assume w: "inv w" and run: "bind_io q f w = (r, w')"
  obtain x w1 where x: "q w = (x, w1)" by (cases "q w")
  from q [OF w x] have w1: "inv w1" "subs w1 = subs w" by auto
  show "inv w' \<and> prefix (subs w) (subs w')"
  proof (cases x)
    case (Ok a)
    with run x have "f a w1 = (r, w')" by (simp add: bind_io_def)
    with f [of a] w1 show ?thesis unfolding grows_def by metis
  qed (use run x w1 in \<open>auto simp: bind_io_def\<close>)
qed

lemma grows_seq:
  assumes m: "grows m" and n: "grows n"
  shows "grows (bind_io m (\<lambda>_. n))"
  unfolding grows_def
proof (intro allI impI)
  fix w r w'
  assume w: "inv w" and run: "bind_io m (\<lambda>_. n) w = (r, w')"
  obtain x w1 where x: "m w = (x, w1)" by (cases "m w")
  with m w have w1: "inv w1" "prefix (subs w) (subs w1)" unfolding grows_def by auto
  show "inv w' \<and> prefix (subs w) (subs w')"
  proof (cases x)
    case (Ok a)
    with run x have "n w1 = (r, w')" by (simp add: bind_io_def)
    with n w1(1) have "inv w'" "prefix (subs w1) (subs w')" unfolding grows_def by auto
    with w1(2) show ?thesis by auto
  qed (use run x w1 in \<open>auto simp: bind_io_def\<close>)
qed

lemma grows_for: "(\<And>x. grows (f x)) \<Longrightarrow> grows (for_io xs f)"
  by (induction xs) (auto intro: grows_ret grows_seq)

lemma grows_submit: "grows (bind_io (map_err_io g (rl_submit_checkpoint par a b)) (\<lambda>_. ret ()))"
  unfolding grows_def
proof (intro allI impI)
  fix w r w'
  assume w: "inv w" and run: "bind_io (map_err_io g (rl_submit_checkpoint par a b)) (\<lambda>_. ret ()) w = (r, w')"
  obtain x w1 where x: "rl_submit_checkpoint par a b w = (x, w1)" by (cases "rl_submit_checkpoint par a b w")
  with run have "w' = w1" by (cases x) (auto simp: bind_io_def map_err_io_def ret_def)
  with submit_law [OF w x] show "inv w' \<and> prefix (subs w) (subs w')" by auto
qed

lemma grows_relay_at:
  assumes "parent_handler cm = par" "child_handler cm = chi"
  shows "grows (relay_at cm a h)"
  unfolding relay_at_def assms by (rule grows_query [OF _ grows_submit]) (auto dest: bundle_law)

lemma grows_events_at:
  assumes "parent_handler cm = par" "child_handler cm = chi"
  shows "grows (submit_events_at cm a h)"
  unfolding submit_events_at_def assms
  by (rule grows_query [OF _ grows_for [OF grows_relay_at [OF assms]]]) (auto dest: events_law)

lemma query_map_err:
  assumes "\<And>w r w'. inv w \<Longrightarrow> q w = (r, w') \<Longrightarrow> inv w' \<and> subs w' = subs w"
  shows "inv w \<Longrightarrow> map_err_io g q w = (r, w') \<Longrightarrow> inv w' \<and> subs w' = subs w"
  using assms by (auto simp: map_err_io_def split: prod.splits)

lemma query_lift: "inv w \<Longrightarrow> lift x w = (r, w') \<Longrightarrow> inv w' \<and> subs w' = subs w"
  by (auto simp: lift_def)

lemma query_next_height:
  assumes "parent_handler cm = par"
  shows "inv w \<Longrightarrow> next_submission_height cm w = (r, w') \<Longrightarrow> inv w' \<and> subs w' = subs w"
  unfolding next_submission_height_def assms
  by (auto simp: bind_io_def map_err_io_def lift_def split: prod.splits res.splits dest: last_law)

lemma grows_last:
  assumes "parent_handler cm = par" "child_handler cm = chi"
  shows "grows (submit_last_epoch cm a)"
  unfolding submit_last_epoch_def assms
  by (intro grows_query)
    (auto intro!: grows_ret grows_query grows_relay_at [OF assms] dest: has_law last_law)

lemma grows_next:
  assumes "parent_handler cm = par" "child_handler cm = chi"
  shows "grows (submit_next_epoch cm a)"
proof -
  have range: "grows (for_io [i..j] (submit_events_at cm a))" for i j
    by (rule grows_for) (rule grows_events_at [OF assms])
  have inner: "grows (bind_io (lift x) (\<lambda>p. bind_io (lift (g p)) (\<lambda>s. for_io [s..j] (submit_events_at cm a))))" for x g j
    by (intro grows_query range) (auto dest: query_lift)
  show ?thesis unfolding submit_next_epoch_def assms Let_def
    by (intro grows_query)
      (auto intro!: grows_ret inner dest: query_next_height [OF assms(1)] epoch_law query_lift)
qed

text \<open>The daemon never loses or reorders a submission.\<close>

lemma run_grows:
  assumes "relayer_run cm a w w'" and "inv w" and h: "parent_handler cm = par" "child_handler cm = chi"
  shows "inv w' \<and> prefix (subs w) (subs w')"
  using assms(1,2)
proof (induction rule: relayer_run.induct)
  case (run_round w w1 r w2)
  have "grows (cm_submit_checkpoint cm a)"
    unfolding cm_submit_checkpoint_def by (rule grows_seq [OF grows_last [OF h] grows_next [OF h]])
  with run_round show ?case unfolding grows_def by (meson prefix_order.trans)
qed simp

lemma next_epoch_spec:
  assumes h: "parent_handler cm = par" "child_handler cm = chi" and w: "inv w"
    and last: "rl_last_bottom_up_checkpoint_height par (sn_id (cm_child cm)) w = (Ok lst, w1)"
    and cur: "rl_current_epoch chi w1 = (Ok cur, w2)"
    and range: "- (2 ^ 63) \<le> lst" "lst + 1 < 2 ^ 63" "- (2 ^ 63) \<le> lst + period cm" "lst + period cm < 2 ^ 63"
      "- (2 ^ 63) \<le> cur - finalization_blocks cm" "cur - finalization_blocks cm < 2 ^ 63"
    and st: "\<And>h. lst < h \<Longrightarrow> h \<le> max 1 (cur - finalization_blocks cm) \<Longrightarrow> settled h"
    and run: "submit_next_epoch cm a w = (r, w')"
  shows "if max 1 (cur - finalization_blocks cm) < lst + period cm then r = Ok () \<and> subs w' = subs w
     else \<exists>ys. prefix ys (concat (map due [lst + 1..max 1 (cur - finalization_blocks cm)]))
          \<and> subs w' = subs w @ ys
          \<and> (r = Ok () \<longrightarrow> ys = concat (map due [lst + 1..max 1 (cur - finalization_blocks cm)]))"
proof -
  let ?fin = "max 1 (cur - finalization_blocks cm)"
  have w1: "inv w1" "subs w1 = subs w" using last_law [OF w last] by auto
  have w2: "inv w2" "subs w2 = subs w" using epoch_law [OF w1(1) cur] w1 by auto
  have next_h: "next_submission_height cm w = (Ok (lst + period cm), w1)"
    using last range by (simp add: next_submission_height_def h bind_io_def map_err_io_def lift_def epoch_of_def)
  have step: "submit_next_epoch cm a w = (if ?fin < lst + period cm then (Ok (), w2)
      else for_io [lst + 1..?fin] (submit_events_at cm a) w2)"
    using next_h cur range
    by (simp add: submit_next_epoch_def h bind_io_def lift_def epoch_of_def Let_def ret_def)
  show ?thesis
  proof (cases "?fin < lst + period cm")
    case True
    with step run w2 show ?thesis by simp
  next
    case False
    from run have "for_io [lst + 1..?fin] (submit_events_at cm a) w2 = (r, w')"
      unfolding step if_not_P [OF False] .
    from submitsD [OF submits_range [OF h st] w2(1) this] w2(2) False show ?thesis by auto
  qed
qed

end

inductive_cases relayer_runE: "relayer_run cm a w w'"

end
