(* ===== verification/Rust_Net.thy ===== *)
theory Rust_Net
  imports Rust_Std
begin

text \<open>
  \<open>str::parse::<SocketAddr>()\<close> of the Rust standard library (\<open>core::net::parser\<close>), as far as
  the endpoint check of the subnet manager uses it: a parser returns its value and the rest of
  the text, or fails having consumed nothing.
\<close>

type_synonym 'v parser = "string \<Rightarrow> ('v \<times> string) option"

definition and_parse :: "'u parser \<Rightarrow> ('u \<Rightarrow> 'v parser) \<Rightarrow> 'v parser" where
  "and_parse p f s = (case p s of None \<Rightarrow> None | Some (v, r) \<Rightarrow> f v r)"

definition give :: "'v \<Rightarrow> 'v parser" where
  "give v s = Some (v, s)"

fun read_given_char :: "char \<Rightarrow> unit parser" where
  "read_given_char c [] = None"
| "read_given_char c (x # xs) = (if x = c then Some ((), xs) else None)"

section \<open>Numbers\<close>

definition to_digit :: "nat \<Rightarrow> char \<Rightarrow> nat option" where
  "to_digit radix c = (let n = of_char c;
       d = (if 48 \<le> n \<and> n \<le> 57 then n - 48
            else if 97 \<le> n \<and> n \<le> 122 then n - 87
            else if 65 \<le> n \<and> n \<le> 90 then n - 55 else radix)
     in if d < radix then Some d else None)"

fun read_digits :: "nat \<Rightarrow> nat \<Rightarrow> nat option \<Rightarrow> nat \<Rightarrow> nat \<Rightarrow> string \<Rightarrow> (nat \<times> nat \<times> string) option" where
  "read_digits radix mx max_digits count acc [] = Some (count, acc, [])"
| "read_digits radix mx max_digits count acc (c # cs) =
     (case to_digit radix c of
        None \<Rightarrow> Some (count, acc, c # cs)
      | Some d \<Rightarrow>
          if mx < acc * radix + d then None
          else if (case max_digits of Some m \<Rightarrow> m < Suc count | None \<Rightarrow> False) then None
          else read_digits radix mx max_digits (Suc count) (acc * radix + d) cs)"

definition read_number :: "nat \<Rightarrow> nat \<Rightarrow> nat option \<Rightarrow> bool \<Rightarrow> nat parser" where
  "read_number radix mx max_digits allow_zero_prefix s =
     (case read_digits radix mx max_digits 0 0 s of
        None \<Rightarrow> None
      | Some (count, v, r) \<Rightarrow>
          if count = 0 then None
          else if \<not> allow_zero_prefix \<and> take 1 s = ''0'' \<and> 1 < count then None
          else Some (v, r))"

section \<open>Addresses\<close>

definition read_separator :: "char \<Rightarrow> nat \<Rightarrow> 'v parser \<Rightarrow> 'v parser" where
  "read_separator sep index inner =
     (if 0 < index then and_parse (read_given_char sep) (\<lambda>_. inner) else inner)"

definition read_octet :: "nat \<Rightarrow> nat parser" where
  "read_octet i = read_separator (CHR ''.'') i (read_number 10 255 (Some 3) False)"

definition read_ipv4_addr :: "nat list parser" where
  "read_ipv4_addr =
     and_parse (read_octet 0) (\<lambda>a. and_parse (read_octet 1) (\<lambda>b.
     and_parse (read_octet 2) (\<lambda>c. and_parse (read_octet 3) (\<lambda>d. give [a, b, c, d]))))"

text \<open>\<open>read_groups\<close>: the groups read (16 bits each), whether an IPv4 address ended them, the rest.
  \<open>fuel\<close> is the number of slots left.\<close>

fun read_groups :: "nat \<Rightarrow> nat \<Rightarrow> string \<Rightarrow> nat list \<times> bool \<times> string" where
  "read_groups 0 i s = ([], False, s)"
| "read_groups (Suc left) i s =
     (case (if 0 < left then read_separator (CHR '':'') i read_ipv4_addr s else None) of
        Some (v4, r) \<Rightarrow> ([v4 ! 0 * 256 + v4 ! 1, v4 ! 2 * 256 + v4 ! 3], True, r)
      | None \<Rightarrow>
          (case read_separator (CHR '':'') i (read_number 16 65535 (Some 4) True) s of
             Some (g, r) \<Rightarrow> (case read_groups left (Suc i) r of (gs, v4, r') \<Rightarrow> (g # gs, v4, r'))
           | None \<Rightarrow> ([], False, s)))"

definition read_ipv6_addr :: "nat list parser" where
  "read_ipv6_addr s =
     (case read_groups 8 0 s of (head, head_ipv4, r) \<Rightarrow>
        if length head = 8 then Some (head, r)
        else if head_ipv4 then None
        else and_parse (read_given_char (CHR '':'')) (\<lambda>_.
             and_parse (read_given_char (CHR '':'')) (\<lambda>_ r2.
               (case read_groups (7 - length head) 0 r2 of (tail, _, r3) \<Rightarrow>
                  Some (head @ replicate (8 - length head - length tail) 0 @ tail, r3)))) r)"

datatype ip_addr = V4 "nat list" | V6 "nat list"

definition read_port :: "nat parser" where
  "read_port = and_parse (read_given_char (CHR '':'')) (\<lambda>_. read_number 10 65535 None True)"

definition read_scope_id :: "nat parser" where
  "read_scope_id s =
     (case and_parse (read_given_char (CHR ''%'')) (\<lambda>_. read_number 10 (2 ^ 32 - 1) None True) s of
        Some x \<Rightarrow> Some x | None \<Rightarrow> Some (0, s))"

definition read_socket_addr_v4 :: "(ip_addr \<times> nat) parser" where
  "read_socket_addr_v4 = and_parse read_ipv4_addr (\<lambda>ip. and_parse read_port (\<lambda>port. give (V4 ip, port)))"

definition read_socket_addr_v6 :: "(ip_addr \<times> nat) parser" where
  "read_socket_addr_v6 =
     and_parse (read_given_char (CHR ''['')) (\<lambda>_. and_parse read_ipv6_addr (\<lambda>ip.
     and_parse read_scope_id (\<lambda>_. and_parse (read_given_char (CHR '']'')) (\<lambda>_.
     and_parse read_port (\<lambda>port. give (V6 ip, port))))))"

definition parse_socket_addr :: "string \<Rightarrow> (ip_addr \<times> nat) option" where
  "parse_socket_addr s =
     (case (case read_socket_addr_v4 s of Some x \<Rightarrow> Some x | None \<Rightarrow> read_socket_addr_v6 s) of
        Some (v, []) \<Rightarrow> Some v | _ \<Rightarrow> None)"

section \<open>Printed IPv4 sockets are read back\<close>

definition show_ipv4_socket :: "nat list \<Rightarrow> nat \<Rightarrow> string" where
  "show_ipv4_socket o4 port =
     show_nat (o4 ! 0) @ ''.'' @ show_nat (o4 ! 1) @ ''.'' @ show_nat (o4 ! 2) @ ''.'' @ show_nat (o4 ! 3)
     @ '':'' @ show_nat port"

lemma to_digit_10: "to_digit 10 c = char_digit c"
  by (auto simp: to_digit_def char_digit_def Let_def)

definition no_digit :: "string \<Rightarrow> bool" where
  "no_digit r \<longleftrightarrow> (case r of [] \<Rightarrow> True | c # _ \<Rightarrow> char_digit c = None)"

lemma no_digit_simps [simp]: "no_digit []" "no_digit (CHR ''.'' # r)" "no_digit (CHR '':'' # r)"
  by (simp_all add: no_digit_def char_digit_def)

lemma read_digits_parse:
  "parse_digits mx acc s = Some v \<Longrightarrow> no_digit r \<Longrightarrow> (case md of Some m \<Rightarrow> count + length s \<le> m | None \<Rightarrow> True) \<Longrightarrow>
   read_digits 10 mx md count acc (s @ r) = Some (count + length s, v, r)"
proof (induction s arbitrary: acc count)
  case Nil
  then show ?case by (cases r) (auto simp: no_digit_def to_digit_10)
next
  case (Cons c cs)
  then show ?case by (auto simp: to_digit_10 split: option.splits if_splits)
qed

lemma show_nat_zero: "take 1 (show_nat n) = ''0'' \<Longrightarrow> n = 0"
proof (induction n rule: show_nat.induct)
  case (1 n)
  show ?case
  proof (cases "n < 10")
    case True
    with 1 have "digit_char n = CHR ''0''" by (subst (asm) (2) show_nat.simps) simp
    with True show ?thesis using digit_char_eq_iff_of [of n "CHR ''0''"] by simp
  next
    case False
    have "take 1 (show_nat (n div 10)) = ''0''"
      using 1(2) False by (subst (asm) show_nat.simps) (cases "show_nat (n div 10)", auto)
    with 1(1) [OF False] False show ?thesis by auto
  qed
qed

lemma show_nat_one: "length (show_nat 0) = 1"
  by (subst show_nat.simps) simp

lemma show_nat_length: "n < 1000 \<Longrightarrow> length (show_nat n) \<le> 3"
  by (subst show_nat.simps, simp, subst show_nat.simps, simp, subst show_nat.simps, simp)

lemma read_number_show:
  assumes "n \<le> mx" "no_digit r" "case md of Some m \<Rightarrow> length (show_nat n) \<le> m | None \<Rightarrow> True"
  shows "read_number 10 mx md z (show_nat n @ r) = Some (n, r)"
proof -
  have rd: "read_digits 10 mx md 0 0 (show_nat n @ r) = Some (length (show_nat n), n, r)"
    using read_digits_parse [OF parse_digits_show [OF assms(1)] assms(2), where md = md and count = 0] assms(3)
    by (simp split: option.splits)
  have pos: "0 < length (show_nat n)" by simp
  have "\<not> (take 1 (show_nat n @ r) = ''0'' \<and> 1 < length (show_nat n))"
  proof
    assume z: "take 1 (show_nat n @ r) = ''0'' \<and> 1 < length (show_nat n)"
    from pos have "take 1 (show_nat n @ r) = take 1 (show_nat n)" by (simp add: Suc_le_eq)
    with z have "n = 0" by (metis show_nat_zero)
    with z show_nat_one show False by simp
  qed
  with pos show ?thesis unfolding read_number_def rd by auto
qed

lemma parse_show_ipv4_socket:
  assumes "length o4 = 4" "\<forall>x\<in>set o4. x \<le> 255" "port \<le> 65535"
  shows "parse_socket_addr (show_ipv4_socket o4 port) = Some (V4 o4, port)"
proof -
  obtain a b c d where o: "o4 = [a, b, c, d]" using assms(1) by (auto simp: numeral_eq_Suc length_Suc_conv)
  have oct: "read_number 10 255 (Some 3) False (show_nat x @ r) = Some (x, r)" if "x \<in> set o4" "no_digit r" for x r
    using read_number_show [where n = x and mx = 255 and r = r and md = "Some 3" and z = False] that assms(2) show_nat_length [of x] by fastforce
  have port: "read_number 10 65535 None True (show_nat port) = Some (port, [])"
    using read_number_show [where n = port and mx = 65535 and r = "[]" and md = None and z = True] assms(3) by simp
  show ?thesis
    by (simp add: parse_socket_addr_def read_socket_addr_v4_def read_ipv4_addr_def show_ipv4_socket_def o and_parse_def
        give_def read_octet_def read_separator_def oct [unfolded o] read_port_def port)
qed

section \<open>IPv6 sockets are read back\<close>

text \<open>The groups of an IPv6 address as texts of one to four hexadecimal digits, of either case and with
  leading zeros or not; \<open>us\<close> are the groups after the \<open>::\<close> of an address that is not written out in full.\<close>

definition hex_group :: "string \<Rightarrow> bool" where
  "hex_group t \<longleftrightarrow> t \<noteq> [] \<and> length t \<le> 4 \<and> (\<forall>c \<in> set t. to_digit 16 c \<noteq> None)"

definition hex_acc :: "nat \<Rightarrow> string \<Rightarrow> nat" where
  "hex_acc = foldl (\<lambda>a c. a * 16 + the (to_digit 16 c))"

definition colon_groups :: "string list \<Rightarrow> string" where
  "colon_groups ts = concat (map ((#) (CHR '':'')) ts)"

definition show_ipv6 :: "string list \<Rightarrow> string list \<Rightarrow> string" where
  "show_ipv6 ts us =
     (if length ts = 8 then tl (colon_groups ts) else tl (colon_groups ts) @ ''::'' @ tl (colon_groups us))"

definition ipv6_groups :: "string list \<Rightarrow> string list \<Rightarrow> nat list" where
  "ipv6_groups ts us =
     (if length ts = 8 then map (hex_acc 0) ts
      else map (hex_acc 0) ts @ replicate (8 - length ts - length us) 0 @ map (hex_acc 0) us)"

definition show_ipv6_socket :: "string list \<Rightarrow> string list \<Rightarrow> nat \<Rightarrow> string" where
  "show_ipv6_socket ts us port = ''['' @ show_ipv6 ts us @ '']:'' @ show_nat port"

lemma to_digit_less: "to_digit radix c = Some d \<Longrightarrow> d < radix"
  by (auto simp: to_digit_def Let_def split: if_splits)

lemma to_digit_16_marks [simp]: "to_digit 16 (CHR '':'') = None" "to_digit 16 (CHR '']'') = None" "to_digit 16 (CHR ''.'') = None"
    "to_digit 10 (CHR '':'') = None" "to_digit 10 (CHR '']'') = None" "to_digit 10 (CHR ''['') = None" "to_digit 16 (CHR ''@'') = None"
  by (simp_all add: to_digit_def)

text \<open>What follows the groups: the end of the address or the \<open>::\<close>.\<close>

definition stops :: "string \<Rightarrow> bool" where
  "stops r \<longleftrightarrow> (\<exists>x. r = CHR '']'' # x \<or> r = CHR '':'' # CHR '':'' # x)"

definition marked :: "string \<Rightarrow> bool" where
  "marked r \<longleftrightarrow> (\<exists>c x. r = c # x \<and> (c = CHR '':'' \<or> c = CHR '']''))"

lemma stops_marked: "stops r \<Longrightarrow> marked r"
  by (auto simp: stops_def marked_def)

lemma colon_marked: "marked r \<Longrightarrow> marked (colon_groups ts @ r)"
  by (cases ts) (auto simp: colon_groups_def marked_def)

lemma read_digits_hex:
  assumes "\<forall>c \<in> set t. to_digit 16 c \<noteq> None" "marked r" "count + length t \<le> 4" "(acc + 1) * 16 ^ length t \<le> 65536"
  shows "read_digits 16 65535 (Some 4) count acc (t @ r) = Some (count + length t, hex_acc acc t, r)"
  using assms
proof (induction t arbitrary: count acc)
  case Nil
  then show ?case by (auto simp: marked_def hex_acc_def)
next
  case (Cons c t)
  then obtain d where d: "to_digit 16 c = Some d" by auto
  have "(acc * 16 + d + 1) * 16 ^ length t \<le> ((acc + 1) * 16) * 16 ^ length t"
    using to_digit_less [OF d] by (intro mult_le_mono1) simp
  also have "\<dots> \<le> 65536" using Cons.prems(4) by (simp add: algebra_simps)
  finally have le: "(acc * 16 + d + 1) * 16 ^ length t \<le> 65536" .
  have "(acc * 16 + d + 1) * 1 \<le> (acc * 16 + d + 1) * 16 ^ length t" by (intro mult_le_mono2) simp
  from le_trans [OF this le] have "acc * 16 + d \<le> 65535" by simp
  with Cons.IH [OF _ Cons.prems(2) _ le, of "Suc count"] Cons.prems(1,3) d show ?case by (simp add: hex_acc_def)
qed

lemma read_group:
  assumes "hex_group t" "marked r"
  shows "read_number 16 65535 (Some 4) True (t @ r) = Some (hex_acc 0 t, r)"
proof -
  have "(16::nat) ^ length t \<le> 16 ^ 4" using assms(1) by (intro power_increasing) (auto simp: hex_group_def)
  then have "read_digits 16 65535 (Some 4) 0 0 (t @ r) = Some (length t, hex_acc 0 t, r)"
    using read_digits_hex [of t r 0 0] assms by (simp add: hex_group_def)
  with assms(1) show ?thesis by (simp add: read_number_def hex_group_def)
qed

lemma read_group_none: "marked r \<Longrightarrow> read_number 16 65535 (Some 4) True r = None"
  by (auto simp: marked_def read_number_def)

text \<open>A group is not the beginning of an IPv4 address: no dot follows its digits.\<close>

lemma read_digits_rest: "read_digits 10 mx md n a s = Some (k, v, r) \<Longrightarrow> r = dropWhile (\<lambda>c. to_digit 10 c \<noteq> None) s"
  by (induction s arbitrary: n a) (auto split: option.splits if_splits)

lemma no_dot_after:
  "CHR ''.'' \<notin> set t \<Longrightarrow> r = [] \<or> hd r \<noteq> CHR ''.'' \<and> to_digit 10 (hd r) = None \<Longrightarrow> read_given_char (CHR ''.'') (dropWhile (\<lambda>c. to_digit 10 c \<noteq> None) (t @ r)) = None"
proof (induction t)
  case Nil
  then show ?case by (cases r) auto
qed auto

lemma no_ipv4:
  assumes "CHR ''.'' \<notin> set t" "r = [] \<or> hd r \<noteq> CHR ''.'' \<and> to_digit 10 (hd r) = None"
  shows "read_ipv4_addr (t @ r) = None"
proof (cases "read_octet 0 (t @ r)")
  case (Some p)
  obtain v r' where p: "p = (v, r')" by (cases p)
  with Some have "r' = dropWhile (\<lambda>c. to_digit 10 c \<noteq> None) (t @ r)"
    by (auto simp: read_octet_def read_separator_def read_number_def split: option.splits if_splits dest: read_digits_rest)
  with no_dot_after [OF assms] have "read_octet 1 r' = None" by (simp add: read_octet_def read_separator_def and_parse_def)
  with Some p show ?thesis by (simp add: read_ipv4_addr_def and_parse_def)
qed (simp add: read_ipv4_addr_def and_parse_def)

lemma no_ipv4_group:
  assumes "\<forall>c \<in> set t. to_digit 16 c \<noteq> None" "marked r"
  shows "read_ipv4_addr (t @ r) = None"
  by (rule no_ipv4) (use assms in \<open>auto simp: marked_def\<close>)

lemma read_separated:
  "0 < i \<Longrightarrow> read_separator c i p (c # s) = p s" "read_separator c 0 p s = p s"
  "0 < i \<Longrightarrow> x \<noteq> c \<Longrightarrow> read_separator c i p (x # s) = None"
  by (simp_all add: read_separator_def and_parse_def)

lemma read_groups_stop:
  assumes "stops r"
  shows "read_groups n i r = ([], False, r)"
proof (cases n)
  case (Suc m)
  from assms consider x where "r = CHR '']'' # x" | x where "r = CHR '':'' # CHR '':'' # x" by (auto simp: stops_def)
  then have "read_separator (CHR '':'') i read_ipv4_addr r = None \<and> read_separator (CHR '':'') i (read_number 16 65535 (Some 4) True) r = None"
  proof cases
    case (1 x)
    have "marked r" by (simp add: 1 marked_def)
    with no_ipv4_group [of "[]" r] read_group_none [of r] 1 show ?thesis by (cases "i = 0") (simp_all add: read_separated)
  next
    case (2 x)
    have "marked r" "marked (CHR '':'' # x)" by (simp_all add: 2 marked_def)
    with no_ipv4_group [of "[]"] read_group_none 2 show ?thesis by (cases "i = 0") (simp_all add: read_separated)
  qed
  with Suc show ?thesis by simp
qed simp

lemma read_groups_colon:
  assumes "\<forall>t \<in> set ts. hex_group t" "length ts \<le> n" "stops r"
  shows "read_groups n (Suc i) (colon_groups ts @ r) = (map (hex_acc 0) ts, False, r)"
  using assms
proof (induction ts arbitrary: n i)
  case Nil
  then show ?case by (simp add: colon_groups_def read_groups_stop)
next
  case (Cons t ts)
  then obtain m where m: "n = Suc m" "length ts \<le> m" by (cases n) auto
  have mark: "marked (colon_groups ts @ r)" using Cons.prems(3) by (intro colon_marked stops_marked)
  have "hex_group t" using Cons.prems(1) by simp
  with read_group [OF this mark] no_ipv4_group [OF _ mark, of t] Cons.IH [OF _ m(2) Cons.prems(3), of "Suc i"] Cons.prems(1) m
  show ?case by (auto simp: colon_groups_def read_separated hex_group_def)
qed

lemma read_groups_text:
  assumes "\<forall>t \<in> set ts. hex_group t" "length ts \<le> n" "stops r"
  shows "read_groups n 0 (tl (colon_groups ts) @ r) = (map (hex_acc 0) ts, False, r)"
proof (cases ts)
  case Nil
  with assms(3) show ?thesis by (simp add: colon_groups_def read_groups_stop)
next
  case (Cons t us)
  then obtain m where m: "n = Suc m" "length us \<le> m" using assms(2) by (cases n) auto
  have mark: "marked (colon_groups us @ r)" using assms(3) by (intro colon_marked stops_marked)
  have t: "hex_group t" "\<forall>t \<in> set us. hex_group t" using assms(1) Cons by simp_all
  with read_group [OF t(1) mark] no_ipv4_group [OF _ mark, of t] read_groups_colon [OF t(2) m(2) assms(3), of 0] Cons m
  show ?thesis by (auto simp: colon_groups_def read_separated hex_group_def)
qed

lemma read_ipv6_text:
  assumes ts: "\<forall>t \<in> set (ts @ us). hex_group t" and len: "length ts = 8 \<or> length ts + length us \<le> 7"
  shows "read_ipv6_addr (show_ipv6 ts us @ CHR '']'' # x) = Some (ipv6_groups ts us, CHR '']'' # x)"
proof -
  have stops: "stops (CHR '']'' # x)" "stops (''::'' @ tl (colon_groups us) @ CHR '']'' # x)" by (auto simp: stops_def)
  show ?thesis
  proof (cases "length ts = 8")
    case True
    with read_groups_text [OF _ _ stops(1), of ts 8] ts show ?thesis
      by (simp add: read_ipv6_addr_def show_ipv6_def ipv6_groups_def del: read_groups.simps)
  next
    case False
    with len have "length ts \<le> 8" "length us \<le> 7 - length ts" by auto
    with read_groups_text [OF _ _ stops(2), of ts 8] read_groups_text [OF _ _ stops(1), of us "7 - length ts"] ts False show ?thesis
      by (simp add: read_ipv6_addr_def show_ipv6_def ipv6_groups_def and_parse_def del: read_groups.simps)
  qed
qed

lemma parse_show_ipv6_socket:
  assumes "\<forall>t \<in> set (ts @ us). hex_group t" "length ts = 8 \<or> length ts + length us \<le> 7" "port \<le> 65535"
  shows "parse_socket_addr (show_ipv6_socket ts us port) = Some (V6 (ipv6_groups ts us), port)"
proof -
  have "read_ipv4_addr (''['' @ s) = None" for s using no_ipv4 [of "[]" "''['' @ s"] by simp
  then have v4: "read_socket_addr_v4 (CHR ''['' # s) = None" for s by (simp add: read_socket_addr_v4_def and_parse_def)
  have port: "read_number 10 65535 None True (show_nat port) = Some (port, [])"
    using read_number_show [where n = port and mx = 65535 and r = "[]" and md = None and z = True] assms(3) by simp
  from read_ipv6_text [OF assms(1,2)] show ?thesis
    by (simp add: parse_socket_addr_def v4 read_socket_addr_v6_def show_ipv6_socket_def and_parse_def read_scope_id_def
        read_port_def port give_def)
qed

end
