(* ===== verification/Eth_Manager.thy ===== *)
theory Eth_Manager
  imports Eth_Fees Evm_Keystore Checkpoint_Manager Rust_Net
begin

text \<open>
  \<open>ipc/provider/src/manager/evm/manager.rs\<close>: the manager of a subnet that runs an Ethereum
  node. The node and the contracts are parameters: the record \<open>node\<close> holds one operation per
  remote call, over an opaque chain state that any call may advance. The model's world adds the
  list of transactions handed to the node, so that what an operation sends can be stated. A
  state-changing operation is a pure plan (the checks of the code and the transaction they
  lead to) followed by the fee query, the submission and the wait for the receipt.
\<close>

section \<open>The node and the contracts\<close>

record eth_block =
  blk_hash :: "bytes option"
  blk_parent_hash :: bytes
  blk_base_fee :: "u256 option"

record eth_log =
  log_removed :: "bool option"
  log_block_hash :: bytes
  log_data :: bytes

record eth_receipt =
  receipt_block_number :: "u64 option"
  receipt_logs :: "eth_log list"

record constructor_params =
  cp_parent_id :: evm_subnet_id
  cp_ipc_gateway_addr :: bytes
  cp_consensus :: u8
  cp_min_activation_collateral :: u256
  cp_min_validators :: u64
  cp_bottom_up_check_period :: u64
  cp_majority_percentage :: u8
  cp_active_validators_limit :: u16
  cp_power_scale :: nat
  cp_min_cross_msg_fee :: u256

datatype contract_call =
    NewSubnetActor constructor_params
  | Join bytes
  | PreFund
  | PreRelease u256
  | Stake
  | Unstake u256
  | Leave
  | Kill
  | Claim
  | ClaimRewardForRelayer
  | AddBootstrapNode string
  | FundCall evm_subnet_id bytes
  | ReleaseCall bytes u256
  | Propagate bytes
  | SendCrossMessage evm_cross_msg
  | SubmitCheckpoint evm_checkpoint "evm_cross_msg list" "bytes list" "bytes list"
  | Transfer

record transaction =
  tx_sender :: bytes
  tx_chain_id :: u64
  tx_to :: bytes
  tx_value :: u256
  tx_call :: contract_call
  tx_gas_price :: u256
  tx_fee_cap :: "u256 option"

record evm_subnet_data =
  gs_id :: evm_subnet_id
  gs_stake :: u256
  gs_circ_supply :: u256
  gs_genesis_epoch :: u256
  gs_status :: u8

record evm_quorum_event =
  qr_height :: u64
  qr_checkpoint :: bytes
  qr_weight :: u256

datatype event_kind = NewStakingChangeRequest | QuorumReached

record 'c node =
  n_block_number :: "('c, u64) io"
  n_block_at :: "u64 \<Rightarrow> ('c, eth_block option) io"
  n_latest_block :: "('c, eth_block option) io"
  n_fee_history :: "('c, u256 list list) io"
  n_balance :: "bytes \<Rightarrow> ('c, u256) io"
  n_chain_id :: "('c, u256) io"
  n_send :: "transaction \<Rightarrow> ('c, bytes) io"
  n_receipt :: "nat \<Rightarrow> bytes \<Rightarrow> ('c, eth_receipt option) io"
  n_confirm :: "bytes \<Rightarrow> ('c, eth_receipt option) io"
  n_logs :: "bytes \<Rightarrow> event_kind \<Rightarrow> u64 \<Rightarrow> u64 \<Rightarrow> ('c, eth_log list) io"
  g_get_subnet :: "bytes \<Rightarrow> evm_subnet_id \<Rightarrow> ('c, bool \<times> evm_subnet_data) io"
  g_top_down_msgs :: "bytes \<Rightarrow> evm_subnet_id \<Rightarrow> u256 \<Rightarrow> bytes \<Rightarrow> ('c, evm_cross_msg list) io"
  g_latest_parent_finality :: "bytes \<Rightarrow> ('c, u256) io"
  g_list_subnets :: "bytes \<Rightarrow> ('c, evm_subnet_data list) io"
  g_cross_msg_fee :: "bytes \<Rightarrow> ('c, u256) io"
  g_bottom_up_checkpoint :: "bytes \<Rightarrow> u64 \<Rightarrow> ('c, evm_checkpoint) io"
  g_applied_top_down_nonce :: "bytes \<Rightarrow> evm_subnet_id \<Rightarrow> ('c, bool \<times> u64) io"
  g_signature_bundle :: "bytes \<Rightarrow> u64 \<Rightarrow> ('c, evm_checkpoint \<times> bytes list \<times> bytes list) io"
  g_bottom_up_messages :: "bytes \<Rightarrow> u64 \<Rightarrow> ('c, evm_cross_msg list) io"
  a_active_validators_limit :: "bytes \<Rightarrow> ('c, u16) io"
  a_bottom_up_check_period :: "bytes \<Rightarrow> ('c, u64) io"
  a_majority_percentage :: "bytes \<Rightarrow> ('c, u8) io"
  a_min_activation_collateral :: "bytes \<Rightarrow> ('c, u256) io"
  a_min_cross_msg_fee :: "bytes \<Rightarrow> ('c, u256) io"
  a_genesis_validators :: "bytes \<Rightarrow> ('c, evm_validator list) io"
  a_genesis_balances :: "bytes \<Rightarrow> ('c, bytes list \<times> u256 list) io"
  a_bootstrap_nodes :: "bytes \<Rightarrow> ('c, string list) io"
  a_get_validator :: "bytes \<Rightarrow> bytes \<Rightarrow> ('c, evm_validator_info) io"
  a_is_active_validator :: "bytes \<Rightarrow> bytes \<Rightarrow> ('c, bool) io"
  a_is_waiting_validator :: "bytes \<Rightarrow> bytes \<Rightarrow> ('c, bool) io"
  a_checkpoint_hash_at :: "bytes \<Rightarrow> u64 \<Rightarrow> ('c, bool \<times> bytes) io"
  a_min_validators :: "bytes \<Rightarrow> ('c, u64) io"
  a_last_checkpoint_height :: "bytes \<Rightarrow> ('c, u64) io"
  a_has_submitted :: "bytes \<Rightarrow> bytes \<Rightarrow> ('c, bool) io"

text \<open>Pure parts of \<open>ethers\<close>: the address of a private key, short address text, event
  decoding, the threshold of the fee estimator, decoding of one checkpoint struct as another.\<close>

record eth_libs =
  wallet_from_bytes :: "bytes \<Rightarrow> (string, bytes) res"
  h160_display :: "bytes \<Rightarrow> string"
  parse_subnet_deployed :: "eth_log \<Rightarrow> (string, bytes) res"
  parse_staking_change :: "eth_log \<Rightarrow> (string, evm_staking_change_request) res"
  parse_quorum_reached :: "eth_log \<Rightarrow> (string, evm_quorum_event) res"
  checkpoint_from_token :: "evm_checkpoint \<Rightarrow> (string, evm_checkpoint) res"
  FEE_THRESHOLD :: int

record 'c chain_world =
  chain :: 'c
  sent :: "transaction list"

definition on_chain :: "('c, 'b) io \<Rightarrow> ('c chain_world, 'b) io" where
  "on_chain m w = (case m (chain w) of (r, c) \<Rightarrow> (r, w\<lparr>chain := c\<rparr>))"

section \<open>The manager\<close>

definition TRANSACTION_RECEIPT_RETRIES :: nat where
  "TRANSACTION_RECEIPT_RETRIES = 200"

definition SUBNET_MAJORITY_PERCENTAGE :: u8 where
  "SUBNET_MAJORITY_PERCENTAGE = 60"

record 'c eth_subnet_manager =
  mgr_keystore :: "eth_key_address persistent_key_store option"
  mgr_gateway_addr :: bytes
  mgr_registry_addr :: bytes
  mgr_chain_id :: u64
  mgr_node :: "'c node"

record signer =
  signer_address :: bytes
  signer_chain_id :: u64

definition eth_manager_new ::
    "bytes \<Rightarrow> bytes \<Rightarrow> u64 \<Rightarrow> 'c node \<Rightarrow> eth_key_address persistent_key_store option \<Rightarrow> 'c eth_subnet_manager" where
  "eth_manager_new gw reg cid N ks =
     \<lparr>mgr_keystore = ks, mgr_gateway_addr = gw, mgr_registry_addr = reg, mgr_chain_id = cid, mgr_node = N\<rparr>"

definition ensure_same_gateway :: "'a libs \<Rightarrow> 'c eth_subnet_manager \<Rightarrow> 'a \<Rightarrow> (string, unit) res" where
  "ensure_same_gateway L M gateway =
     and_then (payload_to_evm_address (addr_payload L gateway)) (\<lambda>gw.
       if gw \<noteq> mgr_gateway_addr M then Err ''Gateway address not matching with config'' else Ok ())"

definition mgr_keystore_get :: "'c eth_subnet_manager \<Rightarrow> (string, eth_key_address persistent_key_store) res" where
  "mgr_keystore_get M = ok_or ''no evm keystore available'' (mgr_keystore M)"

definition get_signer :: "'a libs \<Rightarrow> eth_libs \<Rightarrow> 'c eth_subnet_manager \<Rightarrow> 'a \<Rightarrow> (string, signer) res" where
  "get_signer L E M a =
     and_then (payload_to_evm_address (addr_payload L a)) (\<lambda>addr.
     and_then (mgr_keystore_get M) (\<lambda>ks.
     and_then (pks_get addr ks) (\<lambda>info.
     and_then (ok_or (''address '' @ h160_display E addr @ '' does not have private key in key store'') info) (\<lambda>i.
     and_then (wallet_from_bytes E (private_key i)) (\<lambda>wallet.
       Ok \<lparr>signer_address = wallet, signer_chain_id = mgr_chain_id M\<rparr>)))))"

definition from_subnet_with_wallet_store ::
    "'a libs \<Rightarrow> (string \<Rightarrow> string option \<Rightarrow> (string, 'c node) res) \<Rightarrow> 'a subnet
     \<Rightarrow> eth_key_address persistent_key_store option \<Rightarrow> (string, 'c eth_subnet_manager) res" where
  "from_subnet_with_wallet_store L connect s ks =
     (case sn_config s of Fevm config \<Rightarrow>
        and_then (connect (rpc_http s) (auth_token s)) (\<lambda>provider.
        and_then (payload_to_evm_address (addr_payload L (evm_gateway_addr config))) (\<lambda>gw.
        and_then (payload_to_evm_address (addr_payload L (registry_addr config))) (\<lambda>reg.
          Ok (eth_manager_new gw reg (chain_id L (sn_id s)) provider ks)))))"

definition contract_address_from_subnet :: "'a libs \<Rightarrow> 'a subnet_id \<Rightarrow> (string, bytes) res" where
  "contract_address_from_subnet L s =
     (if children s = [] then Err (subnet_to_string L s @ '' has no child'')
      else payload_to_evm_address (addr_payload L (last (children s))))"

text \<open>\<open>BigInt::to_u128\<close>.\<close>

definition to_u128 :: "int \<Rightarrow> u256 option" where
  "to_u128 n = (if 0 \<le> n \<and> n < 2 ^ 128 then Some (word_of_int n) else None)"

text \<open>\<open>U256::as_u64\<close> panics on a larger value; the result is then read as a signed epoch.\<close>

definition as_epoch :: "u256 \<Rightarrow> (string, int) res" where
  "as_epoch v = (if uint v < 2 ^ 64 then Ok (sint (word_of_int (uint v) :: u64))
                 else Panic ''Integer overflow when casting to u64'')"

definition epoch_of_u64 :: "u64 \<Rightarrow> int" where
  "epoch_of_u64 h = sint h"

definition u64_of_epoch :: "int \<Rightarrow> u64" where
  "u64_of_epoch e = word_of_int e"

definition block_number_from_receipt :: "eth_receipt option \<Rightarrow> (string, int) res" where
  "block_number_from_receipt receipt =
     (case receipt of
        Some r \<Rightarrow> and_then (ok_or ''cannot get block number'' (receipt_block_number r)) (\<lambda>n. Ok (epoch_of_u64 n))
      | None \<Rightarrow> Err ''txn sent to network, but receipt cannot be obtained, please check scanner'')"

section \<open>Sending transactions\<close>

definition premium_estimation :: "eth_libs \<Rightarrow> 'c node \<Rightarrow> ('c chain_world, u256 \<times> u256) io" where
  "premium_estimation E N =
     bind_io (on_chain (n_latest_block N)) (\<lambda>latest.
     bind_io (lift (ok_or ''Latest block not found'' latest)) (\<lambda>blk.
     bind_io (lift (ok_or ''EIP-1559 not activated'' (blk_base_fee blk))) (\<lambda>base_fee.
     bind_io (on_chain (n_fee_history N)) (\<lambda>history.
       lift (premium_of (FEE_THRESHOLD E) base_fee history)))))"

definition send_txn :: "'c node \<Rightarrow> transaction \<Rightarrow> ('c chain_world, bytes) io" where
  "send_txn N tx w = (case n_send N tx (chain w) of (r, c) \<Rightarrow> (r, w\<lparr>chain := c, sent := sent w @ [tx]\<rparr>))"

text \<open>\<open>call_with_premium_estimation\<close> and the submission of the call.\<close>

type_synonym plan = "signer \<times> bytes \<times> u256 \<times> contract_call"

definition call_contract :: "eth_libs \<Rightarrow> 'c node \<Rightarrow> plan \<Rightarrow> ('c chain_world, bytes) io" where
  "call_contract E N = (\<lambda>(s, to, val, call).
     bind_io (premium_estimation E N) (\<lambda>(prio, _).
       send_txn N \<lparr>tx_sender = signer_address s, tx_chain_id = signer_chain_id s, tx_to = to,
         tx_value = val, tx_call = call, tx_gas_price = prio, tx_fee_cap = None\<rparr>))"

definition run_plan :: "eth_libs \<Rightarrow> 'c eth_subnet_manager \<Rightarrow> (string, plan) res
    \<Rightarrow> (bytes \<Rightarrow> ('c chain_world, 'b) io) \<Rightarrow> ('c chain_world, 'b) io" where
  "run_plan E M p fin = bind_io (lift p) (\<lambda>pl. bind_io (call_contract E (mgr_node M) pl) fin)"

definition receipt_block :: "'c eth_subnet_manager \<Rightarrow> bytes \<Rightarrow> ('c chain_world, int) io" where
  "receipt_block M h =
     bind_io (on_chain (n_receipt (mgr_node M) TRANSACTION_RECEIPT_RETRIES h)) (\<lambda>r.
       lift (block_number_from_receipt r))"

definition confirm :: "'c eth_subnet_manager \<Rightarrow> bytes \<Rightarrow> ('c chain_world, unit) io" where
  "confirm M h = bind_io (on_chain (n_confirm (mgr_node M) h)) (\<lambda>_. ret ())"

section \<open>Operations that send a transaction\<close>

definition create_subnet_plan ::
    "'a libs \<Rightarrow> eth_libs \<Rightarrow> 'c eth_subnet_manager \<Rightarrow> 'a \<Rightarrow> 'a construct_params \<Rightarrow> (string, plan) res" where
  "create_subnet_plan L E M from params =
     and_then (ensure_same_gateway L M (ipc_gateway_addr params)) (\<lambda>_.
     and_then (ok_or ''invalid min validator stake'' (to_u128 (min_validator_stake params))) (\<lambda>stk.
     and_then (ok_or ''invalid min message fee'' (to_u128 (min_cross_msg_fee params))) (\<lambda>fee.
     and_then (subnet_id_to_evm_addresses L (par_parent params)) (\<lambda>route.
     and_then (get_signer L E M from) (\<lambda>s.
       Ok (s, mgr_registry_addr M, 0, NewSubnetActor
         \<lparr>cp_parent_id = \<lparr>evm_root = root (par_parent params), evm_route = route\<rparr>,
          cp_ipc_gateway_addr = mgr_gateway_addr M,
          cp_consensus = (case consensus params of Mir \<Rightarrow> 0),
          cp_min_activation_collateral = stk,
          cp_min_validators = min_validators params,
          cp_bottom_up_check_period = u64_of_epoch (bottomup_check_period params),
          cp_majority_percentage = SUBNET_MAJORITY_PERCENTAGE,
          cp_active_validators_limit = active_validators_limit params,
          cp_power_scale = 3,
          cp_min_cross_msg_fee = fee\<rparr>))))))"

text \<open>The first log of the receipt that decodes as a deployment gives the subnet's address.\<close>

fun deployed_subnet :: "'a libs \<Rightarrow> eth_libs \<Rightarrow> eth_log list \<Rightarrow> (string, 'a) res" where
  "deployed_subnet L E [] = Err ''no logs receipt''"
| "deployed_subnet L E (l # ls) =
     (case parse_subnet_deployed E l of
        Ok subnet_addr \<Rightarrow> ethers_address_to_fil_address L subnet_addr
      | Err _ \<Rightarrow> deployed_subnet L E ls
      | Panic p \<Rightarrow> Panic p)"

definition create_subnet ::
    "'a libs \<Rightarrow> eth_libs \<Rightarrow> 'c eth_subnet_manager \<Rightarrow> 'a \<Rightarrow> 'a construct_params \<Rightarrow> ('c chain_world, 'a) io" where
  "create_subnet L E M from params =
     run_plan E M (create_subnet_plan L E M from params) (\<lambda>h.
       bind_io (on_chain (n_receipt (mgr_node M) TRANSACTION_RECEIPT_RETRIES h)) (\<lambda>receipt.
         case receipt of
           Some r \<Rightarrow> lift (deployed_subnet L E (receipt_logs r))
         | None \<Rightarrow> bail ''no receipt for event, txn not successful''))"

text \<open>A call of the subnet actor, signed by \<open>from\<close>.\<close>

definition actor_plan :: "'a libs \<Rightarrow> eth_libs \<Rightarrow> 'c eth_subnet_manager \<Rightarrow> 'a subnet_id \<Rightarrow> 'a
    \<Rightarrow> u256 \<Rightarrow> contract_call \<Rightarrow> (string, plan) res" where
  "actor_plan L E M s from val call =
     and_then (contract_address_from_subnet L s) (\<lambda>addr.
     and_then (get_signer L E M from) (\<lambda>sg. Ok (sg, addr, val, call)))"

definition join_subnet :: "'a libs \<Rightarrow> eth_libs \<Rightarrow> 'c eth_subnet_manager \<Rightarrow> 'a subnet_id \<Rightarrow> 'a \<Rightarrow> int \<Rightarrow> bytes
    \<Rightarrow> ('c chain_world, int) io" where
  "join_subnet L E M s from collateral pub_key =
     run_plan E M
       (and_then (ok_or ''invalid min validator stake'' (to_u128 collateral)) (\<lambda>c.
          actor_plan L E M s from c (Join pub_key)))
       (receipt_block M)"

definition pre_fund :: "'a libs \<Rightarrow> eth_libs \<Rightarrow> 'c eth_subnet_manager \<Rightarrow> 'a subnet_id \<Rightarrow> 'a \<Rightarrow> int \<Rightarrow> ('c chain_world, unit) io" where
  "pre_fund L E M s from balance =
     run_plan E M
       (and_then (ok_or ''invalid initial balance'' (to_u128 balance)) (\<lambda>b.
          actor_plan L E M s from b PreFund))
       (\<lambda>_. ret ())"

definition pre_release :: "'a libs \<Rightarrow> eth_libs \<Rightarrow> 'c eth_subnet_manager \<Rightarrow> 'a subnet_id \<Rightarrow> 'a \<Rightarrow> int \<Rightarrow> ('c chain_world, unit) io" where
  "pre_release L E M s from amount =
     run_plan E M
       (and_then (contract_address_from_subnet L s) (\<lambda>addr.
        and_then (ok_or ''invalid pre-release amount'' (to_u128 amount)) (\<lambda>a.
        and_then (get_signer L E M from) (\<lambda>sg. Ok (sg, addr, 0, PreRelease a)))))
       (confirm M)"

definition stake :: "'a libs \<Rightarrow> eth_libs \<Rightarrow> 'c eth_subnet_manager \<Rightarrow> 'a subnet_id \<Rightarrow> 'a \<Rightarrow> int \<Rightarrow> ('c chain_world, unit) io" where
  "stake L E M s from collateral =
     run_plan E M
       (and_then (ok_or ''invalid collateral amount'' (to_u128 collateral)) (\<lambda>c.
          actor_plan L E M s from c Stake))
       (confirm M)"

definition unstake :: "'a libs \<Rightarrow> eth_libs \<Rightarrow> 'c eth_subnet_manager \<Rightarrow> 'a subnet_id \<Rightarrow> 'a \<Rightarrow> int \<Rightarrow> ('c chain_world, unit) io" where
  "unstake L E M s from collateral =
     run_plan E M
       (and_then (ok_or ''invalid collateral amount'' (to_u128 collateral)) (\<lambda>c.
          actor_plan L E M s from 0 (Unstake c)))
       (confirm M)"

definition leave_subnet :: "'a libs \<Rightarrow> eth_libs \<Rightarrow> 'c eth_subnet_manager \<Rightarrow> 'a subnet_id \<Rightarrow> 'a \<Rightarrow> ('c chain_world, unit) io" where
  "leave_subnet L E M s from = run_plan E M (actor_plan L E M s from 0 Leave) (confirm M)"

definition kill_subnet :: "'a libs \<Rightarrow> eth_libs \<Rightarrow> 'c eth_subnet_manager \<Rightarrow> 'a subnet_id \<Rightarrow> 'a \<Rightarrow> ('c chain_world, unit) io" where
  "kill_subnet L E M s from = run_plan E M (actor_plan L E M s from 0 Kill) (confirm M)"

definition claim_collateral :: "'a libs \<Rightarrow> eth_libs \<Rightarrow> 'c eth_subnet_manager \<Rightarrow> 'a subnet_id \<Rightarrow> 'a \<Rightarrow> ('c chain_world, unit) io" where
  "claim_collateral L E M s from = run_plan E M (actor_plan L E M s from 0 Claim) (confirm M)"

definition claim_relayer_reward :: "'a libs \<Rightarrow> eth_libs \<Rightarrow> 'c eth_subnet_manager \<Rightarrow> 'a subnet_id \<Rightarrow> 'a \<Rightarrow> ('c chain_world, unit) io" where
  "claim_relayer_reward L E M s from =
     run_plan E M (actor_plan L E M s from 0 ClaimRewardForRelayer) (confirm M)"

definition is_valid_bootstrap_addr :: "string \<Rightarrow> (string \<times> ip_addr \<times> nat) option" where
  "is_valid_bootstrap_addr input =
     (let parts = str_split (CHR ''@'') input in
      if length parts = 2 then
        (case parse_socket_addr (parts ! 1) of
           Some (ip, port) \<Rightarrow> Some (parts ! 0, ip, port) | None \<Rightarrow> None)
      else None)"

definition add_bootstrap :: "'a libs \<Rightarrow> eth_libs \<Rightarrow> 'c eth_subnet_manager \<Rightarrow> 'a subnet_id \<Rightarrow> 'a \<Rightarrow> string
    \<Rightarrow> ('c chain_world, unit) io" where
  "add_bootstrap L E M s from endpoint =
     run_plan E M
       (and_then (contract_address_from_subnet L s) (\<lambda>addr.
        if is_valid_bootstrap_addr endpoint = None then Err ''wrong format for bootstrap endpoint''
        else and_then (get_signer L E M from) (\<lambda>sg. Ok (sg, addr, 0, AddBootstrapNode endpoint))))
       (confirm M)"

definition fund :: "'a libs \<Rightarrow> eth_libs \<Rightarrow> 'c eth_subnet_manager \<Rightarrow> 'a subnet_id \<Rightarrow> 'a \<Rightarrow> 'a \<Rightarrow> 'a \<Rightarrow> int
    \<Rightarrow> ('c chain_world, int) io" where
  "fund L E M s gateway from to amount =
     run_plan E M
       (and_then (ensure_same_gateway L M gateway) (\<lambda>_.
        and_then (ok_or ''invalid value to fund'' (to_u128 amount)) (\<lambda>val.
        and_then (subnet_id_to_evm L s) (\<lambda>sid.
        and_then (get_signer L E M from) (\<lambda>sg.
        and_then (addr_to_abi L to) (\<lambda>abi.
          Ok (sg, mgr_gateway_addr M, val, FundCall sid abi)))))))
       (receipt_block M)"

definition release :: "'a libs \<Rightarrow> eth_libs \<Rightarrow> 'c eth_subnet_manager \<Rightarrow> 'a \<Rightarrow> 'a \<Rightarrow> 'a \<Rightarrow> int \<Rightarrow> int option
    \<Rightarrow> ('c chain_world, int) io" where
  "release L E M gateway from to amount fee =
     bind_io (lift (and_then (ensure_same_gateway L M gateway) (\<lambda>_.
                    ok_or ''invalid value to fund'' (to_u128 amount)))) (\<lambda>val.
     bind_io (case fee of
                Some f \<Rightarrow> lift (fil_to_eth_amount L f)
              | None \<Rightarrow> on_chain (g_cross_msg_fee (mgr_node M) (mgr_gateway_addr M))) (\<lambda>efee.
       run_plan E M
         (and_then (get_signer L E M from) (\<lambda>sg.
          and_then (addr_to_abi L to) (\<lambda>abi.
            Ok (sg, mgr_gateway_addr M, val, ReleaseCall abi efee))))
         (receipt_block M)))"

definition propagate :: "'a libs \<Rightarrow> eth_libs \<Rightarrow> 'c eth_subnet_manager \<Rightarrow> 'a \<Rightarrow> 'a \<Rightarrow> bytes \<Rightarrow> ('c chain_world, unit) io" where
  "propagate L E M gateway from key =
     run_plan E M
       (if length key \<noteq> 32
        then Err (''invalid message cid length, expect 32 but found '' @ show_nat (length key))
        else and_then (ensure_same_gateway L M gateway) (\<lambda>_.
             and_then (get_signer L E M from) (\<lambda>sg. Ok (sg, mgr_gateway_addr M, 0, Propagate key))))
       (\<lambda>_. ret ())"

definition send_cross_message :: "'a libs \<Rightarrow> eth_libs \<Rightarrow> 'c eth_subnet_manager \<Rightarrow> 'a \<Rightarrow> 'a \<Rightarrow> 'a cross_msg \<Rightarrow> ('c chain_world, unit) io" where
  "send_cross_message L E M gateway from m =
     run_plan E M
       (and_then (ensure_same_gateway L M gateway) (\<lambda>_.
        and_then (get_signer L E M from) (\<lambda>sg.
        and_then (cross_msg_to_evm L m) (\<lambda>em.
          Ok (sg, mgr_gateway_addr M, 0, SendCrossMessage em)))))
       (\<lambda>_. ret ())"

text \<open>A plain transfer offers the priority fee and the fee cap.\<close>

definition send_value :: "'a libs \<Rightarrow> eth_libs \<Rightarrow> 'c eth_subnet_manager \<Rightarrow> 'a \<Rightarrow> 'a \<Rightarrow> int \<Rightarrow> ('c chain_world, unit) io" where
  "send_value L E M from to amount =
     bind_io (lift (get_signer L E M from)) (\<lambda>sg.
     bind_io (premium_estimation E (mgr_node M)) (\<lambda>(fee, fee_cap).
     bind_io (lift (payload_to_evm_address (addr_payload L to))) (\<lambda>eto.
     bind_io (lift (fil_to_eth_amount L amount)) (\<lambda>val.
     bind_io (send_txn (mgr_node M) \<lparr>tx_sender = signer_address sg, tx_chain_id = signer_chain_id sg,
         tx_to = eto, tx_value = val, tx_call = Transfer, tx_gas_price = fee, tx_fee_cap = Some fee_cap\<rparr>) (\<lambda>h.
       confirm M h)))))"

section \<open>Queries of the subnet manager\<close>

record 'a subnet_info =
  si_id :: "'a subnet_id"
  si_stake :: int
  si_circ_supply :: int
  si_genesis_epoch :: int
  si_status :: status

definition status_of :: "u8 \<Rightarrow> (string, status) res" where
  "status_of v =
     (if v = 1 then Ok Active else if v = 2 then Ok Inactive else if v = 3 then Ok Killed
      else Err (''invalid status: '' @ show_nat (unat v)))"

definition subnet_info_from_evm :: "'a libs \<Rightarrow> evm_subnet_data \<Rightarrow> (string, 'a subnet_info) res" where
  "subnet_info_from_evm L v =
     and_then (subnet_id_from_evm L (gs_id v)) (\<lambda>i.
     and_then (eth_to_fil_amount L (gs_stake v)) (\<lambda>stk.
     and_then (eth_to_fil_amount L (gs_circ_supply v)) (\<lambda>supply.
     and_then (as_epoch (gs_genesis_epoch v)) (\<lambda>genesis.
     and_then (status_of (gs_status v)) (\<lambda>st.
       Ok \<lparr>si_id = i, si_stake = stk, si_circ_supply = supply, si_genesis_epoch = genesis, si_status = st\<rparr>)))))"

definition list_child_subnets :: "'a libs \<Rightarrow> 'c eth_subnet_manager \<Rightarrow> 'a
    \<Rightarrow> ('c chain_world, ('a subnet_id \<times> 'a subnet_info) list) io" where
  "list_child_subnets L M gateway =
     bind_io (lift (ensure_same_gateway L M gateway)) (\<lambda>_.
     bind_io (on_chain (g_list_subnets (mgr_node M) (mgr_gateway_addr M))) (\<lambda>evm_subnets.
     bind_io (lift (traverse (subnet_info_from_evm L) evm_subnets)) (\<lambda>infos.
       ret (foldl (\<lambda>m i. AList.update (si_id i) i m) [] infos))))"

text \<open>\<open>U256::as_u128\<close> panics above 128 bits.\<close>

definition wallet_balance :: "'a libs \<Rightarrow> 'c eth_subnet_manager \<Rightarrow> 'a \<Rightarrow> ('c chain_world, int) io" where
  "wallet_balance L M a =
     bind_io (lift (payload_to_evm_address (addr_payload L a))) (\<lambda>ea.
     bind_io (on_chain (n_balance (mgr_node M) ea)) (\<lambda>balance.
       lift (if uint balance < 2 ^ 128 then Ok (uint balance)
             else Panic ''Integer overflow when casting to u128'')))"

definition get_chain_id :: "'a libs \<Rightarrow> 'c eth_subnet_manager \<Rightarrow> ('c chain_world, string) io" where
  "get_chain_id L M = bind_io (on_chain (n_chain_id (mgr_node M))) (\<lambda>i. ret (u256_to_string L i))"

definition into_genesis_balance_map :: "'a libs \<Rightarrow> bytes list \<Rightarrow> u256 list \<Rightarrow> (string, ('a \<times> int) list) res" where
  "into_genesis_balance_map L addrs balances =
     and_then (traverse (\<lambda>(a, b).
        and_then (ethers_address_to_fil_address L a) (\<lambda>fa.
        and_then (eth_to_fil_amount L b) (\<lambda>fb. Ok (fa, fb)))) (zip addrs balances)) (\<lambda>kvs.
       Ok (foldl (\<lambda>m (k, v). AList.update k v m) [] kvs))"

text \<open>\<open>TopDownFinalityQuery\<close>.\<close>

definition genesis_epoch :: "'a libs \<Rightarrow> 'c eth_subnet_manager \<Rightarrow> 'a subnet_id \<Rightarrow> ('c chain_world, int) io" where
  "genesis_epoch L M s =
     bind_io (lift (contract_address_from_subnet L s)) (\<lambda>_.
     bind_io (lift (subnet_id_to_evm L s)) (\<lambda>es.
     bind_io (on_chain (g_get_subnet (mgr_node M) (mgr_gateway_addr M) es)) (\<lambda>(ex, sub).
       if \<not> ex then bail (''subnet: '' @ subnet_to_string L s @ '' does not exists'')
       else lift (as_epoch (gs_genesis_epoch sub)))))"

definition chain_head_height :: "'c eth_subnet_manager \<Rightarrow> ('c chain_world, int) io" where
  "chain_head_height M =
     bind_io (map_err_io (\<lambda>_. ''cannot get evm block number'') (on_chain (n_block_number (mgr_node M)))) (\<lambda>b.
       ret (epoch_of_u64 b))"

definition get_top_down_msgs :: "'a libs \<Rightarrow> 'c eth_subnet_manager \<Rightarrow> 'a subnet_id \<Rightarrow> int \<Rightarrow> bytes
    \<Rightarrow> ('c chain_world, 'a cross_msg list) io" where
  "get_top_down_msgs L M s epoch bh =
     (if length bh \<noteq> 32 then bail ''invalid block hash len''
      else
        bind_io (lift (subnet_id_to_evm_addresses L s)) (\<lambda>route.
        bind_io (lift (if epoch < 0 then Panic ''Unsigned integer can't be created from negative value''
                       else Ok (word_of_int epoch))) (\<lambda>e.
        bind_io (map_err_io (\<lambda>e. ''cannot get evm top down messages: '' @ e)
           (on_chain (g_top_down_msgs (mgr_node M) (mgr_gateway_addr M)
              \<lparr>evm_root = root s, evm_route = route\<rparr> e bh))) (\<lambda>raw_msgs.
          lift (traverse (cross_msg_from_evm L) raw_msgs)))))"

record get_block_hash_result =
  gb_parent_block_hash :: bytes
  gb_block_hash :: bytes

definition get_block_hash :: "'c eth_subnet_manager \<Rightarrow> int \<Rightarrow> ('c chain_world, get_block_hash_result) io" where
  "get_block_hash M height =
     bind_io (on_chain (n_block_at (mgr_node M) (u64_of_epoch height))) (\<lambda>b.
     bind_io (lift (ok_or ''height does not exist'' b)) (\<lambda>blk.
     bind_io (lift (ok_or ''block hash is empty'' (blk_hash blk))) (\<lambda>h.
       ret \<lparr>gb_parent_block_hash = blk_parent_hash blk, gb_block_hash = h\<rparr>)))"

text \<open>\<open>query_with_meta\<close>: reverted logs are dropped before decoding.\<close>

definition decode_logs :: "(eth_log \<Rightarrow> (string, 'b) res) \<Rightarrow> eth_log list \<Rightarrow> (string, ('b \<times> bytes) list) res" where
  "decode_logs parse logs =
     traverse (\<lambda>l. and_then (parse l) (\<lambda>e. Ok (e, log_block_hash l)))
       (filter (\<lambda>l. \<not> (case log_removed l of Some b \<Rightarrow> b | None \<Rightarrow> False)) logs)"

definition query_with_meta :: "'c node \<Rightarrow> (eth_log \<Rightarrow> (string, 'b) res) \<Rightarrow> bytes \<Rightarrow> event_kind \<Rightarrow> int
    \<Rightarrow> ('c chain_world, ('b \<times> bytes) list) io" where
  "query_with_meta N parse a k h =
     bind_io (on_chain (n_logs N a k (u64_of_epoch h) (u64_of_epoch h))) (\<lambda>logs. lift (decode_logs parse logs))"

record 'b top_down_query_payload =
  td_value :: 'b
  td_block_hash :: bytes

text \<open>The loop over the events: all must come from one block.\<close>

fun collect_changes :: "'a libs \<Rightarrow> (evm_staking_change_request \<times> bytes) list \<Rightarrow> bytes option
    \<Rightarrow> 'a staking_change_request list \<Rightarrow> (string, 'a staking_change_request list \<times> bytes option) res" where
  "collect_changes L [] hash changes = Ok (changes, hash)"
| "collect_changes L ((event, bh) # rest) hash changes =
     (if hash \<noteq> None \<and> hash \<noteq> Some bh then Err ''block hash not equal''
      else and_then (staking_change_request_from_event L event) (\<lambda>c.
        collect_changes L rest (Some (case hash of Some h \<Rightarrow> h | None \<Rightarrow> bh)) (changes @ [c])))"

definition get_validator_changeset :: "'a libs \<Rightarrow> eth_libs \<Rightarrow> 'c eth_subnet_manager \<Rightarrow> 'a subnet_id \<Rightarrow> int
    \<Rightarrow> ('c chain_world, 'a staking_change_request list top_down_query_payload) io" where
  "get_validator_changeset L E M s epoch =
     bind_io (lift (contract_address_from_subnet L s)) (\<lambda>addr.
     bind_io (query_with_meta (mgr_node M) (parse_staking_change E) addr NewStakingChangeRequest epoch) (\<lambda>events.
     bind_io (lift (collect_changes L events None [])) (\<lambda>(changes, hash).
     bind_io (case hash of
                Some h \<Rightarrow> ret h
              | None \<Rightarrow> bind_io (get_block_hash M epoch) (\<lambda>r. ret (gb_block_hash r))) (\<lambda>bh.
       ret \<lparr>td_value = changes, td_block_hash = bh\<rparr>))))"

definition latest_parent_finality :: "'c eth_subnet_manager \<Rightarrow> ('c chain_world, int) io" where
  "latest_parent_finality M =
     bind_io (on_chain (g_latest_parent_finality (mgr_node M) (mgr_gateway_addr M))) (\<lambda>h. lift (as_epoch h))"

text \<open>Genesis, bootstrap and validator queries.\<close>

record 'a subnet_genesis_info =
  sg_bottom_up_checkpoint_period :: u64
  sg_msg_fee :: int
  sg_majority_percentage :: u8
  sg_active_validators_limit :: u16
  sg_min_collateral :: int
  sg_genesis_epoch :: int
  sg_validators :: "'a validator list"
  sg_genesis_balances :: "('a \<times> int) list"

definition get_genesis_info :: "'a libs \<Rightarrow> 'c eth_subnet_manager \<Rightarrow> 'a subnet_id \<Rightarrow> ('c chain_world, 'a subnet_genesis_info) io" where
  "get_genesis_info L M s =
     bind_io (lift (contract_address_from_subnet L s)) (\<lambda>a.
     bind_io (on_chain (a_genesis_balances (mgr_node M) a)) (\<lambda>(addrs, bals).
     bind_io (on_chain (a_active_validators_limit (mgr_node M) a)) (\<lambda>limit.
     bind_io (on_chain (a_bottom_up_check_period (mgr_node M) a)) (\<lambda>per.
     bind_io (genesis_epoch L M s) (\<lambda>gen.
     bind_io (on_chain (a_majority_percentage (mgr_node M) a)) (\<lambda>maj.
     bind_io (on_chain (a_min_activation_collateral (mgr_node M) a)) (\<lambda>col.
     bind_io (lift (eth_to_fil_amount L col)) (\<lambda>mincol.
     bind_io (on_chain (a_min_cross_msg_fee (mgr_node M) a)) (\<lambda>fee.
     bind_io (lift (eth_to_fil_amount L fee)) (\<lambda>mfee.
     bind_io (on_chain (a_genesis_validators (mgr_node M) a)) (\<lambda>vals.
     bind_io (lift (from_contract_validators L vals)) (\<lambda>validators.
     bind_io (lift (into_genesis_balance_map L addrs bals)) (\<lambda>balances.
       ret \<lparr>sg_bottom_up_checkpoint_period = per, sg_msg_fee = mfee, sg_majority_percentage = maj,
            sg_active_validators_limit = limit, sg_min_collateral = mincol, sg_genesis_epoch = gen,
            sg_validators = validators, sg_genesis_balances = balances\<rparr>)))))))))))))"

definition list_bootstrap_nodes :: "'a libs \<Rightarrow> 'c eth_subnet_manager \<Rightarrow> 'a subnet_id \<Rightarrow> ('c chain_world, string list) io" where
  "list_bootstrap_nodes L M s =
     bind_io (lift (contract_address_from_subnet L s)) (\<lambda>a. on_chain (a_bootstrap_nodes (mgr_node M) a))"

definition get_validator_info :: "'a libs \<Rightarrow> 'c eth_subnet_manager \<Rightarrow> 'a subnet_id \<Rightarrow> 'a \<Rightarrow> ('c chain_world, validator_info) io" where
  "get_validator_info L M s v =
     bind_io (lift (contract_address_from_subnet L s)) (\<lambda>a.
     bind_io (lift (payload_to_evm_address (addr_payload L v))) (\<lambda>ev.
     bind_io (on_chain (a_get_validator (mgr_node M) a ev)) (\<lambda>info.
     bind_io (on_chain (a_is_active_validator (mgr_node M) a ev)) (\<lambda>act.
     bind_io (on_chain (a_is_waiting_validator (mgr_node M) a ev)) (\<lambda>wait.
     bind_io (lift (validator_staking_info_from_evm L info)) (\<lambda>st.
       ret \<lparr>staking = st, is_active = act, is_waiting = wait\<rparr>))))))"

section \<open>EthManager\<close>

definition eth_current_epoch :: "'c eth_subnet_manager \<Rightarrow> ('c chain_world, int) io" where
  "eth_current_epoch M = bind_io (on_chain (n_block_number (mgr_node M))) (\<lambda>b. ret (epoch_of_u64 b))"

definition bottom_up_checkpoint_at :: "eth_libs \<Rightarrow> 'c eth_subnet_manager \<Rightarrow> int \<Rightarrow> ('c chain_world, evm_checkpoint) io" where
  "bottom_up_checkpoint_at E M epoch =
     bind_io (on_chain (g_bottom_up_checkpoint (mgr_node M) (mgr_gateway_addr M) (u64_of_epoch epoch))) (\<lambda>c.
       lift (checkpoint_from_token E c))"

definition get_applied_top_down_nonce :: "'a libs \<Rightarrow> ('a subnet_id \<Rightarrow> string) \<Rightarrow> 'c eth_subnet_manager \<Rightarrow> 'a subnet_id \<Rightarrow> ('c chain_world, u64) io" where
  "get_applied_top_down_nonce L debug M s =
     bind_io (lift (subnet_id_to_evm_addresses L s)) (\<lambda>route.
     bind_io (map_err_io (\<lambda>e. ''cannot get applied top down nonce due to: '' @ e)
        (on_chain (g_applied_top_down_nonce (mgr_node M) (mgr_gateway_addr M)
           \<lparr>evm_root = root s, evm_route = route\<rparr>))) (\<lambda>(ex, nonce).
       if \<not> ex then bail (''subnet '' @ debug s @ '' does not exists'') else ret nonce))"

definition subnet_bottom_up_checkpoint_period :: "'a libs \<Rightarrow> 'c eth_subnet_manager \<Rightarrow> 'a subnet_id \<Rightarrow> ('c chain_world, int) io" where
  "subnet_bottom_up_checkpoint_period L M s =
     bind_io (lift (contract_address_from_subnet L s)) (\<lambda>a.
     bind_io (on_chain (a_bottom_up_check_period (mgr_node M) a)) (\<lambda>p. ret (epoch_of_u64 p)))"

definition prev_bottom_up_checkpoint_hash :: "'a libs \<Rightarrow> 'c eth_subnet_manager \<Rightarrow> 'a subnet_id \<Rightarrow> int \<Rightarrow> ('c chain_world, bytes) io" where
  "prev_bottom_up_checkpoint_hash L M s epoch =
     bind_io (lift (contract_address_from_subnet L s)) (\<lambda>a.
     bind_io (on_chain (a_checkpoint_hash_at (mgr_node M) a (u64_of_epoch epoch))) (\<lambda>(ex, hash).
       if \<not> ex then
         (if epoch = 0 then ret (replicate 32 0)
          else bail (''checkpoint does not exists: '' @ show_int epoch))
       else ret hash))"

definition eth_min_validators :: "'a libs \<Rightarrow> 'c eth_subnet_manager \<Rightarrow> 'a subnet_id \<Rightarrow> ('c chain_world, u64) io" where
  "eth_min_validators L M s =
     bind_io (lift (contract_address_from_subnet L s)) (\<lambda>a. on_chain (a_min_validators (mgr_node M) a))"

section \<open>BottomUpCheckpointRelayer\<close>

text \<open>The call made of a bundle.\<close>

definition submit_call :: "'a libs \<Rightarrow> 'a bottom_up_checkpoint_bundle \<Rightarrow> (string, contract_call) res" where
  "submit_call L b =
     and_then (traverse (\<lambda>a. payload_to_evm_address (addr_payload L a)) (signatories b)) (\<lambda>sigs.
     and_then (traverse (cross_msg_to_evm L) (cross_msg_list b)) (\<lambda>ms.
     and_then (checkpoint_to_evm L (checkpoint b)) (\<lambda>c.
       Ok (SubmitCheckpoint c ms sigs (signatures b)))))"

definition submit_checkpoint :: "'a libs \<Rightarrow> eth_libs \<Rightarrow> 'c eth_subnet_manager \<Rightarrow> 'a \<Rightarrow> 'a bottom_up_checkpoint_bundle
    \<Rightarrow> ('c chain_world, int) io" where
  "submit_checkpoint L E M submitter b =
     run_plan E M
       (and_then (contract_address_from_subnet L (cp_subnet_id (checkpoint b))) (\<lambda>addr.
        and_then (submit_call L b) (\<lambda>call.
        and_then (get_signer L E M submitter) (\<lambda>sg. Ok (sg, addr, 0, call)))))
       (receipt_block M)"

definition last_bottom_up_checkpoint_height :: "'a libs \<Rightarrow> 'c eth_subnet_manager \<Rightarrow> 'a subnet_id \<Rightarrow> ('c chain_world, int) io" where
  "last_bottom_up_checkpoint_height L M s =
     bind_io (lift (contract_address_from_subnet L s)) (\<lambda>a.
     bind_io (on_chain (a_last_checkpoint_height (mgr_node M) a)) (\<lambda>h. ret (epoch_of_u64 h)))"

definition has_submitted_in_last_checkpoint_height ::
    "'a libs \<Rightarrow> 'c eth_subnet_manager \<Rightarrow> 'a subnet_id \<Rightarrow> 'a \<Rightarrow> ('c chain_world, bool) io" where
  "has_submitted_in_last_checkpoint_height L M s submitter =
     bind_io (lift (contract_address_from_subnet L s)) (\<lambda>a.
     bind_io (lift (payload_to_evm_address (addr_payload L submitter))) (\<lambda>ea.
       on_chain (a_has_submitted (mgr_node M) a ea)))"

definition checkpoint_period :: "'a libs \<Rightarrow> 'c eth_subnet_manager \<Rightarrow> 'a subnet_id \<Rightarrow> ('c chain_world, int) io" where
  "checkpoint_period L M s =
     bind_io (lift (contract_address_from_subnet L s)) (\<lambda>a.
     bind_io (on_chain (a_bottom_up_check_period (mgr_node M) a)) (\<lambda>p. ret (epoch_of_u64 p)))"

definition checkpoint_bundle_at :: "'a libs \<Rightarrow> 'c eth_subnet_manager \<Rightarrow> int \<Rightarrow> ('c chain_world, 'a bottom_up_checkpoint_bundle) io" where
  "checkpoint_bundle_at L M height =
     bind_io (on_chain (g_signature_bundle (mgr_node M) (mgr_gateway_addr M) (u64_of_epoch height))) (\<lambda>(c, sigtors, sigs).
     bind_io (on_chain (g_bottom_up_messages (mgr_node M) (mgr_gateway_addr M) (u64_of_epoch height))) (\<lambda>ms.
     bind_io (lift (checkpoint_from_evm L c)) (\<lambda>cp.
     bind_io (lift (traverse (ethers_address_to_fil_address L) sigtors)) (\<lambda>sgs.
     bind_io (lift (traverse (cross_msg_from_evm L) ms)) (\<lambda>msgs.
       ret \<lparr>checkpoint = cp, signatures = sigs, signatories = sgs, cross_msg_list = msgs\<rparr>)))))"

definition quorum_event_from_evm :: "'a libs \<Rightarrow> evm_quorum_event \<Rightarrow> (string, quorum_reached_event) res" where
  "quorum_event_from_evm L e =
     and_then (eth_to_fil_amount L (qr_weight e)) (\<lambda>qw.
       Ok \<lparr>qe_height = epoch_of_u64 (qr_height e), qe_checkpoint = qr_checkpoint e, quorum_weight = qw\<rparr>)"

definition quorum_reached_events :: "'a libs \<Rightarrow> eth_libs \<Rightarrow> 'c eth_subnet_manager \<Rightarrow> int \<Rightarrow> ('c chain_world, quorum_reached_event list) io" where
  "quorum_reached_events L E M height =
     bind_io (query_with_meta (mgr_node M) (parse_quorum_reached E) (mgr_gateway_addr M) QuorumReached height) (\<lambda>evs.
       lift (traverse (\<lambda>(e, _). quorum_event_from_evm L e) evs))"

definition eth_relayer :: "'a libs \<Rightarrow> eth_libs \<Rightarrow> 'c eth_subnet_manager \<Rightarrow> ('c chain_world, 'a) relayer" where
  "eth_relayer L E M =
     \<lparr>rl_submit_checkpoint = submit_checkpoint L E M,
      rl_last_bottom_up_checkpoint_height = last_bottom_up_checkpoint_height L M,
      rl_has_submitted_in_last_checkpoint_height = has_submitted_in_last_checkpoint_height L M,
      rl_checkpoint_period = checkpoint_period L M,
      rl_checkpoint_bundle_at = checkpoint_bundle_at L M,
      rl_quorum_reached_events = quorum_reached_events L E M,
      rl_current_epoch = eth_current_epoch M\<rparr>"

text \<open>\<open>BottomUpCheckpointManager::new_evm_manager\<close> of \<open>checkpoint.rs\<close>.\<close>

definition new_evm_manager :: "'a libs \<Rightarrow> eth_libs \<Rightarrow> (string \<Rightarrow> string option \<Rightarrow> (string, 'c node) res)
    \<Rightarrow> 'a subnet \<Rightarrow> 'a subnet \<Rightarrow> eth_key_address persistent_key_store
    \<Rightarrow> ('c chain_world, ('c chain_world, 'a) checkpoint_manager) io" where
  "new_evm_manager L E connect psn csn ks =
     bind_io (lift (from_subnet_with_wallet_store L connect psn (Some ks))) (\<lambda>pm.
     bind_io (lift (from_subnet_with_wallet_store L connect csn (Some ks))) (\<lambda>cm.
       cm_new psn csn (eth_relayer L E pm) (eth_relayer L E cm)))"

end
