(* ===== verification/Eth_Demo.thy ===== *)
theory Eth_Demo
  imports Eth_Manager
begin

text \<open>
  An executable instance of the parameters of the Ethereum subnet manager, for evaluation at
  concrete inputs: a network whose node answers every call at once. The child reached height 2
  and has one quorum, for height 1, reported in block 1.
\<close>

definition ok_node :: "'b \<Rightarrow> (unit, 'b) io" where
  "ok_node x = (\<lambda>c. (Ok x, c))"

definition demo_eth :: bytes where
  "demo_eth = replicate 20 7"

definition demo_gateway :: bytes where
  "demo_gateway = replicate 20 2"

definition demo_route :: evm_subnet_id where
  "demo_route = \<lparr>evm_root = 5, evm_route = [demo_eth]\<rparr>"

definition demo_checkpoint :: evm_checkpoint where
  "demo_checkpoint = \<lparr>evm_cp_subnet_id = demo_route, evm_block_height = 1, evm_block_hash = replicate 32 1,
     evm_next_configuration_number = 0, evm_cross_messages_hash = replicate 32 3\<rparr>"

definition demo_log :: eth_log where
  "demo_log = \<lparr>log_removed = Some False, log_block_hash = replicate 32 1, log_data = []\<rparr>"

definition demo_block :: eth_block where
  "demo_block = \<lparr>blk_hash = Some (replicate 32 1), blk_parent_hash = replicate 32 0, blk_base_fee = Some 100\<rparr>"

definition demo_receipt :: eth_receipt where
  "demo_receipt = \<lparr>receipt_block_number = Some 7, receipt_logs = [demo_log]\<rparr>"

definition demo_data :: evm_subnet_data where
  "demo_data = \<lparr>gs_id = demo_route, gs_stake = 10, gs_circ_supply = 0, gs_genesis_epoch = 1, gs_status = 1\<rparr>"

definition demo_node :: "unit node" where
  "demo_node =
     \<lparr>n_block_number = ok_node 2, n_block_at = (\<lambda>_. ok_node (Some demo_block)),
      n_latest_block = ok_node (Some demo_block), n_fee_history = ok_node [[5]],
      n_balance = (\<lambda>_. ok_node 1000), n_chain_id = ok_node 5,
      n_send = (\<lambda>_. ok_node (replicate 32 9)), n_receipt = (\<lambda>_ _. ok_node (Some demo_receipt)),
      n_confirm = (\<lambda>_. ok_node (Some demo_receipt)),
      n_logs = (\<lambda>_ _ i _. ok_node (if i = 1 then [demo_log] else [])),
      g_get_subnet = (\<lambda>_ _. ok_node (True, demo_data)),
      g_top_down_msgs = (\<lambda>_ _ _ _. ok_node []), g_latest_parent_finality = (\<lambda>_. ok_node 1),
      g_list_subnets = (\<lambda>_. ok_node [demo_data]), g_cross_msg_fee = (\<lambda>_. ok_node 3),
      g_bottom_up_checkpoint = (\<lambda>_ _. ok_node demo_checkpoint),
      g_applied_top_down_nonce = (\<lambda>_ _. ok_node (True, 0)),
      g_signature_bundle = (\<lambda>_ _. ok_node (demo_checkpoint, [demo_eth], [[1]])),
      g_bottom_up_messages = (\<lambda>_ _. ok_node []),
      a_active_validators_limit = (\<lambda>_. ok_node 10), a_bottom_up_check_period = (\<lambda>_. ok_node 1),
      a_majority_percentage = (\<lambda>_. ok_node 60), a_min_activation_collateral = (\<lambda>_. ok_node 1),
      a_min_cross_msg_fee = (\<lambda>_. ok_node 1), a_genesis_validators = (\<lambda>_. ok_node []),
      a_genesis_balances = (\<lambda>_. ok_node ([], [])), a_bootstrap_nodes = (\<lambda>_. ok_node []),
      a_get_validator = (\<lambda>_ _. ok_node \<lparr>evm_confirmed_collateral = 1, evm_total_collateral = 1, evm_vi_metadata = []\<rparr>),
      a_is_active_validator = (\<lambda>_ _. ok_node True), a_is_waiting_validator = (\<lambda>_ _. ok_node False),
      a_checkpoint_hash_at = (\<lambda>_ _. ok_node (True, replicate 32 1)), a_min_validators = (\<lambda>_. ok_node 1),
      a_last_checkpoint_height = (\<lambda>_. ok_node 0), a_has_submitted = (\<lambda>_ _. ok_node True)\<rparr>"

definition demo_eth_libs :: eth_libs where
  "demo_eth_libs =
     \<lparr>wallet_from_bytes = (\<lambda>b. ok_or ''invalid key'' (demo_wallet_address b)), h160_display = demo_hex,
      parse_subnet_deployed = (\<lambda>_. Ok demo_eth),
      parse_staking_change = (\<lambda>_. Ok \<lparr>evm_change = \<lparr>evm_op = 0, evm_payload = [], evm_sc_validator = demo_eth\<rparr>, evm_configuration_number = 1\<rparr>),
      parse_quorum_reached = (\<lambda>_. Ok \<lparr>qr_height = 1, qr_checkpoint = replicate 32 1, qr_weight = 10\<rparr>),
      checkpoint_from_token = Ok, FEE_THRESHOLD = 200\<rparr>"

definition demo_key_store :: "eth_key_address persistent_key_store" where
  "demo_key_store = \<lparr>memory = \<lparr>data = [(demo_eth, \<lparr>private_key = demo_eth\<rparr>)], default_key = None\<rparr>,
     file_path = file_in demo_dir DEFAULT_KEYSTORE_NAME\<rparr>"

definition demo_manager :: "unit eth_subnet_manager" where
  "demo_manager = eth_manager_new demo_gateway (replicate 20 1) 5 demo_node (Some demo_key_store)"

definition demo_world :: "unit chain_world" where
  "demo_world = \<lparr>chain = (), sent = []\<rparr>"

definition demo_child :: "demo_addr subnet_id" where
  "demo_child = \<lparr>root = 5, children = [DemoEth demo_eth]\<rparr>"

lemma demo_manager_sel [simp]:
  "mgr_node demo_manager = demo_node" "mgr_gateway_addr demo_manager = demo_gateway"
  "mgr_chain_id demo_manager = 5" "mgr_keystore demo_manager = Some demo_key_store"
  by (simp_all add: demo_manager_def eth_manager_new_def)

lemma demo_world_sel [simp]: "chain demo_world = ()" "sent demo_world = []"
  by (simp_all add: demo_world_def)

lemma on_chain_ok [simp]: "on_chain (ok_node x) w = (Ok x, w)"
  by (simp add: on_chain_def ok_node_def)

lemma demo_signer [simp]:
  "get_signer demo_libs demo_eth_libs demo_manager (DemoEth demo_eth) = Ok \<lparr>signer_address = demo_eth, signer_chain_id = 5\<rparr>"
  by (simp add: get_signer_def mgr_keystore_get_def pks_get_def mem_get_def demo_key_store_def
      demo_eth_libs_def demo_wallet_address_def demo_eth_def eth_key_default_def)

lemma demo_fil_address [simp]: "ethers_address_to_fil_address demo_libs demo_eth = Ok (DemoEth demo_eth)"
  by (simp add: ethers_address_to_fil_address_def demo_eth_from_str_def) (simp add: demo_eth_def)

lemma demo_contract [simp]: "contract_address_from_subnet demo_libs demo_child = Ok demo_eth"
  by (simp add: contract_address_from_subnet_def demo_child_def demo_eth_def)

end
