(* ===== verification/Eth_Properties.thy ===== *)
theory Eth_Properties
  imports Eth_Demo
begin

text \<open>
  What the Ethereum subnet manager sends and what its relayer submits. Queries leave the list
  of sent transactions alone; a state-changing operation hands the node one transaction, the
  one its arguments determine, or none when it fails beforehand. On these facts rests the
  interpretation of \<open>checkpoint_relay\<close> for a parent and a child manager.
\<close>

section \<open>Frames\<close>

definition same_sent :: "'c chain_world \<Rightarrow> 'c chain_world \<Rightarrow> bool" where
  "same_sent w w' \<longleftrightarrow> sent w' = sent w"

lemma same_sent_refl: "reflp same_sent"
  by (simp add: same_sent_def reflp_def)

lemma same_sent_trans: "transp same_sent"
  by (simp add: same_sent_def transp_def)

lemma on_chain_same [io_steps]: "io_rel same_sent (on_chain m)"
  by (simp add: io_rel_def same_sent_def on_chain_def split: prod.splits)

lemmas same_sent_steps = io_steps io_rel_ret [OF same_sent_refl] io_rel_bail [OF same_sent_refl]
  io_rel_lift [OF same_sent_refl] io_rel_bind [OF same_sent_trans]

lemma same_sentD: "io_rel same_sent m \<Longrightarrow> m w = (r, w') \<Longrightarrow> sent w' = sent w"
  by (metis io_relD same_sent_def snd_conv)

lemma premium_same: "io_rel same_sent (premium_estimation E N)"
  unfolding premium_estimation_def by (intro same_sent_steps) (auto intro!: same_sent_refl same_sent_trans)

lemma receipt_block_same: "io_rel same_sent (receipt_block M h)"
  unfolding receipt_block_def by (intro same_sent_steps same_sent_refl same_sent_trans)

lemma confirm_same: "io_rel same_sent (confirm M h)"
  unfolding confirm_def by (intro same_sent_steps same_sent_refl same_sent_trans)

section \<open>The transaction of a plan\<close>

fun plan_tx :: "plan \<Rightarrow> u256 \<Rightarrow> transaction" where
  "plan_tx (s, to, val, call) gp =
     \<lparr>tx_sender = signer_address s, tx_chain_id = signer_chain_id s, tx_to = to,
      tx_value = val, tx_call = call, tx_gas_price = gp, tx_fee_cap = None\<rparr>"

lemma call_contract_sent:
  assumes "call_contract E N pl w = (r, w')"
  shows "(sent w' = sent w \<and> \<not> is_ok r) \<or> (\<exists>gp. sent w' = sent w @ [plan_tx pl gp])"
proof -
  obtain s to val call where pl: "pl = (s, to, val, call)" by (cases pl)
  obtain q w1 where q: "premium_estimation E N w = (q, w1)" by (cases "premium_estimation E N w")
  have w1: "sent w1 = sent w" using same_sentD [OF premium_same q] .
  show ?thesis
    using assms q w1
    by (cases q) (auto simp: pl call_contract_def bind_io_def send_txn_def split: prod.splits)
qed

lemma run_plan_sent:
  assumes fin: "\<And>h. io_rel same_sent (fin h)" and run: "run_plan E M p fin w = (r, w')"
  shows "(sent w' = sent w \<and> \<not> is_ok r) \<or> (\<exists>pl gp. p = Ok pl \<and> sent w' = sent w @ [plan_tx pl gp])"
proof (cases p)
  case (Ok pl)
  obtain q w1 where q: "call_contract E (mgr_node M) pl w = (q, w1)" by (cases "call_contract E (mgr_node M) pl w")
  show ?thesis
  proof (cases q)
    case (Ok h)
    with run q \<open>p = Ok pl\<close> have "fin h w1 = (r, w')" by (simp add: run_plan_def bind_io_def lift_def)
    then have "sent w' = sent w1" using same_sentD [OF fin] by blast
    with call_contract_sent [OF q] Ok \<open>p = Ok pl\<close> show ?thesis by auto
  qed (use run q call_contract_sent [OF q] Ok in \<open>auto simp: run_plan_def bind_io_def lift_def\<close>)
qed (use run in \<open>auto simp: run_plan_def bind_io_def lift_def bail_def\<close>)

text \<open>
  \<open>answers E M\<close>: the node answers the calls that a transaction needs, and finds its receipt.
  \<open>sends_exactly E M to sg val call m\<close>: a run of \<open>m\<close> either fails having sent nothing, or has
  sent exactly one transaction, \<open>call\<close> to the contract \<open>to\<close> with this value, signed by
  \<open>sg\<close>; if it succeeds it has sent it, and with a target, a signer and a node that answers
  it succeeds.
\<close>

definition answers :: "eth_libs \<Rightarrow> 'c eth_subnet_manager \<Rightarrow> bool" where
  "answers E M \<longleftrightarrow> (\<forall>w. is_ok (fst (premium_estimation E (mgr_node M) w)))
     \<and> (\<forall>t c. is_ok (fst (n_send (mgr_node M) t c)))
     \<and> (\<forall>k h c. \<exists>r n. fst (n_receipt (mgr_node M) k h c) = Ok (Some r) \<and> receipt_block_number r = Some n)
     \<and> (\<forall>h c. is_ok (fst (n_confirm (mgr_node M) h c)))"

definition sends_exactly :: "eth_libs \<Rightarrow> 'c eth_subnet_manager \<Rightarrow> (string, bytes) res \<Rightarrow> (string, signer) res
    \<Rightarrow> u256 \<Rightarrow> contract_call \<Rightarrow> ('c chain_world, 'b) io \<Rightarrow> bool" where
  "sends_exactly E M to sg val call m \<longleftrightarrow> (\<forall>w r w'. m w = (r, w') \<longrightarrow>
     ((sent w' = sent w \<and> \<not> is_ok r) \<or>
      (\<exists>a s gp. to = Ok a \<and> sg = Ok s \<and> sent w' = sent w @ [plan_tx (s, a, val, call) gp]))
     \<and> (answers E M \<longrightarrow> is_ok to \<longrightarrow> is_ok sg \<longrightarrow> is_ok r))"

lemma is_ok_bind_io: "is_ok (fst (m w)) \<Longrightarrow> (\<And>x. is_ok (fst (f x (snd (m w))))) \<Longrightarrow> is_ok (fst (bind_io m f w))"
  by (cases "m w"; cases "fst (m w)") (auto simp: bind_io_def)

lemma call_contract_answers: "answers E M \<Longrightarrow> is_ok (fst (call_contract E (mgr_node M) pl w))"
  by (cases pl) (auto simp: call_contract_def answers_def send_txn_def split: prod.splits
      intro!: is_ok_bind_io, metis fst_conv)

lemma receipt_block_answers: "answers E M \<Longrightarrow> is_ok (fst (receipt_block M h w))"
  unfolding receipt_block_def answers_def bind_io_def on_chain_def lift_def
  by (erule conjE)+ (drule spec [of _ TRANSACTION_RECEIPT_RETRIES], drule spec [of _ h], drule spec [of _ "chain w"],
    auto simp: block_number_from_receipt_def split: prod.splits)

lemma confirm_answers: "answers E M \<Longrightarrow> is_ok (fst (confirm M h w))"
  unfolding confirm_def by (rule is_ok_bind_io) (auto simp: answers_def on_chain_def ret_def split: prod.splits, metis fst_conv)

lemma ret_answers: "answers E M \<Longrightarrow> is_ok (fst (ret x w))"
  by (simp add: ret_def)

lemma sends_exactlyI:
  assumes fin: "\<And>h. io_rel same_sent (fin h)" "\<And>h w. answers E M \<Longrightarrow> is_ok (fst (fin h w))"
    and plan: "\<And>pl. p = Ok pl \<Longrightarrow> \<exists>a s. to = Ok a \<and> sg = Ok s \<and> pl = (s, a, val, call)"
    and good: "\<And>a s. to = Ok a \<Longrightarrow> sg = Ok s \<Longrightarrow> is_ok p"
  shows "sends_exactly E M to sg val call (run_plan E M p fin)"
  unfolding sends_exactly_def
proof (intro allI impI conjI)
  fix w r w'
  assume run: "run_plan E M p fin w = (r, w')"
  from run_plan_sent [OF fin(1) run]
  show "(sent w' = sent w \<and> \<not> is_ok r) \<or>
     (\<exists>a s gp. to = Ok a \<and> sg = Ok s \<and> sent w' = sent w @ [plan_tx (s, a, val, call) gp])"
  proof
    assume "\<exists>pl gp. p = Ok pl \<and> sent w' = sent w @ [plan_tx pl gp]"
    then obtain pl gp where "p = Ok pl" "sent w' = sent w @ [plan_tx pl gp]" by blast
    with plan [of pl] show ?thesis by blast
  qed blast
next
  fix w r w'
  assume run: "run_plan E M p fin w = (r, w')" and ans: "answers E M" and "is_ok to" "is_ok sg"
  then obtain pl where "p = Ok pl" using good by (metis is_ok_iff)
  moreover have "is_ok (fst (bind_io (call_contract E (mgr_node M) pl) fin w))"
    by (intro is_ok_bind_io call_contract_answers [OF ans] fin(2) [OF ans])
  ultimately show "is_ok r" using run by (simp add: run_plan_def)
qed

lemma sends_exactly_run:
  assumes "sends_exactly E M (Ok a) (Ok s) val call m" and "answers E M"
  shows "is_ok (fst (m w)) \<and> (\<exists>gp. sent (snd (m w)) = sent w @ [plan_tx (s, a, val, call) gp])"
proof (cases "m w")
  case (Pair r w')
  with assms have "is_ok r" "(sent w' = sent w \<and> \<not> is_ok r) \<or> (\<exists>gp. sent w' = sent w @ [plan_tx (s, a, val, call) gp])"
    unfolding sends_exactly_def by auto
  with Pair show ?thesis by auto
qed

lemma actor_plan_Ok: "actor_plan L E M s from v c = Ok pl \<Longrightarrow>
    \<exists>a sg. contract_address_from_subnet L s = Ok a \<and> get_signer L E M from = Ok sg \<and> pl = (sg, a, v, c)"
  by (auto simp: actor_plan_def res_simps)

lemma actor_plan_ok: "contract_address_from_subnet L s = Ok a \<Longrightarrow> get_signer L E M from = Ok sg \<Longrightarrow> is_ok (actor_plan L E M s from v c)"
  by (simp add: actor_plan_def)

lemma run_plan_Err: "run_plan E M (Err e) fin w = (Err e, w)"
  by (simp add: run_plan_def bail_def)

lemma to_u128_range: "0 \<le> c \<Longrightarrow> c < 2 ^ 128 \<Longrightarrow> to_u128 c = Some (word_of_int c)"
  "c < 0 \<or> 2 ^ 128 \<le> c \<Longrightarrow> to_u128 c = None"
  by (auto simp: to_u128_def)

lemma uint_amount: "0 \<le> c \<Longrightarrow> c < 2 ^ 128 \<Longrightarrow> uint (word_of_int c :: u256) = c"
  by (rule uint_u256) simp_all

section \<open>Properties of the transactions\<close>

lemma demo_answers [simp]: "answers demo_eth_libs demo_manager"
  by (simp add: answers_def premium_estimation_def demo_node_def io_eval demo_block_def demo_eth_libs_def
      premium_of_def estimate_priority_fee_def base_fee_surged_def u256_of_def first_reward_def)
    (simp add: ok_node_def demo_receipt_def)

lemma staking_sends:
  assumes "0 \<le> c" and "c < 2 ^ 128"
  shows "sends_exactly E M (contract_address_from_subnet L s) (get_signer L E M from) (word_of_int c) (Join pk)
           (join_subnet L E M s from c pk)"
    and "sends_exactly E M (contract_address_from_subnet L s) (get_signer L E M from) (word_of_int c) PreFund
           (pre_fund L E M s from c)"
    and "sends_exactly E M (contract_address_from_subnet L s) (get_signer L E M from) (word_of_int c) Stake
           (stake L E M s from c)"
    and "sends_exactly E M (contract_address_from_subnet L s) (get_signer L E M from) 0 (Unstake (word_of_int c))
           (unstake L E M s from c)"
    and "sends_exactly E M (contract_address_from_subnet L s) (get_signer L E M from) 0 (PreRelease (word_of_int c))
           (pre_release L E M s from c)"
  unfolding join_subnet_def pre_fund_def stake_def unstake_def pre_release_def to_u128_range(1) [OF assms]
  by (rule sends_exactlyI,
      auto intro: receipt_block_same confirm_same io_rel_ret [OF same_sent_refl] actor_plan_ok
        receipt_block_answers confirm_answers ret_answers dest: actor_plan_Ok simp: res_simps)+

lemma actor_call_sends:
  "sends_exactly E M (contract_address_from_subnet L s) (get_signer L E M from) 0 Leave (leave_subnet L E M s from)"
  "sends_exactly E M (contract_address_from_subnet L s) (get_signer L E M from) 0 Kill (kill_subnet L E M s from)"
  "sends_exactly E M (contract_address_from_subnet L s) (get_signer L E M from) 0 Claim (claim_collateral L E M s from)"
  "sends_exactly E M (contract_address_from_subnet L s) (get_signer L E M from) 0 ClaimRewardForRelayer
     (claim_relayer_reward L E M s from)"
  unfolding leave_subnet_def kill_subnet_def claim_collateral_def claim_relayer_reward_def
  by (rule sends_exactlyI, auto intro: confirm_same actor_plan_ok confirm_answers dest: actor_plan_Ok)+

text \<open>With a collateral that fits in 128 bits, \<open>join_subnet\<close>, \<open>pre_fund\<close> and
  \<open>stake\<close> send the subnet's actor exactly one transaction that pays that collateral, and
  \<open>unstake\<close> and \<open>pre_release\<close> one that pays nothing and asks for it back; each is signed
  by the key of \<open>from\<close>. Nothing is sent when a check fails.\<close>

lemma staking_transactions:
  assumes "0 \<le> c" and "c < 2 ^ 128"
  shows "sends_exactly E M (contract_address_from_subnet L s) (get_signer L E M from) (word_of_int c) (Join pk)
           (join_subnet L E M s from c pk)
       \<and> sends_exactly E M (contract_address_from_subnet L s) (get_signer L E M from) (word_of_int c) PreFund
           (pre_fund L E M s from c)
       \<and> sends_exactly E M (contract_address_from_subnet L s) (get_signer L E M from) (word_of_int c) Stake
           (stake L E M s from c)
       \<and> sends_exactly E M (contract_address_from_subnet L s) (get_signer L E M from) 0 (Unstake (word_of_int c))
           (unstake L E M s from c)
       \<and> sends_exactly E M (contract_address_from_subnet L s) (get_signer L E M from) 0 (PreRelease (word_of_int c))
           (pre_release L E M s from c)
       \<and> uint (word_of_int c :: u256) = c"
  by (intro conjI staking_sends [OF assms] uint_amount [OF assms])

text \<open>A collateral that is negative or does not fit in 128 bits is refused before anything
  is asked of the network: the world is unchanged.\<close>

lemma staking_amount_refused:
  assumes "c < 0 \<or> 2 ^ 128 \<le> c"
  shows "join_subnet L E M s from c pk w = (Err ''invalid min validator stake'', w)
       \<and> pre_fund L E M s from c w = (Err ''invalid initial balance'', w)
       \<and> stake L E M s from c w = (Err ''invalid collateral amount'', w)
       \<and> unstake L E M s from c w = (Err ''invalid collateral amount'', w)"
  using to_u128_range(2) [OF assms]
  by (simp add: join_subnet_def pre_fund_def stake_def unstake_def run_plan_Err)

text \<open>C11: \<open>fund\<close> sends the configured gateway one transaction that carries the amount and
  names the subnet and the recipient; it refuses any other gateway without sending.\<close>

theorem fund_transaction:
  assumes "0 \<le> amount" and "amount < 2 ^ 128" and "subnet_id_to_evm L s = Ok sid" and "addr_to_abi L to = Ok abi"
  shows "(payload_to_evm_address (addr_payload L gateway) = Ok (mgr_gateway_addr M) \<longrightarrow>
            sends_exactly E M (Ok (mgr_gateway_addr M)) (get_signer L E M from) (word_of_int amount) (FundCall sid abi)
              (fund L E M s gateway from to amount))
       \<and> (payload_to_evm_address (addr_payload L gateway) \<noteq> Ok (mgr_gateway_addr M) \<longrightarrow>
            \<not> is_ok (fst (fund L E M s gateway from to amount w))
            \<and> sent (snd (fund L E M s gateway from to amount w)) = sent w)"
proof (intro conjI impI)
  assume "payload_to_evm_address (addr_payload L gateway) = Ok (mgr_gateway_addr M)"
  then have gw: "ensure_same_gateway L M gateway = Ok ()" by (simp add: ensure_same_gateway_def)
  show "sends_exactly E M (Ok (mgr_gateway_addr M)) (get_signer L E M from) (word_of_int amount) (FundCall sid abi)
      (fund L E M s gateway from to amount)"
    unfolding fund_def to_u128_range(1) [OF assms(1,2)] gw
    by (rule sends_exactlyI) (auto intro: receipt_block_same receipt_block_answers simp: res_simps assms(3,4))
next
  assume gw: "payload_to_evm_address (addr_payload L gateway) \<noteq> Ok (mgr_gateway_addr M)"
  then have "ensure_same_gateway L M gateway \<noteq> Ok ()"
    by (auto simp: ensure_same_gateway_def res_simps split: if_splits)
  then obtain q where q: "(\<exists>e. q = Err e) \<or> (\<exists>e. q = Panic e)" "ensure_same_gateway L M gateway = q"
    by (cases "ensure_same_gateway L M gateway") auto
  then show "\<not> is_ok (fst (fund L E M s gateway from to amount w))"
      "sent (snd (fund L E M s gateway from to amount w)) = sent w"
    by (auto simp: fund_def run_plan_def bind_io_def lift_def bail_def)
qed

lemma fund_transaction_witness:
  "(\<exists>gp. sent (snd (fund demo_libs demo_eth_libs demo_manager demo_child (DemoEth demo_gateway) (DemoEth demo_eth) (DemoEth demo_eth) 10 demo_world))
       = [plan_tx (\<lparr>signer_address = demo_eth, signer_chain_id = 5\<rparr>, demo_gateway, 10, FundCall demo_route (4 # demo_eth)) gp])
   \<and> sent (snd (fund demo_libs demo_eth_libs demo_manager demo_child (DemoEth demo_eth) (DemoEth demo_eth) (DemoEth demo_eth) 10 demo_world)) = []"
proof -
  have h: "(0 :: int) \<le> 10" "(10 :: int) < 2 ^ 128" "subnet_id_to_evm demo_libs demo_child = Ok demo_route"
      "addr_to_abi demo_libs (DemoEth demo_eth) = Ok (4 # demo_eth)"
    by (simp_all add: subnet_id_to_evm_def subnet_id_to_evm_addresses_def demo_child_def demo_route_def demo_eth_def)
  have gw: "payload_to_evm_address (addr_payload demo_libs (DemoEth demo_gateway)) = Ok demo_gateway"
      "payload_to_evm_address (addr_payload demo_libs (DemoEth demo_eth)) \<noteq> Ok demo_gateway"
    by (simp_all add: demo_gateway_def demo_eth_def)
  note f = fund_transaction [OF h, where M = demo_manager and E = demo_eth_libs and ?from = "DemoEth demo_eth" and w = demo_world]
  have "sends_exactly demo_eth_libs demo_manager (Ok demo_gateway) (Ok \<lparr>signer_address = demo_eth, signer_chain_id = 5\<rparr>) 10
      (FundCall demo_route (4 # demo_eth))
      (fund demo_libs demo_eth_libs demo_manager demo_child (DemoEth demo_gateway) (DemoEth demo_eth) (DemoEth demo_eth) 10)"
    using f [of "DemoEth demo_gateway"] gw(1) by (simp del: demo_sel)
  from sends_exactly_run [OF this demo_answers, of demo_world] f [of "DemoEth demo_eth"] gw(2)
  show ?thesis by (simp del: demo_sel)
qed

text \<open>C20: The transactions of an address are signed with the key stored for it: when the key
  store is consistent (every key is filed under its own address) the signer's address is the
  Ethereum address of \<open>from\<close> and the chain id is the manager's.\<close>

theorem signer_is_sender:
  assumes sg: "get_signer L E M from = Ok sg" and ks: "mgr_keystore M = Some ks"
    and inv: "mem_inv (eth_key_ops L wa) (memory ks)"
    and wa: "\<And>b a. wa b = Some a \<longleftrightarrow> wallet_from_bytes E b = Ok a"
    and nz: "payload_to_evm_address (addr_payload L from) \<noteq> Ok eth_key_default"
  shows "payload_to_evm_address (addr_payload L from) = Ok (signer_address sg) \<and> signer_chain_id sg = mgr_chain_id M"
proof -
  obtain addr i where a: "payload_to_evm_address (addr_payload L from) = Ok addr"
      and i: "map_of (data (memory ks)) addr = Some i" "wallet_from_bytes E (private_key i) = Ok (signer_address sg)"
      and c: "signer_chain_id sg = mgr_chain_id M"
    using sg ks by (auto simp: get_signer_def mgr_keystore_get_def pks_get_def mem_get_def res_simps)
  have "addr \<noteq> dflt_key (eth_key_ops L wa)" using nz a by (auto simp: eth_key_ops_def)
  from mem_inv_data(2) [OF inv i(1) this] have "wa (private_key i) = Some addr" by (simp add: eth_key_ops_def)
  with wa i(2) a c show ?thesis by simp
qed

lemma signer_is_sender_witness:
  "payload_to_evm_address (addr_payload demo_libs (DemoEth demo_eth)) = Ok demo_eth
   \<and> signer_chain_id \<lparr>signer_address = demo_eth, signer_chain_id = 5\<rparr> = mgr_chain_id demo_manager"
  using signer_is_sender [OF demo_signer, where wa = demo_wallet_address]
  by (simp add: demo_key_store_def mem_inv_def eth_key_ops_def demo_eth_libs_def res_simps
      demo_eth_def demo_wallet_address_def eth_key_default_def)

section \<open>Bootstrap endpoints\<close>

lemma valid_bootstrap_socket:
  assumes "CHR ''@'' \<notin> set pk" "CHR ''@'' \<notin> set a" "parse_socket_addr a = Some (ip, port)"
  shows "is_valid_bootstrap_addr (pk @ ''@'' @ a) = Some (pk, ip, port)"
proof -
  have "str_split (CHR ''@'') (pk @ ''@'' @ a) = [pk, a]" using assms(1,2) by (simp add: str_split_append str_split_free)
  then show ?thesis using assms(3) by (simp add: is_valid_bootstrap_addr_def)
qed

lemma socket_no_at:
  "CHR ''@'' \<notin> set (show_ipv4_socket o4 port)"
  "\<forall>t \<in> set (ts @ us). hex_group t \<Longrightarrow> CHR ''@'' \<notin> set (show_ipv6_socket ts us port)"
proof -
  have digits: "CHR ''@'' \<notin> set (show_nat n)" for n using show_nat_range [of "CHR ''@''" n] by auto
  then show "CHR ''@'' \<notin> set (show_ipv4_socket o4 port)" by (simp add: show_ipv4_socket_def)
  have groups: "CHR ''@'' \<notin> set (colon_groups xs)" if "\<forall>t \<in> set xs. hex_group t" for xs
    using that
  proof (induction xs)
    case (Cons t xs)
    then have "CHR ''@'' \<notin> set t" unfolding hex_group_def by (metis list.set_intros(1) to_digit_16_marks(7))
    with Cons show ?case by (simp add: colon_groups_def)
  qed (simp add: colon_groups_def)
  then have "CHR ''@'' \<notin> set (tl (colon_groups xs))" if "\<forall>t \<in> set xs. hex_group t" for xs
    using that by (cases "colon_groups xs") fastforce+
  with digits show "CHR ''@'' \<notin> set (show_ipv6_socket ts us port)" if "\<forall>t \<in> set (ts @ us). hex_group t"
    using that by (simp add: show_ipv6_socket_def show_ipv6_def)
qed

lemma length_str_split: "length (str_split c s) = Suc (count_list s c)"
  by (induction s) (auto split: list.splits)

lemma valid_bootstrap_iff:
  "is_valid_bootstrap_addr endpoint \<noteq> None \<longleftrightarrow>
     count_list endpoint (CHR ''@'') = 1 \<and> parse_socket_addr (last (str_split (CHR ''@'') endpoint)) \<noteq> None"
proof (cases "length (str_split (CHR ''@'') endpoint) = 2")
  case True
  then have "last (str_split (CHR ''@'') endpoint) = str_split (CHR ''@'') endpoint ! 1" by (simp add: last_conv_nth)
  with True show ?thesis
    by (auto simp: is_valid_bootstrap_addr_def length_str_split Let_def split: option.splits prod.splits)
qed (simp add: is_valid_bootstrap_addr_def length_str_split)

lemma add_bootstrap_valid:
  assumes "is_valid_bootstrap_addr endpoint \<noteq> None"
  shows "sends_exactly E M (contract_address_from_subnet L s) (get_signer L E M from) 0
      (AddBootstrapNode endpoint) (add_bootstrap L E M s from endpoint)"
  using assms unfolding add_bootstrap_def
  by (intro sends_exactlyI) (auto intro: confirm_same confirm_answers simp: res_simps)

text \<open>C36: \<open>add_bootstrap\<close> advertises an endpoint as it is given, in one transaction to the subnet's actor, exactly when
  it is a text with one \<open>@\<close> whose second part is a socket address; every other text is refused and nothing is sent.
  Among the endpoints it takes are \<open>key@a.b.c.d:port\<close> with numbers in range and
  \<open>key@[g1:...:g8]:port\<close> with groups of one to four hexadecimal digits, also with \<open>::\<close> in place of
  one or more groups.\<close>

theorem bootstrap_endpoints:
  assumes "CHR ''@'' \<notin> set pk" "port \<le> 65535"
    and "length o4 = 4" "\<forall>x\<in>set o4. x \<le> 255"
    and "\<forall>t\<in>set (ts @ us). hex_group t" "length ts = 8 \<or> length ts + length us \<le> 7"
  shows "sends_exactly E M (contract_address_from_subnet L s) (get_signer L E M from) 0
           (AddBootstrapNode (pk @ ''@'' @ show_ipv4_socket o4 port))
           (add_bootstrap L E M s from (pk @ ''@'' @ show_ipv4_socket o4 port))
       \<and> sends_exactly E M (contract_address_from_subnet L s) (get_signer L E M from) 0
           (AddBootstrapNode (pk @ ''@'' @ show_ipv6_socket ts us port))
           (add_bootstrap L E M s from (pk @ ''@'' @ show_ipv6_socket ts us port))
       \<and> (if count_list endpoint (CHR ''@'') = 1 \<and> parse_socket_addr (last (str_split (CHR ''@'') endpoint)) \<noteq> None
          then sends_exactly E M (contract_address_from_subnet L s) (get_signer L E M from) 0
             (AddBootstrapNode endpoint) (add_bootstrap L E M s from endpoint)
          else \<not> is_ok (fst (add_bootstrap L E M s from endpoint w))
             \<and> sent (snd (add_bootstrap L E M s from endpoint w)) = sent w)"
proof (intro conjI)
  have "is_valid_bootstrap_addr (pk @ ''@'' @ show_ipv4_socket o4 port) \<noteq> None"
    using valid_bootstrap_socket [OF assms(1) socket_no_at(1) parse_show_ipv4_socket [OF assms(3,4,2)]] by simp
  then show "sends_exactly E M (contract_address_from_subnet L s) (get_signer L E M from) 0
           (AddBootstrapNode (pk @ ''@'' @ show_ipv4_socket o4 port))
           (add_bootstrap L E M s from (pk @ ''@'' @ show_ipv4_socket o4 port))" by (rule add_bootstrap_valid)
  have "is_valid_bootstrap_addr (pk @ ''@'' @ show_ipv6_socket ts us port) \<noteq> None"
    using valid_bootstrap_socket [OF assms(1) socket_no_at(2) parse_show_ipv6_socket [OF assms(5,6,2)]] assms(5) by simp
  then show "sends_exactly E M (contract_address_from_subnet L s) (get_signer L E M from) 0
           (AddBootstrapNode (pk @ ''@'' @ show_ipv6_socket ts us port))
           (add_bootstrap L E M s from (pk @ ''@'' @ show_ipv6_socket ts us port))" by (rule add_bootstrap_valid)
  show "if count_list endpoint (CHR ''@'') = 1 \<and> parse_socket_addr (last (str_split (CHR ''@'') endpoint)) \<noteq> None
      then sends_exactly E M (contract_address_from_subnet L s) (get_signer L E M from) 0
         (AddBootstrapNode endpoint) (add_bootstrap L E M s from endpoint)
      else \<not> is_ok (fst (add_bootstrap L E M s from endpoint w))
         \<and> sent (snd (add_bootstrap L E M s from endpoint w)) = sent w"
  proof (cases "is_valid_bootstrap_addr endpoint = None")
    case True
    then have "\<not> is_ok (fst (add_bootstrap L E M s from endpoint w)) \<and> sent (snd (add_bootstrap L E M s from endpoint w)) = sent w"
      by (cases "contract_address_from_subnet L s"; simp add: add_bootstrap_def run_plan_def bind_io_def lift_def)
    moreover have "\<not> (count_list endpoint (CHR ''@'') = 1 \<and> parse_socket_addr (last (str_split (CHR ''@'') endpoint)) \<noteq> None)"
      using True valid_bootstrap_iff [of endpoint] by blast
    ultimately show ?thesis by (simp only: if_False simp_thms)
  next
    case False
    then have one: "count_list endpoint (CHR ''@'') = 1 \<and> parse_socket_addr (last (str_split (CHR ''@'') endpoint)) \<noteq> None"
      using valid_bootstrap_iff [of endpoint] by blast
    show ?thesis unfolding if_P [OF one] by (rule add_bootstrap_valid [OF False])
  qed
qed

lemma bootstrap_endpoints_witness:
  "(\<exists>gp. sent (snd (add_bootstrap demo_libs demo_eth_libs demo_manager demo_child (DemoEth demo_eth)
        (''k'' @ ''@'' @ show_ipv4_socket [10, 0, 0, 1] 26656) demo_world))
       = [plan_tx (\<lparr>signer_address = demo_eth, signer_chain_id = 5\<rparr>, demo_eth, 0,
            AddBootstrapNode (''k'' @ ''@'' @ show_ipv4_socket [10, 0, 0, 1] 26656)) gp])
   \<and> (\<exists>gp. sent (snd (add_bootstrap demo_libs demo_eth_libs demo_manager demo_child (DemoEth demo_eth)
        (''k@['' @ ''fe80::1'' @ '']:'' @ show_nat 26656) demo_world))
       = [plan_tx (\<lparr>signer_address = demo_eth, signer_chain_id = 5\<rparr>, demo_eth, 0,
            AddBootstrapNode (''k@['' @ ''fe80::1'' @ '']:'' @ show_nat 26656)) gp])
   \<and> sent (snd (add_bootstrap demo_libs demo_eth_libs demo_manager demo_child (DemoEth demo_eth) ''k'' demo_world)) = []"
proof -
  have "CHR ''@'' \<notin> set ''k''" "(26656 :: nat) \<le> 65535" "length [10, 0, 0, 1 :: nat] = 4" "\<forall>x\<in>set [10, 0, 0, 1 :: nat]. x \<le> 255"
      "\<forall>t\<in>set ([''fe80''] @ [''1'']). hex_group t" "length [''fe80''] = 8 \<or> length [''fe80''] + length [''1''] \<le> 7"
    by (simp_all add: hex_group_def to_digit_def)
  note b = bootstrap_endpoints [OF this, where L = demo_libs and E = demo_eth_libs and M = demo_manager and s = demo_child
      and ?from = "DemoEth demo_eth" and w = demo_world and endpoint = "''k''"]
  have text6: "''k'' @ ''@'' @ show_ipv6_socket [''fe80''] [''1''] 26656 = ''k@['' @ ''fe80::1'' @ '']:'' @ show_nat 26656"
    by (simp add: show_ipv6_socket_def show_ipv6_def colon_groups_def)
  from sends_exactly_run [OF b [THEN conjunct1, unfolded demo_contract demo_signer] demo_answers, of demo_world]
    sends_exactly_run [OF b [THEN conjunct2, THEN conjunct1, unfolded demo_contract demo_signer text6] demo_answers, of demo_world]
    b [THEN conjunct2, THEN conjunct2]
  show ?thesis by simp
qed

section \<open>Validator changes\<close>

lemma collect_changes_Ok:
  "collect_changes L evs hash acc = Ok (out, hash') \<longleftrightarrow>
     (\<exists>cs. traverse (\<lambda>x. staking_change_request_from_event L (fst x)) evs = Ok cs \<and> out = acc @ cs)
     \<and> (if evs = [] then hash' = hash
        else \<exists>h. hash' = Some h \<and> (hash = None \<or> hash = Some h) \<and> (\<forall>x\<in>set evs. snd x = h))"
proof (induction L evs hash acc rule: collect_changes.induct)
  case (2 L event bh rest hash acc)
  show ?case
  proof (cases "hash \<noteq> None \<and> hash \<noteq> Some bh")
    case False
    then have h: "(case hash of None \<Rightarrow> bh | Some h \<Rightarrow> h) = bh" by (auto split: option.splits)
    from False have "hash = None \<or> hash = Some bh" by blast
    with 2 [OF False] False h show ?thesis by (cases "rest = []") (auto simp: res_simps)
  qed auto
qed auto

text \<open>C24: The validator changes of an epoch are the conversions of the subnet actor's change
  events of that block, all of them and in order, and the hash returned with them is the hash of
  the block that every event came from; without an event it is the hash the node has for the epoch.\<close>

theorem validator_changeset_one_block:
  assumes "get_validator_changeset L E M s epoch w = (Ok p, w')"
  shows "\<exists>a ls evs. contract_address_from_subnet L s = Ok a
     \<and> fst (n_logs (mgr_node M) a NewStakingChangeRequest (u64_of_epoch epoch) (u64_of_epoch epoch) (chain w)) = Ok ls
     \<and> decode_logs (parse_staking_change E) ls = Ok evs
     \<and> traverse (\<lambda>x. staking_change_request_from_event L (fst x)) evs = Ok (td_value p)
     \<and> (\<forall>x\<in>set evs. snd x = td_block_hash p)
     \<and> (evs = [] \<longrightarrow> (\<exists>w1 r. get_block_hash M epoch w1 = (Ok r, w') \<and> td_block_hash p = gb_block_hash r))"
proof -
  obtain a ls evs w1 hash where a: "contract_address_from_subnet L s = Ok a"
    and ls: "on_chain (n_logs (mgr_node M) a NewStakingChangeRequest (u64_of_epoch epoch) (u64_of_epoch epoch)) w = (Ok ls, w1)"
    and evs: "decode_logs (parse_staking_change E) ls = Ok evs"
    and col: "collect_changes L evs None [] = Ok (td_value p, hash)"
    and fin: "(case hash of Some h \<Rightarrow> ret h | None \<Rightarrow> bind_io (get_block_hash M epoch) (\<lambda>r. ret (gb_block_hash r))) w1
        = (Ok (td_block_hash p), w')"
    using assms
    by (auto simp: get_validator_changeset_def query_with_meta_def bind_io_Ok_iff lift_def ret_def split: option.splits)
  have "fst (n_logs (mgr_node M) a NewStakingChangeRequest (u64_of_epoch epoch) (u64_of_epoch epoch) (chain w)) = Ok ls"
    using ls by (auto simp: on_chain_def split: prod.splits)
  with a evs col fin show ?thesis
    by (cases "evs = []") (auto simp: collect_changes_Ok bind_io_Ok_iff ret_def, metis)
qed

lemma validator_changeset_one_block_witness:
  "\<exists>a ls evs. contract_address_from_subnet demo_libs demo_child = Ok a
     \<and> fst (n_logs demo_node a NewStakingChangeRequest (u64_of_epoch 1) (u64_of_epoch 1) (chain demo_world)) = Ok ls
     \<and> decode_logs (parse_staking_change demo_eth_libs) ls = Ok evs
     \<and> traverse (\<lambda>x. staking_change_request_from_event demo_libs (fst x)) evs =
         Ok [\<lparr>configuration_number = 1, change = \<lparr>sc_op = Deposit, sc_payload = [], sc_validator = DemoEth demo_eth\<rparr>\<rparr>]"
proof -
  have "get_validator_changeset demo_libs demo_eth_libs demo_manager demo_child 1 demo_world =
     (Ok \<lparr>td_value = [\<lparr>configuration_number = 1, change = \<lparr>sc_op = Deposit, sc_payload = [], sc_validator = DemoEth demo_eth\<rparr>\<rparr>],
          td_block_hash = replicate 32 1\<rparr>, demo_world)"
    by (simp add: get_validator_changeset_def query_with_meta_def demo_node_def u64_of_epoch_def demo_log_def
        decode_logs_def demo_eth_libs_def io_eval staking_change_request_from_event_def)
  from validator_changeset_one_block [OF this] show ?thesis by (simp del: demo_contract) blast
qed

end
