(* ===== verification/Json_Rpc.thy ===== *)
theory Json_Rpc
  imports Rust_Std
begin

text \<open>
  \<open>ipc/provider/src/jsonrpc/mod.rs\<close>: the JSON-RPC client. JSON values are a datatype; the HTTP
  and websocket transports and the JSON reader are parameters.
\<close>

section \<open>JSON values\<close>

text \<open>Integral numbers are \<open>JNum\<close>; any other number keeps its text.\<close>

datatype json =
    JNull
  | JBool bool
  | JNum int
  | JFloat string
  | JStr string
  | JArr "json list"
  | JObj "(string \<times> json) list"

text \<open>The reader and printer of \<open>serde_json\<close> and the error messages of \<open>serde\<close>.\<close>

record json_libs =
  read_json :: "string \<Rightarrow> (string, json) res"
  print_json :: "json \<Rightarrow> string"
  invalid_type :: "json \<Rightarrow> string \<Rightarrow> string"
  missing_field :: "string \<Rightarrow> string"

text \<open>\<open>Value::get\<close> on an object.\<close>

fun json_get :: "string \<Rightarrow> json \<Rightarrow> json option" where
  "json_get k (JObj kvs) = map_of kvs k"
| "json_get k _ = None"

text \<open>
  \<open>Deserialize\<close> of the types the program reads, as functions of a JSON value. A derived reader of
  a struct looks its fields up by name and refuses a field that is given twice; an \<open>Option\<close> field
  may be absent or null.
\<close>

definition de_num :: "json_libs \<Rightarrow> string \<Rightarrow> json \<Rightarrow> (string, 'l::len word) res" where
  "de_num J ty j =
     (case j of
        JNum n \<Rightarrow> if 0 \<le> n \<and> n < 2 ^ LENGTH('l) then Ok (word_of_int n) else Err (invalid_type J j ty)
      | _ \<Rightarrow> Err (invalid_type J j ty))"

definition de_string :: "json_libs \<Rightarrow> json \<Rightarrow> (string, string) res" where
  "de_string J j = (case j of JStr s \<Rightarrow> Ok s | _ \<Rightarrow> Err (invalid_type J j ''a string''))"

definition de_vec :: "json_libs \<Rightarrow> (json \<Rightarrow> (string, 'b) res) \<Rightarrow> json \<Rightarrow> (string, 'b list) res" where
  "de_vec J de j = (case j of JArr xs \<Rightarrow> traverse de xs | _ \<Rightarrow> Err (invalid_type J j ''a sequence''))"

definition de_option :: "(json \<Rightarrow> (string, 'b) res) \<Rightarrow> json \<Rightarrow> (string, 'b option) res" where
  "de_option de j = (if j = JNull then Ok None else and_then (de j) (\<lambda>v. Ok (Some v)))"

definition de_map :: "json_libs \<Rightarrow> (json \<Rightarrow> (string, 'b) res) \<Rightarrow> json \<Rightarrow> (string, (string \<times> 'b) list) res" where
  "de_map J de j =
     (case j of JObj kvs \<Rightarrow> traverse (\<lambda>(k, v). and_then (de v) (\<lambda>x. Ok (k, x))) kvs
      | _ \<Rightarrow> Err (invalid_type J j ''a map''))"

definition field_value :: "string \<Rightarrow> (string \<times> json) list \<Rightarrow> (string, json option) res" where
  "field_value k kvs =
     (if 1 < count_list (map fst kvs) k then Err (''duplicate field `'' @ k @ ''`'') else Ok (map_of kvs k))"

definition field :: "json_libs \<Rightarrow> string \<Rightarrow> (json \<Rightarrow> (string, 'b) res) \<Rightarrow> json \<Rightarrow> (string, 'b) res" where
  "field J k de j =
     (case j of
        JObj kvs \<Rightarrow> and_then (field_value k kvs) (\<lambda>x. case x of Some v \<Rightarrow> de v | None \<Rightarrow> Err (missing_field J k))
      | _ \<Rightarrow> Err (invalid_type J j ''struct''))"

definition opt_field :: "json_libs \<Rightarrow> string \<Rightarrow> (json \<Rightarrow> (string, 'b) res) \<Rightarrow> json \<Rightarrow> (string, 'b option) res" where
  "opt_field J k de j =
     (case j of
        JObj kvs \<Rightarrow> and_then (field_value k kvs) (\<lambda>x. case x of Some v \<Rightarrow> de_option de v | None \<Rightarrow> Ok None)
      | _ \<Rightarrow> Err (invalid_type J j ''struct''))"

text \<open>A struct may also be written as the array of its fields, all of them, in order.\<close>

definition seq_struct :: "json_libs \<Rightarrow> string list \<Rightarrow> json \<Rightarrow> (string, json) res" where
  "seq_struct J ns j =
     (case j of
        JArr xs \<Rightarrow> if length xs = length ns then Ok (JObj (zip ns xs)) else Err (invalid_type J j ''struct'')
      | _ \<Rightarrow> Ok j)"

definition NO_PARAMS :: json where
  "NO_PARAMS = JArr []"

definition DEFAULT_JSON_RPC_VERSION :: string where
  "DEFAULT_JSON_RPC_VERSION = ''2.0''"

definition DEFAULT_JSON_RPC_ID :: u8 where
  "DEFAULT_JSON_RPC_ID = 1"

section \<open>Requests\<close>

definition build_jsonrpc_request :: "string \<Rightarrow> json \<Rightarrow> (string, json) res" where
  "build_jsonrpc_request meth params =
     and_then (case params of
                 JArr xs \<Rightarrow> Ok (xs \<noteq> [])
               | JObj kvs \<Rightarrow> Ok (kvs \<noteq> [])
               | JNull \<Rightarrow> Ok False
               | _ \<Rightarrow> Err ''params is not an array nor an object'') (\<lambda>has_params.
       Ok (JObj ([(''jsonrpc'', JStr DEFAULT_JSON_RPC_VERSION), (''id'', JNum (uint DEFAULT_JSON_RPC_ID)),
                  (''method'', JStr meth)] @ (if has_params then [(''params'', params)] else []))))"

record json_rpc_client =
  rpc_url :: string
  bearer_token :: "string option"

definition json_rpc_new :: "string \<Rightarrow> string option \<Rightarrow> json_rpc_client" where
  "json_rpc_new url token = \<lparr>rpc_url = url, bearer_token = token\<rparr>"

record 't json_rpc_response =
  resp_id :: u8
  resp_jsonrpc :: string
  resp_result :: "'t option"
  resp_error :: "json option"

definition response_de :: "json_libs \<Rightarrow> (json \<Rightarrow> (string, 't) res) \<Rightarrow> json \<Rightarrow> (string, 't json_rpc_response) res" where
  "response_de J de value =
     and_then (seq_struct J [''id'', ''jsonrpc'', ''result'', ''error''] value) (\<lambda>j.
     and_then (field J ''id'' (de_num J ''u8'') j) (\<lambda>i.
     and_then (field J ''jsonrpc'' (de_string J) j) (\<lambda>v.
     and_then (opt_field J ''result'' de j) (\<lambda>r.
     and_then (opt_field J ''error'' Ok j) (\<lambda>e.
       Ok \<lparr>resp_id = i, resp_jsonrpc = v, resp_result = r, resp_error = e\<rparr>)))))"

text \<open>The error decides, then the result; without either, the value read from \<open>null\<close>.\<close>

definition response_to_result :: "json_libs \<Rightarrow> (json \<Rightarrow> (string, 't) res) \<Rightarrow> 't json_rpc_response \<Rightarrow> (string, 't) res" where
  "response_to_result J de j =
     (case resp_error j of
        Some e \<Rightarrow> Err (''json_rpc error: '' @ print_json J e)
      | None \<Rightarrow> (case resp_result j of Some r \<Rightarrow> Ok r | None \<Rightarrow> de JNull))"

text \<open>\<open>post url token body\<close> is the HTTP exchange, \<open>de\<close> the reader of the type expected.\<close>

definition rpc_request ::
    "json_libs \<Rightarrow> (string \<Rightarrow> string option \<Rightarrow> json \<Rightarrow> ('w, string) io) \<Rightarrow> (json \<Rightarrow> (string, 't) res)
     \<Rightarrow> json_rpc_client \<Rightarrow> string \<Rightarrow> json \<Rightarrow> ('w, 't) io" where
  "rpc_request J post de c meth params =
     bind_io (lift (build_jsonrpc_request meth params)) (\<lambda>request_body.
     bind_io (post (rpc_url c) (bearer_token c) request_body) (\<lambda>response_body.
     bind_io (lift (map_err (\<lambda>e. ''cannot parse json rpc response: '' @ response_body @ '' due to '' @ e)
                      (and_then (read_json J response_body) (response_de J de)))) (\<lambda>v.
       if resp_id v \<noteq> DEFAULT_JSON_RPC_ID \<or> resp_jsonrpc v \<noteq> DEFAULT_JSON_RPC_VERSION
       then bail ''json_rpc id or version not matching.''
       else lift (response_to_result J de v))))"

section \<open>Subscriptions\<close>

text \<open>
  What the websocket yields: a message (its text, if it is text) or a read error; the list ends
  where the stream is closed. The loop forwards the decoded messages to the channel; a message
  that is not text or not JSON, or a receiver that is gone, makes it panic.
\<close>

datatype ws_event = WsMessage "string option" | WsError string

fun handle_stream :: "(string \<Rightarrow> (string, json) res) \<Rightarrow> (nat \<Rightarrow> bool) \<Rightarrow> ws_event list \<Rightarrow> json list \<Rightarrow> (string, unit) res \<times> json list" where
  "handle_stream parse open_at [] chan = (Ok (), chan)"
| "handle_stream parse open_at (WsError e # evs) chan = (Ok (), chan)"
| "handle_stream parse open_at (WsMessage t # evs) chan =
     (case t of
        None \<Rightarrow> (Panic ''called `Result::unwrap()` on an `Err` value'', chan)
      | Some s \<Rightarrow>
          (case parse s of
             Ok v \<Rightarrow> if open_at (length chan) then handle_stream parse open_at evs (chan @ [v])
                     else (Panic ''called `Result::unwrap()` on an `Err` value'', chan)
           | _ \<Rightarrow> (Panic ''called `Result::unwrap()` on an `Err` value'', chan)))"

text \<open>
  \<open>ws_connect url header\<close> builds the client request with its authorization header and connects. The
  value of a subscription is the spawned task: what it forwards, given what the stream yields.
\<close>

definition rpc_subscribe ::
    "(string \<Rightarrow> (string, json) res) \<Rightarrow> (string \<Rightarrow> string option \<Rightarrow> ('w, unit) io) \<Rightarrow> (json \<Rightarrow> ('w, unit) io)
     \<Rightarrow> json_rpc_client \<Rightarrow> string \<Rightarrow> ('w, (nat \<Rightarrow> bool) \<Rightarrow> ws_event list \<Rightarrow> (string, unit) res \<times> json list) io" where
  "rpc_subscribe parse ws_connect ws_send c meth =
     bind_io (ws_connect (rpc_url c) (map_option (\<lambda>t. ''Bearer '' @ t) (bearer_token c))) (\<lambda>_.
     bind_io (lift (build_jsonrpc_request meth NO_PARAMS)) (\<lambda>request_body.
     bind_io (ws_send request_body) (\<lambda>_.
       ret (\<lambda>open_at events. handle_stream parse open_at events []))))"

section \<open>Properties\<close>

lemma rpc_request_Ok_iff:
  "rpc_request J post de c meth params w = (Ok r, w') \<longleftrightarrow>
     (\<exists>body reply j v. build_jsonrpc_request meth params = Ok body
        \<and> post (rpc_url c) (bearer_token c) body w = (Ok reply, w')
        \<and> read_json J reply = Ok j \<and> response_de J de j = Ok v
        \<and> resp_id v = 1 \<and> resp_jsonrpc v = ''2.0'' \<and> resp_error v = None
        \<and> (resp_result v = Some r \<or> resp_result v = None \<and> de JNull = Ok r))"
proof
  assume "rpc_request J post de c meth params w = (Ok r, w')"
  then show "\<exists>body reply j v. build_jsonrpc_request meth params = Ok body
        \<and> post (rpc_url c) (bearer_token c) body w = (Ok reply, w')
        \<and> read_json J reply = Ok j \<and> response_de J de j = Ok v
        \<and> resp_id v = 1 \<and> resp_jsonrpc v = ''2.0'' \<and> resp_error v = None
        \<and> (resp_result v = Some r \<or> resp_result v = None \<and> de JNull = Ok r)"
    unfolding rpc_request_def bind_io_Ok_iff
    by (auto simp: lift_def bail_def response_to_result_def DEFAULT_JSON_RPC_ID_def
        DEFAULT_JSON_RPC_VERSION_def res_simps split: if_splits option.splits)
qed (auto simp: rpc_request_def bind_io_def lift_def response_to_result_def DEFAULT_JSON_RPC_ID_def DEFAULT_JSON_RPC_VERSION_def)

text \<open>C37: A request that reports success sent exactly the request for its method and parameters, and the
  text that came back reads as a response of the client's version and id without an error; the
  value is the result it holds, or what \<open>null\<close> reads as when it holds none. A response with an
  error is reported as an error, whatever its result.\<close>

theorem rpc_request_sound:
  "(rpc_request J post de c meth params w = (Ok r, w') \<longrightarrow>
     (\<exists>body reply j v. build_jsonrpc_request meth params = Ok body
        \<and> post (rpc_url c) (bearer_token c) body w = (Ok reply, w')
        \<and> read_json J reply = Ok j \<and> response_de J de j = Ok v
        \<and> resp_id v = 1 \<and> resp_jsonrpc v = ''2.0'' \<and> resp_error v = None
        \<and> (resp_result v = Some r \<or> resp_result v = None \<and> de JNull = Ok r)))
   \<and> (build_jsonrpc_request meth params = Ok body \<longrightarrow> post (rpc_url c) (bearer_token c) body w = (Ok reply, w') \<longrightarrow>
      read_json J reply = Ok j \<longrightarrow> response_de J de j = Ok v \<longrightarrow>
      resp_id v = 1 \<longrightarrow> resp_jsonrpc v = ''2.0'' \<longrightarrow> resp_error v = Some e \<longrightarrow>
      rpc_request J post de c meth params w = (Err (''json_rpc error: '' @ print_json J e), w'))"
  by (auto simp: rpc_request_Ok_iff)
    (simp add: rpc_request_def bind_io_def lift_def response_to_result_def DEFAULT_JSON_RPC_ID_def DEFAULT_JSON_RPC_VERSION_def)

definition demo_rpc_json :: json_libs where
  "demo_rpc_json = \<lparr>
     read_json = (\<lambda>t. Ok (JObj [(''jsonrpc'', JStr ''2.0''), (''id'', JNum 1), (''result'', JStr t), (''error'', JStr t)])),
     print_json = (\<lambda>_. ''refused''), invalid_type = (\<lambda>_ s. s), missing_field = id\<rparr>"

theorem rpc_request_sound_witness:
  "rpc_request demo_rpc_json (\<lambda>url token body w. (Ok url, w @ [body])) (de_string demo_rpc_json)
     (json_rpc_new ''node'' (Some ''t'')) ''m'' NO_PARAMS []
   = (Err ''json_rpc error: refused'',
      [JObj [(''jsonrpc'', JStr ''2.0''), (''id'', JNum 1), (''method'', JStr ''m'')]])"
  using rpc_request_sound [THEN conjunct2, of "''m''" NO_PARAMS
    "JObj [(''jsonrpc'', JStr ''2.0''), (''id'', JNum 1), (''method'', JStr ''m'')]"
    "\<lambda>url token body w. (Ok url, w @ [body])" "json_rpc_new ''node'' (Some ''t'')" "[]" "''node''"
    "[JObj [(''jsonrpc'', JStr ''2.0''), (''id'', JNum 1), (''method'', JStr ''m'')]]" demo_rpc_json
    "JObj [(''jsonrpc'', JStr ''2.0''), (''id'', JNum 1), (''result'', JStr ''node''), (''error'', JStr ''node'')]"
    "de_string demo_rpc_json" "\<lparr>resp_id = 1, resp_jsonrpc = ''2.0'', resp_result = Some ''node'', resp_error = Some (JStr ''node'')\<rparr>"
    "JStr ''node''"]
  by (simp add: build_jsonrpc_request_def NO_PARAMS_def json_rpc_new_def demo_rpc_json_def response_de_def seq_struct_def field_value_def field_def opt_field_def
      de_num_def de_string_def de_option_def DEFAULT_JSON_RPC_VERSION_def DEFAULT_JSON_RPC_ID_def)

lemma handle_stream_delivers:
  assumes "\<And>s. s \<in> set ts \<Longrightarrow> parse s = Ok (dec s)" and "\<And>n. open_at n"
  shows "handle_stream parse open_at (map (\<lambda>s. WsMessage (Some s)) ts @ WsError e # rest) chan = (Ok (), chan @ map dec ts)"
    and "handle_stream parse open_at (map (\<lambda>s. WsMessage (Some s)) ts) chan = (Ok (), chan @ map dec ts)"
  using assms by (induction ts arbitrary: chan) auto

end
