(* ===== verification/Fvm_Keystore.thy ===== *)
theory Fvm_Keystore
  imports Rust_Fs Libs
begin

text \<open>
  \<open>ipc/identity/src/fvm/{errors,keystore,utils}.rs\<close>: the store of Filecoin keys, in memory,
  in a clear-text JSON file, or in an encrypted file. Key derivation, the cipher, base64, JSON
  and CBOR are parameters (\<open>ks_libs\<close>); the system random generator is a draw counter in
  the world. The store is an instance of the locale \<open>string_keystore\<close>, the contract the
  wallet is verified against.
\<close>

section \<open>Data\<close>

datatype fvm_error =
    KeyInfoMissing
  | KeyExists
  | KeyNotExists
  | NoKey
  | IO string
  | Other string
  | KeyInfoConversion

fun fvm_error_display :: "fvm_error \<Rightarrow> string" where
  "fvm_error_display KeyInfoMissing = ''Key info not found''"
| "fvm_error_display KeyExists = ''Key already exists''"
| "fvm_error_display KeyNotExists = ''Key does not exist''"
| "fvm_error_display NoKey = ''Key not found''"
| "fvm_error_display (IO e) = ''IO Error: '' @ e"
| "fvm_error_display (Other e) = e"
| "fvm_error_display KeyInfoConversion = ''Could not convert from KeyInfo to Key''"

datatype signature_type = SigSecp256k1 | SigBLS

definition KEYSTORE_NAME :: string where
  "KEYSTORE_NAME = ''keystore.json''"

definition ENCRYPTED_KEYSTORE_NAME :: string where
  "ENCRYPTED_KEYSTORE_NAME = ''keystore''"

record fvm_key_info =
  key_type :: signature_type
  fvm_private_key :: bytes

record fvm_persistent_key_info =
  p_key_type :: signature_type
  p_private_key :: string

record encrypted_key_store =
  salt :: bytes
  encryption_key :: bytes

record fvm_key_store =
  key_infos :: "(string \<times> fvm_key_info) list"
  persistence :: "path option"
  encryption :: "encrypted_key_store option"

datatype key_store_config = KsMemory | KsPersistent path | KsEncrypted path string

datatype encrypted_key_store_error = DecryptionError | EncryptionError | ConfigurationError

fun encrypted_key_store_error_display :: "encrypted_key_store_error \<Rightarrow> string" where
  "encrypted_key_store_error_display DecryptionError = ''Error decrypting data''"
| "encrypted_key_store_error_display EncryptionError = ''Error encrypting data''"
| "encrypted_key_store_error_display ConfigurationError = ''Error with forest configuration''"

text \<open>The libraries the store is built on. \<open>hash_password m t pw salt\<close> is Argon2id with
  memory cost \<open>m\<close> and time cost \<open>t\<close>, the encoding of the salt included; a map is
  serialised in no particular order.\<close>

record ks_libs =
  ks_to_json :: "(string \<times> fvm_persistent_key_info) list \<Rightarrow> (string, string) res"
  ks_from_json :: "string \<Rightarrow> (string, (string \<times> fvm_persistent_key_info) list) res"
  cbor_to_vec :: "(string \<times> fvm_key_info) list \<Rightarrow> (string, bytes) res"
  cbor_from_slice :: "bytes \<Rightarrow> (string, (string \<times> fvm_key_info) list) res"
  base64_encode :: "bytes \<Rightarrow> string"
  base64_decode :: "string \<Rightarrow> (string, bytes) res"
  hash_password :: "u32 \<Rightarrow> u32 \<Rightarrow> bytes \<Rightarrow> bytes \<Rightarrow> (string, bytes option) res"
  aead_encrypt :: "bytes \<Rightarrow> bytes \<Rightarrow> bytes \<Rightarrow> (string, bytes) res"
  aead_decrypt :: "bytes \<Rightarrow> bytes \<Rightarrow> bytes \<Rightarrow> (string, bytes) res"
  RECOMMENDED_SALT_LEN :: nat
  NONCE_SIZE :: nat
  CIPHER_KEY_SIZE :: nat
  os_random :: "nat \<Rightarrow> nat \<Rightarrow> bytes"

record ks_world =
  ks_fs :: fs
  draws :: nat
  modes :: "(path \<times> nat) list"

definition on_fs :: "(fs, 'e, 'b) eio \<Rightarrow> (ks_world, 'e, 'b) eio" where
  "on_fs m w = (case m (ks_fs w) of (r, f) \<Rightarrow> (r, w\<lparr>ks_fs := f\<rparr>))"

text \<open>\<open>OsRng.fill_bytes\<close> on a buffer of \<open>n\<close> bytes.\<close>

definition fill_bytes :: "ks_libs \<Rightarrow> nat \<Rightarrow> (ks_world, 'e, bytes) eio" where
  "fill_bytes S n w = (Ok (os_random S (draws w) n), w\<lparr>draws := draws w + 1\<rparr>)"

text \<open>\<open>set_user_perm\<close>: mode \<open>0600\<close>.\<close>

definition set_user_perm :: "path \<Rightarrow> (ks_world, unit) io" where
  "set_user_perm p w =
     (case fault (ks_fs w) p of
        Some e \<Rightarrow> (Err e, w)
      | None \<Rightarrow> (Ok (), w\<lparr>modes := AList.update p 384 (modes w)\<rparr>))"

section \<open>Encryption\<close>

definition derive_key :: "ks_libs \<Rightarrow> string \<Rightarrow> bytes option \<Rightarrow> (ks_world, bytes \<times> bytes) io" where
  "derive_key S passphrase prev_salt =
     bind_io (case prev_salt of Some s \<Rightarrow> ret s | None \<Rightarrow> fill_bytes S (RECOMMENDED_SALT_LEN S)) (\<lambda>slt.
     bind_io (lift (hash_password S (67108864 div 1024) 2 (as_bytes passphrase) slt)) (\<lambda>pw_hash.
       case pw_hash of
         Some h \<Rightarrow> ret (slt, h)
       | None \<Rightarrow> bail (encrypted_key_store_error_display EncryptionError)))"

text \<open>\<open>GenericArray::from_slice\<close> panics on a slice of another length.\<close>

definition check_key :: "ks_libs \<Rightarrow> bytes \<Rightarrow> (string, unit) res" where
  "check_key S k = (if length k = CIPHER_KEY_SIZE S then Ok () else Panic ''slice length differs from the key size'')"

definition encrypt :: "ks_libs \<Rightarrow> bytes \<Rightarrow> bytes \<Rightarrow> (ks_world, bytes) io" where
  "encrypt S key msg =
     bind_io (fill_bytes S (NONCE_SIZE S)) (\<lambda>nonce.
     bind_io (lift (check_key S key)) (\<lambda>_.
     bind_io (lift (aead_encrypt S key nonce msg)) (\<lambda>ciphertext.
       ret (ciphertext @ nonce))))"

definition decrypt :: "ks_libs \<Rightarrow> bytes \<Rightarrow> bytes \<Rightarrow> (string, bytes) res" where
  "decrypt S key msg =
     (if length msg < NONCE_SIZE S then Panic ''attempt to subtract with overflow''
      else let len = length msg - NONCE_SIZE S in
        and_then (check_key S key) (\<lambda>_.
          aead_decrypt S key (drop len msg) (take len msg)))"

section \<open>The store\<close>

fun insert_decoded :: "ks_libs \<Rightarrow> (string \<times> fvm_persistent_key_info) list
    \<Rightarrow> (string \<times> fvm_key_info) list \<Rightarrow> (fvm_error, (string \<times> fvm_key_info) list) res" where
  "insert_decoded S [] acc = Ok acc"
| "insert_decoded S ((key, val) # rest) acc =
     and_then (map_err Other (base64_decode S (p_private_key val))) (\<lambda>pk.
       insert_decoded S rest (AList.update key \<lparr>key_type = p_key_type val, fvm_private_key = pk\<rparr> acc))"

text \<open>\<open>unwrap_or_default\<close> on a map.\<close>

fun or_default :: "('e, 'b list) res \<Rightarrow> ('f, 'b list) res" where
  "or_default (Ok xs) = Ok xs"
| "or_default (Err e) = Ok []"
| "or_default (Panic p) = Panic p"

text \<open>\<open>KeyStore::new\<close> for a clear-text store.\<close>

definition ks_new_persistent :: "ks_libs \<Rightarrow> path \<Rightarrow> fs \<Rightarrow> (fvm_error, fvm_key_store) res" where
  "ks_new_persistent S location f =
     (let fp = file_in location KEYSTORE_NAME in
      case fs_open f fp of
        Ok _ \<Rightarrow>
          and_then (or_default (and_then (fs_contents f fp) (ks_from_json S))) (\<lambda>persisted.
          and_then (insert_decoded S persisted []) (\<lambda>ki.
            Ok \<lparr>key_infos = ki, persistence = Some fp, encryption = None\<rparr>))
      | Err NotFound \<Rightarrow> Ok \<lparr>key_infos = [], persistence = Some fp, encryption = None\<rparr>
      | Err (OtherIo e) \<Rightarrow> Err (Other e)
      | Panic p \<Rightarrow> Panic p)"

text \<open>A new encrypted store under a fresh salt.\<close>

definition ks_fresh_encrypted :: "ks_libs \<Rightarrow> path \<Rightarrow> string \<Rightarrow> (ks_world, fvm_error, fvm_key_store) eio" where
  "ks_fresh_encrypted S fp passphrase =
     bind_io (map_err_io Other (derive_key S passphrase None)) (\<lambda>(slt, ek).
       ret \<lparr>key_infos = [], persistence = Some fp, encryption = Some \<lparr>salt = slt, encryption_key = ek\<rparr>\<rparr>)"

definition ks_open_encrypted ::
    "ks_libs \<Rightarrow> path \<Rightarrow> string \<Rightarrow> bytes \<Rightarrow> (ks_world, fvm_error, fvm_key_store) eio" where
  "ks_open_encrypted S fp passphrase buf =
     (if length buf < RECOMMENDED_SALT_LEN S then lift (Panic ''`at` split index should be <= len'')
      else
        bind_io (map_err_io Other (derive_key S passphrase (Some (take (RECOMMENDED_SALT_LEN S) buf)))) (\<lambda>(slt, ek).
        bind_io (lift (map_err Other (decrypt S ek (drop (RECOMMENDED_SALT_LEN S) buf)))) (\<lambda>decrypted.
        bind_io (lift (or_default (cbor_from_slice S decrypted))) (\<lambda>ki.
          ret \<lparr>key_infos = ki, persistence = Some fp,
               encryption = Some \<lparr>salt = slt, encryption_key = ek\<rparr>\<rparr>))))"

definition ks_new_encrypted :: "ks_libs \<Rightarrow> path \<Rightarrow> string \<Rightarrow> (ks_world, fvm_error, fvm_key_store) eio" where
  "ks_new_encrypted S location passphrase =
     bind_io (\<lambda>w. if path_exists (ks_fs w) location then (Ok (), w)
                  else map_err_io IO (on_fs (fs_create_dir location)) w) (\<lambda>_.
     (let fp = file_in location ENCRYPTED_KEYSTORE_NAME in
      bind_io (\<lambda>w. if path_exists (ks_fs w) fp then (Ok (), w)
                   else map_err_io IO (on_fs (fs_create fp)) w) (\<lambda>_ w.
        case fs_open (ks_fs w) fp of
          Ok _ \<Rightarrow>
            bind_io (lift (map_err IO (fs_contents (ks_fs w) fp))) (\<lambda>text.
              let buf = as_bytes text in
              if length buf = 0 then ks_fresh_encrypted S fp passphrase
              else ks_open_encrypted S fp passphrase buf) w
        | _ \<Rightarrow> ks_fresh_encrypted S fp passphrase w)))"

definition ks_new :: "ks_libs \<Rightarrow> key_store_config \<Rightarrow> (ks_world, fvm_error, fvm_key_store) eio" where
  "ks_new S config =
     (case config of
        KsMemory \<Rightarrow> ret \<lparr>key_infos = [], persistence = None, encryption = None\<rparr>
      | KsPersistent location \<Rightarrow> (\<lambda>w. (ks_new_persistent S location (ks_fs w), w))
      | KsEncrypted location passphrase \<Rightarrow> ks_new_encrypted S location passphrase)"

definition persistent_infos :: "ks_libs \<Rightarrow> (string \<times> fvm_key_info) list \<Rightarrow> (string \<times> fvm_persistent_key_info) list" where
  "persistent_infos S kis = foldl (\<lambda>acc (key, val). AList.update key
     \<lparr>p_key_type = key_type val, p_private_key = base64_encode S (fvm_private_key val)\<rparr> acc) [] kis"

definition ks_flush :: "ks_libs \<Rightarrow> fvm_key_store \<Rightarrow> (ks_world, unit) io" where
  "ks_flush S s =
     (case persistence s of
        None \<Rightarrow> ret ()
      | Some fp \<Rightarrow>
          bind_io (lift (ok_or ''Invalid Path'' (path_parent fp))) (\<lambda>dir.
          bind_io (on_fs (fs_create_dir_all dir)) (\<lambda>_.
          bind_io (on_fs (fs_create fp)) (\<lambda>_.
          bind_io (set_user_perm fp) (\<lambda>_.
            case encryption s of
              Some enc \<Rightarrow>
                bind_io (lift (map_err (\<lambda>e. ''failed to serialize and write key info: '' @ e)
                                 (cbor_to_vec S (key_infos s)))) (\<lambda>cbor.
                bind_io (encrypt S (encryption_key enc) cbor) (\<lambda>encrypted_data.
                  on_fs (fs_write fp (from_bytes (salt enc @ encrypted_data)))))
            | None \<Rightarrow>
                map_err_io (\<lambda>e. ''failed to serialize and write key info: '' @ e)
                  (bind_io (lift (ks_to_json S (persistent_infos S (key_infos s)))) (\<lambda>text.
                     on_fs (fs_write fp text))))))))"

type_synonym ks_state = "fvm_key_store \<times> ks_world"

definition ks_list :: "fvm_key_store \<Rightarrow> string list" where
  "ks_list s = map fst (key_infos s)"

definition ks_get :: "string \<Rightarrow> fvm_key_store \<Rightarrow> (fvm_error, fvm_key_info) res" where
  "ks_get k s = ok_or KeyInfoMissing (map_of (key_infos s) k)"

definition flush_state :: "ks_libs \<Rightarrow> (ks_state, unit) io" where
  "flush_state S = (\<lambda>(s, w). if persistence s \<noteq> None
     then (case ks_flush S s w of (r, w') \<Rightarrow> (r, (s, w'))) else (Ok (), (s, w)))"

definition ks_put :: "ks_libs \<Rightarrow> string \<Rightarrow> fvm_key_info \<Rightarrow> (ks_state, fvm_error, unit) eio" where
  "ks_put S key ki = (\<lambda>(s, w).
     if map_of (key_infos s) key \<noteq> None then (Err KeyExists, (s, w))
     else map_err_io Other (flush_state S) (s\<lparr>key_infos := AList.update key ki (key_infos s)\<rparr>, w))"

definition ks_remove :: "ks_libs \<Rightarrow> string \<Rightarrow> (ks_state, fvm_key_info) io" where
  "ks_remove S key = (\<lambda>(s, w).
     case map_of (key_infos s) key of
       None \<Rightarrow> (Err (fvm_error_display KeyInfoMissing), (s, w))
     | Some key_out \<Rightarrow>
         bind_io (flush_state S) (\<lambda>_. ret key_out)
           (s\<lparr>key_infos := AList.delete key (key_infos s)\<rparr>, w))"

section \<open>The interface the wallet uses\<close>

text \<open>A map from names to keys that refuses to overwrite.\<close>

locale string_keystore =
  fixes lookup :: "'s \<Rightarrow> string \<Rightarrow> fvm_key_info option"
    and put :: "string \<Rightarrow> fvm_key_info \<Rightarrow> ('s, fvm_error, unit) eio"
    and remove :: "string \<Rightarrow> ('s, fvm_key_info) io"
    and inv :: "'s \<Rightarrow> bool"
  assumes put_new: "inv s \<Longrightarrow> lookup s k = None \<Longrightarrow>
      \<exists>s'. put k i s = (Ok (), s') \<and> inv s' \<and> lookup s' = (lookup s)(k \<mapsto> i)"
    and put_old: "inv s \<Longrightarrow> lookup s k \<noteq> None \<Longrightarrow> put k i s = (Err KeyExists, s)"
    and remove_old: "inv s \<Longrightarrow> lookup s k = Some i \<Longrightarrow>
      \<exists>s'. remove k s = (Ok i, s') \<and> inv s' \<and> lookup s' = (lookup s)(k := None)"
    and remove_none: "inv s \<Longrightarrow> lookup s k = None \<Longrightarrow> remove k s = (Err ''Key info not found'', s)"
begin

text \<open>Replacing an entry by removing and putting it.\<close>

lemma replace:
  assumes "inv s" "lookup s k = Some j"
  obtains s1 s2 where "remove k s = (Ok j, s1)" "put k i s1 = (Ok (), s2)" "inv s2"
    "lookup s2 = (lookup s)(k \<mapsto> i)"
proof -
  obtain s1 where s1: "remove k s = (Ok j, s1)" "inv s1" "lookup s1 = (lookup s)(k := None)"
    using remove_old [OF assms] by blast
  then obtain s2 where "put k i s1 = (Ok (), s2)" "inv s2" "lookup s2 = (lookup s1)(k \<mapsto> i)"
    using put_new [OF s1(2), of k i] s1(3) by auto
  with s1 that show ?thesis by simp
qed

end

section \<open>The store implements the interface\<close>

definition ks_libs_ok :: "ks_libs \<Rightarrow> bool" where
  "ks_libs_ok S \<longleftrightarrow>
     (\<forall>b. base64_decode S (base64_encode S b) = Ok b)
   \<and> (\<forall>xs. distinct (map fst xs) \<longrightarrow> (\<exists>t ys. ks_to_json S xs = Ok t \<and> ks_from_json S t = Ok ys
          \<and> distinct (map fst ys) \<and> map_of ys = map_of xs))
   \<and> (\<forall>xs. distinct (map fst xs) \<longrightarrow> (\<exists>b ys. cbor_to_vec S xs = Ok b \<and> cbor_from_slice S b = Ok ys
          \<and> distinct (map fst ys) \<and> map_of ys = map_of xs))
   \<and> (\<forall>k n m. length k = CIPHER_KEY_SIZE S \<and> length n = NONCE_SIZE S \<longrightarrow>
          (\<exists>c. aead_encrypt S k n m = Ok c \<and> aead_decrypt S k n c = Ok m))
   \<and> (\<forall>i n. length (os_random S i n) = n) \<and> 0 < NONCE_SIZE S"

text \<open>The store may be flushed: its file is writable, its cipher key has the right size.\<close>

definition ks_inv :: "ks_libs \<Rightarrow> ks_state \<Rightarrow> bool" where
  "ks_inv S = (\<lambda>(s, w). ks_libs_ok S \<and> distinct (map fst (key_infos s))
     \<and> (\<forall>fp. persistence s = Some fp \<longrightarrow> writable (ks_fs w) fp)
     \<and> (\<forall>enc. encryption s = Some enc \<longrightarrow> length (encryption_key enc) = CIPHER_KEY_SIZE S
          \<and> length (salt enc) = RECOMMENDED_SALT_LEN S))"

definition ks_lookup :: "ks_state \<Rightarrow> string \<Rightarrow> fvm_key_info option" where
  "ks_lookup st = map_of (key_infos (fst st))"

text \<open>What the file of a store holds after a flush.\<close>

definition ks_file_ok :: "ks_libs \<Rightarrow> fvm_key_store \<Rightarrow> string \<Rightarrow> bool" where
  "ks_file_ok S s t \<longleftrightarrow>
     (case encryption s of
        None \<Rightarrow> \<exists>ys. ks_from_json S t = Ok ys \<and> distinct (map fst ys)
                  \<and> map_of ys = map_of (persistent_infos S (key_infos s))
      | Some enc \<Rightarrow> \<exists>c b ys n. as_bytes t = salt enc @ c @ n \<and> length n = NONCE_SIZE S
                  \<and> aead_decrypt S (encryption_key enc) n c = Ok b
                  \<and> cbor_from_slice S b = Ok ys \<and> map_of ys = map_of (key_infos s))"

lemma persistent_infos_map:
  assumes "distinct (map fst kis)"
  shows "persistent_infos S kis = map (\<lambda>(k, v). (k, \<lparr>p_key_type = key_type v,
           p_private_key = base64_encode S (fvm_private_key v)\<rparr>)) kis" (is "_ = map ?f kis")
proof -
  have "foldl (\<lambda>acc (key, val). AList.update key \<lparr>p_key_type = key_type val,
      p_private_key = base64_encode S (fvm_private_key val)\<rparr> acc) acc kis = acc @ map ?f kis"
    if "distinct (map fst acc @ map fst kis)" for acc
    using that
  proof (induction kis arbitrary: acc)
    case (Cons kv kis)
    obtain k v where kv: "kv = (k, v)" by (cases kv)
    have "k \<notin> fst ` set acc" using Cons.prems by (auto simp: kv)
    with Cons.IH [of "acc @ [?f kv]"] Cons.prems show ?case by (simp add: kv update_fresh)
  qed simp
  from this [of "[]"] assms show ?thesis by (simp add: persistent_infos_def)
qed

lemma insert_decoded_map:
  assumes "\<And>k v. (k, v) \<in> set ys \<Longrightarrow> base64_decode S (p_private_key v) = Ok (g v)"
    and "distinct (map fst ys)"
  shows "\<exists>r. insert_decoded S ys acc = Ok r \<and> map_of r =
     map_of acc ++ (\<lambda>k. map_option (\<lambda>v. \<lparr>key_type = p_key_type v, fvm_private_key = g v\<rparr>) (map_of ys k))"
  using assms
proof (induction ys arbitrary: acc)
  case (Cons kv ys)
  obtain k v where kv: "kv = (k, v)" by (cases kv)
  let ?i = "\<lparr>key_type = p_key_type v, fvm_private_key = g v\<rparr>"
  have dec: "base64_decode S (p_private_key v) = Ok (g v)" using Cons.prems(1) [of k v] kv by simp
  obtain r where "insert_decoded S ys (AList.update k ?i acc) = Ok r"
      "map_of r = map_of (AList.update k ?i acc) ++
         (\<lambda>k. map_option (\<lambda>v. \<lparr>key_type = p_key_type v, fvm_private_key = g v\<rparr>) (map_of ys k))"
    using Cons.IH [of "AList.update k ?i acc"] Cons.prems by auto
  moreover have "map_of ys k = None" using Cons.prems(2) by (simp add: kv map_of_eq_None_iff)
  ultimately show ?case using dec
    by (auto simp: kv fun_eq_iff map_of_update map_add_def split: option.splits)
qed simp

lemma flush_run:
  assumes "ks_inv S (s, w)" and "persistence s = Some fp"
  obtains w' t where "ks_flush S s w = (Ok (), w')" "ks_inv S (s, w')"
    "fs_open (ks_fs w') fp = Ok ()" "fs_contents (ks_fs w') fp = Ok t"
    "ks_file_ok S s t" "map_of (modes w') fp = Some 384"
proof -
  have ok: "ks_libs_ok S" and wr: "writable (ks_fs w) fp" and dist: "distinct (map fst (key_infos s))"
    using assms by (auto simp: ks_inv_def)
  then obtain d where d: "path_parent fp = Some d" by (auto simp: writable_def split: option.splits)
  note dirs = create_dir_all_writable [OF wr d]
  have nf: "fault (ks_fs w) fp = None" using wr by (simp add: writable_def)
  let ?f = "store_file fp [] (ensure_dirs d (ks_fs w))"
  let ?w = "w\<lparr>ks_fs := ?f, modes := AList.update fp 384 (modes w)\<rparr>"
  note writes = fs_write_writable [OF dirs(2)] fs_write_writable [OF writable_store_file [OF dirs(2)]]
  show ?thesis
  proof (cases "encryption s")
    case None
    have "distinct (map fst (persistent_infos S (key_infos s)))"
      using dist by (simp add: persistent_infos_map comp_def case_prod_unfold)
    then obtain t ys where t: "ks_to_json S (persistent_infos S (key_infos s)) = Ok t" "ks_from_json S t = Ok ys"
        "distinct (map fst ys)" "map_of ys = map_of (persistent_infos S (key_infos s))"
      using ok unfolding ks_libs_ok_def by blast
    let ?w' = "?w\<lparr>ks_fs := store_file fp t (ensure_dirs d (ks_fs w))\<rparr>"
    have run: "ks_flush S s w = (Ok (), ?w')"
      using dirs(1) writes t(1) nf
      by (simp add: ks_flush_def assms(2) d on_fs_def set_user_perm_def None io_defs)
    have "ks_inv S (s, ?w')" using assms dirs(2) by (simp add: ks_inv_def None)
    with run t dirs(2) show ?thesis
      by (intro that [of ?w' t]) (auto simp: ks_file_ok_def None map_of_update)
  next
    case (Some enc)
    then have enc: "length (encryption_key enc) = CIPHER_KEY_SIZE S" "length (salt enc) = RECOMMENDED_SALT_LEN S"
      using assms(1) by (auto simp: ks_inv_def)
    obtain b ys where b: "cbor_to_vec S (key_infos s) = Ok b" "cbor_from_slice S b = Ok ys"
        "map_of ys = map_of (key_infos s)"
      using ok dist unfolding ks_libs_ok_def by blast
    let ?n = "os_random S (draws w) (NONCE_SIZE S)"
    have n: "length ?n = NONCE_SIZE S" using ok by (simp add: ks_libs_ok_def)
    obtain c where c: "aead_encrypt S (encryption_key enc) ?n b = Ok c" "aead_decrypt S (encryption_key enc) ?n c = Ok b"
      using ok enc(1) n unfolding ks_libs_ok_def by blast
    let ?t = "from_bytes (salt enc @ c @ ?n)"
    let ?w' = "?w\<lparr>ks_fs := store_file fp ?t (ensure_dirs d (ks_fs w)), draws := draws w + 1\<rparr>"
    have run: "ks_flush S s w = (Ok (), ?w')"
      using dirs(1) writes b(1) c(1) nf enc(1)
      by (simp add: ks_flush_def assms(2) d on_fs_def set_user_perm_def Some encrypt_def fill_bytes_def
          check_key_def io_defs)
    have "ks_inv S (s, ?w')" using assms dirs(2) enc by (simp add: ks_inv_def Some)
    moreover have "ks_file_ok S s ?t" unfolding ks_file_ok_def Some option.case as_from_bytes
      using b(2,3) c(2) n by blast
    ultimately show ?thesis using run dirs(2) by (intro that [of ?w' ?t]) (simp_all add: map_of_update)
  qed
qed

lemma flush_state_run:
  assumes "ks_inv S (s, w)"
  obtains w' where "flush_state S (s, w) = (Ok (), (s, w'))" "ks_inv S (s, w')"
proof (cases "persistence s")
  case None
  with assms that show ?thesis by (simp add: flush_state_def)
next
  case (Some fp)
  from flush_run [OF assms Some] obtain w' where "ks_flush S s w = (Ok (), w')" "ks_inv S (s, w')" .
  with Some that show ?thesis by (simp add: flush_state_def)
qed

interpretation ks: string_keystore ks_lookup "ks_put S" "ks_remove S" "ks_inv S" for S :: ks_libs
proof unfold_locales
  fix st :: ks_state and k i
  assume inv: "ks_inv S st"
  obtain s w where st: "st = (s, w)" by (cases st)
  show "ks_lookup st k \<noteq> None \<Longrightarrow> ks_put S k i st = (Err KeyExists, st)"
    by (simp add: st ks_lookup_def ks_put_def)
  show "ks_lookup st k = None \<Longrightarrow> ks_remove S k st = (Err ''Key info not found'', st)"
    by (simp add: st ks_lookup_def ks_remove_def)
  let ?s = "s\<lparr>key_infos := AList.update k i (key_infos s)\<rparr>"
  have "ks_inv S (?s, w)" using inv by (simp add: st ks_inv_def)
  then obtain w' where "flush_state S (?s, w) = (Ok (), (?s, w'))" "ks_inv S (?s, w')"
    using flush_state_run by blast
  then show "ks_lookup st k = None \<Longrightarrow>
      \<exists>s'. ks_put S k i st = (Ok (), s') \<and> ks_inv S s' \<and> ks_lookup s' = (ks_lookup st)(k \<mapsto> i)"
    by (simp add: st ks_lookup_def ks_put_def map_err_io_def map_of_update)
  let ?d = "s\<lparr>key_infos := AList.delete k (key_infos s)\<rparr>"
  have "ks_inv S (?d, w)" using inv by (simp add: st ks_inv_def distinct_delete)
  then obtain w'' where "flush_state S (?d, w) = (Ok (), (?d, w''))" "ks_inv S (?d, w'')"
    using flush_state_run by blast
  then show "ks_lookup st k = Some i \<Longrightarrow>
      \<exists>s'. ks_remove S k st = (Ok i, s') \<and> ks_inv S s' \<and> ks_lookup s' = (ks_lookup st)(k := None)"
    by (simp add: st ks_lookup_def ks_remove_def bind_io_def ret_def map_of_delete)
qed

section \<open>Reopening a store\<close>

text \<open>The store is the one \<open>KeyStore::new\<close> makes for this configuration, up to its keys.\<close>

definition ks_opened :: "ks_libs \<Rightarrow> key_store_config \<Rightarrow> fvm_key_store \<Rightarrow> bool" where
  "ks_opened S config s \<longleftrightarrow>
     (case config of
        KsMemory \<Rightarrow> False
      | KsPersistent loc \<Rightarrow> persistence s = Some (file_in loc KEYSTORE_NAME) \<and> encryption s = None
      | KsEncrypted loc pw \<Rightarrow> persistence s = Some (file_in loc ENCRYPTED_KEYSTORE_NAME)
          \<and> (\<exists>enc. encryption s = Some enc
                \<and> hash_password S 65536 2 (as_bytes pw) (salt enc) = Ok (Some (encryption_key enc))))"

lemma reopen_persistent:
  assumes ok: "ks_libs_ok S" and dist: "distinct (map fst (key_infos s))" and enc: "encryption s = None"
    and f: "fs_open f (file_in loc KEYSTORE_NAME) = Ok ()" "fs_contents f (file_in loc KEYSTORE_NAME) = Ok t"
      "ks_file_ok S s t"
  shows "\<exists>s'. ks_new_persistent S loc f = Ok s' \<and> map_of (key_infos s') = map_of (key_infos s)"
proof -
  obtain ys where ys: "ks_from_json S t = Ok ys" "distinct (map fst ys)"
      "map_of ys = map_of (persistent_infos S (key_infos s))"
    using f(3) enc by (auto simp: ks_file_ok_def)
  let ?c = "\<lambda>v :: fvm_key_info. \<lparr>p_key_type = key_type v, p_private_key = base64_encode S (fvm_private_key v)\<rparr>"
  let ?g = "\<lambda>v. case base64_decode S (p_private_key v) of Ok b \<Rightarrow> b | _ \<Rightarrow> []"
  have m: "map_of ys = (\<lambda>k. map_option ?c (map_of (key_infos s) k))"
    using ys(3) dist by (simp add: persistent_infos_map map_of_map comp_def)
  have dec: "base64_decode S (p_private_key v) = Ok (?g v)" if "(k, v) \<in> set ys" for k v
  proof -
    have "map_of ys k = Some v" using that ys(2) by simp
    then have "map_option ?c (map_of (key_infos s) k) = Some v" by (simp only: m)
    then obtain u where "?c u = v" unfolding map_option_eq_Some by blast
    from this [symmetric] show ?thesis using ok by (simp add: ks_libs_ok_def)
  qed
  have "\<lparr>key_type = p_key_type (?c v), fvm_private_key = ?g (?c v)\<rparr> = v" for v
    using ok by (cases v) (simp add: ks_libs_ok_def)
  then have "(\<lambda>k. map_option (\<lambda>v. \<lparr>key_type = p_key_type v, fvm_private_key = ?g v\<rparr>) (map_of ys k)) =
      map_of (key_infos s)"
    by (simp add: m option.map_comp comp_def option.map_ident)
  moreover have "\<exists>r. insert_decoded S ys [] = Ok r \<and> map_of r = map_of [] ++
      (\<lambda>k. map_option (\<lambda>v. \<lparr>key_type = p_key_type v, fvm_private_key = ?g v\<rparr>) (map_of ys k))"
    by (rule insert_decoded_map) (erule dec, rule ys(2))
  ultimately show ?thesis using f(1,2) ys(1) by (auto simp: ks_new_persistent_def Let_def)
qed

lemma reopen_encrypted:
  assumes ok: "ks_libs_ok S" and enc: "encryption s = Some enc" "length (salt enc) = RECOMMENDED_SALT_LEN S"
      "length (encryption_key enc) = CIPHER_KEY_SIZE S"
      "hash_password S 65536 2 (as_bytes pw) (salt enc) = Ok (Some (encryption_key enc))"
    and ex: "path_exists (ks_fs w) loc" "path_exists (ks_fs w) (file_in loc ENCRYPTED_KEYSTORE_NAME)"
    and f: "fs_open (ks_fs w) (file_in loc ENCRYPTED_KEYSTORE_NAME) = Ok ()"
      "fs_contents (ks_fs w) (file_in loc ENCRYPTED_KEYSTORE_NAME) = Ok t" "ks_file_ok S s t"
  shows "\<exists>s'. ks_new_encrypted S loc pw w = (Ok s', w) \<and> map_of (key_infos s') = map_of (key_infos s)"
proof -
  obtain c b ys n where t: "as_bytes t = salt enc @ c @ n" "length n = NONCE_SIZE S"
      "aead_decrypt S (encryption_key enc) n c = Ok b" "cbor_from_slice S b = Ok ys"
      "map_of ys = map_of (key_infos s)"
    using f(3) enc(1) by (auto simp: ks_file_ok_def)
  have "n \<noteq> []" using t(2) ok by (auto simp: ks_libs_ok_def)
  with t(1) have "as_bytes t \<noteq> []" by simp
  moreover have "ks_open_encrypted S (file_in loc ENCRYPTED_KEYSTORE_NAME) pw (as_bytes t) w =
      (Ok \<lparr>key_infos = ys, persistence = Some (file_in loc ENCRYPTED_KEYSTORE_NAME),
           encryption = Some \<lparr>salt = salt enc, encryption_key = encryption_key enc\<rparr>\<rparr>, w)"
    using t enc by (simp add: ks_open_encrypted_def derive_key_def decrypt_def check_key_def Let_def io_defs)
  ultimately show ?thesis
    using ex f(1,2) t(5) by (simp add: ks_new_encrypted_def Let_def io_defs)
qed

section \<open>An executable instance\<close>

text \<open>Maps in a toy text of dotted characters; the cipher appends its key and nonce to the
  message; the password hash is the padded salt.\<close>

fun demo_type_text :: "signature_type \<Rightarrow> string" where
  "demo_type_text SigSecp256k1 = ''secp256k1''"
| "demo_type_text SigBLS = ''bls''"

definition demo_type_of :: "string \<Rightarrow> signature_type" where
  "demo_type_of s = (if s = ''bls'' then SigBLS else SigSecp256k1)"

fun demo_rows :: "string list \<Rightarrow> (string \<times> string \<times> string) list option" where
  "demo_rows [] = Some []"
| "demo_rows (x # y # z # zs) = map_option ((#) (x, y, z)) (demo_rows zs)"
| "demo_rows _ = None"

definition demo_table :: "(string \<times> string \<times> string) list \<Rightarrow> string" where
  "demo_table rows = concat (map (\<lambda>(x, y, z). demo_cell x @ demo_cell y @ demo_cell z) rows)"

definition demo_untable :: "string \<Rightarrow> (string, (string \<times> string \<times> string) list) res" where
  "demo_untable t = ok_or ''invalid text'' (Option.bind (demo_cells [] t) demo_rows)"

definition demo_ks_libs :: ks_libs where
  "demo_ks_libs = \<lparr>
     ks_to_json = (\<lambda>xs. Ok (demo_table (map (\<lambda>(k, v). (k, demo_type_text (p_key_type v), p_private_key v)) xs))),
     ks_from_json = (\<lambda>t. and_then (demo_untable t) (\<lambda>rows.
        Ok (map (\<lambda>(k, ty, pk). (k, \<lparr>p_key_type = demo_type_of ty, p_private_key = pk\<rparr>)) rows))),
     cbor_to_vec = (\<lambda>xs. Ok (as_bytes (demo_table (map (\<lambda>(k, v). (k, demo_type_text (key_type v), from_bytes (fvm_private_key v))) xs)))),
     cbor_from_slice = (\<lambda>b. and_then (demo_untable (from_bytes b)) (\<lambda>rows.
        Ok (map (\<lambda>(k, ty, pk). (k, \<lparr>key_type = demo_type_of ty, fvm_private_key = as_bytes pk\<rparr>)) rows))),
     base64_encode = demo_hex, base64_decode = demo_unhex,
     hash_password = (\<lambda>m t pw slt. Ok (Some (slt @ [1]))),
     aead_encrypt = (\<lambda>k n m. Ok (m @ k @ n)),
     aead_decrypt = (\<lambda>k n c. if drop (length c - 5) c = k @ n then Ok (take (length c - 5) c) else Err ''aead::Error''),
     RECOMMENDED_SALT_LEN = 2, NONCE_SIZE = 2, CIPHER_KEY_SIZE = 3,
     os_random = (\<lambda>i n. replicate n (of_nat i))\<rparr>"

lemma demo_untable_table [simp]: "demo_untable (demo_table rows) = Ok rows"
proof -
  have "demo_cells [] (demo_table rows) = Some (concat (map (\<lambda>(x, y, z). [x, y, z]) rows))"
    by (induction rows) (auto simp: demo_table_def demo_cells_cell)
  moreover have "demo_rows (concat (map (\<lambda>(x, y, z). [x, y, z]) rows)) = Some rows"
    by (induction rows) auto
  ultimately show ?thesis by (simp add: demo_untable_def)
qed

lemma demo_type_of_text [simp]: "demo_type_of (demo_type_text t) = t"
  by (cases t) (simp_all add: demo_type_of_def)

lemma demo_key_rows:
  "map ((\<lambda>(k, ty, pk). (k, \<lparr>p_key_type = demo_type_of ty, p_private_key = pk\<rparr>)) \<circ>
        (\<lambda>(k, v). (k, demo_type_text (p_key_type v), p_private_key v))) xs = xs"
  "map ((\<lambda>(k, ty, pk). (k, \<lparr>key_type = demo_type_of ty, fvm_private_key = as_bytes pk\<rparr>)) \<circ>
        (\<lambda>(k, v). (k, demo_type_text (key_type v), from_bytes (fvm_private_key v)))) ys = ys"
  by (auto intro!: map_idI)

lemma demo_ks_libs_ok [simp]: "ks_libs_ok demo_ks_libs"
  unfolding ks_libs_ok_def
  by (auto simp: demo_ks_libs_def demo_key_rows)

section \<open>Properties\<close>

text \<open>C15: Putting a new key into a clear-text or encrypted store succeeds, and opening the
  store again with the same location and passphrase gives a store with exactly the same keys;
  the file holding them is readable and writable by its owner only.\<close>

theorem ks_put_durable:
  assumes inv: "ks_inv S (s, w)" and cfg: "ks_opened S config s" and new: "map_of (key_infos s) k = None"
  shows "\<exists>s' w'. ks_put S k i (s, w) = (Ok (), (s', w')) \<and> ks_get k s' = Ok i
     \<and> (\<exists>r. ks_new S config w' = (Ok r, w') \<and> (\<forall>x. ks_get x r = ks_get x s'))
     \<and> (\<exists>fp. persistence s' = Some fp \<and> map_of (modes w') fp = Some 384)"
proof -
  let ?s = "s\<lparr>key_infos := AList.update k i (key_infos s)\<rparr>"
  obtain fp where fp: "persistence ?s = Some fp"
    using cfg by (auto simp: ks_opened_def split: key_store_config.splits)
  have inv': "ks_inv S (?s, w)" using inv by (simp add: ks_inv_def)
  obtain w' t where run: "ks_flush S ?s w = (Ok (), w')" "ks_inv S (?s, w')"
      and f: "fs_open (ks_fs w') fp = Ok ()" "fs_contents (ks_fs w') fp = Ok t" "ks_file_ok S ?s t"
        "map_of (modes w') fp = Some 384"
    using flush_run [OF inv' fp] .
  have put: "ks_put S k i (s, w) = (Ok (), (?s, w'))"
    using new run(1) fp by (simp add: ks_put_def flush_state_def map_err_io_def)
  have ok: "ks_libs_ok S" and dist: "distinct (map fst (key_infos ?s))" and wr: "writable (ks_fs w') fp"
    using run(2) fp by (auto simp: ks_inv_def)
  have "\<exists>r. ks_new S config w' = (Ok r, w') \<and> map_of (key_infos r) = map_of (key_infos ?s)"
  proof (cases config)
    case KsMemory
    with cfg show ?thesis by (simp add: ks_opened_def)
  next
    case (KsPersistent loc)
    with cfg fp have c: "fp = file_in loc KEYSTORE_NAME" "encryption ?s = None" by (simp_all add: ks_opened_def)
    show ?thesis using reopen_persistent [OF ok dist c(2), of "ks_fs w'" loc t] f(1-3) unfolding c(1)
      by (auto simp: KsPersistent ks_new_def)
  next
    case (KsEncrypted loc pw)
    with cfg fp obtain enc where c: "fp = file_in loc ENCRYPTED_KEYSTORE_NAME" "encryption ?s = Some enc"
      "hash_password S 65536 2 (as_bytes pw) (salt enc) = Ok (Some (encryption_key enc))"
      by (auto simp: ks_opened_def)
    have len: "length (salt enc) = RECOMMENDED_SALT_LEN S" "length (encryption_key enc) = CIPHER_KEY_SIZE S"
      using run(2) c(2) by (auto simp: ks_inv_def)
    have ex: "path_exists (ks_fs w') loc" "path_exists (ks_fs w') fp"
      using wr f(1) by (auto simp: c(1) writable_def path_exists_def fs_open_def split: if_splits)
    show ?thesis using reopen_encrypted [OF ok c(2) len c(3) ex(1) ex(2)[unfolded c(1)]] f(1-3)
      unfolding c(1) by (simp add: KsEncrypted ks_new_def)
  qed
  with put f(4) fp show ?thesis by (auto simp: ks_get_def map_of_update)
qed

lemma ks_put_durable_witness:
  "\<exists>s' w'. ks_put demo_ks_libs ''default'' \<lparr>key_type = SigBLS, fvm_private_key = [1, 2]\<rparr>
      (\<lparr>key_infos = [], persistence = Some (file_in \<lparr>absolute = True, comps = []\<rparr> ENCRYPTED_KEYSTORE_NAME),
        encryption = Some \<lparr>salt = [5, 5], encryption_key = [5, 5, 1]\<rparr>\<rparr>,
       \<lparr>ks_fs = \<lparr>files = [], dirs = [], fault = (\<lambda>_. None), write_fault = (\<lambda>_. None)\<rparr>, draws = 0, modes = []\<rparr>)
      = (Ok (), (s', w'))
    \<and> (\<exists>r. ks_new demo_ks_libs (KsEncrypted \<lparr>absolute = True, comps = []\<rparr> ''secret'') w' = (Ok r, w')
          \<and> ks_get ''default'' r = Ok \<lparr>key_type = SigBLS, fvm_private_key = [1, 2]\<rparr>)"
proof -
  let ?s = "\<lparr>key_infos = [], persistence = Some (file_in \<lparr>absolute = True, comps = []\<rparr> ENCRYPTED_KEYSTORE_NAME),
        encryption = Some \<lparr>salt = [5, 5], encryption_key = [5, 5, 1]\<rparr>\<rparr>"
  let ?w = "\<lparr>ks_fs = \<lparr>files = [], dirs = [], fault = (\<lambda>_. None), write_fault = (\<lambda>_. None)\<rparr>, draws = 0, modes = []\<rparr>"
  have "ks_inv demo_ks_libs (?s, ?w)"
    unfolding ks_inv_def by (simp add: writable_def is_dir_def empty_path_def)
      (simp add: file_in_def demo_ks_libs_def)
  moreover have "ks_opened demo_ks_libs (KsEncrypted \<lparr>absolute = True, comps = []\<rparr> ''secret'') ?s"
    by (simp add: ks_opened_def demo_ks_libs_def)
  ultimately show ?thesis
    using ks_put_durable [of demo_ks_libs ?s ?w _ "''default''" "\<lparr>key_type = SigBLS, fvm_private_key = [1, 2]\<rparr>"]
    by fastforce
qed

text \<open>\<open>put\<close> never overwrites: for a name in use it returns \<open>KeyExists\<close> and
  changes neither the store nor the world; \<open>remove\<close> of an unknown name likewise fails
  with no effect.\<close>

lemma ks_put_no_overwrite:
  "(map_of (key_infos s) k \<noteq> None \<longrightarrow> ks_put S k i (s, w) = (Err KeyExists, (s, w))) \<and>
   (map_of (key_infos s) k = None \<longrightarrow> ks_remove S k (s, w) = (Err ''Key info not found'', (s, w)))"
  by (simp add: ks_put_def ks_remove_def)

text \<open>C39: Opening an encrypted store whose file is not empty but shorter than salt and nonce
  panics: neither an error nor a store is returned.\<close>

theorem ks_short_file_panics:
  assumes "path_exists (ks_fs w) loc"
    and "fs_open (ks_fs w) (file_in loc ENCRYPTED_KEYSTORE_NAME) = Ok ()"
    and "fs_contents (ks_fs w) (file_in loc ENCRYPTED_KEYSTORE_NAME) = Ok t"
    and "0 < length t" and "length t < RECOMMENDED_SALT_LEN S + NONCE_SIZE S"
    and "\<And>slt. \<exists>h. hash_password S 65536 2 (as_bytes pw) slt = Ok (Some h)"
  shows "is_panic (fst (ks_new S (KsEncrypted loc pw) w))"
proof -
  have ex: "path_exists (ks_fs w) (file_in loc ENCRYPTED_KEYSTORE_NAME)"
    using assms(2) by (auto simp: fs_open_def split: option.splits if_splits)
  have ne: "as_bytes t \<noteq> []" using assms(4) by (metis length_as_bytes length_greater_0_conv)
  have "is_panic (fst (ks_open_encrypted S fp pw (as_bytes t) w))" for fp
  proof (cases "length t < RECOMMENDED_SALT_LEN S")
    case True
    then show ?thesis by (simp add: ks_open_encrypted_def lift_def)
  next
    case False
    obtain h where h: "hash_password S 65536 2 (as_bytes pw) (take (RECOMMENDED_SALT_LEN S) (as_bytes t)) = Ok (Some h)"
      using assms(6) by blast
    have "length (drop (RECOMMENDED_SALT_LEN S) (as_bytes t)) < NONCE_SIZE S" using False assms(5) by simp
    with h False show ?thesis
      by (simp add: ks_open_encrypted_def derive_key_def decrypt_def io_defs)
  qed
  with assms(1-3) ex ne show ?thesis
    by (simp add: ks_new_def ks_new_encrypted_def Let_def io_defs)
qed

lemma ks_short_file_panics_witness:
  "is_panic (fst (ks_new demo_ks_libs (KsEncrypted \<lparr>absolute = True, comps = []\<rparr> ''secret'')
     \<lparr>ks_fs = \<lparr>files = [(file_in \<lparr>absolute = True, comps = []\<rparr> ENCRYPTED_KEYSTORE_NAME, ''abc'')], dirs = [],
               fault = (\<lambda>_. None), write_fault = (\<lambda>_. None)\<rparr>, draws = 0, modes = []\<rparr>))"
  by (rule ks_short_file_panics [where t = "''abc''"])
    (simp_all add: demo_ks_libs_def path_exists_def is_dir_def fs_open_def fs_contents_def empty_path_def
      file_in_def)

end
