(* ===== verification/Fvm_Wallet.thy ===== *)
theory Fvm_Wallet
  imports Fvm_Keystore "HOL-Library.List_Lexorder" "HOL-Library.Char_ord"
begin

text \<open>
  \<open>ipc/identity/src/fvm/{wallet,wallet_helpers}.rs\<close> and \<open>ipc/identity/src/lib.rs\<close>: keys with
  their public key and address, and the wallet that keeps them in a key store under names
  \<open>wallet-<address>\<close> and \<open>default\<close>. The signature schemes are parameters
  (\<open>sig_libs\<close>). The proofs use the key store only through its interface.
\<close>

section \<open>wallet_helpers.rs\<close>

record 'a sig_libs =
  bls_public :: "bytes \<Rightarrow> (string, bytes) res"
  secp_public :: "bytes \<Rightarrow> (string, bytes) res"
  new_bls :: "bytes \<Rightarrow> (string, 'a) res"
  new_secp256k1 :: "bytes \<Rightarrow> (string, 'a) res"
  bls_sign :: "bytes \<Rightarrow> bytes \<Rightarrow> (string, bytes) res"
  secp_sign :: "bytes \<Rightarrow> bytes \<Rightarrow> (string, bytes \<times> u8) res"
  blake2b :: "bytes \<Rightarrow> bytes"
  bls_generate :: "nat \<Rightarrow> bytes"
  secp_generate :: "nat \<Rightarrow> bytes"

record fvm_signature =
  sig_type :: signature_type
  sig_bytes :: bytes

definition to_public :: "'a sig_libs \<Rightarrow> signature_type \<Rightarrow> bytes \<Rightarrow> (fvm_error, bytes) res" where
  "to_public G ty private_key =
     (case ty of
        SigBLS \<Rightarrow> map_err Other (bls_public G private_key)
      | SigSecp256k1 \<Rightarrow> map_err Other (secp_public G private_key))"

definition new_address :: "'a sig_libs \<Rightarrow> signature_type \<Rightarrow> bytes \<Rightarrow> (fvm_error, 'a) res" where
  "new_address G ty public_key =
     (case ty of
        SigBLS \<Rightarrow> map_err Other (new_bls G public_key)
      | SigSecp256k1 \<Rightarrow> map_err Other (new_secp256k1 G public_key))"

text \<open>A BLS key signs the message, a Secp256k1 key its BLAKE2b hash; the recovery id is the
  65th byte of the signature.\<close>

definition helper_sign :: "'a sig_libs \<Rightarrow> signature_type \<Rightarrow> bytes \<Rightarrow> bytes \<Rightarrow> (fvm_error, fvm_signature) res" where
  "helper_sign G ty private_key m =
     (case ty of
        SigBLS \<Rightarrow> and_then (map_err Other (bls_sign G private_key m)) (\<lambda>s.
                    Ok \<lparr>sig_type = SigBLS, sig_bytes = s\<rparr>)
      | SigSecp256k1 \<Rightarrow> and_then (map_err Other (secp_sign G private_key (blake2b G m))) (\<lambda>(s, rid).
                    Ok \<lparr>sig_type = SigSecp256k1, sig_bytes = s @ [rid]\<rparr>))"

definition generate :: "'a sig_libs \<Rightarrow> signature_type \<Rightarrow> (ks_world, fvm_error, bytes) eio" where
  "generate G ty w =
     (Ok (case ty of SigBLS \<Rightarrow> bls_generate G (draws w) | SigSecp256k1 \<Rightarrow> secp_generate G (draws w)),
      w\<lparr>draws := draws w + 1\<rparr>)"

section \<open>wallet.rs\<close>

record 'a fvm_key =
  fk_key_info :: fvm_key_info
  public_key :: bytes
  address :: 'a

definition key_try_from :: "'a sig_libs \<Rightarrow> fvm_key_info \<Rightarrow> (fvm_error, 'a fvm_key) res" where
  "key_try_from G ki =
     and_then (to_public G (key_type ki) (fvm_private_key ki)) (\<lambda>pk.
     and_then (new_address G (key_type ki) pk) (\<lambda>addr.
       Ok \<lparr>fk_key_info = ki, public_key = pk, address = addr\<rparr>))"

record 'a wallet =
  keys :: "('a \<times> 'a fvm_key) list"
  keystore :: fvm_key_store

type_synonym 'a wallet_state = "'a wallet \<times> ks_world"

definition wallet_new :: "fvm_key_store \<Rightarrow> 'a wallet" where
  "wallet_new ks = \<lparr>keys = [], keystore = ks\<rparr>"

definition wallet_new_from_keys :: "fvm_key_store \<Rightarrow> 'a fvm_key list \<Rightarrow> 'a wallet" where
  "wallet_new_from_keys ks key_vec =
     \<lparr>keys = foldl (\<lambda>m k. AList.update (address k) k m) [] key_vec, keystore = ks\<rparr>"

definition on_ks :: "(ks_state, 'e, 'b) eio \<Rightarrow> ('a wallet_state, 'e, 'b) eio" where
  "on_ks m = (\<lambda>(s, w). case m (keystore s, w) of (r, (ks, w')) \<Rightarrow> (r, (s\<lparr>keystore := ks\<rparr>, w')))"

definition wallet_name :: "'a libs \<Rightarrow> 'a \<Rightarrow> string" where
  "wallet_name L a = ''wallet-'' @ addr_to_string L a"

text \<open>The cache first, then the name of the address, then the same with the testnet prefix.\<close>

definition wallet_find_key :: "'a libs \<Rightarrow> 'a sig_libs \<Rightarrow> 'a \<Rightarrow> ('a wallet_state, fvm_error, 'a fvm_key) eio" where
  "wallet_find_key L G addr = (\<lambda>(s, w).
     case map_of (keys s) addr of
       Some k \<Rightarrow> (Ok k, (s, w))
     | None \<Rightarrow>
         (let found = (case ks_get (wallet_name L addr) (keystore s) of
              Ok ki \<Rightarrow> Ok ki
            | Err _ \<Rightarrow> and_then (str_from_1 (addr_to_string L addr)) (\<lambda>t. ks_get (''wallet-t'' @ t) (keystore s))
            | Panic p \<Rightarrow> Panic p)
          in case and_then found (key_try_from G) of
               Ok new_key \<Rightarrow> (Ok new_key, (s\<lparr>keys := AList.update addr new_key (keys s)\<rparr>, w))
             | Err e \<Rightarrow> (Err e, (s, w))
             | Panic p \<Rightarrow> (Panic p, (s, w))))"

definition wallet_sign :: "'a libs \<Rightarrow> 'a sig_libs \<Rightarrow> 'a \<Rightarrow> bytes \<Rightarrow> ('a wallet_state, fvm_error, fvm_signature) eio" where
  "wallet_sign L G addr m =
     bind_io (map_err_io (\<lambda>_. KeyNotExists) (wallet_find_key L G addr)) (\<lambda>key.
       lift (helper_sign G (key_type (fk_key_info key)) (fvm_private_key (fk_key_info key)) m))"

definition wallet_export :: "'a libs \<Rightarrow> 'a sig_libs \<Rightarrow> 'a \<Rightarrow> ('a wallet_state, fvm_error, fvm_key_info) eio" where
  "wallet_export L G addr = bind_io (wallet_find_key L G addr) (\<lambda>k. ret (fk_key_info k))"

definition wallet_import ::
    "'a libs \<Rightarrow> ks_libs \<Rightarrow> 'a sig_libs \<Rightarrow> fvm_key_info \<Rightarrow> ('a wallet_state, fvm_error, 'a) eio" where
  "wallet_import L S G ki =
     bind_io (lift (key_try_from G ki)) (\<lambda>k.
     bind_io (on_ks (ks_put S (wallet_name L (address k)) (fk_key_info k))) (\<lambda>_.
       ret (address k)))"

text \<open>The names are sorted, those of wallet keys that parse as addresses are returned.\<close>

definition list_addrs :: "'a libs \<Rightarrow> fvm_key_store \<Rightarrow> (fvm_error, 'a list) res" where
  "list_addrs L ks =
     Ok (List.map_filter (\<lambda>n. case strip_prefix ''wallet-'' n of
            Some t \<Rightarrow> (case addr_from_str L t of Ok a \<Rightarrow> Some a | _ \<Rightarrow> None)
          | None \<Rightarrow> None) (sort (ks_list ks)))"

definition wallet_list_addrs :: "'a libs \<Rightarrow> 'a wallet \<Rightarrow> (fvm_error, 'a list) res" where
  "wallet_list_addrs L s = list_addrs L (keystore s)"

text \<open>The name removed is the bare address, without the prefix \<open>wallet-\<close>.\<close>

definition wallet_remove :: "'a libs \<Rightarrow> ks_libs \<Rightarrow> 'a \<Rightarrow> ('a wallet_state, unit) io" where
  "wallet_remove L S addr = bind_io (on_ks (ks_remove S (addr_to_string L addr))) (\<lambda>_. ret ())"

definition wallet_get_default :: "'a sig_libs \<Rightarrow> 'a wallet \<Rightarrow> (fvm_error, 'a) res" where
  "wallet_get_default G s =
     and_then (ks_get ''default'' (keystore s)) (\<lambda>ki.
     and_then (key_try_from G ki) (\<lambda>k. Ok (address k)))"

definition wallet_set_default :: "'a libs \<Rightarrow> ks_libs \<Rightarrow> 'a \<Rightarrow> ('a wallet_state, unit) io" where
  "wallet_set_default L S addr = (\<lambda>(s, w).
     bind_io (lift (map_err fvm_error_display (ks_get (wallet_name L addr) (keystore s)))) (\<lambda>ki.
     bind_io (if is_ok (ks_get ''default'' (keystore s))
              then bind_io (on_ks (ks_remove S ''default'')) (\<lambda>_. ret ()) else ret ()) (\<lambda>_.
       map_err_io fvm_error_display (on_ks (ks_put S ''default'' ki)))) (s, w))"

definition generate_key :: "'a sig_libs \<Rightarrow> signature_type \<Rightarrow> (ks_world, fvm_error, 'a fvm_key) eio" where
  "generate_key G typ =
     bind_io (generate G typ) (\<lambda>pk. lift (key_try_from G \<lparr>key_type = typ, fvm_private_key = pk\<rparr>))"

definition on_rng :: "(ks_world, 'e, 'b) eio \<Rightarrow> ('a wallet_state, 'e, 'b) eio" where
  "on_rng m = (\<lambda>(s, w). case m w of (r, w') \<Rightarrow> (r, (s, w')))"

definition cache_key :: "'a fvm_key \<Rightarrow> ('a wallet_state, 'e, unit) eio" where
  "cache_key k = (\<lambda>(s, w). (Ok (), (s\<lparr>keys := AList.update (address k) k (keys s)\<rparr>, w)))"

definition wallet_generate_addr ::
    "'a libs \<Rightarrow> ks_libs \<Rightarrow> 'a sig_libs \<Rightarrow> signature_type \<Rightarrow> ('a wallet_state, 'a) io" where
  "wallet_generate_addr L S G typ =
     bind_io (map_err_io fvm_error_display (on_rng (generate_key G typ))) (\<lambda>key.
     bind_io (map_err_io fvm_error_display (on_ks (ks_put S (wallet_name L (address key)) (fk_key_info key)))) (\<lambda>_.
     bind_io (cache_key key) (\<lambda>_.
     bind_io (\<lambda>(s, w). if \<not> is_ok (ks_get ''default'' (keystore s))
        then map_err_io fvm_error_display (on_ks (ks_put S ''default'' (fk_key_info key))) (s, w)
        else (Ok (), (s, w))) (\<lambda>_.
       ret (address key)))))"

definition wallet_has_key :: "'a libs \<Rightarrow> 'a sig_libs \<Rightarrow> 'a \<Rightarrow> 'a wallet_state \<Rightarrow> bool \<times> 'a wallet_state" where
  "wallet_has_key L G addr st = (case wallet_find_key L G addr st of (r, st') \<Rightarrow> (is_ok r, st'))"

section \<open>Free functions of wallet.rs\<close>

definition keystore_get_default :: "'a sig_libs \<Rightarrow> fvm_key_store \<Rightarrow> (fvm_error, 'a option) res" where
  "keystore_get_default G ks =
     (case ks_get ''default'' ks of
        Ok ki \<Rightarrow> and_then (key_try_from G ki) (\<lambda>k. Ok (Some (address k)))
      | Err _ \<Rightarrow> Ok None
      | Panic p \<Rightarrow> Panic p)"

definition keystore_find_key :: "'a libs \<Rightarrow> 'a sig_libs \<Rightarrow> 'a \<Rightarrow> fvm_key_store \<Rightarrow> (fvm_error, 'a fvm_key) res" where
  "keystore_find_key L G addr ks =
     and_then (ks_get (wallet_name L addr) ks) (key_try_from G)"

text \<open>\<open>replace_range(0..1, "t")\<close> panics on an empty text and inside a character.\<close>

definition try_find :: "'a libs \<Rightarrow> 'a \<Rightarrow> fvm_key_store \<Rightarrow> (fvm_error, fvm_key_info) res" where
  "try_find L addr ks =
     (case ks_get (wallet_name L addr) ks of
        Ok k \<Rightarrow> Ok k
      | Err _ \<Rightarrow>
          and_then (str_from_1 (addr_to_string L addr)) (\<lambda>rest.
            (case ks_get (''wallet-t'' @ rest) ks of
               Ok k \<Rightarrow> Ok k
             | Err _ \<Rightarrow> ks_get (''wallet-f'' @ rest) ks
             | Panic p \<Rightarrow> Panic p))
      | Panic p \<Rightarrow> Panic p)"

definition export_key_info :: "'a libs \<Rightarrow> 'a sig_libs \<Rightarrow> 'a \<Rightarrow> fvm_key_store \<Rightarrow> (fvm_error, fvm_key_info) res" where
  "export_key_info L G addr ks = and_then (keystore_find_key L G addr ks) (\<lambda>k. Ok (fk_key_info k))"

definition keystore_import ::
    "'a libs \<Rightarrow> ks_libs \<Rightarrow> 'a sig_libs \<Rightarrow> fvm_key_info \<Rightarrow> (ks_state, 'a) io" where
  "keystore_import L S G ki =
     bind_io (lift (map_err fvm_error_display (key_try_from G ki))) (\<lambda>k.
     bind_io (map_err_io fvm_error_display (ks_put S (wallet_name L (address k)) (fk_key_info k))) (\<lambda>_.
       ret (address k)))"

section \<open>serialization.rs and the module json of keystore.rs\<close>

text \<open>The JSON objects, field by field; the JSON text itself is the library's. The type of a
  key is written in lower case, the type of a signature as the library writes it.\<close>

record key_info_json =
  json_Type :: string
  json_PrivateKey :: string

record signature_json =
  sig_Type :: signature_type
  sig_Data :: string

fun signature_type_serialize :: "signature_type \<Rightarrow> string" where
  "signature_type_serialize SigBLS = ''bls''"
| "signature_type_serialize SigSecp256k1 = ''secp256k1''"

definition signature_type_deserialize :: "string \<Rightarrow> (string, signature_type) res" where
  "signature_type_deserialize s =
     (if s = ''bls'' then Ok SigBLS else if s = ''secp256k1'' then Ok SigSecp256k1
      else Err (''unknown variant `'' @ s @ ''`, expected `bls` or `secp256k1`''))"

definition key_info_serialize :: "ks_libs \<Rightarrow> fvm_key_info \<Rightarrow> key_info_json" where
  "key_info_serialize S k =
     \<lparr>json_Type = signature_type_serialize (key_type k), json_PrivateKey = base64_encode S (fvm_private_key k)\<rparr>"

definition key_info_deserialize :: "ks_libs \<Rightarrow> key_info_json \<Rightarrow> (string, fvm_key_info) res" where
  "key_info_deserialize S j =
     and_then (signature_type_deserialize (json_Type j)) (\<lambda>ty.
     and_then (base64_decode S (json_PrivateKey j)) (\<lambda>pk.
       Ok \<lparr>key_type = ty, fvm_private_key = pk\<rparr>))"

definition signature_serialize :: "ks_libs \<Rightarrow> fvm_signature \<Rightarrow> signature_json" where
  "signature_serialize S m = \<lparr>sig_Type = sig_type m, sig_Data = base64_encode S (sig_bytes m)\<rparr>"

definition signature_deserialize :: "ks_libs \<Rightarrow> signature_json \<Rightarrow> (string, fvm_signature) res" where
  "signature_deserialize S j =
     and_then (base64_decode S (sig_Data j)) (\<lambda>b. Ok \<lparr>sig_type = sig_Type j, sig_bytes = b\<rparr>)"

text \<open>The module \<open>opt\<close>: an absent signature is null.\<close>

definition signature_opt_serialize :: "ks_libs \<Rightarrow> fvm_signature option \<Rightarrow> signature_json option" where
  "signature_opt_serialize S v = map_option (signature_serialize S) v"

definition signature_opt_deserialize :: "ks_libs \<Rightarrow> signature_json option \<Rightarrow> (string, fvm_signature option) res" where
  "signature_opt_deserialize S v =
     (case v of None \<Rightarrow> Ok None | Some j \<Rightarrow> and_then (signature_deserialize S j) (\<lambda>m. Ok (Some m)))"

section \<open>identity/src/lib.rs\<close>

datatype wallet_type = Evm | Fvm

definition wallet_type_from_str :: "string \<Rightarrow> (string, wallet_type) res" where
  "wallet_type_from_str s =
     (if s = ''evm'' then Ok Evm else if s = ''fvm'' then Ok Fvm else Err ''invalid wallet type'')"

section \<open>The wallet on the interface of its key store\<close>

definition wallet_inv :: "ks_libs \<Rightarrow> 'a wallet_state \<Rightarrow> bool" where
  "wallet_inv S st \<longleftrightarrow> ks_inv S (keystore (fst st), snd st)"

definition wallet_lookup :: "'a wallet_state \<Rightarrow> string \<Rightarrow> fvm_key_info option" where
  "wallet_lookup st = map_of (key_infos (keystore (fst st)))"

lemma key_try_from_info: "key_try_from G ki = Ok k \<Longrightarrow> fk_key_info k = ki"
  by (auto simp: key_try_from_def res_simps)

lemma ks_get_lookup [simp]: "ks_get k (keystore (fst st)) = ok_or KeyInfoMissing (wallet_lookup st k)"
  by (simp add: ks_get_def wallet_lookup_def)

lemma ks_get_keystore: "ks_get k (keystore s) = ok_or KeyInfoMissing (wallet_lookup (s, w) k)"
  by (simp add: ks_get_def wallet_lookup_def)

text \<open>The wallet's view of its key store is again such a store.\<close>

interpretation wks: string_keystore wallet_lookup "\<lambda>k i. on_ks (ks_put S k i)" "\<lambda>k. on_ks (ks_remove S k)"
    "wallet_inv S" for S :: ks_libs
proof unfold_locales
  fix st :: "'b wallet_state" and k i
  assume inv: "wallet_inv S st"
  obtain s w where st: "st = (s, w)" by (cases st)
  have kinv: "ks_inv S (keystore s, w)" and lk: "wallet_lookup st = ks_lookup (keystore s, w)"
    using inv by (simp_all add: st wallet_inv_def wallet_lookup_def ks_lookup_def)
  note defs = st lk on_ks_def wallet_inv_def wallet_lookup_def ks_lookup_def
  show "wallet_lookup st k = None \<Longrightarrow>
      \<exists>s'. on_ks (ks_put S k i) st = (Ok (), s') \<and> wallet_inv S s' \<and> wallet_lookup s' = (wallet_lookup st)(k \<mapsto> i)"
    using ks.put_new [OF kinv, of k i] by (auto simp: defs)
  show "wallet_lookup st k \<noteq> None \<Longrightarrow> on_ks (ks_put S k i) st = (Err KeyExists, st)"
    using ks.put_old [OF kinv, of k i] by (auto simp: defs)
  show "wallet_lookup st k = Some i \<Longrightarrow>
      \<exists>s'. on_ks (ks_remove S k) st = (Ok i, s') \<and> wallet_inv S s' \<and> wallet_lookup s' = (wallet_lookup st)(k := None)"
    using ks.remove_old [OF kinv, of k i] by (auto simp: defs)
  show "wallet_lookup st k = None \<Longrightarrow> on_ks (ks_remove S k) st = (Err ''Key info not found'', st)"
    using ks.remove_none [OF kinv, of k] by (auto simp: defs)
qed

lemma keys_on_ks [simp]: "keys (fst (snd (on_ks m st))) = keys (fst st)"
  by (cases st) (auto simp: on_ks_def split: prod.splits)

lemma keys_on_ks_run: "on_ks m st = (r, st') \<Longrightarrow> keys (fst st') = keys (fst st)"
  by (metis keys_on_ks snd_conv)

lemma wallet_name_not_addr: "wallet_name L a \<noteq> addr_to_string L a" "wallet_name L a \<noteq> ''default''"
  by (auto simp: wallet_name_def dest: arg_cong [where f = length])

lemma find_key_stored:
  assumes "map_of (keys (fst st)) a = None" and "wallet_lookup st (wallet_name L a) = Some ki"
    and "key_try_from G ki = Ok k"
  shows "fst (wallet_find_key L G a st) = Ok k"
  using assms by (cases st) (simp add: wallet_find_key_def ks_get_def wallet_lookup_def)

lemma import_run:
  assumes "wallet_inv S st" "key_try_from G ki = Ok k" "wallet_lookup st (wallet_name L (address k)) = None"
  obtains st' where "wallet_import L S G ki st = (Ok (address k), st')" "wallet_inv S st'"
    "wallet_lookup st' = (wallet_lookup st)(wallet_name L (address k) \<mapsto> ki)" "keys (fst st') = keys (fst st)"
proof -
  obtain st' where st': "on_ks (ks_put S (wallet_name L (address k)) ki) st = (Ok (), st')" "wallet_inv S st'"
      "wallet_lookup st' = (wallet_lookup st)(wallet_name L (address k) \<mapsto> ki)"
    using wks.put_new [OF assms(1,3)] by blast
  have "wallet_import L S G ki st = (Ok (address k), st')"
    using st'(1) assms(2) by (simp add: wallet_import_def bind_io_def lift_def ret_def key_try_from_info)
  with st' keys_on_ks_run [OF st'(1)] that show ?thesis by blast
qed

text \<open>A small wallet for the witnesses: public keys and addresses are the private key.\<close>

definition demo_sig :: "demo_addr sig_libs" where
  "demo_sig = \<lparr>bls_public = Ok, secp_public = Ok, new_bls = (\<lambda>b. Ok (DemoEth b)), new_secp256k1 = (\<lambda>b. Ok (DemoEth b)),
     bls_sign = (\<lambda>k m. Ok (k @ m)), secp_sign = (\<lambda>k m. Ok (k @ m, 0)), blake2b = id,
     bls_generate = (\<lambda>i. replicate 20 (of_nat i)), secp_generate = (\<lambda>i. replicate 20 (of_nat i))\<rparr>"

definition demo_wallet :: "demo_addr wallet_state" where
  "demo_wallet = (wallet_new \<lparr>key_infos = [], persistence = None, encryption = None\<rparr>,
     \<lparr>ks_fs = \<lparr>files = [], dirs = [], fault = (\<lambda>_. None), write_fault = (\<lambda>_. None)\<rparr>, draws = 3, modes = []\<rparr>)"

definition demo_key :: "nat \<Rightarrow> demo_addr fvm_key" where
  "demo_key n = \<lparr>fk_key_info = \<lparr>key_type = SigBLS, fvm_private_key = replicate 20 (of_nat n)\<rparr>,
     public_key = replicate 20 (of_nat n), address = DemoEth (replicate 20 (of_nat n))\<rparr>"

lemma demo_wallet_simps [simp]: "wallet_inv demo_ks_libs demo_wallet" "wallet_lookup demo_wallet n = None"
  "keys (fst demo_wallet) = []"
  by (simp_all add: wallet_inv_def demo_wallet_def wallet_new_def ks_inv_def wallet_lookup_def)

lemma demo_key_try [simp]:
  "key_try_from demo_sig \<lparr>key_type = SigBLS, fvm_private_key = replicate 20 (of_nat n)\<rparr> = Ok (demo_key n)"
  by (simp add: key_try_from_def to_public_def new_address_def demo_sig_def demo_key_def)

definition demo_wallet_with :: "nat \<Rightarrow> demo_addr wallet_state" where
  "demo_wallet_with n = (wallet_new \<lparr>key_infos = [(wallet_name demo_libs (address (demo_key n)),
       \<lparr>key_type = SigBLS, fvm_private_key = replicate 20 (of_nat n)\<rparr>)], persistence = None, encryption = None\<rparr>,
     snd demo_wallet)"

lemma demo_wallet_with_simps: "wallet_inv demo_ks_libs (demo_wallet_with n)"
  "wallet_lookup (demo_wallet_with n) (wallet_name demo_libs (address (demo_key n))) =
     Some \<lparr>key_type = SigBLS, fvm_private_key = replicate 20 (of_nat n)\<rparr>"
  by (simp_all add: wallet_inv_def demo_wallet_with_def wallet_new_def ks_inv_def wallet_lookup_def)

section \<open>Properties\<close>

text \<open>C30: Importing a key whose address is new to the wallet returns that address; exporting
  the address then gives the imported key back, and the address is listed.\<close>

theorem wallet_import_export:
  assumes "wallet_inv S st" and "key_try_from G ki = Ok k"
    and "wallet_lookup st (wallet_name L (address k)) = None"
    and "map_of (keys (fst st)) (address k) = None" and "addr_ok L (address k)"
  shows "\<exists>st' as. wallet_import L S G ki st = (Ok (address k), st')
     \<and> fst (wallet_export L G (address k) st') = Ok ki
     \<and> wallet_list_addrs L (fst st') = Ok as \<and> address k \<in> set as"
proof -
  obtain st' where st': "wallet_import L S G ki st = (Ok (address k), st')"
      "wallet_lookup st' = (wallet_lookup st)(wallet_name L (address k) \<mapsto> ki)" "keys (fst st') = keys (fst st)"
    using import_run [OF assms(1-3)] .
  have "fst (wallet_find_key L G (address k) st') = Ok k"
    using find_key_stored [of st' "address k" L ki G k] st' assms(2,4) by simp
  then have exp: "fst (wallet_export L G (address k) st') = Ok ki"
    using key_try_from_info [OF assms(2)]
    by (auto simp: wallet_export_def bind_io_def ret_def split: prod.splits)
  have "wallet_lookup st' (wallet_name L (address k)) = Some ki" using st'(2) by simp
  then have "wallet_name L (address k) \<in> set (ks_list (keystore (fst st')))"
    by (force simp: wallet_lookup_def ks_list_def dest: map_of_SomeD)
  then have "address k \<in> set (List.map_filter (\<lambda>n. case strip_prefix ''wallet-'' n of
            Some t \<Rightarrow> (case addr_from_str L t of Ok a \<Rightarrow> Some a | _ \<Rightarrow> None)
          | None \<Rightarrow> None) (sort (ks_list (keystore (fst st')))))"
    using assms(5) by (force simp: map_filter_def wallet_name_def addr_ok_def image_iff)
  with st'(1) exp show ?thesis by (simp add: wallet_list_addrs_def list_addrs_def)
qed

lemma wallet_import_export_witness:
  "\<exists>st' as. wallet_import demo_libs demo_ks_libs demo_sig
        \<lparr>key_type = SigBLS, fvm_private_key = replicate 20 (of_nat 7)\<rparr> demo_wallet = (Ok (address (demo_key 7)), st')
     \<and> fst (wallet_export demo_libs demo_sig (address (demo_key 7)) st')
         = Ok \<lparr>key_type = SigBLS, fvm_private_key = replicate 20 (of_nat 7)\<rparr>
     \<and> wallet_list_addrs demo_libs (fst st') = Ok as \<and> address (demo_key 7) \<in> set as"
  by (rule wallet_import_export) (simp_all only: demo_wallet_simps demo_key_try demo_addr_ok map_of.simps)

text \<open>Setting a stored key as the default succeeds whether or not a default exists;
  \<open>get_default\<close> then returns the address of that key, and no other entry of the key store
  changes.\<close>

lemma wallet_default_spec:
  assumes inv: "wallet_inv S st" and stored: "wallet_lookup st (wallet_name L a) = Some ki"
    and k: "key_try_from G ki = Ok k"
  shows "\<exists>st'. wallet_set_default L S a st = (Ok (), st')
     \<and> wallet_get_default G (fst st') = Ok (address k)
     \<and> (\<forall>n. n = ''default'' \<or> wallet_lookup st' n = wallet_lookup st n)"
proof -
  have "\<exists>st'. wallet_set_default L S a st = (Ok (), st') \<and> wallet_lookup st' = (wallet_lookup st)(''default'' \<mapsto> ki)"
  proof (cases "wallet_lookup st ''default''")
    case None
    obtain st' where "on_ks (ks_put S ''default'' ki) st = (Ok (), st')"
        "wallet_lookup st' = (wallet_lookup st)(''default'' \<mapsto> ki)"
      using wks.put_new [OF inv None] by blast
    with None stored show ?thesis
      by (cases st) (simp add: wallet_set_default_def ks_get_keystore [where w = "snd st"] io_defs)
  next
    case (Some j)
    obtain s1 s2 where "on_ks (ks_remove S ''default'') st = (Ok j, s1)"
        "on_ks (ks_put S ''default'' ki) s1 = (Ok (), s2)" "wallet_lookup s2 = (wallet_lookup st)(''default'' \<mapsto> ki)"
      using wks.replace [OF inv Some] by blast
    with Some stored show ?thesis
      by (cases st) (simp add: wallet_set_default_def ks_get_keystore [where w = "snd st"] io_defs)
  qed
  then show ?thesis using k by (auto simp: wallet_get_default_def)
qed

text \<open>C38: A key that was just imported cannot be removed: \<open>Wallet::remove\<close> looks the bare
  address up while the wallet stores keys under \<open>wallet-<address>\<close>, so it fails, and the key
  stays in the wallet.\<close>

theorem wallet_remove_misses:
  assumes inv: "wallet_inv S st" and k: "key_try_from G ki = Ok k"
    and new: "wallet_lookup st (wallet_name L (address k)) = None"
    and bare: "wallet_lookup st (addr_to_string L (address k)) = None"
  shows "\<exists>st'. wallet_import L S G ki st = (Ok (address k), st')
     \<and> wallet_remove L S (address k) st' = (Err ''Key info not found'', st')
     \<and> wallet_lookup st' (wallet_name L (address k)) = Some ki"
proof -
  obtain st' where st': "wallet_import L S G ki st = (Ok (address k), st')" "wallet_inv S st'"
      "wallet_lookup st' = (wallet_lookup st)(wallet_name L (address k) \<mapsto> ki)"
    using import_run [OF inv k new] .
  have "wallet_lookup st' (addr_to_string L (address k)) = None"
    using st'(3) bare wallet_name_not_addr(1) [of L "address k"] by simp
  from wks.remove_none [OF st'(2) this] st' show ?thesis by (simp add: wallet_remove_def bind_io_def)
qed

lemma wallet_remove_misses_witness:
  "\<exists>st'. wallet_import demo_libs demo_ks_libs demo_sig
        \<lparr>key_type = SigBLS, fvm_private_key = replicate 20 (of_nat 7)\<rparr> demo_wallet = (Ok (address (demo_key 7)), st')
     \<and> wallet_remove demo_libs demo_ks_libs (address (demo_key 7)) st' = (Err ''Key info not found'', st')
     \<and> wallet_lookup st' (wallet_name demo_libs (address (demo_key 7)))
         = Some \<lparr>key_type = SigBLS, fvm_private_key = replicate 20 (of_nat 7)\<rparr>"
  by (rule wallet_remove_misses) (simp_all only: demo_wallet_simps demo_key_try)

text \<open>Generating an address stores the new key under its name and caches it; it becomes
  the default exactly when the wallet had no default.\<close>

lemma wallet_generate_default:
  assumes inv: "wallet_inv S st" and gen: "fst (generate_key G typ (snd st)) = Ok k"
    and new: "wallet_lookup st (wallet_name L (address k)) = None"
  shows "\<exists>st'. wallet_generate_addr L S G typ st = (Ok (address k), st')
     \<and> fst (wallet_find_key L G (address k) st') = Ok k
     \<and> wallet_lookup st' (wallet_name L (address k)) = Some (fk_key_info k)
     \<and> wallet_lookup st' ''default'' = (case wallet_lookup st ''default'' of
           Some d \<Rightarrow> Some d | None \<Rightarrow> Some (fk_key_info k))"
proof -
  obtain s w where st: "st = (s, w)" by (cases st)
  let ?w = "w\<lparr>draws := draws w + 1\<rparr>" and ?n = "wallet_name L (address k)"
  have run: "on_rng (generate_key G typ) (s, w) = (Ok k, (s, ?w))"
    using gen by (simp add: st on_rng_def generate_key_def generate_def bind_io_def lift_def)
  have inv1: "wallet_inv S (s, ?w)" using inv by (simp add: st wallet_inv_def ks_inv_def)
  have new1: "wallet_lookup (s, ?w) ?n = None" using new by (simp add: st wallet_lookup_def)
  obtain st1 where st1: "on_ks (ks_put S ?n (fk_key_info k)) (s, ?w) = (Ok (), st1)" "wallet_inv S st1"
      "wallet_lookup st1 = (wallet_lookup (s, ?w))(?n \<mapsto> fk_key_info k)"
    using wks.put_new [OF inv1 new1] by blast
  obtain s1 w1 where st1': "st1 = (s1, w1)" by (cases st1)
  let ?s2 = "s1\<lparr>keys := AList.update (address k) k (keys s1)\<rparr>"
  have inv2: "wallet_inv S (?s2, w1)" using st1(2) by (simp add: st1' wallet_inv_def)
  have lk2: "wallet_lookup (?s2, w1) = (wallet_lookup st)(?n \<mapsto> fk_key_info k)"
    using st1(3) by (simp add: st1' st wallet_lookup_def)
  have cached: "fst (wallet_find_key L G (address k) st') = Ok k"
    if "keys (fst st') = AList.update (address k) k (keys s1)" for st'
    using that by (cases st') (simp add: wallet_find_key_def map_of_update)
  have d: "?n \<noteq> ''default''" by (rule wallet_name_not_addr)
  have step: "wallet_generate_addr L S G typ st =
      bind_io (\<lambda>(s, w). if \<not> is_ok (ks_get ''default'' (keystore s))
        then map_err_io fvm_error_display (on_ks (ks_put S ''default'' (fk_key_info k))) (s, w)
        else (Ok (), (s, w))) (\<lambda>_. ret (address k)) (?s2, w1)"
    using run st1(1) by (simp add: wallet_generate_addr_def st st1' cache_key_def bind_io_def map_err_io_def)
  show ?thesis
  proof (cases "wallet_lookup st ''default''")
    case (Some j)
    then have "wallet_lookup (?s2, w1) ''default'' = Some j" using lk2 d by simp
    then show ?thesis using step Some lk2 d cached
      by (simp add: ks_get_keystore [where w = w1] bind_io_def ret_def)
  next
    case None
    then have nd: "wallet_lookup (?s2, w1) ''default'' = None" using lk2 d by simp
    obtain st3 where st3: "on_ks (ks_put S ''default'' (fk_key_info k)) (?s2, w1) = (Ok (), st3)"
        "wallet_lookup st3 = (wallet_lookup (?s2, w1))(''default'' \<mapsto> fk_key_info k)"
      using wks.put_new [OF inv2 nd] by blast
    with step None nd lk2 d cached keys_on_ks_run [OF st3(1)] show ?thesis
      by (simp add: ks_get_keystore [where w = w1] bind_io_def ret_def map_err_io_def)
  qed
qed

text \<open>The exported JSON form of a key and of a signature reads back as the same key and
  the same signature.\<close>

lemma key_info_json_roundtrip:
  assumes "base64_decode S (base64_encode S (fvm_private_key k)) = Ok (fvm_private_key k)"
    and "base64_decode S (base64_encode S (sig_bytes m)) = Ok (sig_bytes m)"
  shows "key_info_deserialize S (key_info_serialize S k) = Ok k
    \<and> signature_deserialize S (signature_serialize S m) = Ok m"
  using assms
  by (cases k; cases m; cases "key_type k")
    (simp_all add: key_info_deserialize_def key_info_serialize_def signature_deserialize_def
      signature_serialize_def signature_type_deserialize_def)

end
