(* ===== verification/Lotus_Message.thy ===== *)
theory Lotus_Message
  imports Json_Rpc Fvm_Wallet Ipc_Address
begin

text \<open>
  \<open>ipc/provider/src/lotus/message\<close> and \<open>lotus/json.rs\<close>: the messages exchanged with a Lotus node, with
  their JSON readers and writers. A struct that the source derives \<open>Deserialize\<close> for is a record with
  a reader over \<open>json\<close>; the fields are read in the order of the declaration. Content identifiers
  (the type variable \<open>'i\<close>), the CBOR codec and the multihash are parameters.
\<close>

section \<open>message/wallet.rs\<close>

datatype wallet_key_type = KeyBLS | KeySecp256k1 | KeySecp256k1Ledger

definition ascii_lower :: "string \<Rightarrow> string" where
  "ascii_lower = map (\<lambda>c. let n = of_char c :: nat in if 65 \<le> n \<and> n \<le> 90 then char_of (n + 32) else c)"

definition wallet_key_type_from_str :: "string \<Rightarrow> (string, wallet_key_type) res" where
  "wallet_key_type_from_str s =
     (if ascii_lower s = ''bls'' then Ok KeyBLS
      else if ascii_lower s = ''secp256k1'' then Ok KeySecp256k1
      else if ascii_lower s = ''secp256k1-ledger'' then Ok KeySecp256k1Ledger
      else Err ''Matching variant not found'')"

fun wallet_key_type_as_ref :: "wallet_key_type \<Rightarrow> string" where
  "wallet_key_type_as_ref KeyBLS = ''bls''"
| "wallet_key_type_as_ref KeySecp256k1 = ''secp256k1''"
| "wallet_key_type_as_ref KeySecp256k1Ledger = ''secp256k1-ledger''"

fun wallet_key_type_to_sig :: "wallet_key_type \<Rightarrow> (string, signature_type) res" where
  "wallet_key_type_to_sig KeyBLS = Ok SigBLS"
| "wallet_key_type_to_sig KeySecp256k1 = Ok SigSecp256k1"
| "wallet_key_type_to_sig KeySecp256k1Ledger = Err ''type not supported''"

fun wallet_key_type_of_sig :: "signature_type \<Rightarrow> (string, wallet_key_type) res" where
  "wallet_key_type_of_sig SigBLS = Ok KeyBLS"
| "wallet_key_type_of_sig SigSecp256k1 = Ok KeySecp256k1"

section \<open>message/mod.rs\<close>

record 'a lotus_msg =
  lm_version :: u64
  lm_from :: 'a
  lm_to :: 'a
  lm_sequence :: u64
  lm_value :: int
  lm_method_num :: u64
  lm_params :: bytes
  lm_gas_limit :: u64
  lm_gas_fee_cap :: int
  lm_gas_premium :: int

record ('a, 'i) lotus_libs =
  cid_from_str :: "string \<Rightarrow> (string, 'i) res"
  cid_to_string :: "'i \<Rightarrow> string"
  cid_new_v1 :: "bytes \<Rightarrow> 'i"
  cid_to_bytes :: "'i \<Rightarrow> bytes"
  blake2b256_digest :: "bytes \<Rightarrow> bytes"
  message_to_vec :: "'a lotus_msg \<Rightarrow> (string, bytes) res"
  vec_string_from_str :: "string \<Rightarrow> (string, string list) res"

type_synonym cid_map = "string option"

definition cid_map_de :: "json_libs \<Rightarrow> json \<Rightarrow> (string, cid_map) res" where
  "cid_map_de J = opt_field J ''/'' (de_string J)"

definition cid_map_ser :: "cid_map \<Rightarrow> json" where
  "cid_map_ser m = JObj (case m of Some s \<Rightarrow> [(''/'', JStr s)] | None \<Rightarrow> [])"

definition option_cid_of_map :: "('a, 'i) lotus_libs \<Rightarrow> cid_map \<Rightarrow> (string, 'i option) res" where
  "option_cid_of_map C m =
     (case m of
        None \<Rightarrow> Ok None
      | Some s \<Rightarrow> (case cid_from_str C s of Ok i \<Rightarrow> Ok (Some i) | Err e \<Rightarrow> Panic ''invalid cid str'' | Panic p \<Rightarrow> Panic p))"

definition cid_try_from_map :: "('a, 'i) lotus_libs \<Rightarrow> cid_map \<Rightarrow> (string, 'i) res" where
  "cid_try_from_map C m =
     and_then (option_cid_of_map C m) (\<lambda>c. case c of Some i \<Rightarrow> Ok i | None \<Rightarrow> Err ''cid not found'')"

definition cid_try_from_map_ref :: "('a, 'i) lotus_libs \<Rightarrow> cid_map \<Rightarrow> (string, 'i) res" where
  "cid_try_from_map_ref C m =
     (case m of
        None \<Rightarrow> Err ''cid not found''
      | Some s \<Rightarrow> (case cid_from_str C s of Ok i \<Rightarrow> Ok i | Err e \<Rightarrow> Panic ''invalid cid str'' | Panic p \<Rightarrow> Panic p))"

definition cid_map_of_option :: "('a, 'i) lotus_libs \<Rightarrow> 'i option \<Rightarrow> cid_map" where
  "cid_map_of_option C c = (case c of Some i \<Rightarrow> Some (cid_to_string C i) | None \<Rightarrow> None)"

definition cid_map_of :: "('a, 'i) lotus_libs \<Rightarrow> 'i \<Rightarrow> cid_map" where
  "cid_map_of C i = Some (cid_to_string C i)"

section \<open>message/deserialize.rs and message/serialize.rs\<close>

definition de_address_from_str :: "'a libs \<Rightarrow> json_libs \<Rightarrow> json \<Rightarrow> (string, 'a) res" where
  "de_address_from_str L J j = and_then (de_string J j) (addr_from_str L)"

definition de_token_amount_from_str :: "'a libs \<Rightarrow> json_libs \<Rightarrow> json \<Rightarrow> (string, int) res" where
  "de_token_amount_from_str L J j = and_then (de_string J j) (bigint_from_str L)"

definition de_some_token_amount_from_str :: "'a libs \<Rightarrow> json_libs \<Rightarrow> json \<Rightarrow> (string, int option) res" where
  "de_some_token_amount_from_str L J j =
     and_then (de_string J j) (\<lambda>v. and_then (bigint_from_str L v) (\<lambda>u. Ok (Some u)))"

definition de_some_token_amount_from_num :: "json \<Rightarrow> (string, int option) res" where
  "de_some_token_amount_from_num j =
     (case j of
        JNum n \<Rightarrow> if 0 \<le> n \<and> n < 2 ^ 64 then Ok (Some n) else Err ''cannot parse to u64''
      | JFloat _ \<Rightarrow> Err ''cannot parse to u64''
      | _ \<Rightarrow> Err ''unknown type: {val:?}'')"

text \<open>
  The entries of the map with the raw text of their values, as the visitor receives them; a later
  entry replaces an earlier one and other keys are skipped. A value that starts with a quote is
  a JSON string, so it has two characters at least. The raw text of a value is its printed form,
  which leaves out redundant blanks and escapes of the text received.
\<close>

definition root_from_raw :: "string \<Rightarrow> (string, u64) res" where
  "root_from_raw s =
     (case parse_u64 (if starts_with s [CHR 0x22] then butlast (tl s) else s) of
        Some n \<Rightarrow> Ok n | None \<Rightarrow> Err ''invalid digit found in string'')"

definition children_from_raw :: "'a libs \<Rightarrow> ('a, 'i) lotus_libs \<Rightarrow> string \<Rightarrow> (string, 'a list) res" where
  "children_from_raw L C s = and_then (vec_string_from_str C s) (traverse (addr_from_str L))"

fun subnet_visit_map ::
    "'a libs \<Rightarrow> ('a, 'i) lotus_libs \<Rightarrow> (string \<times> string) list \<Rightarrow> u64 option \<Rightarrow> 'a list option \<Rightarrow> (string, 'a subnet_id) res" where
  "subnet_visit_map L C [] r cs =
     (case (r, cs) of
        (Some root_id, Some addrs) \<Rightarrow> Ok (subnet_new root_id addrs)
      | _ \<Rightarrow> Err ''parent or actor not present'')"
| "subnet_visit_map L C ((key, s) # entries) r cs =
     (if key = ''Root'' then and_then (root_from_raw s) (\<lambda>root_id. subnet_visit_map L C entries (Some root_id) cs)
      else if key = ''Children'' then and_then (children_from_raw L C s) (\<lambda>addrs. subnet_visit_map L C entries r (Some addrs))
      else subnet_visit_map L C entries r cs)"

definition de_subnet_id_from_map :: "'a libs \<Rightarrow> ('a, 'i) lotus_libs \<Rightarrow> json_libs \<Rightarrow> json \<Rightarrow> (string, 'a subnet_id) res" where
  "de_subnet_id_from_map L C J j =
     (case j of
        JObj kvs \<Rightarrow> subnet_visit_map L C (map (\<lambda>(k, v). (k, print_json J v)) kvs) None None
      | _ \<Rightarrow> Err (invalid_type J j ''a map''))"

definition de_ipc_address_from_map :: "'a libs \<Rightarrow> ('a, 'i) lotus_libs \<Rightarrow> json_libs \<Rightarrow> json \<Rightarrow> (string, 'a ipc_address) res" where
  "de_ipc_address_from_map L C J j =
     and_then (field J ''SubnetId'' (de_subnet_id_from_map L C J) j) (\<lambda>sn.
     and_then (field J ''RawAddress'' (de_address_from_str L J) j) (\<lambda>raw.
       map_err sdk_error_display (ipc_new sn raw)))"

definition ser_subnet_id_to_str :: "'a libs \<Rightarrow> 'a subnet_id \<Rightarrow> json" where
  "ser_subnet_id_to_str L i = JStr (subnet_to_string L i)"

definition ser_token_amount_to_atto :: "'a libs \<Rightarrow> int \<Rightarrow> json" where
  "ser_token_amount_to_atto L n = JStr (bigint_to_string L n)"

text \<open>\<open>lotus/json.rs\<close>.\<close>

definition subnet_to_json :: "'a libs \<Rightarrow> 'a subnet_id \<Rightarrow> json" where
  "subnet_to_json L i =
     JObj [(''Root'', JNum (uint (root i))), (''Children'', JArr (map (\<lambda>a. JStr (addr_to_string L a)) (children i)))]"

section \<open>message/mpool.rs\<close>

record mpool_push_response_inner =
  pr_to :: string
  pr_from :: string
  pr_value :: string
  pr_method :: u64
  pr_params :: string
  pr_nonce :: u64
  pr_gas_limit :: u64
  pr_gas_fee_cap :: string
  pr_gas_premium :: string
  pr_version :: u16
  pr_cid :: cid_map

definition mpool_push_response_inner_de :: "json_libs \<Rightarrow> json \<Rightarrow> (string, mpool_push_response_inner) res" where
  "mpool_push_response_inner_de J j =
     and_then (field J ''To'' (de_string J) j) (\<lambda>pto.
     and_then (field J ''From'' (de_string J) j) (\<lambda>pfrom.
     and_then (field J ''Value'' (de_string J) j) (\<lambda>val.
     and_then (field J ''Method'' (de_num J ''u64'') j) (\<lambda>meth.
     and_then (field J ''Params'' (de_string J) j) (\<lambda>ps.
     and_then (field J ''Nonce'' (de_num J ''u64'') j) (\<lambda>n.
     and_then (field J ''GasLimit'' (de_num J ''u64'') j) (\<lambda>gl.
     and_then (field J ''GasFeeCap'' (de_string J) j) (\<lambda>gf.
     and_then (field J ''GasPremium'' (de_string J) j) (\<lambda>gp.
     and_then (field J ''Version'' (de_num J ''u16'') j) (\<lambda>v.
     and_then (field J ''CID'' (cid_map_de J) j) (\<lambda>c.
       Ok \<lparr>pr_to = pto, pr_from = pfrom, pr_value = val, pr_method = meth, pr_params = ps, pr_nonce = n,
          pr_gas_limit = gl, pr_gas_fee_cap = gf, pr_gas_premium = gp, pr_version = v, pr_cid = c\<rparr>)))))))))))"

text \<open>\<open>MpoolPushMessageResponse\<close>: the message and its CID.\<close>

definition mpool_push_response_de :: "json_libs \<Rightarrow> json \<Rightarrow> (string, mpool_push_response_inner \<times> cid_map) res" where
  "mpool_push_response_de J j =
     and_then (field J ''Message'' (mpool_push_response_inner_de J) j) (\<lambda>m.
     and_then (field J ''CID'' (cid_map_de J) j) (\<lambda>c. Ok (m, c)))"

definition pr_cid_of :: "('a, 'i) lotus_libs \<Rightarrow> mpool_push_response_inner \<Rightarrow> (string, 'i) res" where
  "pr_cid_of C r = cid_try_from_map C (pr_cid r)"

definition pr_to_of :: "'a libs \<Rightarrow> mpool_push_response_inner \<Rightarrow> (string, 'a) res" where
  "pr_to_of L r = addr_from_str L (pr_to r)"

definition pr_from_of :: "'a libs \<Rightarrow> mpool_push_response_inner \<Rightarrow> (string, 'a) res" where
  "pr_from_of L r = addr_from_str L (pr_from r)"

record ('a, 'i) mpool_push_message =
  mp_to :: 'a
  mp_from :: 'a
  mp_value :: int
  mp_method :: u64
  mp_params :: bytes
  mp_nonce :: "u64 option"
  mp_gas_limit :: "int option"
  mp_gas_fee_cap :: "int option"
  mp_gas_premium :: "int option"
  mp_cid :: "'i option"
  mp_version :: "u16 option"
  mp_max_fee :: "int option"

definition mpool_push_message_new :: "'a \<Rightarrow> 'a \<Rightarrow> u64 \<Rightarrow> bytes \<Rightarrow> ('a, 'i) mpool_push_message" where
  "mpool_push_message_new to_addr from_addr meth params =
     \<lparr>mp_to = to_addr, mp_from = from_addr, mp_value = 0, mp_method = meth, mp_params = params, mp_nonce = None,
      mp_gas_limit = None, mp_gas_fee_cap = None, mp_gas_premium = None, mp_cid = None, mp_version = None, mp_max_fee = None\<rparr>"

record estimate_gas_response =
  eg_gas_limit :: "int option"
  eg_gas_fee_cap :: "int option"
  eg_gas_premium :: "int option"

definition estimate_gas_response_de :: "'a libs \<Rightarrow> json_libs \<Rightarrow> json \<Rightarrow> (string, estimate_gas_response) res" where
  "estimate_gas_response_de L J j =
     and_then (field J ''GasLimit'' de_some_token_amount_from_num j) (\<lambda>gl.
     and_then (field J ''GasFeeCap'' (de_some_token_amount_from_str L J) j) (\<lambda>gf.
     and_then (field J ''GasPremium'' (de_some_token_amount_from_str L J) j) (\<lambda>gp.
       Ok \<lparr>eg_gas_limit = gl, eg_gas_fee_cap = gf, eg_gas_premium = gp\<rparr>)))"

section \<open>message/state.rs and message/chain.rs\<close>

record receipt =
  exit_code :: u32
  rc_result :: "string option"
  gas_used :: u64

definition receipt_de :: "json_libs \<Rightarrow> json \<Rightarrow> (string, receipt) res" where
  "receipt_de J j =
     and_then (field J ''ExitCode'' (de_num J ''u32'') j) (\<lambda>e.
     and_then (opt_field J ''Return'' (de_string J) j) (\<lambda>r.
     and_then (field J ''GasUsed'' (de_num J ''u64'') j) (\<lambda>g.
       Ok \<lparr>exit_code = e, rc_result = r, gas_used = g\<rparr>)))"

definition parse_result_into :: "ks_libs \<Rightarrow> 't \<Rightarrow> (bytes \<Rightarrow> (string, 't) res) \<Rightarrow> receipt \<Rightarrow> (string, 't) res" where
  "parse_result_into S default_t cbor_deserialize r =
     (case rc_result r of
        None \<Rightarrow> Ok default_t
      | Some s \<Rightarrow>
          and_then (map_err (\<lambda>_. ''cannot decode return string'') (base64_decode S s)) (\<lambda>b.
            map_err (\<lambda>_. ''cannot cbor deserialize return data'') (cbor_deserialize b)))"

record state_wait_msg_response =
  sw_message :: cid_map
  sw_receipt :: receipt
  sw_tip_set :: "cid_map list"
  sw_height :: u64

definition state_wait_msg_response_de :: "json_libs \<Rightarrow> json \<Rightarrow> (string, state_wait_msg_response) res" where
  "state_wait_msg_response_de J j =
     and_then (field J ''Message'' (cid_map_de J) j) (\<lambda>m.
     and_then (field J ''Receipt'' (receipt_de J) j) (\<lambda>r.
     and_then (field J ''TipSet'' (de_vec J (cid_map_de J)) j) (\<lambda>t.
     and_then (field J ''Height'' (de_num J ''u64'') j) (\<lambda>h.
       Ok \<lparr>sw_message = m, sw_receipt = r, sw_tip_set = t, sw_height = h\<rparr>))))"

record 't read_state_response =
  rs_balance :: string
  rs_code :: cid_map
  rs_state :: 't

definition read_state_response_de :: "json_libs \<Rightarrow> (json \<Rightarrow> (string, 't) res) \<Rightarrow> json \<Rightarrow> (string, 't read_state_response) res" where
  "read_state_response_de J de j =
     and_then (field J ''Balance'' (de_string J) j) (\<lambda>b.
     and_then (field J ''Code'' (cid_map_de J) j) (\<lambda>c.
     and_then (field J ''State'' de j) (\<lambda>s.
       Ok \<lparr>rs_balance = b, rs_code = c, rs_state = s\<rparr>)))"

text \<open>A block is its \<open>ParentStateRoot\<close>.\<close>

record tip_set_by_height =
  ts_cids :: "cid_map list"
  ts_blocks :: "cid_map list"

definition tip_set_by_height_de :: "json_libs \<Rightarrow> json \<Rightarrow> (string, tip_set_by_height) res" where
  "tip_set_by_height_de J j =
     and_then (field J ''Cids'' (de_vec J (cid_map_de J)) j) (\<lambda>c.
     and_then (field J ''Blocks'' (de_vec J (field J ''ParentStateRoot'' (cid_map_de J))) j) (\<lambda>b.
       Ok \<lparr>ts_cids = c, ts_blocks = b\<rparr>))"

definition tip_set_cids :: "('a, 'i) lotus_libs \<Rightarrow> tip_set_by_height \<Rightarrow> (string, 'i list) res" where
  "tip_set_cids C t = traverse (cid_try_from_map_ref C) (ts_cids t)"

definition blocks_state_roots :: "('a, 'i) lotus_libs \<Rightarrow> tip_set_by_height \<Rightarrow> (string, 'i list) res" where
  "blocks_state_roots C t = traverse (cid_try_from_map_ref C) (ts_blocks t)"

record chain_head_response =
  ch_cids :: "cid_map list"
  ch_blocks :: "json list"
  ch_height :: u64

definition chain_head_response_de :: "json_libs \<Rightarrow> json \<Rightarrow> (string, chain_head_response) res" where
  "chain_head_response_de J j =
     and_then (field J ''Cids'' (de_vec J (cid_map_de J)) j) (\<lambda>c.
     and_then (field J ''Blocks'' (de_vec J Ok) j) (\<lambda>b.
     and_then (field J ''Height'' (de_num J ''u64'') j) (\<lambda>h.
       Ok \<lparr>ch_cids = c, ch_blocks = b, ch_height = h\<rparr>)))"

section \<open>Properties\<close>

text \<open>What the subnet reader relies on: an integer prints in decimals and an array of strings reads back.\<close>

definition print_ok :: "json_libs \<Rightarrow> ('a, 'i) lotus_libs \<Rightarrow> bool" where
  "print_ok J C \<longleftrightarrow> (\<forall>n. print_json J (JNum (uint n)) = show_u64 n)
     \<and> (\<forall>xs. vec_string_from_str C (print_json J (JArr (map JStr xs))) = Ok xs)"

lemma root_from_raw_show [simp]:
  "root_from_raw (show_u64 n) = Ok n" "root_from_raw (CHR 0x22 # show_u64 n @ [CHR 0x22]) = Ok n"
proof -
  have "\<not> starts_with (show_u64 n) [CHR 0x22]"
    using show_u64_free [of "hd (show_u64 n)" n] by (cases "show_u64 n") (auto simp: starts_with_def)
  then show "root_from_raw (show_u64 n) = Ok n" by (simp add: root_from_raw_def)
  show "root_from_raw (CHR 0x22 # show_u64 n @ [CHR 0x22]) = Ok n"
    by (simp add: root_from_raw_def starts_with_def)
qed

lemma traverse_addr_from_str:
  "\<forall>a\<in>set as. addr_ok L a \<Longrightarrow> traverse (addr_from_str L) (map (addr_to_string L) as) = Ok as"
  by (induction as) (auto simp: addr_ok_def)

lemma children_from_raw_print:
  "print_ok J C \<Longrightarrow> \<forall>a\<in>set as. addr_ok L a \<Longrightarrow>
     children_from_raw L C (print_json J (JArr (map (\<lambda>a. JStr (addr_to_string L a)) as))) = Ok as"
proof -
  assume p: "print_ok J C" and ok: "\<forall>a\<in>set as. addr_ok L a"
  have "map (\<lambda>a. JStr (addr_to_string L a)) as = map JStr (map (addr_to_string L) as)" by simp
  with p have "vec_string_from_str C (print_json J (JArr (map (\<lambda>a. JStr (addr_to_string L a)) as)))
      = Ok (map (addr_to_string L) as)"
    unfolding print_ok_def by metis
  then show ?thesis by (simp add: children_from_raw_def traverse_addr_from_str [OF ok])
qed

text \<open>A subnet identifier written by \<open>to_json\<close> reads back as itself. The reader does not depend on
  the order of the entries, on entries with other keys, or on whether the root is a number
  or a quoted number; without a root or without children it fails.\<close>

lemma subnet_json_roundtrip:
  assumes "print_ok J C" and "\<forall>a\<in>set (children i). addr_ok L a" and "k \<noteq> ''Root''" and "k \<noteq> ''Children''"
    and kids: "kids = print_json J (JArr (map (\<lambda>a. JStr (addr_to_string L a)) (children i)))"
  shows "de_subnet_id_from_map L C J (subnet_to_json L i) = Ok i
    \<and> subnet_visit_map L C [(''Children'', kids), (k, s), (''Root'', CHR 0x22 # show_u64 (root i) @ [CHR 0x22])] None None = Ok i
    \<and> subnet_visit_map L C [(''Children'', kids), (k, s)] None None = Err ''parent or actor not present''
    \<and> subnet_visit_map L C [(''Root'', show_u64 (root i)), (k, s)] None None = Err ''parent or actor not present''"
proof -
  have c: "children_from_raw L C kids = Ok (children i)"
    unfolding kids by (rule children_from_raw_print [OF assms(1,2)])
  have r: "print_json J (JNum (uint (root i))) = show_u64 (root i)"
    using assms(1) by (simp add: print_ok_def)
  show ?thesis
    using assms(3,4) c [unfolded kids] c r by (simp add: de_subnet_id_from_map_def subnet_to_json_def subnet_new_def)
qed

text \<open>An instance of the JSON and CID libraries.\<close>

fun demo_print :: "json \<Rightarrow> string" where
  "demo_print (JNum n) = show_nat (nat n)"
| "demo_print (JStr s) = demo_cell s"
| "demo_print (JArr xs) = concat (map demo_print xs)"
| "demo_print _ = []"

definition demo_lotus_json :: json_libs where
  "demo_lotus_json = \<lparr>read_json = (\<lambda>t. Ok (JStr t)), print_json = demo_print, invalid_type = (\<lambda>_ s. s), missing_field = id\<rparr>"

definition demo_lotus_libs :: "(demo_addr, string) lotus_libs" where
  "demo_lotus_libs = \<lparr>cid_from_str = Ok, cid_to_string = id, cid_new_v1 = from_bytes, cid_to_bytes = as_bytes,
     blake2b256_digest = id, message_to_vec = (\<lambda>m. Ok (lm_params m)),
     vec_string_from_str = (\<lambda>s. case demo_cells [] s of Some xs \<Rightarrow> Ok xs | None \<Rightarrow> Err ''not a list'')\<rparr>"

lemma demo_print_strings: "demo_cells [] (demo_print (JArr (map JStr xs))) = Some xs"
  by (induction xs) (simp_all add: demo_cells_cell)

lemma demo_print_ok [simp]: "print_ok demo_lotus_json demo_lotus_libs"
  unfolding print_ok_def demo_lotus_json_def demo_lotus_libs_def json_libs.select_convs lotus_libs.select_convs demo_print_strings
  by (simp add: show_u64_def nat_uint_eq)

end
