(* ===== verification/Provider.thy ===== *)
theory Provider
  imports Eth_Properties Lotus_Message
begin

text \<open>
  \<open>ipc/provider/src/lib.rs\<close>: the client object \<open>IpcProvider\<close>. It holds the configuration, the
  two key stores and the sender, opens a connection (a subnet manager) to a configured subnet
  and forwards every operation to the manager of the subnet concerned or of its parent. The
  key store is shared between the provider and its connections, so a manager reads it as it
  is when it signs.
\<close>

section \<open>Environment and state\<close>

text \<open>The parameters: the conversion libraries, key derivation, the text formats, the nodes, the
  random generator, the home directory.\<close>

record ('a, 'c) prov_env =
  pe_libs :: "'a libs"
  pe_keys :: "eth_key_address key_ops"
  pe_json :: key_json
  pe_eth :: eth_libs
  pe_connect :: "string \<Rightarrow> string option \<Rightarrow> (string, 'c node) res"
  pe_ks :: ks_libs
  pe_sig :: "'a sig_libs"
  pe_toml :: toml_libs
  pe_lotus_key :: "string \<Rightarrow> (string, string \<times> string) res"
  pe_evm_key :: "string \<Rightarrow> (string, persistent_key_info) res"
  pe_random_key :: "nat \<Rightarrow> bytes"
  pe_home_dir :: "path option"
  pe_HOME :: "string option"

record 'a ipc_provider =
  sender :: "'a option"
  prov_config :: "'a config"
  fvm_wallet :: "'a wallet option"
  evm_keystore :: "eth_key_address persistent_key_store option"

record ('a, 'c) client_world =
  cw_prov :: "'a ipc_provider"
  cw_ks :: ks_world
  cw_net :: "'c chain_world"

record ('a, 'c) connection =
  conn_subnet :: "'a subnet"
  conn_manager :: "'c eth_subnet_manager"

section \<open>Key stores on disk\<close>

definition DEFAULT_REPO_PATH :: string where
  "DEFAULT_REPO_PATH = ''.ipc''"

definition DEFAULT_CONFIG_NAME :: string where
  "DEFAULT_CONFIG_NAME = ''config.toml''"

definition set_fil_network_from_env :: "(nat \<Rightarrow> 'n option) \<Rightarrow> string option \<Rightarrow> (string, 'n) res" where
  "set_fil_network_from_env from_u8 lotus_network =
     (case parse_unsigned 255 (case lotus_network of Some s \<Rightarrow> s | None \<Rightarrow> ''1'') of
        None \<Rightarrow> Panic ''called `Result::unwrap()` on an `Err` value''
      | Some n \<Rightarrow> (case from_u8 n of
            None \<Rightarrow> Panic ''called `Option::unwrap()` on a `None` value''
          | Some network \<Rightarrow> Ok network))"

definition path_starts_tilde :: "path \<Rightarrow> bool" where
  "path_starts_tilde p \<longleftrightarrow> \<not> absolute p \<and> take 1 (comps p) = [''~'']"

definition expand_tilde :: "path option \<Rightarrow> path \<Rightarrow> path" where
  "expand_tilde home p =
     (if \<not> path_starts_tilde p then p
      else if comps p = [''~''] then (case home of Some h \<Rightarrow> h | None \<Rightarrow> p)
      else (case home of
              Some h \<Rightarrow>
                if absolute h \<and> comps h = [] then \<lparr>absolute = False, comps = tl (comps p)\<rparr>
                else path_join h \<lparr>absolute = False, comps = tl (comps p)\<rparr>
            | None \<Rightarrow> p))"

definition default_repo_path :: "string option \<Rightarrow> (string, string) res" where
  "default_repo_path home_var =
     (case home_var of Some home \<Rightarrow> Ok (home @ ''/'' @ DEFAULT_REPO_PATH) | None \<Rightarrow> Panic ''cannot get home'')"

definition default_config_path :: "string option \<Rightarrow> (string, string) res" where
  "default_config_path home_var =
     and_then (default_repo_path home_var) (\<lambda>p. Ok (p @ ''/'' @ DEFAULT_CONFIG_NAME))"

definition new_evm_keystore_from_path ::
    "('a, 'c) prov_env \<Rightarrow> string \<Rightarrow> fs \<Rightarrow> (string, eth_key_address persistent_key_store) res" where
  "new_evm_keystore_from_path V repo_str f =
     map_err (\<lambda>e. ''Failed to create evm keystore: '' @ e)
       (pks_new (pe_libs V) (pe_keys V) (pe_json V)
          (expand_tilde (pe_home_dir V) (file_in (path_of_string repo_str) DEFAULT_KEYSTORE_NAME)) f)"

definition new_fvm_keystore_from_path :: "('a, 'c) prov_env \<Rightarrow> string \<Rightarrow> (ks_world, fvm_key_store) io" where
  "new_fvm_keystore_from_path V repo_str =
     map_err_io (\<lambda>e. ''Failed to create keystore: '' @ fvm_error_display e)
       (ks_new (pe_ks V) (KsPersistent (expand_tilde (pe_home_dir V) (path_of_string repo_str))))"

definition new_fvm_wallet_from_config :: "('a, 'c) prov_env \<Rightarrow> 'a config \<Rightarrow> (ks_world, fvm_key_store) io" where
  "new_fvm_wallet_from_config V c =
     (case keystore_path c of
        Some repo_str \<Rightarrow> new_fvm_keystore_from_path V repo_str
      | None \<Rightarrow> bail ''No keystore repo found in config. Try using absolute path'')"

definition new_evm_keystore_from_config ::
    "('a, 'c) prov_env \<Rightarrow> 'a config \<Rightarrow> fs \<Rightarrow> (string, eth_key_address persistent_key_store) res" where
  "new_evm_keystore_from_config V c f =
     (case keystore_path c of
        Some repo_str \<Rightarrow> new_evm_keystore_from_path V repo_str f
      | None \<Rightarrow> Err ''No keystore repo found in config'')"

section \<open>Construction\<close>

definition prov_new :: "'a config \<Rightarrow> 'a wallet \<Rightarrow> eth_key_address persistent_key_store \<Rightarrow> 'a ipc_provider" where
  "prov_new c w k = \<lparr>sender = None, prov_config = c, fvm_wallet = Some w, evm_keystore = Some k\<rparr>"

definition read_fs :: "(fs \<Rightarrow> (string, 'b) res) \<Rightarrow> (ks_world, 'b) io" where
  "read_fs g w = (g (ks_fs w), w)"

definition new_from_config :: "('a, 'c) prov_env \<Rightarrow> string \<Rightarrow> (ks_world, 'a ipc_provider) io" where
  "new_from_config V config_path =
     bind_io (read_fs (from_file (pe_libs V) (pe_toml V) config_path)) (\<lambda>c.
     bind_io (new_fvm_wallet_from_config V c) (\<lambda>ks.
     bind_io (read_fs (new_evm_keystore_from_config V c)) (\<lambda>ek.
       ret (prov_new c (wallet_new ks) ek))))"

definition new_with_subnet :: "('a, 'c) prov_env \<Rightarrow> string option \<Rightarrow> 'a subnet \<Rightarrow> (ks_world, 'a ipc_provider) io" where
  "new_with_subnet V kp s =
     (let c = add_subnet s config_new in
      case kp of
        Some repo_path \<Rightarrow>
          bind_io (new_fvm_keystore_from_path V repo_path) (\<lambda>ks.
          bind_io (read_fs (new_evm_keystore_from_path V repo_path)) (\<lambda>ek.
            ret (prov_new c (wallet_new ks) ek)))
      | None \<Rightarrow> ret \<lparr>sender = None, prov_config = c, fvm_wallet = None, evm_keystore = None\<rparr>)"

definition new_default :: "('a, 'c) prov_env \<Rightarrow> (ks_world, 'a ipc_provider) io" where
  "new_default V = bind_io (lift (default_config_path (pe_HOME V))) (new_from_config V)"

section \<open>Connections and the sender\<close>

text \<open>\<open>evm_wallet\<close> and \<open>fvm_wallet\<close>, and a critical section on the store they return.\<close>

definition with_evm_wallet :: "(eth_key_address pks_world, 'b) io \<Rightarrow> (('a, 'c) client_world, 'b) io" where
  "with_evm_wallet m w =
     (case evm_keystore (cw_prov w) of
        None \<Rightarrow> (Err ''No evm wallet found in provider'', w)
      | Some s \<Rightarrow> (case m (s, ks_fs (cw_ks w)) of (r, (s', f')) \<Rightarrow>
          (r, w\<lparr>cw_prov := (cw_prov w)\<lparr>evm_keystore := Some s'\<rparr>, cw_ks := (cw_ks w)\<lparr>ks_fs := f'\<rparr>\<rparr>)))"

definition with_fvm_wallet :: "('a wallet_state, 'b) io \<Rightarrow> (('a, 'c) client_world, 'b) io" where
  "with_fvm_wallet m w =
     (case fvm_wallet (cw_prov w) of
        None \<Rightarrow> (Err ''No fvm wallet found in provider'', w)
      | Some s \<Rightarrow> (case m (s, cw_ks w) of (r, (s', k')) \<Rightarrow>
          (r, w\<lparr>cw_prov := (cw_prov w)\<lparr>fvm_wallet := Some s'\<rparr>, cw_ks := k'\<rparr>)))"

text \<open>A failure to set up the manager is logged and yields no connection.\<close>

definition connection_to :: "('a, 'c) prov_env \<Rightarrow> 'a ipc_provider \<Rightarrow> 'a subnet_id \<Rightarrow> (string, ('a, 'c) connection option) res" where
  "connection_to V p i =
     (case map_of (subnets (prov_config p)) i of
        Some s \<Rightarrow> (case from_subnet_with_wallet_store (pe_libs V) (pe_connect V) s (evm_keystore p) of
            Ok mgr \<Rightarrow> Ok (Some \<lparr>conn_subnet = s, conn_manager = mgr\<rparr>)
          | Err _ \<Rightarrow> Ok None
          | Panic m \<Rightarrow> Panic m)
      | None \<Rightarrow> Ok None)"

definition with_sender :: "'a \<Rightarrow> 'a ipc_provider \<Rightarrow> 'a ipc_provider" where
  "with_sender from p = p\<lparr>sender := Some from\<rparr>"

definition list_connections :: "'a ipc_provider \<Rightarrow> ('a subnet_id \<times> 'a subnet) list" where
  "list_connections p = subnets (prov_config p)"

definition set_sender :: "'a \<Rightarrow> (('a, 'c) client_world, 'a) io" where
  "set_sender a w = (Ok a, w\<lparr>cw_prov := with_sender a (cw_prov w)\<rparr>)"

definition check_sender :: "('a, 'c) prov_env \<Rightarrow> 'a subnet \<Rightarrow> 'a option \<Rightarrow> (('a, 'c) client_world, 'a) io" where
  "check_sender V s from w =
     (case from of
        Some a \<Rightarrow> (Ok a, w)
      | None \<Rightarrow> (case sender (cw_prov w) of
            Some a \<Rightarrow> (Ok a, w)
          | None \<Rightarrow> (case sn_config s of Fevm _ \<Rightarrow>
              bind_io (with_evm_wallet (pks_get_default (pe_libs V) (pe_keys V) (pe_json V))) (\<lambda>dflt.
                case dflt of
                  None \<Rightarrow> bail ''no default evm account configured''
                | Some k \<Rightarrow> bind_io (lift (eth_key_to_fil (pe_libs V) k)) set_sender) w)))"

text \<open>The start of an operation: the connection to a subnet, or the error message of the code.\<close>

definition connect :: "('a, 'c) prov_env \<Rightarrow> string \<Rightarrow> 'a subnet_id \<Rightarrow> (('a, 'c) client_world, ('a, 'c) connection) io" where
  "connect V err i w =
     (and_then (connection_to V (cw_prov w) i) (ok_or err), w)"

definition parent_of :: "'a subnet_id \<Rightarrow> (('a, 'c) client_world, 'a subnet_id) io" where
  "parent_of s = lift (ok_or ''no parent found'' (parent s))"

text \<open>An operation of the manager of a connection, on the shared key store.\<close>

definition on_manager :: "('a, 'c) connection \<Rightarrow> ('c eth_subnet_manager \<Rightarrow> ('c chain_world, 'b) io)
    \<Rightarrow> (('a, 'c) client_world, 'b) io" where
  "on_manager conn f w =
     (case f ((conn_manager conn)\<lparr>mgr_keystore := evm_keystore (cw_prov w)\<rparr>) (cw_net w) of
        (r, n) \<Rightarrow> (r, w\<lparr>cw_net := n\<rparr>))"

section \<open>Operations\<close>

definition prov_create_subnet :: "('a, 'c) prov_env \<Rightarrow> 'a option \<Rightarrow> 'a subnet_id \<Rightarrow> u64 \<Rightarrow> int \<Rightarrow> int \<Rightarrow> u16 \<Rightarrow> int
    \<Rightarrow> (('a, 'c) client_world, 'a) io" where
  "prov_create_subnet V from par min_vals min_stake period_len limit fee =
     bind_io (connect V ''target parent subnet not found'' par) (\<lambda>conn.
     bind_io (check_sender V (conn_subnet conn) from) (\<lambda>sndr.
       on_manager conn (\<lambda>M. create_subnet (pe_libs V) (pe_eth V) M sndr
         \<lparr>par_parent = par, ipc_gateway_addr = gateway_addr (conn_subnet conn), consensus = Mir,
          min_validator_stake = min_stake, min_validators = min_vals, bottomup_check_period = period_len,
          active_validators_limit = limit, min_cross_msg_fee = fee\<rparr>)))"

definition prov_join_subnet :: "('a, 'c) prov_env \<Rightarrow> 'a subnet_id \<Rightarrow> 'a option \<Rightarrow> int \<Rightarrow> bytes
    \<Rightarrow> (('a, 'c) client_world, int) io" where
  "prov_join_subnet V s from collateral pk =
     bind_io (parent_of s) (\<lambda>p.
     bind_io (connect V ''target parent subnet not found'' p) (\<lambda>conn.
     bind_io (check_sender V (conn_subnet conn) from) (\<lambda>sndr.
       on_manager conn (\<lambda>M. join_subnet (pe_libs V) (pe_eth V) M s sndr collateral pk))))"

definition prov_pre_fund :: "('a, 'c) prov_env \<Rightarrow> 'a subnet_id \<Rightarrow> 'a option \<Rightarrow> int
    \<Rightarrow> (('a, 'c) client_world, unit) io" where
  "prov_pre_fund V s from balance =
     bind_io (parent_of s) (\<lambda>p.
     bind_io (connect V ''target parent subnet not found'' p) (\<lambda>conn.
     bind_io (check_sender V (conn_subnet conn) from) (\<lambda>sndr.
       on_manager conn (\<lambda>M. pre_fund (pe_libs V) (pe_eth V) M s sndr balance))))"

definition prov_pre_release :: "('a, 'c) prov_env \<Rightarrow> 'a subnet_id \<Rightarrow> 'a option \<Rightarrow> int
    \<Rightarrow> (('a, 'c) client_world, unit) io" where
  "prov_pre_release V s from amount =
     bind_io (parent_of s) (\<lambda>p.
     bind_io (connect V ''target parent subnet not found'' p) (\<lambda>conn.
     bind_io (check_sender V (conn_subnet conn) from) (\<lambda>sndr.
       on_manager conn (\<lambda>M. pre_release (pe_libs V) (pe_eth V) M s sndr amount))))"

definition prov_stake :: "('a, 'c) prov_env \<Rightarrow> 'a subnet_id \<Rightarrow> 'a option \<Rightarrow> int
    \<Rightarrow> (('a, 'c) client_world, unit) io" where
  "prov_stake V s from collateral =
     bind_io (parent_of s) (\<lambda>p.
     bind_io (connect V ''target parent subnet not found'' p) (\<lambda>conn.
     bind_io (check_sender V (conn_subnet conn) from) (\<lambda>sndr.
       on_manager conn (\<lambda>M. stake (pe_libs V) (pe_eth V) M s sndr collateral))))"

definition prov_unstake :: "('a, 'c) prov_env \<Rightarrow> 'a subnet_id \<Rightarrow> 'a option \<Rightarrow> int
    \<Rightarrow> (('a, 'c) client_world, unit) io" where
  "prov_unstake V s from collateral =
     bind_io (parent_of s) (\<lambda>p.
     bind_io (connect V ''target parent subnet not found'' p) (\<lambda>conn.
     bind_io (check_sender V (conn_subnet conn) from) (\<lambda>sndr.
       on_manager conn (\<lambda>M. unstake (pe_libs V) (pe_eth V) M s sndr collateral))))"

definition prov_leave_subnet :: "('a, 'c) prov_env \<Rightarrow> 'a subnet_id \<Rightarrow> 'a option
    \<Rightarrow> (('a, 'c) client_world, unit) io" where
  "prov_leave_subnet V s from =
     bind_io (parent_of s) (\<lambda>p.
     bind_io (connect V ''target parent subnet not found'' p) (\<lambda>conn.
     bind_io (check_sender V (conn_subnet conn) from) (\<lambda>sndr.
       on_manager conn (\<lambda>M. leave_subnet (pe_libs V) (pe_eth V) M s sndr))))"

definition prov_claim_collateral :: "('a, 'c) prov_env \<Rightarrow> 'a subnet_id \<Rightarrow> 'a option
    \<Rightarrow> (('a, 'c) client_world, unit) io" where
  "prov_claim_collateral V s from =
     bind_io (parent_of s) (\<lambda>p.
     bind_io (connect V ''target parent subnet not found'' p) (\<lambda>conn.
     bind_io (check_sender V (conn_subnet conn) from) (\<lambda>sndr.
       on_manager conn (\<lambda>M. claim_collateral (pe_libs V) (pe_eth V) M s sndr))))"

definition prov_claim_relayer_reward :: "('a, 'c) prov_env \<Rightarrow> 'a subnet_id \<Rightarrow> 'a option
    \<Rightarrow> (('a, 'c) client_world, unit) io" where
  "prov_claim_relayer_reward V s from =
     bind_io (parent_of s) (\<lambda>p.
     bind_io (connect V ''target parent subnet not found'' p) (\<lambda>conn.
     bind_io (check_sender V (conn_subnet conn) from) (\<lambda>sndr.
       on_manager conn (\<lambda>M. claim_relayer_reward (pe_libs V) (pe_eth V) M s sndr))))"

definition prov_kill_subnet :: "('a, 'c) prov_env \<Rightarrow> 'a subnet_id \<Rightarrow> 'a option
    \<Rightarrow> (('a, 'c) client_world, unit) io" where
  "prov_kill_subnet V s from =
     bind_io (parent_of s) (\<lambda>p.
     bind_io (connect V ''target parent subnet not found'' p) (\<lambda>conn.
     bind_io (check_sender V (conn_subnet conn) from) (\<lambda>sndr.
       on_manager conn (\<lambda>M. kill_subnet (pe_libs V) (pe_eth V) M s sndr))))"

definition prov_list_child_subnets :: "('a, 'c) prov_env \<Rightarrow> 'a option \<Rightarrow> 'a subnet_id
    \<Rightarrow> (('a, 'c) client_world, ('a subnet_id \<times> 'a subnet_info) list) io" where
  "prov_list_child_subnets V gateway s =
     bind_io (connect V ''target subnet not found'' s) (\<lambda>conn.
     (let gw = (case gateway of None \<Rightarrow> gateway_addr (conn_subnet conn) | Some g \<Rightarrow> g) in
       on_manager conn (\<lambda>M. list_child_subnets (pe_libs V) M gw)))"

definition prov_fund :: "('a, 'c) prov_env \<Rightarrow> 'a subnet_id \<Rightarrow> 'a option \<Rightarrow> 'a option \<Rightarrow> 'a option \<Rightarrow> int
    \<Rightarrow> (('a, 'c) client_world, int) io" where
  "prov_fund V s gateway from to amount =
     bind_io (parent_of s) (\<lambda>p.
     bind_io (connect V ''target parent subnet not found'' p) (\<lambda>conn.
     bind_io (check_sender V (conn_subnet conn) from) (\<lambda>sndr.
       (let gw = (case gateway of None \<Rightarrow> gateway_addr (conn_subnet conn) | Some g \<Rightarrow> g) in
       on_manager conn (\<lambda>M. fund (pe_libs V) (pe_eth V) M s gw sndr (case to of Some t \<Rightarrow> t | None \<Rightarrow> sndr) amount)))))"

definition prov_release :: "('a, 'c) prov_env \<Rightarrow> 'a subnet_id \<Rightarrow> 'a option \<Rightarrow> 'a option \<Rightarrow> 'a option \<Rightarrow> int \<Rightarrow> int option
    \<Rightarrow> (('a, 'c) client_world, int) io" where
  "prov_release V s gateway from to amount fee =
     bind_io (connect V ''target subnet not found'' s) (\<lambda>conn.
     bind_io (check_sender V (conn_subnet conn) from) (\<lambda>sndr.
       (let gw = (case gateway of None \<Rightarrow> gateway_addr (conn_subnet conn) | Some g \<Rightarrow> g) in
       on_manager conn (\<lambda>M. release (pe_libs V) (pe_eth V) M gw sndr (case to of Some t \<Rightarrow> t | None \<Rightarrow> sndr) amount fee))))"

text \<open>Two operations are left as \<open>todo!()\<close> in the code.\<close>

definition prov_propagate :: "'a subnet_id \<Rightarrow> 'a \<Rightarrow> 'a \<Rightarrow> bytes \<Rightarrow> (('a, 'c) client_world, unit) io" where
  "prov_propagate s gateway from key = lift (Panic ''not yet implemented'')"

definition prov_send_cross_message :: "'a \<Rightarrow> 'a \<Rightarrow> 'a cross_msg \<Rightarrow> (('a, 'c) client_world, unit) io" where
  "prov_send_cross_message gateway from m = lift (Panic ''not yet implemented'')"

definition prov_send_value :: "('a, 'c) prov_env \<Rightarrow> 'a subnet_id \<Rightarrow> 'a option \<Rightarrow> 'a \<Rightarrow> int
    \<Rightarrow> (('a, 'c) client_world, unit) io" where
  "prov_send_value V s from to amount =
     bind_io (connect V ''target subnet not found'' s) (\<lambda>conn.
     bind_io (check_sender V (conn_subnet conn) from) (\<lambda>sndr.
       on_manager conn (\<lambda>M. send_value (pe_libs V) (pe_eth V) M sndr to amount)))"

definition prov_wallet_balance :: "('a, 'c) prov_env \<Rightarrow> 'a subnet_id \<Rightarrow> 'a
    \<Rightarrow> (('a, 'c) client_world, int) io" where
  "prov_wallet_balance V s addr =
     bind_io (connect V ''target subnet not found'' s) (\<lambda>conn.
     on_manager conn (\<lambda>M. wallet_balance (pe_libs V) M addr))"

definition prov_chain_head :: "('a, 'c) prov_env \<Rightarrow> 'a subnet_id
    \<Rightarrow> (('a, 'c) client_world, int) io" where
  "prov_chain_head V s =
     bind_io (connect V ''target subnet not found'' s) (\<lambda>conn.
     on_manager conn (\<lambda>M. chain_head_height M))"

definition prov_genesis_epoch :: "('a, 'c) prov_env \<Rightarrow> 'a subnet_id
    \<Rightarrow> (('a, 'c) client_world, int) io" where
  "prov_genesis_epoch V s =
     bind_io (parent_of s) (\<lambda>p.
     bind_io (connect V ''parent subnet config not found'' p) (\<lambda>conn.
     on_manager conn (\<lambda>M. genesis_epoch (pe_libs V) M s)))"

definition prov_get_validator_info :: "('a, 'c) prov_env \<Rightarrow> 'a subnet_id \<Rightarrow> 'a
    \<Rightarrow> (('a, 'c) client_world, validator_info) io" where
  "prov_get_validator_info V s v =
     bind_io (parent_of s) (\<lambda>p.
     bind_io (connect V ''target subnet parent not found'' p) (\<lambda>conn.
     on_manager conn (\<lambda>M. get_validator_info (pe_libs V) M s v)))"

definition prov_get_validator_changeset :: "('a, 'c) prov_env \<Rightarrow> 'a subnet_id \<Rightarrow> int
    \<Rightarrow> (('a, 'c) client_world, 'a staking_change_request list top_down_query_payload) io" where
  "prov_get_validator_changeset V s epoch =
     bind_io (parent_of s) (\<lambda>p.
     bind_io (connect V ''target subnet parent not found'' p) (\<lambda>conn.
     on_manager conn (\<lambda>M. get_validator_changeset (pe_libs V) (pe_eth V) M s epoch)))"

definition prov_get_genesis_info :: "('a, 'c) prov_env \<Rightarrow> 'a subnet_id
    \<Rightarrow> (('a, 'c) client_world, 'a subnet_genesis_info) io" where
  "prov_get_genesis_info V s =
     bind_io (parent_of s) (\<lambda>p.
     bind_io (connect V ''parent subnet config not found'' p) (\<lambda>conn.
     on_manager conn (\<lambda>M. get_genesis_info (pe_libs V) M s)))"

definition prov_get_top_down_msgs :: "('a, 'c) prov_env \<Rightarrow> 'a subnet_id \<Rightarrow> int \<Rightarrow> bytes
    \<Rightarrow> (('a, 'c) client_world, 'a cross_msg list) io" where
  "prov_get_top_down_msgs V s epoch bh =
     bind_io (parent_of s) (\<lambda>p.
     bind_io (connect V ''target parent subnet not found'' p) (\<lambda>conn.
     on_manager conn (\<lambda>M. get_top_down_msgs (pe_libs V) M s epoch bh)))"

definition prov_get_block_hash :: "('a, 'c) prov_env \<Rightarrow> 'a subnet_id \<Rightarrow> int
    \<Rightarrow> (('a, 'c) client_world, get_block_hash_result) io" where
  "prov_get_block_hash V s height =
     bind_io (connect V ''target subnet not found'' s) (\<lambda>conn.
     on_manager conn (\<lambda>M. get_block_hash M height))"

definition prov_get_chain_id :: "('a, 'c) prov_env \<Rightarrow> 'a subnet_id
    \<Rightarrow> (('a, 'c) client_world, string) io" where
  "prov_get_chain_id V s =
     bind_io (connect V ''target subnet not found'' s) (\<lambda>conn.
     on_manager conn (\<lambda>M. get_chain_id (pe_libs V) M))"

definition prov_get_chain_head_height :: "('a, 'c) prov_env \<Rightarrow> 'a subnet_id
    \<Rightarrow> (('a, 'c) client_world, int) io" where
  "prov_get_chain_head_height V s =
     bind_io (connect V ''target subnet not found'' s) (\<lambda>conn.
     on_manager conn (\<lambda>M. chain_head_height M))"

definition prov_get_bottom_up_bundle :: "('a, 'c) prov_env \<Rightarrow> 'a subnet_id \<Rightarrow> int
    \<Rightarrow> (('a, 'c) client_world, 'a bottom_up_checkpoint_bundle) io" where
  "prov_get_bottom_up_bundle V s height =
     bind_io (connect V ''target subnet not found'' s) (\<lambda>conn.
     on_manager conn (\<lambda>M. checkpoint_bundle_at (pe_libs V) M height))"

definition prov_has_submitted_in_last_checkpoint_height :: "('a, 'c) prov_env \<Rightarrow> 'a subnet_id \<Rightarrow> 'a
    \<Rightarrow> (('a, 'c) client_world, bool) io" where
  "prov_has_submitted_in_last_checkpoint_height V s addr =
     bind_io (parent_of s) (\<lambda>p.
     bind_io (connect V ''parent subnet not found'' p) (\<lambda>conn.
     on_manager conn (\<lambda>M. has_submitted_in_last_checkpoint_height (pe_libs V) M s addr)))"

definition prov_last_bottom_up_checkpoint_height :: "('a, 'c) prov_env \<Rightarrow> 'a subnet_id
    \<Rightarrow> (('a, 'c) client_world, int) io" where
  "prov_last_bottom_up_checkpoint_height V s =
     bind_io (parent_of s) (\<lambda>p.
     bind_io (connect V ''parent subnet not found'' p) (\<lambda>conn.
     on_manager conn (\<lambda>M. last_bottom_up_checkpoint_height (pe_libs V) M s)))"

definition prov_quorum_reached_events :: "('a, 'c) prov_env \<Rightarrow> 'a subnet_id \<Rightarrow> int
    \<Rightarrow> (('a, 'c) client_world, quorum_reached_event list) io" where
  "prov_quorum_reached_events V s height =
     bind_io (connect V ''target subnet not found'' s) (\<lambda>conn.
     on_manager conn (\<lambda>M. quorum_reached_events (pe_libs V) (pe_eth V) M height))"

definition prov_add_bootstrap :: "('a, 'c) prov_env \<Rightarrow> 'a subnet_id \<Rightarrow> 'a option \<Rightarrow> string
    \<Rightarrow> (('a, 'c) client_world, unit) io" where
  "prov_add_bootstrap V s from endpoint =
     bind_io (parent_of s) (\<lambda>p.
     bind_io (connect V ''target parent subnet not found'' p) (\<lambda>conn.
     bind_io (check_sender V (conn_subnet conn) from) (\<lambda>sndr.
       on_manager conn (\<lambda>M. add_bootstrap (pe_libs V) (pe_eth V) M s sndr endpoint))))"

definition prov_list_bootstrap_nodes :: "('a, 'c) prov_env \<Rightarrow> 'a subnet_id
    \<Rightarrow> (('a, 'c) client_world, string list) io" where
  "prov_list_bootstrap_nodes V s =
     bind_io (parent_of s) (\<lambda>p.
     bind_io (connect V ''target parent subnet not found'' p) (\<lambda>conn.
     on_manager conn (\<lambda>M. list_bootstrap_nodes (pe_libs V) M s)))"

definition prov_latest_parent_finality :: "('a, 'c) prov_env \<Rightarrow> 'a subnet_id
    \<Rightarrow> (('a, 'c) client_world, int) io" where
  "prov_latest_parent_finality V s =
     bind_io (connect V ''target subnet not found'' s) (\<lambda>conn.
     on_manager conn (\<lambda>M. latest_parent_finality M))"

section \<open>Keys\<close>

definition new_fvm_key :: "('a, 'c) prov_env \<Rightarrow> wallet_key_type \<Rightarrow> (('a, 'c) client_world, 'a) io" where
  "new_fvm_key V tp =
     bind_io (lift (case tp of KeyBLS \<Rightarrow> Ok SigBLS | KeySecp256k1 \<Rightarrow> Ok SigSecp256k1
                    | KeySecp256k1Ledger \<Rightarrow> Err ''ledger key type not supported'')) (\<lambda>ty.
       with_fvm_wallet (wallet_generate_addr (pe_libs V) (pe_ks V) (pe_sig V) ty))"

definition draw_key :: "('a, 'c) prov_env \<Rightarrow> (('a, 'c) client_world, bytes) io" where
  "draw_key V w = (Ok (pe_random_key V (draws (cw_ks w))), w\<lparr>cw_ks := (cw_ks w)\<lparr>draws := draws (cw_ks w) + 1\<rparr>\<rparr>)"

definition new_evm_key :: "('a, 'c) prov_env \<Rightarrow> (('a, 'c) client_world, eth_key_address) io" where
  "new_evm_key V =
     bind_io (draw_key V) (\<lambda>k.
       with_evm_wallet (pks_put (pe_libs V) (pe_keys V) (pe_json V) (key_info_new k)))"

definition import_fvm_key :: "('a, 'c) prov_env \<Rightarrow> string \<Rightarrow> (('a, 'c) client_world, 'a) io" where
  "import_fvm_key V keyinfo =
     with_fvm_wallet (
       bind_io (lift (pe_lotus_key V keyinfo)) (\<lambda>(ty, pk).
       bind_io (lift (wallet_key_type_from_str ty)) (\<lambda>kt.
       bind_io (lift (base64_decode (pe_ks V) pk)) (\<lambda>raw.
         map_err_io fvm_error_display
           (wallet_import (pe_libs V) (pe_ks V) (pe_sig V)
              \<lparr>key_type = (if kt = KeyBLS then SigBLS else SigSecp256k1), fvm_private_key = raw\<rparr>)))))"

definition import_evm_key_from_privkey :: "('a, 'c) prov_env \<Rightarrow> string \<Rightarrow> (('a, 'c) client_world, eth_key_address) io" where
  "import_evm_key_from_privkey V pk =
     with_evm_wallet (
       bind_io (lift (hex_decode (pe_libs V) (if \<not> starts_with pk ''0x'' then pk else drop 2 pk))) (\<lambda>raw.
         pks_put (pe_libs V) (pe_keys V) (pe_json V) (key_info_new raw)))"

definition import_evm_key_from_json :: "('a, 'c) prov_env \<Rightarrow> string \<Rightarrow> (('a, 'c) client_world, eth_key_address) io" where
  "import_evm_key_from_json V keyinfo =
     bind_io (lift (pe_evm_key V keyinfo)) (\<lambda>persisted.
       import_evm_key_from_privkey V (pki_private_key persisted))"

end
