(* ===== verification/Cli_Amount.thy ===== *)
theory Cli_Amount
  imports Complex_Main Prelude
begin

text \<open>
  The amounts of the command line: \<open>f64_to_token_amount\<close> of \<open>ipc/cli/src/commands/mod.rs\<close>, with the
  binary64 arithmetic it uses. A finite number is a sign, a significand below \<open>2 ^ 53\<close> and an exponent;
  multiplication rounds to the nearest number, ties to an even significand.
\<close>

section \<open>Binary64\<close>

datatype f64 = NaN | Inf bool | Fin bool nat int

fun f64_ok :: "f64 \<Rightarrow> bool" where
  "f64_ok (Fin s m e) \<longleftrightarrow> m < 2 ^ 53 \<and> - 1074 \<le> e \<and> e \<le> 971"
| "f64_ok _ \<longleftrightarrow> True"

fun bitlen :: "nat \<Rightarrow> nat" where
  "bitlen n = (if n = 0 then 0 else Suc (bitlen (n div 2)))"

declare bitlen.simps [simp del]

text \<open>The quotient by \<open>2 ^ k\<close> to the nearest, ties to even.\<close>

definition round_shift :: "nat \<Rightarrow> nat \<Rightarrow> nat" where
  "round_shift M k =
     (if k = 0 then M
      else let q = M div 2 ^ k; r = M mod 2 ^ k; half = 2 ^ (k - 1)
           in if half < r \<or> r = half \<and> odd q then q + 1 else q)"

definition round_f64 :: "bool \<Rightarrow> nat \<Rightarrow> int \<Rightarrow> f64" where
  "round_f64 s M e =
     (let k = nat (max (int (bitlen M) - 53) (- 1074 - e));
          q = round_shift M k;
          (m, e') = (if q = 2 ^ 53 then (2 ^ 52, e + int k + 1) else (q, e + int k))
      in if 971 < e' then Inf s else Fin s m e')"

fun f64_mul :: "f64 \<Rightarrow> f64 \<Rightarrow> f64" where
  "f64_mul (Fin s m e) (Fin s' m' e') = round_f64 (s \<noteq> s') (m * m') (e + e')"
| "f64_mul (Inf s) (Fin s' m' e') = (if m' = 0 then NaN else Inf (s \<noteq> s'))"
| "f64_mul (Fin s m e) (Inf s') = (if m = 0 then NaN else Inf (s \<noteq> s'))"
| "f64_mul (Inf s) (Inf s') = Inf (s \<noteq> s')"
| "f64_mul _ _ = NaN"

fun f64_trunc :: "f64 \<Rightarrow> f64" where
  "f64_trunc (Fin s m e) = (if 0 \<le> e then Fin s m e else Fin s (m div 2 ^ nat (- e)) 0)"
| "f64_trunc f = f"

text \<open>The cast \<open>as u128\<close> drops the fraction, saturates and maps NaN to 0.\<close>

fun f64_as_u128 :: "f64 \<Rightarrow> nat" where
  "f64_as_u128 NaN = 0"
| "f64_as_u128 (Inf s) = (if s then 0 else 2 ^ 128 - 1)"
| "f64_as_u128 (Fin s m e) =
     (if s then 0 else min (if 0 \<le> e then m * 2 ^ nat e else m div 2 ^ nat (- e)) (2 ^ 128 - 1))"

section \<open>Token amounts\<close>

definition FIL_AMOUNT_NANO_DIGITS :: nat where
  "FIL_AMOUNT_NANO_DIGITS = 9"

text \<open>\<open>10u64.pow(9) as f64\<close> is exact; \<open>TokenAmount::from_nano\<close> counts in units of \<open>10 ^ 9\<close> atto.\<close>

definition f64_to_token_amount :: "f64 \<Rightarrow> (string, int) res" where
  "f64_to_token_amount f =
     (let nano = f64_trunc (f64_mul f (Fin False (10 ^ FIL_AMOUNT_NANO_DIGITS) 0))
      in Ok (int (f64_as_u128 nano) * 10 ^ 9))"

section \<open>Properties\<close>

lemma bitlen_le: "M < 2 ^ n \<longleftrightarrow> bitlen M \<le> n"
proof (induction M arbitrary: n rule: bitlen.induct)
  case (1 M)
  show ?case
  proof (cases "M = 0")
    case False
    show ?thesis
    proof (cases n)
      case (Suc n')
      have "M < 2 ^ n \<longleftrightarrow> M div 2 < 2 ^ n'" using Suc by auto
      also have "\<dots> \<longleftrightarrow> bitlen (M div 2) \<le> n'" using 1 False by blast
      also have "\<dots> \<longleftrightarrow> bitlen M \<le> n" using False Suc by (subst (2) bitlen.simps) simp
      finally show ?thesis .
    qed (use False in \<open>simp add: bitlen.simps [of M]\<close>)
  qed (simp add: bitlen.simps)
qed

lemma round_shift_error:
  "\<bar>real (round_shift M k) * 2 ^ k - real M\<bar> \<le> (if k = 0 then 0 else 2 ^ (k - 1))"
proof (cases k)
  case (Suc j)
  define q r where "q = M div 2 ^ k" and "r = M mod 2 ^ k"
  have "M = q * 2 ^ k + r" unfolding q_def r_def by (rule div_mult_mod_eq [symmetric])
  then have M: "real M = real q * 2 ^ k + real r" by simp
  have "r < 2 ^ k" by (simp add: r_def)
  then have "real r < real (2 ^ k)" by (simp only: of_nat_less_iff)
  then have r: "real r \<le> 2 ^ k" by simp
  have c: "round_shift M k = (if 2 ^ j < r \<or> r = 2 ^ j \<and> odd q then q + 1 else q)"
    by (simp add: round_shift_def Suc Let_def q_def r_def)
  have k: "(2 :: real) ^ k = 2 * 2 ^ j" by (simp add: Suc)
  show ?thesis
  proof (cases "2 ^ j < r \<or> r = 2 ^ j \<and> odd q")
    case True
    then have "2 ^ j \<le> r" by auto
    then have "real (2 ^ j) \<le> real r" by (simp only: of_nat_le_iff)
    then have "2 ^ j \<le> real r" by simp
    moreover have "real (round_shift M k) * 2 ^ k - real M = 2 ^ k - real r"
      using True by (simp add: c M algebra_simps)
    ultimately show ?thesis using r k by (simp only: Suc) simp
  next
    case False
    then have "r \<le> 2 ^ j" by auto
    then have "real r \<le> real (2 ^ j)" by (simp only: of_nat_le_iff)
    then have "real r \<le> 2 ^ j" by simp
    moreover have "real (round_shift M k) * 2 ^ k - real M = - real r"
      using False by (simp add: c M)
    ultimately show ?thesis by (simp only: Suc) simp
  qed
qed (simp add: round_shift_def)

text \<open>The value of a finite number without its sign.\<close>

definition magnitude :: "nat \<Rightarrow> int \<Rightarrow> real" where
  "magnitude m e = real m * 2 powi e"

lemma magnitude_shift: "magnitude m (e + int k) = real m * 2 ^ k * 2 powi e"
  by (simp add: magnitude_def power_int_add algebra_simps)

lemma powi_bound:
  assumes "(2 :: real) ^ n * 2 powi e \<le> 2 ^ b"
  shows "int n + e \<le> int b"
proof (rule ccontr)
  assume "\<not> int n + e \<le> int b"
  then have "(2 :: real) powi int b < 2 powi (int n + e)" by (intro power_int_strict_increasing) auto
  with assms show False by (simp add: power_int_add)
qed

lemma round_f64_accurate:
  assumes e: "- 1074 \<le> e" "e \<le> 971" and small: "magnitude M e \<le> 2 ^ 127"
  obtains m e' where "round_f64 s M e = Fin s m e'" "\<bar>magnitude m e' - magnitude M e\<bar> \<le> magnitude M e / 2 ^ 53"
proof -
  define k where "k = bitlen M - 53"
  define q where "q = round_shift M k"
  have k: "nat (max (int (bitlen M) - 53) (- 1074 - e)) = k" using e by (simp add: k_def)
  have err: "\<bar>real q * 2 ^ k - real M\<bar> \<le> real M / 2 ^ 53 \<and> (k = 0 \<or> int k + e \<le> 75)"
  proof (cases "k = 0")
    case True
    then show ?thesis using round_shift_error [of M k] by (simp add: q_def)
  next
    case False
    then have "\<not> M < 2 ^ (52 + k)" by (simp add: bitlen_le k_def)
    then have "real (2 ^ (52 + k)) \<le> real M" by (simp only: of_nat_le_iff not_less)
    then have M: "2 ^ (52 + k) \<le> real M" by simp
    have "(2 :: real) ^ (k - 1) = 2 ^ (52 + k) / 2 ^ 53" using False by (cases k) (simp_all add: power_add)
    also have "\<dots> \<le> real M / 2 ^ 53" using M by (intro divide_right_mono) simp_all
    finally have 1: "(2 :: real) ^ (k - 1) \<le> real M / 2 ^ 53" .
    have "(2 :: real) ^ (52 + k) * 2 powi e \<le> magnitude M e"
      unfolding magnitude_def using M by (intro mult_right_mono) simp_all
    with small have "(2 :: real) ^ (52 + k) * 2 powi e \<le> 2 ^ 127" by linarith
    from powi_bound [OF this] have 2: "int k + e \<le> 75" by simp
    from False 1 2 round_shift_error [of M k] show ?thesis by (simp add: q_def)
  qed
  define m e' where "m = (if q = 2 ^ 53 then 2 ^ 52 else q)" and "e' = (if q = 2 ^ 53 then e + int k + 1 else e + int k)"
  have val: "magnitude m e' = real q * 2 ^ k * 2 powi e"
    using magnitude_shift [of "2 ^ 52" e "Suc k"] magnitude_shift [of q e k] by (simp add: m_def e'_def add.assoc algebra_simps)
  have "magnitude m e' - magnitude M e = (real q * 2 ^ k - real M) * 2 powi e"
    by (simp add: val magnitude_def [of M e] algebra_simps)
  then have "\<bar>magnitude m e' - magnitude M e\<bar> = \<bar>real q * 2 ^ k - real M\<bar> * 2 powi e" by (simp add: abs_mult)
  also have "\<dots> \<le> real M / 2 ^ 53 * 2 powi e" using err by (intro mult_right_mono) simp_all
  finally have acc: "\<bar>magnitude m e' - magnitude M e\<bar> \<le> magnitude M e / 2 ^ 53" by (simp add: magnitude_def)
  have "e' \<le> 971"
  proof (cases "k = 0")
    case True
    then have "M < 2 ^ 53" using bitlen_le [of M 53] by (simp add: k_def)
    moreover have "q = M" using True by (simp add: q_def round_shift_def)
    ultimately show ?thesis using True e by (simp add: e'_def)
  qed (use err in \<open>auto simp: e'_def\<close>)
  then have "round_f64 s M e = Fin s m e'"
    unfolding round_f64_def k Let_def q_def [symmetric] by (auto simp: m_def e'_def split: if_splits)
  with acc that show ?thesis by blast
qed

lemma trunc_floor:
  "int (f64_as_u128 (f64_trunc (Fin False m e))) = min \<lfloor>magnitude m e\<rfloor> (2 ^ 128 - 1)"
proof (cases "0 \<le> e")
  case True
  then have "magnitude m e = real (m * 2 ^ nat e)" by (simp add: magnitude_def power_int_def)
  then have "\<lfloor>magnitude m e\<rfloor> = int (m * 2 ^ nat e)" by (simp only: floor_of_nat)
  with True show ?thesis by (simp add: of_nat_min)
next
  case False
  then have "(2 :: real) powi e = inverse (2 ^ nat (- e))" by (simp add: power_int_def) (metis inverse_eq_divide power_inverse)
  then have "magnitude m e = real m / real (2 ^ nat (- e))" by (simp add: magnitude_def field_simps)
  then have "\<lfloor>magnitude m e\<rfloor> = int (m div 2 ^ nat (- e))" by (simp only: floor_divide_of_nat_eq)
  with False show ?thesis by (simp add: of_nat_min)
qed

lemma amount_accurate:
  assumes ok: "f64_ok (Fin False m e)" and small: "magnitude m e \<le> 2 ^ 90"
  obtains nano where "f64_to_token_amount (Fin False m e) = Ok (nano * 10 ^ 9)"
    "\<bar>real_of_int nano - magnitude m e * 10 ^ 9\<bar> \<le> 1 + magnitude m e * 10 ^ 9 / 2 ^ 53"
proof -
  define x where "x = magnitude (m * 10 ^ 9) e"
  have x: "x = magnitude m e * 10 ^ 9" by (simp add: x_def magnitude_def)
  have x0: "0 \<le> x" by (simp add: x_def magnitude_def)
  have "x \<le> 2 ^ 90 * 10 ^ 9" using small by (simp add: x)
  then have xs: "x \<le> 2 ^ 127" by simp
  obtain m' e' where r: "round_f64 False (m * 10 ^ 9) e = Fin False m' e'" "\<bar>magnitude m' e' - x\<bar> \<le> x / 2 ^ 53"
    using round_f64_accurate [of e "m * 10 ^ 9" False] ok xs by (auto simp: x_def)
  define y where "y = magnitude m' e'"
  have y: "x - x / 2 ^ 53 \<le> y" "y \<le> x + x / 2 ^ 53" using r(2) [folded y_def] by linarith+
  have "x / 2 ^ 53 \<le> 2 ^ 74" using xs by simp
  with y(2) xs have "y \<le> 2 ^ 127 + 2 ^ 74" by linarith
  then have "\<lfloor>y\<rfloor> \<le> 2 ^ 127 + 2 ^ 74" by (simp add: floor_le_iff)
  then have "\<lfloor>y\<rfloor> \<le> 2 ^ 128 - 1" by simp
  then have n: "f64_to_token_amount (Fin False m e) = Ok (\<lfloor>y\<rfloor> * 10 ^ 9)"
    using trunc_floor [of m' e'] r(1) by (simp add: f64_to_token_amount_def FIL_AMOUNT_NANO_DIGITS_def y_def)
  have "\<bar>real_of_int \<lfloor>y\<rfloor> - x\<bar> \<le> 1 + x / 2 ^ 53"
    using y floor_correct [of y] by (simp add: abs_le_iff) linarith
  with n that show ?thesis by (simp add: x)
qed

lemma round_f64_exact: "n < 2 ^ 53 \<Longrightarrow> - 1074 \<le> e \<Longrightarrow> e \<le> 971 \<Longrightarrow> round_f64 s n e = Fin s n e"
proof -
  assume "n < 2 ^ 53" and e: "- 1074 \<le> e" "e \<le> 971"
  then have "nat (max (int (bitlen n) - 53) (- 1074 - e)) = 0" using bitlen_le [of n 53] by simp
  then show ?thesis using e \<open>n < 2 ^ 53\<close> unfolding round_f64_def by (simp add: round_shift_def)
qed

text \<open>C19: An amount on the command line is turned into nano units with the relative error of one rounding of
  binary64, less the fraction: at most one unit and \<open>2 ^ -53\<close> of the amount. Amounts of whole tokens
  below nine million are exact; a negative amount and NaN become zero.\<close>

theorem cli_amount:
  "(f64_ok (Fin False m e) \<longrightarrow> magnitude m e \<le> 2 ^ 90 \<longrightarrow>
     (\<exists>nano. f64_to_token_amount (Fin False m e) = Ok (nano * 10 ^ 9)
        \<and> \<bar>real_of_int nano - magnitude m e * 10 ^ 9\<bar> \<le> 1 + magnitude m e * 10 ^ 9 / 2 ^ 53))
   \<and> (n < 9000000 \<longrightarrow> f64_to_token_amount (Fin False n 0) = Ok (int n * 10 ^ 18))
   \<and> f64_to_token_amount (Fin True m e) = Ok 0 \<and> f64_to_token_amount NaN = Ok 0"
proof (intro conjI impI)
  assume "f64_ok (Fin False m e)" "magnitude m e \<le> 2 ^ 90"
  then show "\<exists>nano. f64_to_token_amount (Fin False m e) = Ok (nano * 10 ^ 9)
        \<and> \<bar>real_of_int nano - magnitude m e * 10 ^ 9\<bar> \<le> 1 + magnitude m e * 10 ^ 9 / 2 ^ 53"
    by (rule amount_accurate) blast
next
  assume "n < 9000000"
  then show "f64_to_token_amount (Fin False n 0) = Ok (int n * 10 ^ 18)"
    by (simp add: f64_to_token_amount_def FIL_AMOUNT_NANO_DIGITS_def round_f64_exact)
next
  show "f64_to_token_amount (Fin True m e) = Ok 0"
    by (auto simp: f64_to_token_amount_def round_f64_def Let_def split: prod.splits if_splits)
qed (simp add: f64_to_token_amount_def)

text \<open>The amount 0.5 is half a token.\<close>

theorem cli_amount_witness:
  "(\<exists>nano. f64_to_token_amount (Fin False 1 (- 1)) = Ok (nano * 10 ^ 9)
      \<and> \<bar>real_of_int nano - magnitude 1 (- 1) * 10 ^ 9\<bar> \<le> 1 + magnitude 1 (- 1) * 10 ^ 9 / 2 ^ 53)
   \<and> f64_to_token_amount (Fin False 5 0) = Ok (int 5 * 10 ^ 18)"
  using cli_amount [of 1 "- 1" 5] by (simp add: magnitude_def)

end
