(* ===== verification/Cli.thy ===== *)
theory Cli
  imports Provider Cli_Amount
begin

text \<open>
  \<open>ipc/cli/src\<close>: the command line. A command is a process on the files, the networks and its output: it
  builds a client from the configuration, reads its arguments and calls one or two operations of the
  client. The arguments are those that the argument parser delivers; amounts are binary64 numbers.
  This theory holds the commands on subnets; \<open>Cli_Commands\<close> holds the others and the dispatch.
\<close>

section \<open>Environment and process\<close>

text \<open>What a handler prints on standard output, and the results it reports by a log line at level info.\<close>

datatype out_line = Println string | Info string

record 'c process =
  pr_ks :: ks_world
  pr_net :: "'c chain_world"
  pr_out :: "out_line list"

text \<open>A process with its client.\<close>

type_synonym ('a, 'c) session = "('a, 'c) client_world \<times> out_line list"

text \<open>The parameters: those of the client, the derived debug formats, the JSON text of keys, public keys
  and the address type of the f4 utility.\<close>

record ('a, 'c) cli_env =
  cl_prov :: "('a, 'c) prov_env"
  cl_debug_string :: "string \<Rightarrow> string"
  cl_debug_addr :: "'a \<Rightarrow> string"
  cl_debug_checkpoint :: "'a bottom_up_checkpoint \<Rightarrow> string"
  cl_debug_signatures :: "signature list \<Rightarrow> string"
  cl_debug_addrs :: "'a list \<Rightarrow> string"
  cl_debug_cross_msgs :: "'a cross_msg list \<Rightarrow> string"
  cl_debug_bundle :: "'a bottom_up_checkpoint_bundle \<Rightarrow> string"
  cl_debug_changes :: "'a staking_change_request list \<Rightarrow> string"
  cl_evm_key_json :: "persistent_key_info \<Rightarrow> (string, string) res"
  cl_lotus_key_json :: "string \<Rightarrow> string \<Rightarrow> (string, string) res"
  cl_secp_pubkey :: "bytes \<Rightarrow> (string, bytes) res"
  cl_f4_from_str :: "string \<Rightarrow> (string, 'a) res"

abbreviation cl_libs :: "('a, 'c) cli_env \<Rightarrow> 'a libs" where
  "cl_libs C \<equiv> pe_libs (cl_prov C)"

definition println :: "string \<Rightarrow> (('a, 'c) session, unit) io" where
  "println t = (\<lambda>(w, out). (Ok (), (w, out @ [Println t])))"

definition log_info :: "string \<Rightarrow> (('a, 'c) session, unit) io" where
  "log_info t = (\<lambda>(w, out). (Ok (), (w, out @ [Info t])))"

definition call :: "(('a, 'c) client_world, 'b) io \<Rightarrow> (('a, 'c) session, 'b) io" where
  "call m = (\<lambda>(w, out). case m w of (r, w') \<Rightarrow> (r, (w', out)))"

section \<open>lib.rs and commands/mod.rs\<close>

record global_arguments =
  ga_config_path :: "string option"

definition config_path :: "('a, 'c) cli_env \<Rightarrow> global_arguments \<Rightarrow> (string, string) res" where
  "config_path C g =
     (case ga_config_path g of Some p \<Rightarrow> Ok p | None \<Rightarrow> default_config_path (pe_HOME (cl_prov C)))"

definition global_config :: "('a, 'c) cli_env \<Rightarrow> global_arguments \<Rightarrow> fs \<Rightarrow> (string, 'a config) res" where
  "global_config C g f =
     and_then (config_path C g) (\<lambda>p. from_file (cl_libs C) (pe_toml (cl_prov C)) p f)"

definition get_ipc_provider :: "('a, 'c) cli_env \<Rightarrow> global_arguments \<Rightarrow> (ks_world, 'a ipc_provider) io" where
  "get_ipc_provider C g = bind_io (lift (config_path C g)) (new_from_config (cl_prov C))"

text \<open>A handler: build the client, then run the body with it.\<close>

definition with_provider :: "('a, 'c) cli_env \<Rightarrow> global_arguments \<Rightarrow> (('a, 'c) session, 'b) io \<Rightarrow> ('c process, 'b) io" where
  "with_provider C g body pr =
     (case get_ipc_provider C g (pr_ks pr) of
        (Ok p, k) \<Rightarrow>
          (case body (\<lparr>cw_prov = p, cw_ks = k, cw_net = pr_net pr\<rparr>, pr_out pr) of
             (r, (w, out)) \<Rightarrow> (r, \<lparr>pr_ks = cw_ks w, pr_net = cw_net w, pr_out = out\<rparr>))
      | (Err e, k) \<Rightarrow> (Err e, pr\<lparr>pr_ks := k\<rparr>)
      | (Panic m, k) \<Rightarrow> (Panic m, pr\<lparr>pr_ks := k\<rparr>))"

definition require_fil_addr_from_str :: "'a libs \<Rightarrow> string \<Rightarrow> (string, 'a) res" where
  "require_fil_addr_from_str L s =
     (case addr_from_str L s of
        Err _ \<Rightarrow> and_then (eth_from_str L s) (ethers_address_to_fil_address L)
      | r \<Rightarrow> r)"

definition get_subnet_config :: "('a, 'c) cli_env \<Rightarrow> string \<Rightarrow> 'a subnet_id \<Rightarrow> fs \<Rightarrow> (string, 'a subnet) res" where
  "get_subnet_config C p s f =
     and_then (from_file (cl_libs C) (pe_toml (cl_prov C)) p f) (\<lambda>config.
       ok_or (subnet_to_string (cl_libs C) s @ '' is not configured'') (map_of (subnets config) s))"

text \<open>Reading the arguments: a subnet, an optional address, an amount.\<close>

definition arg_subnet :: "('a, 'c) cli_env \<Rightarrow> string \<Rightarrow> (('a, 'c) session, 'a subnet_id) io" where
  "arg_subnet C s = lift (anyhow_sdk (subnet_from_str (cl_libs C) s))"

definition arg_addr :: "('a, 'c) cli_env \<Rightarrow> string option \<Rightarrow> (('a, 'c) session, 'a option) io" where
  "arg_addr C a =
     (case a of
        Some s \<Rightarrow> bind_io (lift (require_fil_addr_from_str (cl_libs C) s)) (\<lambda>x. ret (Some x))
      | None \<Rightarrow> ret None)"

definition arg_amount :: "f64 \<Rightarrow> (('a, 'c) session, int) io" where
  "arg_amount f = lift (f64_to_token_amount f)"

section \<open>commands/subnet\<close>

record add_bootstrap_args =
  ab_from :: "string option"
  ab_subnet :: string
  ab_endpoint :: string

definition handle_add_bootstrap :: "('a, 'c) cli_env \<Rightarrow> global_arguments \<Rightarrow> add_bootstrap_args \<Rightarrow> ('c process, unit) io" where
  "handle_add_bootstrap C g args = with_provider C g (
     bind_io (arg_subnet C (ab_subnet args)) (\<lambda>s.
     bind_io (arg_addr C (ab_from args)) (\<lambda>from.
       call (prov_add_bootstrap (cl_prov C) s from (ab_endpoint args)))))"

fun join_strings :: "string \<Rightarrow> string list \<Rightarrow> string" where
  "join_strings sep [] = []"
| "join_strings sep [x] = x"
| "join_strings sep (x # xs) = x @ sep @ join_strings sep xs"

definition handle_list_bootstraps :: "('a, 'c) cli_env \<Rightarrow> global_arguments \<Rightarrow> string \<Rightarrow> ('c process, unit) io" where
  "handle_list_bootstraps C g subnet_arg = with_provider C g (
     bind_io (arg_subnet C subnet_arg) (\<lambda>s.
     bind_io (call (prov_list_bootstrap_nodes (cl_prov C) s)) (\<lambda>nodes.
       println (join_strings '','' nodes))))"

definition DEFAULT_ACTIVE_VALIDATORS :: u16 where
  "DEFAULT_ACTIVE_VALIDATORS = 100"

record create_subnet_args =
  cs_from :: "string option"
  cs_parent :: string
  cs_min_validator_stake :: f64
  cs_min_validators :: u64
  cs_bottomup_check_period :: int
  cs_active_validators_limit :: "u16 option"
  cs_min_cross_msg_fee :: f64

definition create_subnet_cmd :: "('a, 'c) cli_env \<Rightarrow> create_subnet_args \<Rightarrow> (('a, 'c) session, string) io" where
  "create_subnet_cmd C args =
     bind_io (arg_subnet C (cs_parent args)) (\<lambda>par.
     bind_io (arg_addr C (cs_from args)) (\<lambda>from.
     bind_io (arg_amount (cs_min_validator_stake args)) (\<lambda>min_stake.
     bind_io (arg_amount (cs_min_cross_msg_fee args)) (\<lambda>fee.
     bind_io (call (prov_create_subnet (cl_prov C) from par (cs_min_validators args) min_stake
         (cs_bottomup_check_period args)
         (case cs_active_validators_limit args of Some l \<Rightarrow> l | None \<Rightarrow> DEFAULT_ACTIVE_VALIDATORS) fee)) (\<lambda>addr.
       ret (addr_to_string (cl_libs C) addr))))))"

definition handle_create :: "('a, 'c) cli_env \<Rightarrow> global_arguments \<Rightarrow> create_subnet_args \<Rightarrow> ('c process, unit) io" where
  "handle_create C g args = with_provider C g (
     bind_io (create_subnet_cmd C args) (\<lambda>addr.
       log_info (''created subnet actor with id: '' @ cs_parent args @ ''/'' @ addr)))"

definition handle_genesis_epoch :: "('a, 'c) cli_env \<Rightarrow> global_arguments \<Rightarrow> string \<Rightarrow> ('c process, unit) io" where
  "handle_genesis_epoch C g subnet_arg = with_provider C g (
     bind_io (arg_subnet C subnet_arg) (\<lambda>s.
     bind_io (call (prov_genesis_epoch (cl_prov C) s)) (\<lambda>ls.
       println (''genesis epoch: '' @ show_int ls))))"

record join_subnet_args =
  js_from :: "string option"
  js_subnet :: string
  js_collateral :: f64
  js_public_key :: string
  js_initial_balance :: "f64 option"

definition handle_join :: "('a, 'c) cli_env \<Rightarrow> global_arguments \<Rightarrow> join_subnet_args \<Rightarrow> ('c process, unit) io" where
  "handle_join C g args = with_provider C g (
     bind_io (arg_subnet C (js_subnet args)) (\<lambda>s.
     bind_io (arg_addr C (js_from args)) (\<lambda>from.
     bind_io (lift (hex_decode (cl_libs C) (js_public_key args))) (\<lambda>pk.
     bind_io (case js_initial_balance args of
         Some b \<Rightarrow> bind_io (arg_amount b) (\<lambda>balance. call (prov_pre_fund (cl_prov C) s from balance))
       | None \<Rightarrow> ret ()) (\<lambda>_.
     bind_io (arg_amount (js_collateral args)) (\<lambda>collateral.
     bind_io (call (prov_join_subnet (cl_prov C) s from collateral pk)) (\<lambda>epoch.
       println (''joined at epoch: '' @ show_int epoch))))))))"

record stake_subnet_args =
  ss_from :: "string option"
  ss_subnet :: string
  ss_collateral :: f64

definition handle_stake :: "('a, 'c) cli_env \<Rightarrow> global_arguments \<Rightarrow> stake_subnet_args \<Rightarrow> ('c process, unit) io" where
  "handle_stake C g args = with_provider C g (
     bind_io (arg_subnet C (ss_subnet args)) (\<lambda>s.
     bind_io (arg_addr C (ss_from args)) (\<lambda>from.
     bind_io (arg_amount (ss_collateral args)) (\<lambda>collateral.
       call (prov_stake (cl_prov C) s from collateral)))))"

definition handle_unstake :: "('a, 'c) cli_env \<Rightarrow> global_arguments \<Rightarrow> stake_subnet_args \<Rightarrow> ('c process, unit) io" where
  "handle_unstake C g args = with_provider C g (
     bind_io (arg_subnet C (ss_subnet args)) (\<lambda>s.
     bind_io (arg_addr C (ss_from args)) (\<lambda>from.
     bind_io (arg_amount (ss_collateral args)) (\<lambda>collateral.
       call (prov_unstake (cl_prov C) s from collateral)))))"

record subnet_from_args =
  sf_from :: "string option"
  sf_subnet :: string

definition handle_kill :: "('a, 'c) cli_env \<Rightarrow> global_arguments \<Rightarrow> subnet_from_args \<Rightarrow> ('c process, unit) io" where
  "handle_kill C g args = with_provider C g (
     bind_io (arg_subnet C (sf_subnet args)) (\<lambda>s.
     bind_io (arg_addr C (sf_from args)) (\<lambda>from.
       call (prov_kill_subnet (cl_prov C) s from))))"

definition handle_leave :: "('a, 'c) cli_env \<Rightarrow> global_arguments \<Rightarrow> subnet_from_args \<Rightarrow> ('c process, unit) io" where
  "handle_leave C g args = with_provider C g (
     bind_io (arg_subnet C (sf_subnet args)) (\<lambda>s.
     bind_io (arg_addr C (sf_from args)) (\<lambda>from.
       call (prov_leave_subnet (cl_prov C) s from))))"

record claim_args = subnet_from_args +
  cl_rewards :: bool

definition handle_claim :: "('a, 'c) cli_env \<Rightarrow> global_arguments \<Rightarrow> claim_args \<Rightarrow> ('c process, unit) io" where
  "handle_claim C g args = with_provider C g (
     bind_io (arg_subnet C (sf_subnet args)) (\<lambda>s.
     bind_io (arg_addr C (sf_from args)) (\<lambda>from.
       call (if \<not> cl_rewards args then prov_claim_collateral (cl_prov C) s from
             else prov_claim_relayer_reward (cl_prov C) s from))))"

fun debug_status :: "status \<Rightarrow> string" where
  "debug_status Active = ''Active''"
| "debug_status Inactive = ''Inactive''"
| "debug_status Killed = ''Killed''"

record list_subnets_args =
  lsa_gateway_address :: "string option"
  lsa_subnet :: string

definition handle_list_subnets :: "('a, 'c) cli_env \<Rightarrow> global_arguments \<Rightarrow> list_subnets_args \<Rightarrow> ('c process, unit) io" where
  "handle_list_subnets C g args = with_provider C g (
     bind_io (arg_subnet C (lsa_subnet args)) (\<lambda>s.
     bind_io (arg_addr C (lsa_gateway_address args)) (\<lambda>gw.
     bind_io (call (prov_list_child_subnets (cl_prov C) gw s)) (\<lambda>ls.
       for_io ls (\<lambda>(_, i). println (subnet_to_string (cl_libs C) (si_id i) @ '' - status: '' @ debug_status (si_status i)
         @ '', collateral: '' @ token_display (cl_libs C) (si_stake i) @ '' FIL, circ.supply: ''
         @ token_display (cl_libs C) (si_circ_supply i) @ '' FIL, genesis: '' @ show_int (si_genesis_epoch i)))))))"

definition handle_rpc :: "('a, 'c) cli_env \<Rightarrow> global_arguments \<Rightarrow> string \<Rightarrow> ('c process, unit) io" where
  "handle_rpc C g subnet_arg = with_provider C g (
     bind_io (arg_subnet C subnet_arg) (\<lambda>s.
     bind_io (call (connect (cl_prov C) ''target subnet not found'' s)) (\<lambda>conn.
     bind_io (println (''rpc: '' @ cl_debug_string C (rpc_http (conn_subnet conn)))) (\<lambda>_.
     bind_io (call (on_manager conn (get_chain_id (cl_libs C)))) (\<lambda>i.
       println (''chainID: '' @ cl_debug_string C i))))))"

definition handle_chain_id :: "('a, 'c) cli_env \<Rightarrow> global_arguments \<Rightarrow> string \<Rightarrow> ('c process, unit) io" where
  "handle_chain_id C g subnet_arg = with_provider C g (
     bind_io (arg_subnet C subnet_arg) (\<lambda>s.
     bind_io (call (connect (cl_prov C) ''target subnet not found'' s)) (\<lambda>conn.
     bind_io (call (on_manager conn (get_chain_id (cl_libs C)))) println)))"

record send_value_args =
  sv_from :: "string option"
  sv_to :: string
  sv_subnet :: string
  sv_amount :: f64

definition handle_send_value :: "('a, 'c) cli_env \<Rightarrow> global_arguments \<Rightarrow> send_value_args \<Rightarrow> ('c process, unit) io" where
  "handle_send_value C g args = with_provider C g (
     bind_io (arg_subnet C (sv_subnet args)) (\<lambda>s.
     bind_io (arg_addr C (sv_from args)) (\<lambda>from.
     bind_io (lift (require_fil_addr_from_str (cl_libs C) (sv_to args))) (\<lambda>to_addr.
     bind_io (arg_amount (sv_amount args)) (\<lambda>amount.
       call (prov_send_value (cl_prov C) s from to_addr amount))))))"

definition handle_validator_info :: "('a, 'c) cli_env \<Rightarrow> global_arguments \<Rightarrow> string \<Rightarrow> string \<Rightarrow> ('c process, unit) io" where
  "handle_validator_info C g subnet_arg validator_arg = with_provider C g (
     bind_io (arg_subnet C subnet_arg) (\<lambda>s.
     bind_io (lift (addr_from_str (cl_libs C) validator_arg)) (\<lambda>v.
     bind_io (call (prov_get_validator_info (cl_prov C) s v)) (\<lambda>i.
       println (show_validator_info (cl_libs C) i)))))"

datatype subnet_command =
    SubnetCreate create_subnet_args
  | SubnetList list_subnets_args
  | SubnetJoin join_subnet_args
  | SubnetRpc string
  | SubnetChainId string
  | SubnetLeave subnet_from_args
  | SubnetKill subnet_from_args
  | SubnetSendValue send_value_args
  | SubnetStake stake_subnet_args
  | SubnetUnstake stake_subnet_args
  | SubnetClaim claim_args
  | SubnetAddBootstrap add_bootstrap_args
  | SubnetListBootstraps string
  | SubnetGenesisEpoch string
  | SubnetGetValidator string string

fun handle_subnet :: "('a, 'c) cli_env \<Rightarrow> global_arguments \<Rightarrow> subnet_command \<Rightarrow> ('c process, unit) io" where
  "handle_subnet C g (SubnetCreate args) = handle_create C g args"
| "handle_subnet C g (SubnetList args) = handle_list_subnets C g args"
| "handle_subnet C g (SubnetJoin args) = handle_join C g args"
| "handle_subnet C g (SubnetRpc s) = handle_rpc C g s"
| "handle_subnet C g (SubnetChainId s) = handle_chain_id C g s"
| "handle_subnet C g (SubnetLeave args) = handle_leave C g args"
| "handle_subnet C g (SubnetKill args) = handle_kill C g args"
| "handle_subnet C g (SubnetSendValue args) = handle_send_value C g args"
| "handle_subnet C g (SubnetStake args) = handle_stake C g args"
| "handle_subnet C g (SubnetUnstake args) = handle_unstake C g args"
| "handle_subnet C g (SubnetClaim args) = handle_claim C g args"
| "handle_subnet C g (SubnetAddBootstrap args) = handle_add_bootstrap C g args"
| "handle_subnet C g (SubnetListBootstraps s) = handle_list_bootstraps C g s"
| "handle_subnet C g (SubnetGenesisEpoch s) = handle_genesis_epoch C g s"
| "handle_subnet C g (SubnetGetValidator s v) = handle_validator_info C g s v"

end
