(* ===== verification/Cli_Commands.thy ===== *)
theory Cli_Commands
  imports Cli
begin

text \<open>
  The remaining commands of \<open>ipc/cli/src/commands\<close> (wallets, cross-network messages, checkpoints,
  configuration, utilities) and the dispatch of the command line.
\<close>

section \<open>commands/wallet\<close>

text \<open>\<open>write_all\<close> on an open file reports every failure to write.\<close>

definition fs_write_all :: "path \<Rightarrow> string \<Rightarrow> (fs, unit) io" where
  "fs_write_all p s f =
     (case write_fault f p of
        None \<Rightarrow> fs_write p s f
      | Some (k, e) \<Rightarrow> (Err (case e of Some m \<Rightarrow> m | None \<Rightarrow> ''write error''), snd (fs_write p s f)))"

definition on_files :: "(ks_world, 'b) io \<Rightarrow> (('a, 'c) session, 'b) io" where
  "on_files m = (\<lambda>(w, out). case m (cw_ks w) of (r, k) \<Rightarrow> (r, (w\<lparr>cw_ks := k\<rparr>, out)))"

text \<open>A reader of the Ethereum key store, and an operation of the Filecoin wallet.\<close>

definition read_evm :: "(eth_key_address persistent_key_store \<Rightarrow> (string, 'b) res) \<Rightarrow> (('a, 'c) session, 'b) io" where
  "read_evm f = call (with_evm_wallet (\<lambda>(s, fs). (f s, (s, fs))))"

definition read_fvm :: "('a wallet \<Rightarrow> (fvm_error, 'b) res) \<Rightarrow> (('a, 'c) session, 'b) io" where
  "read_fvm f = call (with_fvm_wallet (\<lambda>(s, k). (map_err fvm_error_display (f s), (s, k))))"

record wallet_new_args =
  wn_key_type :: "string option"
  wn_wallet_type :: string

definition handle_wallet_new :: "('a, 'c) cli_env \<Rightarrow> global_arguments \<Rightarrow> wallet_new_args \<Rightarrow> ('c process, unit) io" where
  "handle_wallet_new C g args = with_provider C g (
     bind_io (lift (wallet_type_from_str (wn_wallet_type args))) (\<lambda>wt. case wt of
       Evm \<Rightarrow> bind_io (call (new_evm_key (cl_prov C))) (\<lambda>k.
                println (cl_debug_string C (eth_key_to_string (cl_libs C) k)))
     | Fvm \<Rightarrow> bind_io (lift (case wn_key_type args of Some t \<Rightarrow> Ok t | None \<Rightarrow> Panic ''fvm key type not specified'')) (\<lambda>t.
              bind_io (lift (wallet_key_type_from_str t)) (\<lambda>tp.
              bind_io (call (new_fvm_key (cl_prov C) tp)) (\<lambda>a. println (cl_debug_addr C a))))))"

record wallet_address_args =
  wa_address :: string
  wa_wallet_type :: string

definition handle_wallet_remove :: "('a, 'c) cli_env \<Rightarrow> global_arguments \<Rightarrow> wallet_address_args \<Rightarrow> ('c process, unit) io" where
  "handle_wallet_remove C g args = with_provider C g (
     bind_io (lift (wallet_type_from_str (wa_wallet_type args))) (\<lambda>wt. case wt of
       Evm \<Rightarrow> bind_io (read_evm (\<lambda>_. Ok ())) (\<lambda>_.
              bind_io (lift (eth_from_str (cl_libs C) (wa_address args))) (\<lambda>k.
                call (with_evm_wallet (pks_remove (cl_libs C) (pe_keys (cl_prov C)) (pe_json (cl_prov C)) k))))
     | Fvm \<Rightarrow> bind_io (read_fvm (\<lambda>_. Ok ())) (\<lambda>_.
              bind_io (lift (addr_from_str (cl_libs C) (wa_address args))) (\<lambda>a.
                call (with_fvm_wallet (wallet_remove (cl_libs C) (pe_ks (cl_prov C)) a))))))"

definition handle_wallet_set_default :: "('a, 'c) cli_env \<Rightarrow> global_arguments \<Rightarrow> wallet_address_args \<Rightarrow> ('c process, unit) io" where
  "handle_wallet_set_default C g args = with_provider C g (
     bind_io (lift (wallet_type_from_str (wa_wallet_type args))) (\<lambda>wt. case wt of
       Evm \<Rightarrow> bind_io (read_evm (\<lambda>_. Ok ())) (\<lambda>_.
              bind_io (lift (eth_from_str (cl_libs C) (wa_address args))) (\<lambda>k.
                call (with_evm_wallet (pks_set_default (cl_libs C) (pe_keys (cl_prov C)) (pe_json (cl_prov C)) k))))
     | Fvm \<Rightarrow> bind_io (read_fvm (\<lambda>_. Ok ())) (\<lambda>_.
              bind_io (lift (addr_from_str (cl_libs C) (wa_address args))) (\<lambda>a.
                call (with_fvm_wallet (wallet_set_default (cl_libs C) (pe_ks (cl_prov C)) a))))))"

definition handle_wallet_get_default :: "('a, 'c) cli_env \<Rightarrow> global_arguments \<Rightarrow> string \<Rightarrow> ('c process, unit) io" where
  "handle_wallet_get_default C g wallet_type_arg = with_provider C g (
     bind_io (lift (wallet_type_from_str wallet_type_arg)) (\<lambda>wt. case wt of
       Evm \<Rightarrow> bind_io (call (with_evm_wallet (pks_get_default (cl_libs C) (pe_keys (cl_prov C)) (pe_json (cl_prov C))))) (\<lambda>d.
                println (case d of None \<Rightarrow> ''No default account set''
                         | Some k \<Rightarrow> cl_debug_string C (eth_key_to_string (cl_libs C) k)))
     | Fvm \<Rightarrow> bind_io (read_fvm (wallet_get_default (pe_sig (cl_prov C)))) (\<lambda>a. println (cl_debug_addr C a))))"

record wallet_import_args =
  wi_wallet_type :: string
  wi_path :: "string option"
  wi_private_key :: "string option"

text \<open>The branch for an Ethereum key read from a file follows a test that has already excluded it.\<close>

definition handle_wallet_import :: "('a, 'c) cli_env \<Rightarrow> global_arguments \<Rightarrow> wallet_import_args \<Rightarrow> ('c process, unit) io" where
  "handle_wallet_import C g args = with_provider C g (
     bind_io (lift (wallet_type_from_str (wi_wallet_type args))) (\<lambda>wt.
     if wt = Evm then
       (case wi_private_key args of
          Some key \<Rightarrow> bind_io (call (import_evm_key_from_privkey (cl_prov C) key)) (\<lambda>k.
                        println (cl_debug_string C (eth_key_to_string (cl_libs C) k)))
        | None \<Rightarrow> bail ''no private key supported'')
     else
       bind_io (case wi_path args of
           Some p \<Rightarrow> on_files (read_fs (\<lambda>f. fs_read_to_string f (path_of_string p)))
         | None \<Rightarrow> bail ''stdin not supported yet'') (\<lambda>keyinfo.
       case wt of
         Fvm \<Rightarrow> bind_io (call (import_fvm_key (cl_prov C) keyinfo)) (\<lambda>a. println (cl_debug_addr C a))
       | Evm \<Rightarrow> bind_io (call (import_evm_key_from_json (cl_prov C) keyinfo)) (\<lambda>k.
                  println (cl_debug_string C (eth_key_to_string (cl_libs C) k))))))"

record wallet_export_args =
  we_address :: string
  we_output :: "string option"
  we_wallet_type :: string
  we_fendermint :: bool
  we_hex :: bool

definition evm_key_at :: "('a, 'c) cli_env \<Rightarrow> string \<Rightarrow> (('a, 'c) session, eth_key_address \<times> key_info) io" where
  "evm_key_at C addr_arg =
     bind_io (read_evm (\<lambda>_. Ok ())) (\<lambda>_.
     bind_io (lift (eth_from_str (cl_libs C) addr_arg)) (\<lambda>a.
     bind_io (read_evm (pks_get a)) (\<lambda>i.
     bind_io (lift (ok_or ''key does not exists'' i)) (\<lambda>ki. ret (a, ki)))))"

definition fvm_key_at :: "('a, 'c) cli_env \<Rightarrow> string \<Rightarrow> (('a, 'c) session, fvm_key_info) io" where
  "fvm_key_at C addr_arg =
     bind_io (read_fvm (\<lambda>_. Ok ())) (\<lambda>_.
     bind_io (lift (addr_from_str (cl_libs C) addr_arg)) (\<lambda>a.
       call (with_fvm_wallet (map_err_io fvm_error_display (wallet_export (cl_libs C) (pe_sig (cl_prov C)) a)))))"

definition export_evm :: "('a, 'c) cli_env \<Rightarrow> wallet_export_args \<Rightarrow> (('a, 'c) session, string) io" where
  "export_evm C args =
     bind_io (evm_key_at C (we_address args)) (\<lambda>(a, ki).
     lift (if we_hex args then Ok (hex_encode (cl_libs C) (private_key ki))
           else if we_fendermint args then Ok (base64_encode (pe_ks (cl_prov C)) (private_key ki))
           else cl_evm_key_json C \<lparr>pki_address = h160_debug (cl_libs C) a,
                                   pki_private_key = hex_encode (cl_libs C) (private_key ki)\<rparr>))"

definition export_fvm :: "('a, 'c) cli_env \<Rightarrow> wallet_export_args \<Rightarrow> (('a, 'c) session, string) io" where
  "export_fvm C args =
     bind_io (fvm_key_at C (we_address args)) (\<lambda>ki.
     lift (if we_hex args then Ok (hex_encode (cl_libs C) (fvm_private_key ki))
           else if we_fendermint args then Ok (base64_encode (pe_ks (cl_prov C)) (fvm_private_key ki))
           else and_then (wallet_key_type_of_sig (key_type ki)) (\<lambda>t.
                  cl_lotus_key_json C (wallet_key_type_as_ref t) (base64_encode (pe_ks (cl_prov C)) (fvm_private_key ki)))))"

text \<open>With an output file the mode is set to 0600 before the key is written.\<close>

definition handle_wallet_export :: "('a, 'c) cli_env \<Rightarrow> global_arguments \<Rightarrow> wallet_export_args \<Rightarrow> ('c process, unit) io" where
  "handle_wallet_export C g args = with_provider C g (
     bind_io (lift (wallet_type_from_str (we_wallet_type args))) (\<lambda>wt.
     bind_io (case wt of Evm \<Rightarrow> export_evm C args | Fvm \<Rightarrow> export_fvm C args) (\<lambda>v.
     case we_output args of
       Some p \<Rightarrow>
         bind_io (on_files (on_fs (fs_create (path_of_string p)))) (\<lambda>_.
         bind_io (on_files (set_user_perm (path_of_string p))) (\<lambda>_.
         bind_io (on_files (on_fs (fs_write_all (path_of_string p) v))) (\<lambda>_.
           println (''exported new wallet with address '' @ cl_debug_string C (we_address args)
             @ '' in file '' @ cl_debug_string C p))))
     | None \<Rightarrow> println v)))"

definition handle_wallet_pubkey :: "('a, 'c) cli_env \<Rightarrow> global_arguments \<Rightarrow> wallet_address_args \<Rightarrow> ('c process, unit) io" where
  "handle_wallet_pubkey C g args = with_provider C g (
     bind_io (lift (wallet_type_from_str (wa_wallet_type args))) (\<lambda>wt.
     bind_io (case wt of
         Evm \<Rightarrow> bind_io (evm_key_at C (wa_address args)) (\<lambda>(_, ki). ret (private_key ki))
       | Fvm \<Rightarrow> bind_io (fvm_key_at C (wa_address args)) (\<lambda>ki. ret (fvm_private_key ki))) (\<lambda>sk.
     bind_io (lift (cl_secp_pubkey C sk)) (\<lambda>pk.
       println (hex_encode (cl_libs C) pk)))))"

text \<open>
  The balances of all keys are queried, each on a clone of the client, and a failure of one does not
  stop the others; a panic does. The queries are taken in the order of the keys.
\<close>

fun balances_of :: "('k \<Rightarrow> (('a, 'c) client_world, int) io) \<Rightarrow> 'k list \<Rightarrow> (('a, 'c) client_world, (string, int \<times> 'k) res list) io" where
  "balances_of q [] w = (Ok [], w)"
| "balances_of q (k # ks) w =
     (case q k w of
        (Panic m, w1) \<Rightarrow> (Panic m, w1)
      | (r, w1) \<Rightarrow> (case balances_of q ks w1 of
            (Ok rs, w2) \<Rightarrow> (Ok (and_then r (\<lambda>b. Ok (b, k)) # rs), w2)
          | (Err e, w2) \<Rightarrow> (Err e, w2)
          | (Panic m, w2) \<Rightarrow> (Panic m, w2)))"

record wallet_balances_args =
  wb_subnet :: string
  wb_wallet_type :: string

text \<open>The message of a chain of contexts is that of the context added last.\<close>

definition handle_wallet_balances :: "('a, 'c) cli_env \<Rightarrow> global_arguments \<Rightarrow> wallet_balances_args \<Rightarrow> ('c process, unit) io" where
  "handle_wallet_balances C g args = with_provider C g (
     bind_io (lift (wallet_type_from_str (wb_wallet_type args))) (\<lambda>wt.
     bind_io (arg_subnet C (wb_subnet args)) (\<lambda>s. case wt of
       Evm \<Rightarrow>
         bind_io (read_evm pks_list) (\<lambda>addresses.
         bind_io (call (balances_of (\<lambda>k. bind_io (lift (ethers_address_to_fil_address (cl_libs C) k))
             (prov_wallet_balance (cl_prov C) s)) addresses)) (\<lambda>rs.
         bind_io (for_io rs (\<lambda>r. case r of
             Ok (balance, k) \<Rightarrow>
               if eth_key_to_string (cl_libs C) k \<noteq> ''default-key''
               then println (eth_key_to_string (cl_libs C) k @ '' - Balance: '' @ token_display (cl_libs C) balance)
               else ret ()
           | _ \<Rightarrow> ret ())) (\<lambda>_.
         let errors = List.map_filter (\<lambda>r. case r of Err e \<Rightarrow> Some e | _ \<Rightarrow> None) rs
         in if errors \<noteq> [] then bail (last errors) else ret ())))
     | Fvm \<Rightarrow>
         bind_io (read_fvm (wallet_list_addrs (cl_libs C))) (\<lambda>addresses.
         bind_io (call (balances_of (prov_wallet_balance (cl_prov C) s) addresses)) (\<lambda>rs.
         bind_io (lift (traverse id rs)) (\<lambda>bs.
           for_io bs (\<lambda>(balance, a). println (cl_debug_addr C a @ '' - Balance: '' @ token_display (cl_libs C) balance))))))))"

datatype wallet_command =
    WalletNew wallet_new_args
  | WalletBalances wallet_balances_args
  | WalletImport wallet_import_args
  | WalletExport wallet_export_args
  | WalletRemove wallet_address_args
  | WalletSetDefault wallet_address_args
  | WalletGetDefault string
  | WalletPubKey wallet_address_args

fun handle_wallet :: "('a, 'c) cli_env \<Rightarrow> global_arguments \<Rightarrow> wallet_command \<Rightarrow> ('c process, unit) io" where
  "handle_wallet C g (WalletNew args) = handle_wallet_new C g args"
| "handle_wallet C g (WalletBalances args) = handle_wallet_balances C g args"
| "handle_wallet C g (WalletImport args) = handle_wallet_import C g args"
| "handle_wallet C g (WalletExport args) = handle_wallet_export C g args"
| "handle_wallet C g (WalletRemove args) = handle_wallet_remove C g args"
| "handle_wallet C g (WalletSetDefault args) = handle_wallet_set_default C g args"
| "handle_wallet C g (WalletGetDefault t) = handle_wallet_get_default C g t"
| "handle_wallet C g (WalletPubKey args) = handle_wallet_pubkey C g args"

section \<open>commands/config\<close>

definition quoted :: "string \<Rightarrow> string" where
  "quoted s = CHR 0x22 # s @ [CHR 0x22]"

definition bracketed :: "string \<Rightarrow> string" where
  "bracketed s = CHR 0x5B # s @ [CHR 0x5D]"

text \<open>The lines of the template, separated by newlines.\<close>

definition DEFAULT_CONFIG_TEMPLATE :: string where
  "DEFAULT_CONFIG_TEMPLATE = join_strings [CHR 0x0A]
     [[],
      ''keystore_path = '' @ quoted ''~/.ipc'',
      [],
      ''# Filecoin Calibration'',
      bracketed ''[subnets]'',
      ''id = '' @ quoted ''/r314159'',
      [],
      ''[subnets.config]'',
      ''network_type = '' @ quoted ''fevm'',
      ''provider_http = '' @ quoted ''https://api.calibration.node.glif.io/rpc/v1'',
      ''gateway_addr = '' @ quoted ''0x0341fA160C66aBB112195192aE359a6D61df45cd'',
      ''registry_addr = '' @ quoted ''0xc7068Cea947035560128a6a6F4c8913523A5A44C'',
      [],
      ''# Mycelium Calibration'',
      bracketed ''[subnets]'',
      ''id = '' @ quoted ''/r314159/t410fnotsxwgnxcjp5phjmgp6n3lnhxvrf3pncnm3oxq'',
      [],
      ''[subnets.config]'',
      ''network_type = '' @ quoted ''fevm'',
      ''provider_http = '' @ quoted ''https://api.mycelium.calibration.node.glif.io/'',
      ''gateway_addr = '' @ quoted ''0x77aa40b105843728088c0132e43fc44348881da8'',
      ''registry_addr = '' @ quoted ''0x74539671a1d2f1c8f200826baba665179f53a1b7'',
      [],
      ''# Subnet template - uncomment and adjust before using'',
      ''# '' @ bracketed ''[subnets]'',
      ''# id = '' @ quoted ''/r314159/<SUBNET_ID>'',
      [],
      ''# [subnets.config]'',
      ''# network_type = '' @ quoted ''fevm'',
      ''# provider_http = '' @ quoted ''https://<RPC_ADDR>/'',
      ''# gateway_addr = '' @ quoted ''0x77aa40b105843728088c0132e43fc44348881da8'',
      ''# registry_addr = '' @ quoted ''0x74539671a1d2f1c8f200826baba665179f53a1b7'',
      []]"

definition on_process_files :: "(ks_world, 'b) io \<Rightarrow> ('c process, 'b) io" where
  "on_process_files m pr = (case m (pr_ks pr) of (r, k) \<Rightarrow> (r, pr\<lparr>pr_ks := k\<rparr>))"

definition on_process_net :: "('c chain_world, 'b) io \<Rightarrow> ('c process, 'b) io" where
  "on_process_net m pr = (case m (pr_net pr) of (r, n) \<Rightarrow> (r, pr\<lparr>pr_net := n\<rparr>))"

definition process_out :: "out_line \<Rightarrow> ('c process, unit) io" where
  "process_out l pr = (Ok (), pr\<lparr>pr_out := pr_out pr @ [l]\<rparr>)"

definition handle_config_init :: "('a, 'c) cli_env \<Rightarrow> global_arguments \<Rightarrow> ('c process, unit) io" where
  "handle_config_init C g =
     bind_io (lift (config_path C g)) (\<lambda>p.
     bind_io (case path_parent (path_of_string p) of
         Some d \<Rightarrow> on_process_files (on_fs (fs_create_dir_all d))
       | None \<Rightarrow> ret ()) (\<lambda>_.
     bind_io (on_process_files (on_fs (fs_create (path_of_string p)))) (\<lambda>_.
     bind_io (on_process_files (on_fs (fs_write_all (path_of_string p) DEFAULT_CONFIG_TEMPLATE))) (\<lambda>_.
       process_out (Info (''Empty config populated successful in '' @ p))))))"

section \<open>commands/util\<close>

definition handle_eth_to_f4 :: "('a, 'c) cli_env \<Rightarrow> string \<Rightarrow> ('c process, unit) io" where
  "handle_eth_to_f4 C addr_arg =
     bind_io (lift (cl_f4_from_str C addr_arg)) (\<lambda>a.
       process_out (Info (''f4 address: '' @ addr_to_string (cl_libs C) a)))"

section \<open>commands/crossmsg\<close>

record fund_args =
  fa_gateway_address :: "string option"
  fa_from :: "string option"
  fa_to :: "string option"
  fa_subnet :: string
  fa_amount :: f64

text \<open>The gateway of \<open>fund\<close> is read as a Filecoin address only; that of \<open>release\<close> may be an Ethereum one.\<close>

definition handle_fund :: "('a, 'c) cli_env \<Rightarrow> global_arguments \<Rightarrow> fund_args \<Rightarrow> ('c process, unit) io" where
  "handle_fund C g args = with_provider C g (
     bind_io (arg_subnet C (fa_subnet args)) (\<lambda>s.
     bind_io (arg_addr C (fa_from args)) (\<lambda>from.
     bind_io (arg_addr C (fa_to args)) (\<lambda>to_addr.
     bind_io (case fa_gateway_address args of
         Some a \<Rightarrow> bind_io (lift (addr_from_str (cl_libs C) a)) (\<lambda>x. ret (Some x))
       | None \<Rightarrow> ret None) (\<lambda>gw.
     bind_io (arg_amount (fa_amount args)) (\<lambda>amount.
     bind_io (call (prov_fund (cl_prov C) s gw from to_addr amount)) (\<lambda>epoch.
       println (''fund performed in epoch: '' @ show_int epoch))))))))"

record pre_fund_args =
  pf_from :: "string option"
  pf_subnet :: string
  pf_amount :: f64

definition handle_pre_fund :: "('a, 'c) cli_env \<Rightarrow> global_arguments \<Rightarrow> pre_fund_args \<Rightarrow> ('c process, unit) io" where
  "handle_pre_fund C g args = with_provider C g (
     bind_io (arg_subnet C (pf_subnet args)) (\<lambda>s.
     bind_io (arg_addr C (pf_from args)) (\<lambda>from.
     bind_io (arg_amount (pf_amount args)) (\<lambda>amount.
     bind_io (call (prov_pre_fund (cl_prov C) s from amount)) (\<lambda>_.
       log_info ''address pre-funded successfully'')))))"

definition handle_pre_release :: "('a, 'c) cli_env \<Rightarrow> global_arguments \<Rightarrow> pre_fund_args \<Rightarrow> ('c process, unit) io" where
  "handle_pre_release C g args = with_provider C g (
     bind_io (arg_subnet C (pf_subnet args)) (\<lambda>s.
     bind_io (arg_addr C (pf_from args)) (\<lambda>from.
     bind_io (arg_amount (pf_amount args)) (\<lambda>amount.
     bind_io (call (prov_pre_release (cl_prov C) s from amount)) (\<lambda>_.
       log_info ''address pre-release successfully'')))))"

record release_args = fund_args +
  ra_fee :: "f64 option"

definition handle_release :: "('a, 'c) cli_env \<Rightarrow> global_arguments \<Rightarrow> release_args \<Rightarrow> ('c process, unit) io" where
  "handle_release C g args = with_provider C g (
     bind_io (arg_subnet C (fa_subnet args)) (\<lambda>s.
     bind_io (arg_addr C (fa_from args)) (\<lambda>from.
     bind_io (arg_addr C (fa_to args)) (\<lambda>to_addr.
     bind_io (arg_addr C (fa_gateway_address args)) (\<lambda>gw.
     bind_io (case ra_fee args of
         Some f \<Rightarrow> bind_io (arg_amount f) (\<lambda>x. ret (Some x))
       | None \<Rightarrow> ret None) (\<lambda>fee.
     bind_io (arg_amount (fa_amount args)) (\<lambda>amount.
     bind_io (call (prov_release (cl_prov C) s gw from to_addr amount fee)) (\<lambda>epoch.
       println (''release performed in epoch: '' @ show_int epoch)))))))))"

definition handle_propagate :: "('c process, unit) io" where
  "handle_propagate = lift (Panic ''not yet implemented'')"

record list_topdown_msgs_args =
  lt_subnet :: string
  lt_epoch :: int
  lt_block_hash :: "string option"

definition topdown_line :: "'a libs \<Rightarrow> 'a cross_msg \<Rightarrow> (string, string) res" where
  "topdown_line L m =
     and_then (anyhow_sdk (ipc_to_string L (msg_from (msg m)))) (\<lambda>f.
     and_then (anyhow_sdk (ipc_to_string L (msg_to (msg m)))) (\<lambda>t.
       Ok (''from: '' @ f @ '', to: '' @ t @ '', value: '' @ token_display L (msg_value (msg m)) @ '', nonce: ''
         @ show_u64 (msg_nonce (msg m)) @ '', fee: '' @ token_display L (msg_fee (msg m)) @ '' '')))"

definition handle_list_topdown_msgs :: "('a, 'c) cli_env \<Rightarrow> global_arguments \<Rightarrow> list_topdown_msgs_args \<Rightarrow> ('c process, unit) io" where
  "handle_list_topdown_msgs C g args = with_provider C g (
     bind_io (arg_subnet C (lt_subnet args)) (\<lambda>s.
     bind_io (case lt_block_hash args of
         Some h \<Rightarrow> lift (hex_decode (cl_libs C) h)
       | None \<Rightarrow>
           bind_io (lift (ok_or ''subnet has not parent'' (parent s))) (\<lambda>p.
           bind_io (call (prov_get_chain_head_height (cl_prov C) p)) (\<lambda>epoch.
           bind_io (call (prov_get_block_hash (cl_prov C) p epoch)) (\<lambda>h. ret (gb_block_hash h))))) (\<lambda>hash.
     bind_io (call (prov_get_top_down_msgs (cl_prov C) s (lt_epoch args) hash)) (\<lambda>msgs.
       for_io msgs (\<lambda>m. bind_io (lift (topdown_line (cl_libs C) m)) println)))))"

definition handle_parent_finality :: "('a, 'c) cli_env \<Rightarrow> global_arguments \<Rightarrow> string \<Rightarrow> ('c process, unit) io" where
  "handle_parent_finality C g subnet_arg = with_provider C g (
     bind_io (arg_subnet C subnet_arg) (\<lambda>s.
     bind_io (call (prov_latest_parent_finality (cl_prov C) s)) (\<lambda>h. println (show_int h))))"

datatype crossmsg_command =
    CrossFund fund_args
  | CrossPreFund pre_fund_args
  | CrossRelease release_args
  | CrossPreRelease pre_fund_args
  | CrossPropagate
  | CrossListTopdownMsgs list_topdown_msgs_args
  | CrossParentFinality string

fun handle_crossmsg :: "('a, 'c) cli_env \<Rightarrow> global_arguments \<Rightarrow> crossmsg_command \<Rightarrow> ('c process, unit) io" where
  "handle_crossmsg C g (CrossFund args) = handle_fund C g args"
| "handle_crossmsg C g (CrossPreFund args) = handle_pre_fund C g args"
| "handle_crossmsg C g (CrossRelease args) = handle_release C g args"
| "handle_crossmsg C g (CrossPreRelease args) = handle_pre_release C g args"
| "handle_crossmsg C g CrossPropagate = handle_propagate"
| "handle_crossmsg C g (CrossListTopdownMsgs args) = handle_list_topdown_msgs C g args"
| "handle_crossmsg C g (CrossParentFinality s) = handle_parent_finality C g s"

section \<open>commands/checkpoint\<close>

record epoch_range_args =
  er_subnet :: string
  er_from_epoch :: int
  er_to_epoch :: int

definition handle_bottomup_bundles :: "('a, 'c) cli_env \<Rightarrow> global_arguments \<Rightarrow> epoch_range_args \<Rightarrow> ('c process, unit) io" where
  "handle_bottomup_bundles C g args = with_provider C g (
     bind_io (arg_subnet C (er_subnet args)) (\<lambda>s.
     for_io [er_from_epoch args..er_to_epoch args] (\<lambda>h.
       bind_io (call (prov_get_bottom_up_bundle (cl_prov C) s h)) (\<lambda>b.
       bind_io (println (''checkpoint: '' @ cl_debug_checkpoint C (checkpoint b) @ '', signatures: ''
         @ cl_debug_signatures C (signatures b) @ '', signatories: '' @ cl_debug_addrs C (signatories b)
         @ '', cross_msgs: '' @ cl_debug_cross_msgs C (cross_msg_list b))) (\<lambda>_.
         println (cl_debug_bundle C b))))))"

definition handle_bottomup_height :: "('a, 'c) cli_env \<Rightarrow> global_arguments \<Rightarrow> string \<Rightarrow> ('c process, unit) io" where
  "handle_bottomup_height C g subnet_arg = with_provider C g (
     bind_io (arg_subnet C subnet_arg) (\<lambda>s.
     bind_io (call (prov_last_bottom_up_checkpoint_height (cl_prov C) s)) (\<lambda>h.
       println (''height: '' @ show_int h))))"

definition handle_bottomup_submitted :: "('a, 'c) cli_env \<Rightarrow> global_arguments \<Rightarrow> string \<Rightarrow> string \<Rightarrow> ('c process, unit) io" where
  "handle_bottomup_submitted C g subnet_arg submitter_arg = with_provider C g (
     bind_io (arg_subnet C subnet_arg) (\<lambda>s.
     bind_io (lift (addr_from_str (cl_libs C) submitter_arg)) (\<lambda>a.
     bind_io (call (prov_has_submitted_in_last_checkpoint_height (cl_prov C) s a)) (\<lambda>b.
       println (''has submitted: '' @ show_bool b)))))"

definition handle_list_checkpoints :: "('c process, unit) io" where
  "handle_list_checkpoints = lift (Panic ''not yet implemented'')"

definition handle_list_validator_changes :: "('a, 'c) cli_env \<Rightarrow> global_arguments \<Rightarrow> epoch_range_args \<Rightarrow> ('c process, unit) io" where
  "handle_list_validator_changes C g args = with_provider C g (
     bind_io (arg_subnet C (er_subnet args)) (\<lambda>s.
     for_io [er_from_epoch args..er_to_epoch args] (\<lambda>h.
       bind_io (call (prov_get_validator_changeset (cl_prov C) s h)) (\<lambda>changes.
         log_info (''changes at height: '' @ show_int h @ '' are: '' @ cl_debug_changes C (td_value changes))))))"

definition handle_quorum_reached :: "('a, 'c) cli_env \<Rightarrow> global_arguments \<Rightarrow> epoch_range_args \<Rightarrow> ('c process, unit) io" where
  "handle_quorum_reached C g args = with_provider C g (
     bind_io (arg_subnet C (er_subnet args)) (\<lambda>s.
     for_io [er_from_epoch args..er_to_epoch args] (\<lambda>h.
       bind_io (call (prov_quorum_reached_events (cl_prov C) s h)) (\<lambda>events.
         for_io events (\<lambda>e. println (show_quorum_reached_event (cl_libs C) e))))))"

definition DEFAULT_POLLING_INTERVAL :: u64 where
  "DEFAULT_POLLING_INTERVAL = 15"

record relayer_args =
  rla_subnet :: string
  rla_checkpoint_interval_sec :: "u64 option"
  rla_finalization_blocks :: "u64 option"
  rla_submitter :: "string option"

definition relayer_submitter :: "('a, 'c) cli_env \<Rightarrow> string option \<Rightarrow> eth_key_address option \<Rightarrow> (string, 'a) res" where
  "relayer_submitter C arg dflt =
     (case (arg, dflt) of
        (Some s, _) \<Rightarrow> require_fil_addr_from_str (cl_libs C) s
      | (None, Some k) \<Rightarrow> eth_key_to_fil (cl_libs C) k
      | _ \<Rightarrow> Err ''no submitter address provided'')"

text \<open>
  What the handler of the relayer does before the loop: the manager, the submitter and the interval
  in seconds. The key store is opened from the configuration and its default key is looked up even
  when a submitter is given.
\<close>

definition relayer_setup :: "('a, 'c) cli_env \<Rightarrow> global_arguments \<Rightarrow> relayer_args
    \<Rightarrow> ('c process, ('c chain_world, 'a) checkpoint_manager \<times> 'a \<times> u64) io" where
  "relayer_setup C g args =
     bind_io (lift (config_path C g)) (\<lambda>p.
     bind_io (on_process_files (read_fs (from_file (cl_libs C) (pe_toml (cl_prov C)) p))) (\<lambda>config.
     bind_io (on_process_files (read_fs (new_evm_keystore_from_config (cl_prov C) config))) (\<lambda>ks0.
     bind_io (on_process_files (on_fs (\<lambda>f.
         case pks_get_default (cl_libs C) (pe_keys (cl_prov C)) (pe_json (cl_prov C)) (ks0, f) of
           (r, (s, f')) \<Rightarrow> (and_then r (\<lambda>d. Ok (d, s)), f')))) (\<lambda>(dflt, ks).
     bind_io (lift (relayer_submitter C (rla_submitter args) dflt)) (\<lambda>submitter.
     bind_io (lift (anyhow_sdk (subnet_from_str (cl_libs C) (rla_subnet args)))) (\<lambda>s.
     bind_io (lift (ok_or ''root does not have parent'' (parent s))) (\<lambda>par.
     bind_io (on_process_files (read_fs (get_subnet_config C p s))) (\<lambda>child.
     bind_io (on_process_files (read_fs (get_subnet_config C p par))) (\<lambda>parent_sn.
     bind_io (on_process_net (new_evm_manager (cl_libs C) (pe_eth (cl_prov C)) (pe_connect (cl_prov C)) parent_sn child ks)) (\<lambda>cm.
       ret (case rla_finalization_blocks args of Some v \<Rightarrow> with_finalization_blocks (sint v) cm | None \<Rightarrow> cm,
            submitter,
            case rla_checkpoint_interval_sec args of Some i \<Rightarrow> i | None \<Rightarrow> DEFAULT_POLLING_INTERVAL)))))))))))"

datatype checkpoint_command =
    CheckpointListBottomup
  | CheckpointRelayer relayer_args
  | CheckpointListValidatorChanges epoch_range_args
  | CheckpointListBottomupBundle epoch_range_args
  | CheckpointQuorumReachedEvents epoch_range_args
  | CheckpointLastHeight string
  | CheckpointHasSubmitted string string

text \<open>The commands that return; the relayer runs until it is stopped and has no entry.\<close>

fun handle_checkpoint :: "('a, 'c) cli_env \<Rightarrow> global_arguments \<Rightarrow> checkpoint_command \<Rightarrow> ('c process, unit) io option" where
  "handle_checkpoint C g CheckpointListBottomup = Some handle_list_checkpoints"
| "handle_checkpoint C g (CheckpointRelayer args) = None"
| "handle_checkpoint C g (CheckpointListValidatorChanges args) = Some (handle_list_validator_changes C g args)"
| "handle_checkpoint C g (CheckpointListBottomupBundle args) = Some (handle_bottomup_bundles C g args)"
| "handle_checkpoint C g (CheckpointQuorumReachedEvents args) = Some (handle_quorum_reached C g args)"
| "handle_checkpoint C g (CheckpointLastHeight s) = Some (handle_bottomup_height C g s)"
| "handle_checkpoint C g (CheckpointHasSubmitted s a) = Some (handle_bottomup_submitted C g s a)"

section \<open>Dispatch\<close>

datatype command =
    ConfigInit
  | Subnet subnet_command
  | Wallet wallet_command
  | CrossMsg crossmsg_command
  | Checkpoint checkpoint_command
  | UtilEthToF4Addr string

fun handle_command :: "('a, 'c) cli_env \<Rightarrow> global_arguments \<Rightarrow> command \<Rightarrow> ('c process, unit) io option" where
  "handle_command C g ConfigInit = Some (handle_config_init C g)"
| "handle_command C g (Subnet c) = Some (handle_subnet C g c)"
| "handle_command C g (Wallet c) = Some (handle_wallet C g c)"
| "handle_command C g (CrossMsg c) = Some (handle_crossmsg C g c)"
| "handle_command C g (Checkpoint c) = handle_checkpoint C g c"
| "handle_command C g (UtilEthToF4Addr a) = Some (handle_eth_to_f4 C a)"

text \<open>
  The process of one invocation, with a command or none: what it has done when it has returned, and what the
  relayer has done while it runs (no result yet) or up to a round that panics. Errors are reported in the context of the
  command; \<open>fmt\<close> is its derived debug format.
\<close>

inductive cli :: "(command option \<Rightarrow> string) \<Rightarrow> ('a, 'c) cli_env \<Rightarrow> global_arguments \<Rightarrow> command option
    \<Rightarrow> 'c process \<Rightarrow> (string, unit) res option \<Rightarrow> 'c process \<Rightarrow> bool"
  for fmt C g where
  cli_none: "cli fmt C g None pr (Some (Ok ())) pr"
| cli_returns: "handle_command C g c = Some h \<Longrightarrow> h pr = (r, pr') \<Longrightarrow>
    cli fmt C g (Some c) pr (Some (map_err (\<lambda>_. ''error processing command '' @ fmt (Some c)) r)) pr'"
| cli_relayer_fails: "c = Checkpoint (CheckpointRelayer args) \<Longrightarrow> relayer_setup C g args pr = (r, pr') \<Longrightarrow> \<not> is_ok r \<Longrightarrow>
    cli fmt C g (Some c) pr (Some (map_err (\<lambda>_. ''error processing command '' @ fmt (Some c)) (and_then r (\<lambda>_. Ok ())))) pr'"
| cli_relayer_runs: "c = Checkpoint (CheckpointRelayer args) \<Longrightarrow> relayer_setup C g args pr = (Ok (cm, submitter, interval), pr') \<Longrightarrow>
    relayer_run cm submitter (pr_net pr') net \<Longrightarrow>
    cli fmt C g (Some c) pr None (pr'\<lparr>pr_net := net\<rparr>)"
| cli_relayer_panics: "c = Checkpoint (CheckpointRelayer args) \<Longrightarrow> relayer_setup C g args pr = (Ok (cm, submitter, interval), pr') \<Longrightarrow>
    relayer_run cm submitter (pr_net pr') net \<Longrightarrow> cm_submit_checkpoint cm submitter net = (Panic m, net') \<Longrightarrow>
    cli fmt C g (Some c) pr (Some (Panic m)) (pr'\<lparr>pr_net := net'\<rparr>)"


end
