(* ===== verification/Eth_Relay.thy ===== *)
theory Eth_Relay
  imports Eth_Properties
begin

text \<open>
  The checkpoint relayer of \<open>checkpoint.rs\<close> run between two Ethereum subnet managers: the
  interpretation of \<open>checkpoint_relay\<close> on the operations of \<open>manager.rs\<close>, and what
  follows for the transactions the daemon sends to the parent.
\<close>

section \<open>What is assumed of the two nodes\<close>

text \<open>\<open>keeps P m\<close>: a call of a node leads from a state in \<open>P\<close> to a state in \<open>P\<close>.\<close>

definition keeps :: "('c \<Rightarrow> bool) \<Rightarrow> ('c, 'b) io \<Rightarrow> bool" where
  "keeps P m \<longleftrightarrow> (\<forall>c. P c \<longrightarrow> P (snd (m c)))"

text \<open>The answers of the child's node about its final heights.\<close>

record settled_chain =
  sc_height :: int
  sc_logs :: "int \<Rightarrow> eth_log list"
  sc_bundle :: "int \<Rightarrow> evm_checkpoint \<times> bytes list \<times> bytes list"
  sc_msgs :: "int \<Rightarrow> evm_cross_msg list"

definition settled_height :: "settled_chain \<Rightarrow> int \<Rightarrow> bool" where
  "settled_height S h \<longleftrightarrow> 0 \<le> h \<and> h \<le> sc_height S"

definition settled_events :: "'a libs \<Rightarrow> eth_libs \<Rightarrow> settled_chain \<Rightarrow> int \<Rightarrow> quorum_reached_event list" where
  "settled_events L E S h =
     (case and_then (decode_logs (parse_quorum_reached E) (sc_logs S h))
             (traverse (\<lambda>(e, _). quorum_event_from_evm L e)) of
        Ok es \<Rightarrow> es | _ \<Rightarrow> [])"

definition decode_bundle :: "'a libs \<Rightarrow> evm_checkpoint \<times> bytes list \<times> bytes list \<Rightarrow> evm_cross_msg list
    \<Rightarrow> (string, 'a bottom_up_checkpoint_bundle) res" where
  "decode_bundle L = (\<lambda>(c, sigtors, sigs) ms.
     and_then (checkpoint_from_evm L c) (\<lambda>cp.
     and_then (traverse (ethers_address_to_fil_address L) sigtors) (\<lambda>sgs.
     and_then (traverse (cross_msg_from_evm L) ms) (\<lambda>msgs.
       Ok \<lparr>checkpoint = cp, signatures = sigs, signatories = sgs, cross_msg_list = msgs\<rparr>))))"

text \<open>The target and the call that a bundle is submitted with.\<close>

definition submission :: "'a libs \<Rightarrow> 'a bottom_up_checkpoint_bundle \<Rightarrow> (string, bytes \<times> contract_call) res" where
  "submission L b =
     and_then (contract_address_from_subnet L (cp_subnet_id (checkpoint b))) (\<lambda>a.
     and_then (submit_call L b) (\<lambda>c. Ok (a, c)))"

definition submissions :: "'c chain_world \<Rightarrow> (string, bytes \<times> contract_call) res list" where
  "submissions w = map (\<lambda>t. Ok (tx_to t, tx_call t)) (sent w)"

text \<open>
  \<open>relay_network PM CM P S\<close>: the states in \<open>P\<close> are closed under the calls the relayer makes of
  the parent's and the child's node, and in them the child answers about the heights up to
  \<open>sc_height S\<close> as \<open>S\<close> says (final blocks do not change). A quorum is reported for a
  height that is itself final.
\<close>

definition relay_network :: "'a libs \<Rightarrow> eth_libs \<Rightarrow> 'c eth_subnet_manager \<Rightarrow> 'c eth_subnet_manager
    \<Rightarrow> ('c \<Rightarrow> bool) \<Rightarrow> settled_chain \<Rightarrow> bool" where
  "relay_network L E PM CM P S \<longleftrightarrow>
     (keeps P (n_latest_block (mgr_node PM)) \<and> keeps P (n_fee_history (mgr_node PM))
      \<and> (\<forall>t. keeps P (n_send (mgr_node PM) t)) \<and> (\<forall>k x. keeps P (n_receipt (mgr_node PM) k x))
      \<and> (\<forall>a. keeps P (a_last_checkpoint_height (mgr_node PM) a))
      \<and> (\<forall>a x. keeps P (a_has_submitted (mgr_node PM) a x))) \<and>
     (keeps P (n_block_number (mgr_node CM)) \<and> (\<forall>a k i j. keeps P (n_logs (mgr_node CM) a k i j))
      \<and> (\<forall>a h. keeps P (g_signature_bundle (mgr_node CM) a h))
      \<and> (\<forall>a h. keeps P (g_bottom_up_messages (mgr_node CM) a h))) \<and>
     (\<forall>c h. P c \<longrightarrow> settled_height S h \<longrightarrow>
        (\<forall>ls. fst (n_logs (mgr_node CM) (mgr_gateway_addr CM) QuorumReached (u64_of_epoch h) (u64_of_epoch h) c) = Ok ls
            \<longrightarrow> ls = sc_logs S h)
      \<and> (\<forall>b. fst (g_signature_bundle (mgr_node CM) (mgr_gateway_addr CM) (u64_of_epoch h) c) = Ok b \<longrightarrow> b = sc_bundle S h)
      \<and> (\<forall>ms. fst (g_bottom_up_messages (mgr_node CM) (mgr_gateway_addr CM) (u64_of_epoch h) c) = Ok ms \<longrightarrow> ms = sc_msgs S h)) \<and>
     (\<forall>h e. settled_height S h \<longrightarrow> e \<in> set (settled_events L E S h) \<longrightarrow> settled_height S (qe_height e))"

section \<open>Frames for the relayer's calls\<close>

text \<open>A query: the nodes' states stay in \<open>P\<close> and nothing is sent.\<close>

definition queries :: "('c \<Rightarrow> bool) \<Rightarrow> 'c chain_world \<Rightarrow> 'c chain_world \<Rightarrow> bool" where
  "queries P w w' \<longleftrightarrow> (P (chain w) \<longrightarrow> P (chain w')) \<and> sent w' = sent w"

lemma queries_refl: "reflp (queries P)"
  by (simp add: queries_def reflp_def)

lemma queries_trans: "transp (queries P)"
  by (auto simp: queries_def transp_def)

lemma on_chain_queries: "keeps P m \<Longrightarrow> io_rel (queries P) (on_chain m)"
  by (auto simp: io_rel_def queries_def on_chain_def keeps_def split: prod.splits)

lemmas queries_steps = io_rel_ret [OF queries_refl] io_rel_bail [OF queries_refl]
  io_rel_lift [OF queries_refl] io_rel_bind [OF queries_trans] on_chain_queries

lemma queriesD:
  "io_rel (queries P) m \<Longrightarrow> P (chain w) \<Longrightarrow> m w = (r, w') \<Longrightarrow> P (chain w') \<and> submissions w' = submissions w"
  using io_relD [of "queries P" m w] by (auto simp: queries_def submissions_def)

text \<open>A step that may send: only the nodes' states are framed.\<close>

definition stays :: "('c \<Rightarrow> bool) \<Rightarrow> 'c chain_world \<Rightarrow> 'c chain_world \<Rightarrow> bool" where
  "stays P w w' \<longleftrightarrow> (P (chain w) \<longrightarrow> P (chain w'))"

lemma stays_refl: "reflp (stays P)"
  by (simp add: stays_def reflp_def)

lemma stays_trans: "transp (stays P)"
  by (auto simp: stays_def transp_def)

lemma on_chain_stays: "keeps P m \<Longrightarrow> io_rel (stays P) (on_chain m)"
  by (auto simp: io_rel_def stays_def on_chain_def keeps_def split: prod.splits)

lemma send_txn_stays: "keeps P (n_send N t) \<Longrightarrow> io_rel (stays P) (send_txn N t)"
  by (auto simp: io_rel_def stays_def send_txn_def keeps_def split: prod.splits)

lemmas stays_steps = io_rel_ret [OF stays_refl] io_rel_bail [OF stays_refl]
  io_rel_lift [OF stays_refl] io_rel_bind [OF stays_trans] on_chain_stays send_txn_stays

lemma submit_stays:
  assumes "relay_network L E PM CM P S"
  shows "io_rel (stays P) (submit_checkpoint L E PM a b)"
  unfolding submit_checkpoint_def run_plan_def call_contract_def premium_estimation_def receipt_block_def
    case_prod_beta
  using assms unfolding relay_network_def by (intro stays_steps) auto

section \<open>The laws of the relay\<close>

lemma submit_plan_Ok:
  "and_then (contract_address_from_subnet L (cp_subnet_id (checkpoint b))) (\<lambda>addr.
     and_then (submit_call L b) (\<lambda>call.
     and_then (get_signer L E M a) (\<lambda>sg. Ok (sg, addr, 0, call)))) = Ok pl \<Longrightarrow>
   submission L b = Ok (tx_to (plan_tx pl gp), tx_call (plan_tx pl gp))"
  by (auto simp: submission_def res_simps)

lemma submit_sends:
  assumes "submit_checkpoint L E M a b w = (r, w')"
  shows "(submissions w' = submissions w \<or> submissions w' = submissions w @ [submission L b])
    \<and> (\<forall>e. r = Ok e \<longrightarrow> submissions w' = submissions w @ [submission L b])"
  using run_plan_sent [OF receipt_block_same assms [unfolded submit_checkpoint_def]]
proof (elim disjE exE conjE)
  fix pl gp
  assume "sent w' = sent w @ [plan_tx pl gp]" and
    "and_then (contract_address_from_subnet L (cp_subnet_id (checkpoint b))) (\<lambda>addr.
     and_then (submit_call L b) (\<lambda>call.
     and_then (get_signer L E M a) (\<lambda>sg. Ok (sg, addr, 0, call)))) = Ok pl"
  from this(1) submit_plan_Ok [OF this(2), of gp] show ?thesis by (simp add: submissions_def)
qed (auto simp: submissions_def)

lemma on_chain_fst: "on_chain m w = (r, w') \<Longrightarrow> fst (m (chain w)) = r"
  by (auto simp: on_chain_def split: prod.splits)

lemma events_settled:
  assumes net: "relay_network L E PM CM P S" and "P (chain w)" "settled_height S h"
    and run: "quorum_reached_events L E CM h w = (Ok es, w')"
  shows "es = settled_events L E S h"
proof -
  obtain ls evs w1 where
      ls: "on_chain (n_logs (mgr_node CM) (mgr_gateway_addr CM) QuorumReached (u64_of_epoch h) (u64_of_epoch h)) w = (Ok ls, w1)"
    and evs: "decode_logs (parse_quorum_reached E) ls = Ok evs" "traverse (\<lambda>(e, _). quorum_event_from_evm L e) evs = Ok es"
    using run by (auto simp: quorum_reached_events_def query_with_meta_def bind_io_Ok_iff lift_def)
  have "ls = sc_logs S h" using on_chain_fst [OF ls] net assms(2,3) unfolding relay_network_def by blast
  with evs show ?thesis by (simp add: settled_events_def)
qed

lemma bundle_settled:
  assumes net: "relay_network L E PM CM P S" and P: "P (chain w)" and h: "settled_height S h"
    and run: "checkpoint_bundle_at L CM h w = (Ok b, w')"
  shows "decode_bundle L (sc_bundle S h) (sc_msgs S h) = Ok b"
proof -
  let ?N = "mgr_node CM" and ?g = "mgr_gateway_addr CM" and ?h = "u64_of_epoch h"
  obtain sb ms w1 w2 where sb: "on_chain (g_signature_bundle ?N ?g ?h) w = (Ok sb, w1)"
      and ms: "on_chain (g_bottom_up_messages ?N ?g ?h) w1 = (Ok ms, w2)"
      and dec: "decode_bundle L sb ms = Ok b"
    using run by (auto simp: checkpoint_bundle_at_def decode_bundle_def bind_io_Ok_iff lift_def ret_def res_simps)
  have "io_rel (queries P) (on_chain (g_signature_bundle ?N ?g ?h))"
    by (rule on_chain_queries) (use net in \<open>auto simp: relay_network_def\<close>)
  from queriesD [OF this P sb] have P1: "P (chain w1)" by blast
  have "sb = sc_bundle S h" "ms = sc_msgs S h"
    using on_chain_fst [OF sb] on_chain_fst [OF ms] P P1 h net unfolding relay_network_def by blast+
  with dec show ?thesis by simp
qed

lemma relayer_queries:
  assumes "relay_network L E PM CM P S"
  shows "io_rel (queries P) (quorum_reached_events L E CM h)"
    and "io_rel (queries P) (checkpoint_bundle_at L CM h)"
    and "io_rel (queries P) (last_bottom_up_checkpoint_height L PM s)"
    and "io_rel (queries P) (has_submitted_in_last_checkpoint_height L PM s a)"
    and "io_rel (queries P) (eth_current_epoch CM)"
  unfolding quorum_reached_events_def query_with_meta_def checkpoint_bundle_at_def
    last_bottom_up_checkpoint_height_def has_submitted_in_last_checkpoint_height_def eth_current_epoch_def
    case_prod_beta
  using assms unfolding relay_network_def by (intro queries_steps; auto)+

definition entry_of :: "'a libs \<Rightarrow> settled_chain \<Rightarrow> int \<Rightarrow> (string, bytes \<times> contract_call) res" where
  "entry_of L S h = and_then (decode_bundle L (sc_bundle S h) (sc_msgs S h)) (submission L)"

interpretation relay: checkpoint_relay "eth_relayer L E PM" "eth_relayer L E CM" submissions
    "submission L" "settled_events L E S" "entry_of L S" "settled_height S"
    "\<lambda>w. relay_network L E PM CM P S \<and> P (chain w)"
  for L :: "'a libs" and E PM and CM :: "'c eth_subnet_manager" and S P
proof (unfold_locales, goal_cases)
  case (1 w h re w')
  then have run: "quorum_reached_events L E CM h w = (re, w')" and net: "relay_network L E PM CM P S"
    and P: "P (chain w)" by (auto simp: eth_relayer_def)
  with queriesD [OF relayer_queries(1) [OF net] P run] events_settled [OF net P] show ?case by blast
next
  case (2 w h rb w')
  then have run: "checkpoint_bundle_at L CM h w = (rb, w')" and net: "relay_network L E PM CM P S"
    and P: "P (chain w)" by (auto simp: eth_relayer_def)
  have "submission L b = entry_of L S h"
    if "rb = Ok b" "settled_height S h'" "e \<in> set (settled_events L E S h')" "qe_height e = h" for b h' e
  proof -
    have "settled_height S h" using net that(2-4) unfolding relay_network_def by blast
    from bundle_settled [OF net P this] run that(1) show ?thesis by (simp add: entry_of_def)
  qed
  with queriesD [OF relayer_queries(2) [OF net] P run] net show ?case by blast
next
  case (3 w a b rh w')
  then have run: "submit_checkpoint L E PM a b w = (rh, w')" by (simp add: eth_relayer_def)
  have "P (chain w')" using io_relD [OF submit_stays, of L E PM CM P S w a b] 3 run by (simp add: stays_def)
  with 3 submit_sends [OF run] show ?case by simp
next
  case (4 w s rh w')
  then show ?case using queriesD [OF relayer_queries(3), of L E PM CM P S w s rh w'] by (simp add: eth_relayer_def)
next
  case (5 w s a rs w')
  then show ?case using queriesD [OF relayer_queries(4), of L E PM CM P S w s a rs w'] by (simp add: eth_relayer_def)
next
  case (6 w rh w')
  then show ?case using queriesD [OF relayer_queries(5), of L E PM CM P S w rh w'] by (simp add: eth_relayer_def)
qed

section \<open>Properties of the relayer\<close>

text \<open>The submissions due for the quorums reported at a final height of the child, in order.\<close>

definition settled_due :: "'a libs \<Rightarrow> eth_libs \<Rightarrow> settled_chain \<Rightarrow> int \<Rightarrow> (string, bytes \<times> contract_call) res list" where
  "settled_due L E S h = map (\<lambda>e. entry_of L S (qe_height e)) (settled_events L E S h)"

text \<open>C1: In every state the daemon reaches, a round of \<open>submit_next_epoch\<close> does nothing until the
  child is final at the next checkpoint height; from then on it submits to the parent, for the heights
  after the last checkpoint up to the final one, the bundles of the reported quorums, each of
  them once, in block order, and stops at the first failure. What was submitted before is kept.\<close>

theorem relayer_submits_settled_quorums:
  assumes net: "relay_network L E PM CM P S" and start: "P (chain w0)"
    and h: "parent_handler cm = eth_relayer L E PM" "child_handler cm = eth_relayer L E CM"
    and reach: "relayer_run cm a w0 w"
    and last: "last_bottom_up_checkpoint_height L PM (sn_id (cm_child cm)) w = (Ok lst, w1)"
    and cur: "eth_current_epoch CM w1 = (Ok cur, w2)"
    and range: "0 \<le> lst" "0 \<le> period cm" "lst + period cm < 2 ^ 63" "lst + 1 < 2 ^ 63"
      "0 \<le> cur" "cur < 2 ^ 63" "0 \<le> finalization_blocks cm" "finalization_blocks cm < 2 ^ 63"
    and final: "max 1 (cur - finalization_blocks cm) \<le> sc_height S"
    and run: "submit_next_epoch cm a w = (r, w')"
  shows "prefix (submissions w0) (submissions w) \<and>
    (if max 1 (cur - finalization_blocks cm) < lst + period cm then r = Ok () \<and> submissions w' = submissions w
     else \<exists>ys. prefix ys (concat (map (settled_due L E S) [lst + 1..max 1 (cur - finalization_blocks cm)]))
          \<and> submissions w' = submissions w @ ys
          \<and> (r = Ok () \<longrightarrow> ys = concat (map (settled_due L E S) [lst + 1..max 1 (cur - finalization_blocks cm)])))"
proof -
  from relay.run_grows [OF reach conjI [OF net start] h]
  have w: "relay_network L E PM CM P S \<and> P (chain w)" and pre: "prefix (submissions w0) (submissions w)" by auto
  have last': "rl_last_bottom_up_checkpoint_height (eth_relayer L E PM) (sn_id (cm_child cm)) w = (Ok lst, w1)"
    and cur': "rl_current_epoch (eth_relayer L E CM) w1 = (Ok cur, w2)"
    using last cur by (simp_all add: eth_relayer_def)
  have settled: "settled_height S k" if "lst < k" "k \<le> max 1 (cur - finalization_blocks cm)" for k
    using that range(1) final unfolding settled_height_def by linarith
  have "- (2 ^ 63) \<le> lst" "- (2 ^ 63) \<le> lst + period cm" "- (2 ^ 63) \<le> cur - finalization_blocks cm"
      "cur - finalization_blocks cm < 2 ^ 63" using range by auto
  from relay.next_epoch_spec [OF h w last' cur' this(1) range(4) this(2) range(3) this(3,4) settled run] pre
  show ?thesis unfolding relay.due_def [abs_def] settled_due_def [abs_def] by blast
qed

section \<open>Progress\<close>

text \<open>The child's node answers, and what it answers decodes.\<close>

definition child_answers :: "'a libs \<Rightarrow> eth_libs \<Rightarrow> 'c eth_subnet_manager \<Rightarrow> bool" where
  "child_answers L E CM \<longleftrightarrow>
     (\<forall>h w. is_ok (fst (quorum_reached_events L E CM h w)) \<and> is_ok (fst (checkpoint_bundle_at L CM h w)))"

lemma for_io_ok:
  assumes "\<And>x w. x \<in> set xs \<Longrightarrow> Q w \<Longrightarrow> is_ok (fst (f x w)) \<and> Q (snd (f x w))" and "Q w"
  shows "is_ok (fst (for_io xs f w)) \<and> Q (snd (for_io xs f w))"
  using assms
proof (induction xs arbitrary: w)
  case (Cons x xs)
  obtain r w1 where "f x w = (r, w1)" by (cases "f x w")
  with Cons.prems(1) [of x w] Cons.prems(2) obtain u where "f x w = (Ok u, w1)" "Q w1"
    by (auto simp: is_ok_iff)
  with Cons.IH [of w1] Cons.prems(1) show ?case by (simp add: bind_io_def)
qed (simp add: ret_def)

lemma submit_sends_exactly:
  assumes "submission L b = Ok (t, call)"
  shows "sends_exactly E M (Ok t) (get_signer L E M a) 0 call (submit_checkpoint L E M a b)"
  unfolding submit_checkpoint_def
  by (rule sends_exactlyI)
    (use assms in \<open>auto intro: receipt_block_same receipt_block_answers simp: submission_def res_simps\<close>)

lemma relay_at_ok:
  assumes net: "relay_network L E PM CM P S" and P: "P (chain w)"
    and h: "parent_handler cm = eth_relayer L E PM" "child_handler cm = eth_relayer L E CM"
    and ans: "answers E PM" "child_answers L E CM" and sg: "is_ok (get_signer L E PM a)"
    and k: "settled_height S k" "is_ok (entry_of L S k)"
  shows "is_ok (fst (relay_at cm a k w))"
proof -
  obtain b w1 where b: "checkpoint_bundle_at L CM k w = (Ok b, w1)"
    using ans(2) unfolding child_answers_def by (metis is_ok_iff prod.collapse)
  from bundle_settled [OF net P k(1) b] k(2) obtain t call where "submission L b = Ok (t, call)"
    by (auto simp: entry_of_def is_ok_iff)
  from submit_sends_exactly [OF this, of E PM a] ans(1) sg
  have "is_ok (fst (submit_checkpoint L E PM a b w1))"
    unfolding sends_exactly_def by (cases "submit_checkpoint L E PM a b w1") simp
  then show ?thesis
    using b by (auto simp: relay_at_def h eth_relayer_def bind_io_def map_err_io_def ret_def is_ok_iff split: prod.splits)
qed

lemma events_at_ok:
  assumes net: "relay_network L E PM CM P S" and P: "P (chain w)"
    and h: "parent_handler cm = eth_relayer L E PM" "child_handler cm = eth_relayer L E CM"
    and ans: "answers E PM" "child_answers L E CM" and sg: "is_ok (get_signer L E PM a)"
    and k: "settled_height S k" and due: "\<forall>x\<in>set (settled_due L E S k). is_ok x"
  shows "is_ok (fst (submit_events_at cm a k w)) \<and> P (chain (snd (submit_events_at cm a k w)))"
proof -
  obtain es w1 where es: "quorum_reached_events L E CM k w = (Ok es, w1)"
    using ans(2) unfolding child_answers_def by (metis is_ok_iff prod.collapse)
  have evs: "es = settled_events L E S k" and P1: "P (chain w1)"
    using events_settled [OF net P k es] queriesD [OF relayer_queries(1) [OF net] P es] by auto
  have step: "is_ok (fst (relay_at cm a (qe_height e) v)) \<and> P (chain (snd (relay_at cm a (qe_height e) v)))"
    if e: "e \<in> set es" and v: "P (chain v)" for e v
  proof
    have "settled_height S (qe_height e)" using net k e evs unfolding relay_network_def by blast
    moreover have "is_ok (entry_of L S (qe_height e))" using due e evs by (auto simp: settled_due_def)
    ultimately show "is_ok (fst (relay_at cm a (qe_height e) v))" by (rule relay_at_ok [OF net v h ans sg])
    show "P (chain (snd (relay_at cm a (qe_height e) v)))"
      using relay.grows_relay_at [OF h, unfolded relay.grows_def] net v by (metis prod.collapse)
  qed
  have "submit_events_at cm a k w = for_io es (\<lambda>e. relay_at cm a (qe_height e)) w1"
    using es by (simp add: submit_events_at_def h eth_relayer_def bind_io_def)
  with for_io_ok [of es "\<lambda>v. P (chain v)", OF step P1] show ?thesis by simp
qed

lemma next_epoch_completes:
  assumes net: "relay_network L E PM CM P S" and P: "P (chain w)"
    and h: "parent_handler cm = eth_relayer L E PM" "child_handler cm = eth_relayer L E CM"
    and ans: "answers E PM" "child_answers L E CM" and sg: "is_ok (get_signer L E PM a)"
    and last: "last_bottom_up_checkpoint_height L PM (sn_id (cm_child cm)) w = (Ok lst, w1)"
    and cur: "eth_current_epoch CM w1 = (Ok cur, w2)"
    and range: "0 \<le> lst" "0 \<le> period cm" "lst + period cm < 2 ^ 63" "lst + 1 < 2 ^ 63"
      "0 \<le> cur" "cur < 2 ^ 63" "0 \<le> finalization_blocks cm" "finalization_blocks cm < 2 ^ 63"
    and final: "max 1 (cur - finalization_blocks cm) \<le> sc_height S" "lst + period cm \<le> max 1 (cur - finalization_blocks cm)"
    and due: "\<forall>k\<in>{lst + 1..max 1 (cur - finalization_blocks cm)}. \<forall>x\<in>set (settled_due L E S k). is_ok x"
  shows "\<exists>w'. submit_next_epoch cm a w = (Ok (), w')
     \<and> submissions w' = submissions w @ concat (map (settled_due L E S) [lst + 1..max 1 (cur - finalization_blocks cm)])"
proof -
  let ?fin = "max 1 (cur - finalization_blocks cm)"
  have w2: "P (chain w2)"
    using queriesD [OF relayer_queries(3) [OF net] P last] queriesD [OF relayer_queries(5) [OF net] _ cur] by blast
  have settled: "settled_height S k" if "lst < k" "k \<le> ?fin" for k
    using that range(1) final unfolding settled_height_def by linarith
  have step: "submit_next_epoch cm a w = for_io [lst + 1..?fin] (submit_events_at cm a) w2"
    using last cur range final
    by (simp add: submit_next_epoch_def next_submission_height_def h eth_relayer_def bind_io_def lift_def epoch_of_def
        map_err_io_def Let_def) linarith
  have "is_ok (fst (submit_events_at cm a k v)) \<and> P (chain (snd (submit_events_at cm a k v)))"
    if "k \<in> set [lst + 1..?fin]" "P (chain v)" for k v
    using that due by (intro events_at_ok [OF net that(2) h ans sg settled]) auto
  from for_io_ok [of "[lst + 1..?fin]" "\<lambda>v. P (chain v)", OF this w2]
  have "is_ok (fst (for_io [lst + 1..?fin] (submit_events_at cm a) w2))" by simp
  then obtain w' where run: "for_io [lst + 1..?fin] (submit_events_at cm a) w2 = (Ok (), w')"
    by (cases "for_io [lst + 1..?fin] (submit_events_at cm a) w2") (auto simp: is_ok_iff)
  have "submissions w2 = submissions w"
    using queriesD [OF relayer_queries(3) [OF net] P last] queriesD [OF relayer_queries(5) [OF net] _ cur] by simp
  with relay.submitsD [OF relay.submits_range [OF h settled] conjI [OF net w2] run] step run show ?thesis
    unfolding relay.due_def [abs_def] settled_due_def [abs_def] by auto
qed

text \<open>The last epoch: the bundle that \<open>submit_last_epoch\<close> submits again, if any.\<close>

definition last_due :: "'a libs \<Rightarrow> settled_chain \<Rightarrow> bool \<Rightarrow> int \<Rightarrow> (string, bytes \<times> contract_call) res list" where
  "last_due L S submitted h = (if submitted \<or> h = 0 then [] else [entry_of L S h])"

lemma relay_at_completes:
  assumes net: "relay_network L E PM CM P S" and P: "P (chain w)"
    and h: "parent_handler cm = eth_relayer L E PM" "child_handler cm = eth_relayer L E CM"
    and ans: "answers E PM" "child_answers L E CM" and sg: "is_ok (get_signer L E PM a)"
    and k: "settled_height S k" "is_ok (entry_of L S k)"
  shows "\<exists>w'. relay_at cm a k w = (Ok (), w') \<and> P (chain w') \<and> submissions w' = submissions w @ [entry_of L S k]"
proof -
  obtain w' where run: "relay_at cm a k w = (Ok (), w')"
    using relay_at_ok [OF net P h ans sg k] by (cases "relay_at cm a k w") (auto simp: is_ok_iff)
  obtain b w1 where b: "checkpoint_bundle_at L CM k w = (Ok b, w1)"
    using ans(2) unfolding child_answers_def by (metis is_ok_iff prod.collapse)
  obtain q w2 where q: "submit_checkpoint L E PM a b w1 = (q, w2)" by (cases "submit_checkpoint L E PM a b w1")
  then obtain x where sub: "submit_checkpoint L E PM a b w1 = (Ok x, w')"
    using run b by (cases q) (auto simp: relay_at_def h eth_relayer_def bind_io_def map_err_io_def ret_def)
  from bundle_settled [OF net P k(1) b] have "submission L b = entry_of L S k" by (simp add: entry_of_def)
  moreover have "P (chain w1)" "submissions w1 = submissions w" using queriesD [OF relayer_queries(2) [OF net] P b] by auto
  ultimately show ?thesis using run submit_sends [OF sub] io_relD [OF submit_stays [OF net], of w1 a b] sub by (simp add: stays_def)
qed

lemma last_epoch_completes:
  assumes net: "relay_network L E PM CM P S" and P: "P (chain w)"
    and h: "parent_handler cm = eth_relayer L E PM" "child_handler cm = eth_relayer L E CM"
    and ans: "answers E PM" "child_answers L E CM" and sg: "is_ok (get_signer L E PM a)"
    and has: "has_submitted_in_last_checkpoint_height L PM (sn_id (cm_child cm)) a w = (Ok submitted, w0)"
    and last: "\<not> submitted \<Longrightarrow> last_bottom_up_checkpoint_height L PM (sn_id (cm_child cm)) w0 = (Ok lst, w1)"
    and k: "\<not> submitted \<Longrightarrow> lst \<noteq> 0 \<Longrightarrow> settled_height S lst \<and> is_ok (entry_of L S lst)"
  shows "\<exists>w'. submit_last_epoch cm a w = (Ok (), w') \<and> P (chain w')
     \<and> submissions w' = submissions w @ last_due L S submitted lst"
proof -
  from queriesD [OF relayer_queries(4) [OF net] P has] have w0: "P (chain w0)" "submissions w0 = submissions w" by auto
  have step: "submit_last_epoch cm a w = (if submitted then (Ok (), w0)
      else if lst = 0 then (Ok (), w1) else relay_at cm a lst w1)"
    using has last by (simp add: submit_last_epoch_def h eth_relayer_def bind_io_def ret_def)
  show ?thesis
  proof (cases submitted)
    case True
    with step w0 show ?thesis by (simp add: last_due_def)
  next
    case False
    from queriesD [OF relayer_queries(3) [OF net] w0(1) last [OF this]] w0(2)
    have w1: "P (chain w1)" "submissions w1 = submissions w" by auto
    show ?thesis
    proof (cases "lst = 0")
      case True
      with step False w1 show ?thesis by (simp add: last_due_def)
    next
      case neq: False
      from k [OF False neq] relay_at_completes [OF net w1(1) h ans sg] obtain w' where
        "relay_at cm a lst w1 = (Ok (), w')" "P (chain w')" "submissions w' = submissions w1 @ [entry_of L S lst]" by blast
      with step False neq w1(2) show ?thesis by (simp add: last_due_def)
    qed
  qed
qed

lemma next_epoch_waits:
  assumes net: "relay_network L E PM CM P S" and P: "P (chain w)"
    and h: "parent_handler cm = eth_relayer L E PM" "child_handler cm = eth_relayer L E CM"
    and last: "last_bottom_up_checkpoint_height L PM (sn_id (cm_child cm)) w = (Ok lst, w1)"
    and cur: "eth_current_epoch CM w1 = (Ok cur, w2)"
    and range: "0 \<le> lst" "0 \<le> period cm" "lst + period cm < 2 ^ 63"
      "0 \<le> cur" "cur < 2 ^ 63" "0 \<le> finalization_blocks cm" "finalization_blocks cm < 2 ^ 63"
    and early: "max 1 (cur - finalization_blocks cm) < lst + period cm"
  shows "\<exists>w'. submit_next_epoch cm a w = (Ok (), w') \<and> submissions w' = submissions w"
proof -
  have "submit_next_epoch cm a w = (Ok (), w2)"
    using last cur range early
    by (simp add: submit_next_epoch_def next_submission_height_def h eth_relayer_def bind_io_def lift_def epoch_of_def
        map_err_io_def Let_def ret_def)
  moreover have "submissions w2 = submissions w"
    using queriesD [OF relayer_queries(3) [OF net] P last] queriesD [OF relayer_queries(5) [OF net] _ cur] by simp
  ultimately show ?thesis by blast
qed

text \<open>C2: The relayer makes progress. When the nodes answer, the submitter's key is known and the bundles due can be
  submitted, a round succeeds, whether the parent has the submitter's signature of the last epoch or not: if not and there is a
  last epoch, its bundle is submitted again first; then, if the child is final at the next checkpoint height after
  the last one, the bundle of every quorum reported since is submitted, in order, and otherwise nothing more.\<close>

theorem relayer_round_succeeds:
  assumes net: "relay_network L E PM CM P S" and P: "P (chain w)"
    and h: "parent_handler cm = eth_relayer L E PM" "child_handler cm = eth_relayer L E CM"
    and ans: "answers E PM" "child_answers L E CM" and sg: "is_ok (get_signer L E PM a)"
    and has: "has_submitted_in_last_checkpoint_height L PM (sn_id (cm_child cm)) a w = (Ok submitted, v0)"
    and prev: "\<not> submitted \<Longrightarrow> last_bottom_up_checkpoint_height L PM (sn_id (cm_child cm)) v0 = (Ok prv, v1)"
    and prev_due: "\<not> submitted \<Longrightarrow> prv \<noteq> 0 \<Longrightarrow> settled_height S prv \<and> is_ok (entry_of L S prv)"
    and last: "last_bottom_up_checkpoint_height L PM (sn_id (cm_child cm)) (snd (submit_last_epoch cm a w)) = (Ok lst, w1)"
    and cur: "eth_current_epoch CM w1 = (Ok cur, w2)"
    and range: "0 \<le> lst" "0 \<le> period cm" "lst + period cm < 2 ^ 63" "lst + 1 < 2 ^ 63"
      "0 \<le> cur" "cur < 2 ^ 63" "0 \<le> finalization_blocks cm" "finalization_blocks cm < 2 ^ 63"
    and final: "max 1 (cur - finalization_blocks cm) \<le> sc_height S"
    and due: "\<forall>k\<in>{lst + 1..max 1 (cur - finalization_blocks cm)}. \<forall>x\<in>set (settled_due L E S k). is_ok x"
  shows "\<exists>w'. cm_submit_checkpoint cm a w = (Ok (), w')
     \<and> submissions w' = submissions w @ (if submitted \<or> prv = 0 then [] else [entry_of L S prv])
         @ (if lst + period cm \<le> max 1 (cur - finalization_blocks cm)
            then concat (map (settled_due L E S) [lst + 1..max 1 (cur - finalization_blocks cm)]) else [])"
proof -
  obtain v where v: "submit_last_epoch cm a w = (Ok (), v)" "P (chain v)"
      "submissions v = submissions w @ last_due L S submitted prv"
    using last_epoch_completes [OF net P h ans sg has prev prev_due] by blast
  with last have last': "last_bottom_up_checkpoint_height L PM (sn_id (cm_child cm)) v = (Ok lst, w1)" by simp
  have "\<exists>w'. submit_next_epoch cm a v = (Ok (), w') \<and> submissions w' = submissions v
      @ (if lst + period cm \<le> max 1 (cur - finalization_blocks cm)
         then concat (map (settled_due L E S) [lst + 1..max 1 (cur - finalization_blocks cm)]) else [])"
  proof (cases "lst + period cm \<le> max 1 (cur - finalization_blocks cm)")
    case True
    with next_epoch_completes [OF net v(2) h ans sg last' cur range final True due] show ?thesis by simp
  next
    case False
    then have "max 1 (cur - finalization_blocks cm) < lst + period cm" by linarith
    with next_epoch_waits [OF net v(2) h last' cur range(1-3,5-8)] False show ?thesis by auto
  qed
  with v show ?thesis by (auto simp: cm_submit_checkpoint_def bind_io_def last_due_def)
qed

section \<open>What the daemon may send\<close>

text \<open>A checkpoint submission: no value, signed by the submitter, for the chain of the parent.\<close>

definition is_submission :: "'a libs \<Rightarrow> eth_libs \<Rightarrow> 'c eth_subnet_manager \<Rightarrow> 'a \<Rightarrow> transaction \<Rightarrow> bool" where
  "is_submission L E PM a t \<longleftrightarrow> tx_value t = 0
     \<and> (case tx_call t of SubmitCheckpoint _ _ _ _ \<Rightarrow> True | _ \<Rightarrow> False)
     \<and> get_signer L E PM a = Ok \<lparr>signer_address = tx_sender t, signer_chain_id = tx_chain_id t\<rparr>"

definition only_submits :: "'a libs \<Rightarrow> eth_libs \<Rightarrow> 'c eth_subnet_manager \<Rightarrow> 'a \<Rightarrow> 'c chain_world \<Rightarrow> 'c chain_world \<Rightarrow> bool" where
  "only_submits L E PM a w w' \<longleftrightarrow> (\<exists>ts. sent w' = sent w @ ts \<and> list_all (is_submission L E PM a) ts)"

lemma only_submits_refl: "reflp (only_submits L E PM a)"
  by (simp add: only_submits_def reflp_def)

lemma only_submits_trans: "transp (only_submits L E PM a)"
  unfolding only_submits_def transp_def by (metis append.assoc list_all_append)

lemma only_submits_query: "io_rel same_sent m \<Longrightarrow> io_rel (only_submits L E PM a) m"
  by (simp add: io_rel_def same_sent_def only_submits_def)

lemma only_submits_submit: "io_rel (only_submits L E PM a) (submit_checkpoint L E PM a b)"
  unfolding io_rel_def
proof
  fix w
  obtain r w' where run: "submit_checkpoint L E PM a b w = (r, w')" by (cases "submit_checkpoint L E PM a b w")
  have good: "is_submission L E PM a (plan_tx pl gp)"
    if "and_then (contract_address_from_subnet L (cp_subnet_id (checkpoint b))) (\<lambda>addr.
     and_then (submit_call L b) (\<lambda>call.
     and_then (get_signer L E PM a) (\<lambda>sg. Ok (sg, addr, 0, call)))) = Ok pl" for pl gp
    using that by (auto simp: is_submission_def submit_call_def res_simps)
  from run_plan_sent [OF receipt_block_same run [unfolded submit_checkpoint_def]] good
  have "only_submits L E PM a w w'" by (auto simp: only_submits_def)
  with run show "only_submits L E PM a w (snd (submit_checkpoint L E PM a b w))" by simp
qed

lemma relayer_same_sent:
  "io_rel same_sent (quorum_reached_events L E CM h)"
  "io_rel same_sent (checkpoint_bundle_at L CM h)"
  "io_rel same_sent (last_bottom_up_checkpoint_height L PM s)"
  "io_rel same_sent (has_submitted_in_last_checkpoint_height L PM s a)"
  "io_rel same_sent (eth_current_epoch CM)"
  unfolding quorum_reached_events_def query_with_meta_def checkpoint_bundle_at_def
    last_bottom_up_checkpoint_height_def has_submitted_in_last_checkpoint_height_def eth_current_epoch_def
    case_prod_beta
  by (intro same_sent_steps same_sent_refl same_sent_trans)+

lemmas only_submits_steps = io_rel_ret [OF only_submits_refl] io_rel_bail [OF only_submits_refl]
  io_rel_lift [OF only_submits_refl] io_rel_bind [OF only_submits_trans] io_rel_map_err
  io_rel_for [OF only_submits_refl only_submits_trans] only_submits_submit only_submits_query [OF relayer_same_sent(1)]
  only_submits_query [OF relayer_same_sent(2)] only_submits_query [OF relayer_same_sent(3)]
  only_submits_query [OF relayer_same_sent(4)] only_submits_query [OF relayer_same_sent(5)]

lemma round_only_submits:
  assumes "parent_handler cm = eth_relayer L E PM" "child_handler cm = eth_relayer L E CM"
  shows "io_rel (only_submits L E PM a) (cm_submit_checkpoint cm a)"
proof -
  have h: "rl_submit_checkpoint (parent_handler cm) = submit_checkpoint L E PM"
    "rl_last_bottom_up_checkpoint_height (parent_handler cm) = last_bottom_up_checkpoint_height L PM"
    "rl_has_submitted_in_last_checkpoint_height (parent_handler cm) = has_submitted_in_last_checkpoint_height L PM"
    "rl_checkpoint_bundle_at (child_handler cm) = checkpoint_bundle_at L CM"
    "rl_quorum_reached_events (child_handler cm) = quorum_reached_events L E CM"
    "rl_current_epoch (child_handler cm) = eth_current_epoch CM"
    by (simp_all add: assms eth_relayer_def)
  have relay: "io_rel (only_submits L E PM a) (relay_at cm a k)" for k
    unfolding relay_at_def h by (intro only_submits_steps)
  have "io_rel (only_submits L E PM a) (submit_events_at cm a k)" for k
    unfolding submit_events_at_def h by (intro only_submits_steps relay)
  note steps = only_submits_steps relay this
  have "io_rel (only_submits L E PM a) (submit_last_epoch cm a)"
    unfolding submit_last_epoch_def h by (auto intro!: steps)
  moreover have "io_rel (only_submits L E PM a) (submit_next_epoch cm a)"
    unfolding submit_next_epoch_def next_submission_height_def h Let_def by (auto intro!: steps)
  ultimately show ?thesis unfolding cm_submit_checkpoint_def by (intro steps)
qed

lemma relayer_run_only_submits:
  assumes run: "relayer_run cm a w w'"
    and h: "parent_handler cm = eth_relayer L E PM" "child_handler cm = eth_relayer L E CM"
  shows "only_submits L E PM a w w'"
  using run
proof (induction rule: relayer_run.induct)
  case (run_round w w1 r w2)
  with io_relD [OF round_only_submits [OF h], of a w1] show ?case
    using transpD [OF only_submits_trans] by fastforce
qed (simp add: only_submits_def)

text \<open>C9: However long it runs, whatever fails and whatever the nodes answer, all that the relayer
  daemon sends are checkpoint submissions without value, signed with the submitter's key for the parent's chain.\<close>

theorem daemon_only_submits:
  assumes run: "relayer_run cm a w w'"
    and h: "parent_handler cm = eth_relayer L E PM" "child_handler cm = eth_relayer L E CM"
  shows "\<exists>ts. sent w' = sent w @ ts \<and> list_all (is_submission L E PM a) ts"
  using relayer_run_only_submits [OF run h] by (simp add: only_submits_def)

text \<open>The network of \<open>Eth_Demo\<close>, as parent and child: one quorum, for height 1, is relayed.\<close>

definition demo_settled :: settled_chain where
  "demo_settled = \<lparr>sc_height = 2, sc_logs = (\<lambda>h. if h = 1 then [demo_log] else []),
     sc_bundle = (\<lambda>_. (demo_checkpoint, [demo_eth], [[1]])), sc_msgs = (\<lambda>_. [])\<rparr>"

definition demo_cm :: "(unit chain_world, demo_addr) checkpoint_manager" where
  "demo_cm = \<lparr>cm_parent = demo_subnet, cm_child = demo_subnet\<lparr>sn_id := demo_child\<rparr>, period = 1,
     parent_handler = eth_relayer demo_libs demo_eth_libs demo_manager,
     child_handler = eth_relayer demo_libs demo_eth_libs demo_manager, finalization_blocks = 0\<rparr>"

lemma keeps_True [simp]: "keeps (\<lambda>_. True) m"
  by (simp add: keeps_def)

lemma demo_amount_10: "eth_to_fil_amount demo_libs 10 = Ok 10"
  using demo_amount_ok [of 10] by (simp add: amount_ok_def eth_to_fil_amount_def)

lemma demo_events: "settled_events demo_libs demo_eth_libs demo_settled h =
    (if h = 1 then [\<lparr>qe_height = 1, qe_checkpoint = replicate 32 1, quorum_weight = 10\<rparr>] else [])"
  by (simp add: settled_events_def demo_settled_def decode_logs_def demo_log_def demo_eth_libs_def
      quorum_event_from_evm_def epoch_of_u64_def demo_amount_10)

lemma demo_relay_network: "relay_network demo_libs demo_eth_libs demo_manager demo_manager (\<lambda>_. True) demo_settled"
proof -
  have "u64_of_epoch h = 1 \<longleftrightarrow> h = 1" if "0 \<le> h" "h \<le> 2" for h
  proof -
    from that have "h = 0 \<or> h = 1 \<or> h = 2" by arith
    then show ?thesis by (auto simp: u64_of_epoch_def)
  qed
  then show ?thesis
    by (auto simp: relay_network_def demo_events settled_height_def demo_node_def ok_node_def)
      (auto simp: demo_settled_def)
qed

lemma demo_heights:
  "last_bottom_up_checkpoint_height demo_libs demo_manager (sn_id (cm_child demo_cm)) demo_world = (Ok 0, demo_world)"
  "eth_current_epoch demo_manager demo_world = (Ok 2, demo_world)"
  by (simp_all add: last_bottom_up_checkpoint_height_def eth_current_epoch_def demo_cm_def io_eval demo_node_def epoch_of_u64_def)

lemma demo_cm_handlers:
  "parent_handler demo_cm = eth_relayer demo_libs demo_eth_libs demo_manager"
  "child_handler demo_cm = eth_relayer demo_libs demo_eth_libs demo_manager"
  by (simp_all add: demo_cm_def)

lemma demo_checkpoint_decodes: "checkpoint_from_evm demo_libs demo_checkpoint = Ok
    \<lparr>cp_subnet_id = demo_child, block_height = 1, block_hash = replicate 32 1,
     next_configuration_number = 0, cross_messages_hash = replicate 32 3\<rparr>"
  by (simp add: checkpoint_from_evm_def demo_checkpoint_def subnet_id_from_evm_def demo_route_def subnet_new_def demo_child_def)

lemma demo_child_answers: "child_answers demo_libs demo_eth_libs demo_manager"
  by (simp add: child_answers_def quorum_reached_events_def query_with_meta_def checkpoint_bundle_at_def demo_node_def
      io_eval decode_logs_def demo_log_def demo_checkpoint_decodes)
    (simp add: demo_eth_libs_def quorum_event_from_evm_def demo_amount_10)

lemma demo_entry: "entry_of demo_libs demo_settled h = Ok (demo_eth, SubmitCheckpoint demo_checkpoint [] [demo_eth] [[1]])"
  by (simp add: entry_of_def demo_settled_def decode_bundle_def demo_checkpoint_decodes submission_def submit_call_def
      checkpoint_to_evm_def subnet_id_to_evm_def subnet_id_to_evm_addresses_def vec_to_bytes32_def)
    (simp add: demo_child_def demo_checkpoint_def demo_route_def demo_eth_def)

lemma demo_has_submitted:
  "has_submitted_in_last_checkpoint_height demo_libs demo_manager (sn_id (cm_child demo_cm)) (DemoEth demo_eth) demo_world
     = (Ok True, demo_world)"
  by (simp add: has_submitted_in_last_checkpoint_height_def demo_cm_def io_eval demo_node_def demo_eth_def)

lemma demo_due: "settled_due demo_libs demo_eth_libs demo_settled k =
    (if k = 1 then [Ok (demo_eth, SubmitCheckpoint demo_checkpoint [] [demo_eth] [[1]])] else [])"
  by (simp add: settled_due_def demo_events demo_entry)

lemma demo_cm_sel: "period demo_cm = 1" "finalization_blocks demo_cm = 0" "sc_height demo_settled = 2"
    "submissions demo_world = []"
  by (simp_all add: demo_cm_def demo_settled_def submissions_def)

text \<open>The same network where the parent reports the height \<open>n\<close> and whether the submitter signed it.\<close>

definition demo_parent :: "bool \<Rightarrow> u64 \<Rightarrow> unit eth_subnet_manager" where
  "demo_parent b n = demo_manager\<lparr>mgr_node := demo_node\<lparr>a_last_checkpoint_height := (\<lambda>_. ok_node n),
     a_has_submitted := (\<lambda>_ _. ok_node b)\<rparr>\<rparr>"

definition demo_cm_at :: "bool \<Rightarrow> u64 \<Rightarrow> (unit chain_world, demo_addr) checkpoint_manager" where
  "demo_cm_at b n = demo_cm\<lparr>parent_handler := eth_relayer demo_libs demo_eth_libs (demo_parent b n)\<rparr>"

lemma demo_parent_network:
  "relay_network demo_libs demo_eth_libs (demo_parent b n) demo_manager (\<lambda>_. True) demo_settled"
  using demo_relay_network by (simp add: relay_network_def)

lemma demo_parent_answers: "answers demo_eth_libs (demo_parent b n)" "is_ok (get_signer demo_libs demo_eth_libs (demo_parent b n) (DemoEth demo_eth))"
  using demo_answers demo_signer
  by (simp_all add: answers_def demo_parent_def premium_estimation_def get_signer_def mgr_keystore_get_def demo_node_def)

lemma demo_parent_queries:
  "has_submitted_in_last_checkpoint_height demo_libs (demo_parent b n) demo_child (DemoEth demo_eth) w = (Ok b, w)"
  "last_bottom_up_checkpoint_height demo_libs (demo_parent b n) demo_child w = (Ok (epoch_of_u64 n), w)"
  "eth_current_epoch demo_manager w = (Ok 2, w)"
  by (simp_all add: has_submitted_in_last_checkpoint_height_def last_bottom_up_checkpoint_height_def eth_current_epoch_def
      demo_parent_def io_eval demo_node_def demo_eth_def epoch_of_u64_def)

lemma demo_cm_at_sel: "parent_handler (demo_cm_at b n) = eth_relayer demo_libs demo_eth_libs (demo_parent b n)"
  "child_handler (demo_cm_at b n) = eth_relayer demo_libs demo_eth_libs demo_manager"
  "sn_id (cm_child (demo_cm_at b n)) = demo_child" "period (demo_cm_at b n) = 1" "finalization_blocks (demo_cm_at b n) = 0"
  by (simp_all add: demo_cm_at_def demo_cm_def)

text \<open>One checkpoint is submitted: as the next one after height 0, whether or not height 0 counts as signed, and as
  the last one again when the parent is at height 1 and the submitter has not signed it; nothing when it has.\<close>

lemma relayer_round_succeeds_witness:
  "(\<exists>w'. cm_submit_checkpoint (demo_cm_at True 0) (DemoEth demo_eth) demo_world = (Ok (), w') \<and> submissions w' = [entry_of demo_libs demo_settled 1])
   \<and> (\<exists>w'. cm_submit_checkpoint (demo_cm_at False 0) (DemoEth demo_eth) demo_world = (Ok (), w') \<and> submissions w' = [entry_of demo_libs demo_settled 1])
   \<and> (\<exists>w'. cm_submit_checkpoint (demo_cm_at False 1) (DemoEth demo_eth) demo_world = (Ok (), w') \<and> submissions w' = [entry_of demo_libs demo_settled 1])
   \<and> (\<exists>w'. cm_submit_checkpoint (demo_cm_at True 1) (DemoEth demo_eth) demo_world = (Ok (), w') \<and> submissions w' = [])"
proof -
  have st: "settled_height demo_settled 1" by (simp add: settled_height_def demo_settled_def)
  note round = relayer_round_succeeds [OF demo_parent_network TrueI demo_cm_at_sel(1,2) demo_parent_answers(1) demo_child_answers
      demo_parent_answers(2), unfolded demo_cm_at_sel, OF demo_parent_queries(1) demo_parent_queries(2) _ demo_parent_queries(2,3)]
  show ?thesis
    using round [of True 0 demo_world] round [of False 0 demo_world] round [of False 1 demo_world] round [of True 1 demo_world] st
    by (simp add: demo_cm_sel demo_due demo_entry epoch_of_u64_def upto.simps [of 1] upto.simps [of 2])
qed

lemma relayer_submits_settled_quorums_witness:
  "\<exists>r w' ys. submit_next_epoch demo_cm (DemoEth demo_eth) demo_world = (r, w')
     \<and> prefix ys (concat (map (settled_due demo_libs demo_eth_libs demo_settled) [1..2])) \<and> submissions w' = ys"
proof -
  obtain r w' where run: "submit_next_epoch demo_cm (DemoEth demo_eth) demo_world = (r, w')"
    by (cases "submit_next_epoch demo_cm (DemoEth demo_eth) demo_world")
  from relayer_submits_settled_quorums [OF demo_relay_network TrueI demo_cm_handlers run_start demo_heights _ _ _ _ _ _ _ _ _ run]
  show ?thesis using run by (simp add: demo_cm_def demo_settled_def submissions_def)
qed

lemma demo_round: "\<exists>w'. cm_submit_checkpoint demo_cm (DemoEth demo_eth) demo_world = (Ok (), w') \<and> length (sent w') = 1"
proof -
  have "submit_last_epoch demo_cm (DemoEth demo_eth) demo_world = (Ok (), demo_world)"
    using demo_has_submitted by (simp add: submit_last_epoch_def demo_cm_handlers eth_relayer_def bind_io_def ret_def)
  moreover from next_epoch_completes [OF demo_relay_network TrueI demo_cm_handlers demo_answers demo_child_answers _
      demo_heights, of "DemoEth demo_eth"]
  obtain w' where "submit_next_epoch demo_cm (DemoEth demo_eth) demo_world = (Ok (), w')" "length (submissions w') = 1"
    by (auto simp: demo_cm_sel demo_due upto.simps [of 1] upto.simps [of 2])
  ultimately show ?thesis by (simp add: cm_submit_checkpoint_def bind_io_def submissions_def)
qed

lemma daemon_only_submits_witness:
  "\<exists>w' t. relayer_run demo_cm (DemoEth demo_eth) demo_world w' \<and> sent w' = [t]
     \<and> is_submission demo_libs demo_eth_libs demo_manager (DemoEth demo_eth) t"
proof -
  obtain w' where w': "cm_submit_checkpoint demo_cm (DemoEth demo_eth) demo_world = (Ok (), w')" "length (sent w') = 1"
    using demo_round by blast
  have "relayer_run demo_cm (DemoEth demo_eth) demo_world w'"
    by (rule run_round [OF run_start w'(1)]) simp
  with daemon_only_submits [OF this demo_cm_handlers] w'(2) show ?thesis by (auto simp: length_Suc_conv)
qed

end
