(* ===== verification/Cli_Sends.thy ===== *)
theory Cli_Sends
  imports Cli_Commands Eth_Relay
begin

text \<open>
  How many transactions a command of the command line can send, whatever the nodes answer and however it
  ends: \<open>sends_le net n m\<close> bounds what \<open>m\<close> adds to the log of the world \<open>net\<close> selects. The bound of a
  sequence is the sum of the bounds, so that of a command is read off the calls it makes.
\<close>

section \<open>Bounds on what is sent\<close>

named_theorems sends_rules \<open>bounds on the number of transactions sent\<close>

definition sends_le :: "('w \<Rightarrow> 'c chain_world) \<Rightarrow> nat \<Rightarrow> ('w, 'e, 'a) eio \<Rightarrow> bool" where
  "sends_le net n m \<longleftrightarrow> (\<forall>w. \<exists>ts. sent (net (snd (m w))) = sent (net w) @ ts \<and> length ts \<le> n)"

lemma sends_le_0: "sends_le net 0 m \<longleftrightarrow> (\<forall>w. sent (net (snd (m w))) = sent (net w))"
  by (auto simp: sends_le_def)

lemma sends_leI: "sends_le net k m \<Longrightarrow> k \<le> n \<Longrightarrow> sends_le net n m"
  unfolding sends_le_def by (meson le_trans)

lemma sends_ret [sends_rules]: "sends_le net 0 (ret a)"
  by (simp add: sends_le_def)

lemma sends_bail [sends_rules]: "sends_le net 0 (bail e)"
  by (simp add: sends_le_def)

lemma sends_lift [sends_rules]: "sends_le net 0 (lift r)"
  by (simp add: sends_le_def)

lemma sends_bind [sends_rules]:
  assumes "sends_le net a m" "\<And>x. sends_le net b (f x)"
  shows "sends_le net (a + b) (bind_io m f)"
  unfolding sends_le_def
proof
  fix w
  obtain ts where ts: "sent (net (snd (m w))) = sent (net w) @ ts" "length ts \<le> a" using assms(1) by (auto simp: sends_le_def)
  show "\<exists>ts. sent (net (snd (bind_io m f w))) = sent (net w) @ ts \<and> length ts \<le> a + b"
  proof (cases "fst (m w)")
    case (Ok x)
    obtain us where "sent (net (snd (f x (snd (m w))))) = sent (net (snd (m w))) @ us" "length us \<le> b"
      using assms(2) by (auto simp: sends_le_def)
    with ts Ok show ?thesis by (intro exI [of _ "ts @ us"]) (simp add: snd_bind_cases)
  qed (use ts in \<open>auto simp: snd_bind_cases\<close>)
qed

lemma sends_map_err [sends_rules]: "sends_le net n m \<Longrightarrow> sends_le net n (map_err_io g m)"
  by (simp add: sends_le_def)

lemma sends_for [sends_rules]: "(\<And>x. sends_le net 0 (f x)) \<Longrightarrow> sends_le net 0 (for_io xs f)"
proof (induction xs)
  case (Cons x xs)
  have "sends_le net (0 + 0) (bind_io (f x) (\<lambda>_. for_io xs f))" by (intro sends_bind Cons)
  then show ?case by simp
qed (simp add: sends_ret)

lemma sends_option [sends_rules]:
  "(\<And>x. sends_le net n (f x)) \<Longrightarrow> sends_le net n g \<Longrightarrow> sends_le net n (case opt of Some x \<Rightarrow> f x | None \<Rightarrow> g)"
  by (cases opt) simp_all

lemma sends_prod [sends_rules]: "(\<And>x y. sends_le net n (f x y)) \<Longrightarrow> sends_le net n (case p of (x, y) \<Rightarrow> f x y)"
  by (cases p) simp

lemma sends_same: "io_rel same_sent m \<Longrightarrow> sends_le (\<lambda>w. w) 0 m"
  by (simp add: sends_le_def io_rel_def same_sent_def)

lemma sends_plan [sends_rules]: "(\<And>h. io_rel same_sent (fin h)) \<Longrightarrow> sends_le (\<lambda>w. w) 1 (run_plan E M p fin)"
  unfolding sends_le_def
proof
  fix w
  assume fin: "\<And>h. io_rel same_sent (fin h)"
  obtain r w' where run: "run_plan E M p fin w = (r, w')" by (cases "run_plan E M p fin w")
  with run_plan_sent [OF fin run] show "\<exists>ts. sent (snd (run_plan E M p fin w)) = sent w @ ts \<and> length ts \<le> 1" by auto
qed

lemma sends_txn [sends_rules]: "sends_le (\<lambda>w. w) 1 (send_txn N t)"
  by (simp add: sends_le_def send_txn_def split: prod.splits)

lemma sends_on_chain [sends_rules]: "sends_le (\<lambda>w. w) 0 (on_chain m)"
  by (rule sends_same [OF on_chain_same])

section \<open>The manager\<close>

lemmas sends_frames = premium_same [THEN sends_same] confirm_same [THEN sends_same] receipt_block_same [THEN sends_same]

lemma manager_sends [sends_rules]:
  "sends_le (\<lambda>w. w) 1 (join_subnet L E M s a c pk)"
  "sends_le (\<lambda>w. w) 1 (pre_fund L E M s a c)"
  "sends_le (\<lambda>w. w) 1 (pre_release L E M s a c)"
  "sends_le (\<lambda>w. w) 1 (stake L E M s a c)"
  "sends_le (\<lambda>w. w) 1 (unstake L E M s a c)"
  "sends_le (\<lambda>w. w) 1 (leave_subnet L E M s a)"
  "sends_le (\<lambda>w. w) 1 (kill_subnet L E M s a)"
  "sends_le (\<lambda>w. w) 1 (claim_collateral L E M s a)"
  "sends_le (\<lambda>w. w) 1 (claim_relayer_reward L E M s a)"
  "sends_le (\<lambda>w. w) 1 (fund L E M s gw a to c)"
  "sends_le (\<lambda>w. w) 1 (add_bootstrap L E M s a endpoint)"
  unfolding join_subnet_def pre_fund_def pre_release_def stake_def unstake_def leave_subnet_def
    kill_subnet_def claim_collateral_def claim_relayer_reward_def fund_def add_bootstrap_def
  by (rule sends_plan, rule confirm_same receipt_block_same io_rel_ret [OF same_sent_refl])+

lemma create_subnet_sends [sends_rules]: "sends_le (\<lambda>w. w) 1 (create_subnet L E M a params)"
  unfolding create_subnet_def
  by (rule sends_plan, rule io_rel_bind [OF same_sent_trans on_chain_same])
    (auto split: option.split intro!: same_sent_steps same_sent_refl same_sent_trans)

lemma release_sends [sends_rules]: "sends_le (\<lambda>w. w) 1 (release L E M gw a to c fee)"
  unfolding release_def by (rule sends_leI, (rule sends_rules receipt_block_same)+) simp

lemma send_value_sends [sends_rules]: "sends_le (\<lambda>w. w) 1 (send_value L E M a to c)"
  unfolding send_value_def by (rule sends_leI, (rule sends_rules sends_frames)+) simp

text \<open>Queries send nothing.\<close>

lemma sends_bind0: "sends_le net 0 m \<Longrightarrow> (\<And>x. sends_le net 0 (f x)) \<Longrightarrow> sends_le net 0 (bind_io m f)"
  using sends_bind [of net 0 m 0 f] by simp

lemma sends_if: "sends_le net n m \<Longrightarrow> sends_le net n m' \<Longrightarrow> sends_le net n (if b then m else m')"
  by simp

lemmas quiet_rules = sends_bind0 sends_ret sends_bail sends_lift sends_map_err sends_for sends_option sends_prod sends_if
  sends_on_chain relayer_same_sent [THEN sends_same]

lemma block_hash_sends: "sends_le (\<lambda>w. w) 0 (get_block_hash M h)" "sends_le (\<lambda>w. w) 0 (genesis_epoch L M s)"
    "sends_le (\<lambda>w. w) 0 (query_with_meta N parse a k h)"
  unfolding get_block_hash_def genesis_epoch_def query_with_meta_def by (intro quiet_rules)+

lemma queries_send_nothing [sends_rules]:
  "sends_le (\<lambda>w. w) 0 (chain_head_height M)"
  "sends_le (\<lambda>w. w) 0 (genesis_epoch L M s)"
  "sends_le (\<lambda>w. w) 0 (get_validator_info L M s v)"
  "sends_le (\<lambda>w. w) 0 (get_block_hash M h)"
  "sends_le (\<lambda>w. w) 0 (get_validator_changeset L E M s h)"
  "sends_le (\<lambda>w. w) 0 (get_genesis_info L M s)"
  "sends_le (\<lambda>w. w) 0 (get_top_down_msgs L M s h bh)"
  "sends_le (\<lambda>w. w) 0 (wallet_balance L M a)"
  "sends_le (\<lambda>w. w) 0 (list_child_subnets L M gw)"
  "sends_le (\<lambda>w. w) 0 (list_bootstrap_nodes L M s)"
  "sends_le (\<lambda>w. w) 0 (latest_parent_finality M)"
  "sends_le (\<lambda>w. w) 0 (get_chain_id L M)"
  unfolding chain_head_height_def get_validator_info_def get_validator_changeset_def get_genesis_info_def
    get_top_down_msgs_def wallet_balance_def list_child_subnets_def list_bootstrap_nodes_def
    latest_parent_finality_def get_chain_id_def
  by (intro quiet_rules block_hash_sends)+

lemmas relayer_sends [sends_rules] = relayer_same_sent [THEN sends_same]

section \<open>The client\<close>

lemma sends_on_manager [sends_rules]: "(\<And>M. sends_le (\<lambda>w. w) n (f M)) \<Longrightarrow> sends_le cw_net n (on_manager conn f)"
  by (simp add: sends_le_def on_manager_def split: prod.splits) (metis snd_conv)

lemma sends_parent_of [sends_rules]: "sends_le cw_net 0 (parent_of s)"
  unfolding parent_of_def by (rule sends_lift)

lemma sends_connect [sends_rules]: "sends_le cw_net 0 (connect V e s)"
  by (simp add: sends_le_def connect_def)

lemma sends_evm_wallet [sends_rules]: "sends_le cw_net 0 (with_evm_wallet m)"
  by (simp add: sends_le_def with_evm_wallet_def split: option.split prod.split)

lemma sends_fvm_wallet [sends_rules]: "sends_le cw_net 0 (with_fvm_wallet m)"
  by (simp add: sends_le_def with_fvm_wallet_def split: option.split prod.split)

lemma sends_set_sender: "sends_le cw_net 0 (set_sender a)"
  by (simp add: sends_le_def set_sender_def)

lemma sends_check_sender [sends_rules]:
  fixes V :: "('a, 'c) prov_env"
  shows "sends_le cw_net 0 (check_sender V s from)"
proof -
  have "sends_le (cw_net :: ('a, 'c) client_world \<Rightarrow> _) 0 (bind_io (with_evm_wallet (pks_get_default (pe_libs V) (pe_keys V) (pe_json V))) (\<lambda>dflt.
      case dflt of None \<Rightarrow> bail ''no default evm account configured''
      | Some k \<Rightarrow> bind_io (lift (eth_key_to_fil (pe_libs V) k)) set_sender))"
    by (intro quiet_rules sends_evm_wallet sends_set_sender)
  then show ?thesis
    by (simp add: sends_le_0 check_sender_def split: option.split subnet_config.split)
qed

lemma client_sends_one [sends_rules]:
  "sends_le cw_net 1 (prov_create_subnet V fr par a1 a2 a3 a4 a5)"
  "sends_le cw_net 1 (prov_join_subnet V s fr c pk)"
  "sends_le cw_net 1 (prov_pre_fund V s fr c)"
  "sends_le cw_net 1 (prov_pre_release V s fr c)"
  "sends_le cw_net 1 (prov_stake V s fr c)"
  "sends_le cw_net 1 (prov_unstake V s fr c)"
  "sends_le cw_net 1 (prov_leave_subnet V s fr)"
  "sends_le cw_net 1 (prov_kill_subnet V s fr)"
  "sends_le cw_net 1 (prov_claim_collateral V s fr)"
  "sends_le cw_net 1 (prov_claim_relayer_reward V s fr)"
  "sends_le cw_net 1 (prov_fund V s gw fr to c)"
  "sends_le cw_net 1 (prov_release V s gw fr to c fee)"
  "sends_le cw_net 1 (prov_send_value V s fr to1 c)"
  "sends_le cw_net 1 (prov_add_bootstrap V s fr endpoint)"
  unfolding prov_create_subnet_def prov_join_subnet_def prov_pre_fund_def prov_pre_release_def prov_stake_def
    prov_unstake_def prov_leave_subnet_def prov_kill_subnet_def prov_claim_collateral_def
    prov_claim_relayer_reward_def prov_fund_def prov_release_def prov_send_value_def
    prov_add_bootstrap_def Let_def
  by (rule sends_leI, ((rule sends_rules)+)[1], simp)+

lemma client_queries [sends_rules]:
  "sends_le cw_net 0 (prov_list_child_subnets V gw s)"
  "sends_le cw_net 0 (prov_wallet_balance V s a)"
  "sends_le cw_net 0 (prov_genesis_epoch V s)"
  "sends_le cw_net 0 (prov_get_validator_info V s a)"
  "sends_le cw_net 0 (prov_get_validator_changeset V s h)"
  "sends_le cw_net 0 (prov_get_top_down_msgs V s h bh)"
  "sends_le cw_net 0 (prov_get_block_hash V s h)"
  "sends_le cw_net 0 (prov_get_chain_head_height V s)"
  "sends_le cw_net 0 (prov_get_bottom_up_bundle V s h)"
  "sends_le cw_net 0 (prov_has_submitted_in_last_checkpoint_height V s a)"
  "sends_le cw_net 0 (prov_last_bottom_up_checkpoint_height V s)"
  "sends_le cw_net 0 (prov_quorum_reached_events V s h)"
  "sends_le cw_net 0 (prov_list_bootstrap_nodes V s)"
  "sends_le cw_net 0 (prov_latest_parent_finality V s)"
  unfolding prov_list_child_subnets_def prov_wallet_balance_def prov_genesis_epoch_def
    prov_get_validator_info_def prov_get_validator_changeset_def prov_get_top_down_msgs_def
    prov_get_block_hash_def prov_get_chain_head_height_def prov_get_bottom_up_bundle_def
    prov_has_submitted_in_last_checkpoint_height_def prov_last_bottom_up_checkpoint_height_def
    prov_quorum_reached_events_def prov_list_bootstrap_nodes_def prov_latest_parent_finality_def Let_def
  by (intro quiet_rules sends_rules)+

section \<open>Handlers\<close>

abbreviation session_net :: "('a, 'c) session \<Rightarrow> 'c chain_world" where
  "session_net s \<equiv> cw_net (fst s)"

lemma sends_call [sends_rules]: "sends_le cw_net n m \<Longrightarrow> sends_le session_net n (call m)"
  by (auto simp: sends_le_def call_def case_prod_beta)

lemma sends_println [sends_rules]: "sends_le session_net 0 (println t)"
  by (simp add: sends_le_def println_def case_prod_beta)

lemma sends_log_info [sends_rules]: "sends_le session_net 0 (log_info t)"
  by (simp add: sends_le_def log_info_def case_prod_beta)

lemma sends_on_files [sends_rules]: "sends_le session_net 0 (on_files m)"
  by (simp add: sends_le_def on_files_def case_prod_beta)

lemma sends_args [sends_rules]: "sends_le session_net 0 (arg_subnet C s)" "sends_le session_net 0 (arg_addr C a)"
    "sends_le session_net 0 (arg_amount f)"
  unfolding arg_subnet_def arg_addr_def arg_amount_def by (intro quiet_rules)+

lemma sends_readers [sends_rules]: "sends_le session_net 0 (read_evm f)" "sends_le session_net 0 (read_fvm h)"
  unfolding read_evm_def read_fvm_def by (intro sends_rules)+

lemma sends_keys [sends_rules]: "sends_le session_net 0 (evm_key_at C t)" "sends_le session_net 0 (fvm_key_at C t)"
  unfolding evm_key_at_def fvm_key_at_def by (intro quiet_rules sends_rules)+

lemma sends_exports [sends_rules]: "sends_le session_net 0 (export_evm C x)" "sends_le session_net 0 (export_fvm C x)"
  unfolding export_evm_def export_fvm_def by (intro quiet_rules sends_rules)+

lemma sends_with_provider:
  fixes body :: "(('a, 'c) session, 'b) io"
  assumes "sends_le session_net n body"
  shows "sends_le pr_net n (with_provider C g body)"
  unfolding sends_le_def
proof
  fix pr :: "'c process"
  obtain q k where open_: "get_ipc_provider C g (pr_ks pr) = (q, k)" by (cases "get_ipc_provider C g (pr_ks pr)")
  show "\<exists>ts. sent (pr_net (snd (with_provider C g body pr))) = sent (pr_net pr) @ ts \<and> length ts \<le> n"
  proof (cases q)
    case (Ok p)
    with open_ assms [unfolded sends_le_def, rule_format, of "(\<lparr>cw_prov = p, cw_ks = k, cw_net = pr_net pr\<rparr>, pr_out pr)"]
    show ?thesis by (simp add: with_provider_def case_prod_beta)
  qed (simp_all add: with_provider_def open_)
qed

lemma sends_key_ops [sends_rules]: "sends_le cw_net 0 (new_evm_key V)" "sends_le cw_net 0 (new_fvm_key V tp)"
    "sends_le cw_net 0 (import_evm_key_from_privkey V t)" "sends_le cw_net 0 (import_evm_key_from_json V t)"
    "sends_le cw_net 0 (import_fvm_key V t)"
proof -
  have draw: "sends_le cw_net 0 (draw_key V)" by (simp add: sends_le_def draw_key_def)
  show "sends_le cw_net 0 (new_evm_key V)" "sends_le cw_net 0 (new_fvm_key V tp)"
    "sends_le cw_net 0 (import_evm_key_from_privkey V t)" "sends_le cw_net 0 (import_evm_key_from_json V t)"
    "sends_le cw_net 0 (import_fvm_key V t)"
    unfolding new_evm_key_def new_fvm_key_def import_evm_key_from_privkey_def import_evm_key_from_json_def import_fvm_key_def
    by (intro quiet_rules sends_evm_wallet sends_fvm_wallet draw)+
qed

lemma sends_balances [sends_rules]:
  assumes "\<And>k. sends_le cw_net 0 (q k)"
  shows "sends_le cw_net 0 (balances_of q ks)"
proof -
  have "sent (cw_net (snd (balances_of q ks w))) = sent (cw_net w)" for w
  proof (induction ks arbitrary: w)
    case (Cons k ks)
    obtain r1 w1 where 1: "q k w = (r1, w1)" by (cases "q k w")
    obtain r2 w2 where 2: "balances_of q ks w1 = (r2, w2)" by (cases "balances_of q ks w1")
    have "sent (cw_net (snd (q k w))) = sent (cw_net w)" using assms by (simp add: sends_le_0)
    with Cons.IH [of w1] 1 2 show ?case by (cases r1; cases r2) simp_all
  qed simp
  then show ?thesis by (simp add: sends_le_0)
qed

lemma subnet_handlers_send:
  "sends_le pr_net 1 (handle_create C g a1)" "sends_le pr_net 1 (handle_leave C g a2)"
  "sends_le pr_net 1 (handle_kill C g a2)" "sends_le pr_net 1 (handle_send_value C g a4)" "sends_le pr_net 1 (handle_stake C g a5)"
  "sends_le pr_net 1 (handle_unstake C g a5)" "sends_le pr_net 1 (handle_add_bootstrap C g a6)"
  unfolding handle_create_def create_subnet_cmd_def handle_leave_def handle_kill_def handle_send_value_def handle_stake_def
    handle_unstake_def handle_add_bootstrap_def
  by (rule sends_with_provider, rule sends_leI, ((rule sends_rules)+)[1], simp)+

lemma claim_sends: "sends_le pr_net 1 (handle_claim C g a)"
  unfolding handle_claim_def
  by (cases "cl_rewards a"; simp only: if_True if_False not_True_eq_False not_False_eq_True)
    (rule sends_with_provider, rule sends_leI, ((rule sends_rules)+)[1], simp)+

lemma join_sends: "sends_le pr_net (if js_initial_balance a = None then 1 else 2) (handle_join C g a)"
  unfolding handle_join_def
  by (cases "js_initial_balance a"; simp only: option.case simp_thms if_True if_False option.distinct)
    (rule sends_with_provider, rule sends_leI, ((rule sends_rules)+)[1], simp)+

lemma subnet_queries_send:
  "sends_le pr_net 0 (handle_list_subnets C g a1)" "sends_le pr_net 0 (handle_rpc C g t)" "sends_le pr_net 0 (handle_chain_id C g t)"
  "sends_le pr_net 0 (handle_list_bootstraps C g t)" "sends_le pr_net 0 (handle_genesis_epoch C g t)"
  "sends_le pr_net 0 (handle_validator_info C g t v)"
  unfolding handle_list_subnets_def handle_rpc_def handle_chain_id_def handle_list_bootstraps_def handle_genesis_epoch_def
    handle_validator_info_def
  by (intro sends_with_provider quiet_rules sends_rules)+

lemma sends_wallet_type: "sends_le net 0 m \<Longrightarrow> sends_le net 0 m' \<Longrightarrow> sends_le net 0 (case wt of Evm \<Rightarrow> m | Fvm \<Rightarrow> m')"
  by (cases wt) simp_all

lemma sends_res: "(\<And>x. sends_le net 0 (f x)) \<Longrightarrow> (\<And>e. sends_le net 0 (h e)) \<Longrightarrow> (\<And>p. sends_le net 0 (k p)) \<Longrightarrow>
    sends_le net 0 (case r of Ok x \<Rightarrow> f x | Err e \<Rightarrow> h e | Panic p \<Rightarrow> k p)"
  by (cases r) simp_all

lemma wallet_handlers_send:
  "sends_le pr_net 0 (handle_wallet_new C g a1)" "sends_le pr_net 0 (handle_wallet_balances C g a2)"
  "sends_le pr_net 0 (handle_wallet_import C g a3)" "sends_le pr_net 0 (handle_wallet_export C g a4)"
  "sends_le pr_net 0 (handle_wallet_remove C g a5)" "sends_le pr_net 0 (handle_wallet_set_default C g a5)"
  "sends_le pr_net 0 (handle_wallet_get_default C g t)" "sends_le pr_net 0 (handle_wallet_pubkey C g a5)"
  unfolding handle_wallet_new_def handle_wallet_balances_def handle_wallet_import_def handle_wallet_export_def
    handle_wallet_remove_def handle_wallet_set_default_def handle_wallet_get_default_def handle_wallet_pubkey_def Let_def
  by (intro sends_with_provider quiet_rules sends_rules sends_wallet_type sends_res)+

lemma opt_arg_sends:
  "(\<And>x. sends_le net 0 (m x)) \<Longrightarrow> sends_le net 0 (case o' of Some x \<Rightarrow> bind_io (m x) (\<lambda>y. ret (Some y)) | None \<Rightarrow> ret None)"
  by (intro quiet_rules)

lemma crossmsg_handlers_send:
  "sends_le pr_net 1 (handle_fund C g a1)" "sends_le pr_net 1 (handle_pre_fund C g a2)"
  "sends_le pr_net 1 (handle_pre_release C g a2)" "sends_le pr_net 1 (handle_release C g a3)"
  unfolding handle_fund_def handle_pre_fund_def handle_pre_release_def handle_release_def
  by (rule sends_with_provider, rule sends_leI, ((rule opt_arg_sends sends_rules)+)[1], simp)+

lemma query_handlers_send:
  "sends_le pr_net 0 (handle_list_topdown_msgs C g a1)" "sends_le pr_net 0 (handle_parent_finality C g t)"
  "sends_le pr_net 0 (handle_bottomup_bundles C g a2)" "sends_le pr_net 0 (handle_bottomup_height C g t)"
  "sends_le pr_net 0 (handle_bottomup_submitted C g t u)" "sends_le pr_net 0 (handle_list_validator_changes C g a2)"
  "sends_le pr_net 0 (handle_quorum_reached C g a2)"
  unfolding handle_list_topdown_msgs_def handle_parent_finality_def handle_bottomup_bundles_def handle_bottomup_height_def
    handle_bottomup_submitted_def handle_list_validator_changes_def handle_quorum_reached_def
  by (intro sends_with_provider quiet_rules sends_rules)+

lemma sends_process [sends_rules]: "sends_le pr_net 0 (on_process_files m)" "sends_le pr_net 0 (process_out l)"
  by (simp_all add: sends_le_0 on_process_files_def process_out_def split: prod.split)

lemma local_handlers_send: "sends_le pr_net 0 (handle_config_init C g)" "sends_le pr_net 0 (handle_eth_to_f4 C t)"
    "sends_le pr_net 0 handle_propagate" "sends_le pr_net 0 handle_list_checkpoints"
  unfolding handle_config_init_def handle_eth_to_f4_def handle_propagate_def handle_list_checkpoints_def
  by (intro quiet_rules sends_rules)+

section \<open>The bound of a command\<close>

fun max_sends :: "command \<Rightarrow> nat" where
  "max_sends (Subnet (SubnetJoin a)) = (if js_initial_balance a = None then 1 else 2)"
| "max_sends (Subnet (SubnetCreate _)) = 1"
| "max_sends (Subnet (SubnetLeave _)) = 1"
| "max_sends (Subnet (SubnetKill _)) = 1"
| "max_sends (Subnet (SubnetSendValue _)) = 1"
| "max_sends (Subnet (SubnetStake _)) = 1"
| "max_sends (Subnet (SubnetUnstake _)) = 1"
| "max_sends (Subnet (SubnetClaim _)) = 1"
| "max_sends (Subnet (SubnetAddBootstrap _)) = 1"
| "max_sends (CrossMsg (CrossFund _)) = 1"
| "max_sends (CrossMsg (CrossPreFund _)) = 1"
| "max_sends (CrossMsg (CrossRelease _)) = 1"
| "max_sends (CrossMsg (CrossPreRelease _)) = 1"
| "max_sends _ = 0"

lemmas handlers_send = subnet_handlers_send claim_sends join_sends subnet_queries_send wallet_handlers_send
  crossmsg_handlers_send query_handlers_send local_handlers_send

lemma subnet_command_sends: "sends_le pr_net (max_sends (Subnet c)) (handle_subnet C g c)"
  by (cases c) (simp_all only: handle_subnet.simps max_sends.simps handlers_send)

lemma wallet_command_sends: "sends_le pr_net 0 (handle_wallet C g c)"
  by (cases c) (simp_all only: handle_wallet.simps handlers_send)

lemma crossmsg_command_sends: "sends_le pr_net (max_sends (CrossMsg c)) (handle_crossmsg C g c)"
  by (cases c) (simp_all only: handle_crossmsg.simps max_sends.simps handlers_send)

lemma command_sends: "handle_command C g c = Some h \<Longrightarrow> sends_le pr_net (max_sends c) h"
proof (cases c)
  case (Checkpoint k)
  assume "handle_command C g c = Some h"
  with Checkpoint show ?thesis by (cases k) (auto simp: handlers_send)
qed (auto simp: subnet_command_sends wallet_command_sends crossmsg_command_sends handlers_send
    simp del: handle_subnet.simps handle_wallet.simps handle_crossmsg.simps)

text \<open>C6: Whatever the nodes answer and however it ends, a command of the command line other than the relayer sends at
  most the transactions it is named for: queries, wallet, configuration and utility commands none, a join with an
  initial balance two, every other command one.\<close>

theorem cli_max_sends:
  assumes "cli fmt C g (Some c) pr r pr'" "\<forall>args. c \<noteq> Checkpoint (CheckpointRelayer args)"
  shows "\<exists>ts. sent (pr_net pr') = sent (pr_net pr) @ ts \<and> length ts \<le> max_sends c"
  using assms(1)
proof (cases rule: cli.cases)
  case (cli_returns h r')
  then have "h pr = (r', pr')" "handle_command C g c = Some h" by simp_all
  with command_sends [of C g c h] show ?thesis unfolding sends_le_def by (metis snd_conv)
qed (use assms(2) in auto)

end
