(* ===== verification/Provider_Properties.thy ===== *)
theory Provider_Properties
  imports Provider
begin

text \<open>
  What the provider adds to the managers it forwards to: which network an operation goes to,
  who signs it, what an unknown subnet does, and how an imported key becomes usable.
\<close>

section \<open>The sender\<close>

lemma with_evm_wallet_get_default:
  assumes "evm_keystore (cw_prov w) = Some ks" "pks_inv (pe_keys V) (ks, ks_fs (cw_ks w))"
    "codec_ok (pe_libs V) (pe_keys V) (pe_json V)"
  shows "\<exists>w'. with_evm_wallet (pks_get_default (pe_libs V) (pe_keys V) (pe_json V)) w
       = (Ok (default_key (memory ks)), w')
     \<and> sender (cw_prov w') = sender (cw_prov w) \<and> cw_net w' = cw_net w"
proof -
  from assms pks.get_default_law [of "pe_keys V" "(ks, ks_fs (cw_ks w))" "pe_libs V" "pe_json V"]
  obtain s' where "pks_get_default (pe_libs V) (pe_keys V) (pe_json V) (ks, ks_fs (cw_ks w)) = (Ok (default_key (memory ks)), s')"
    by (auto simp: pks_default_def)
  then show ?thesis using assms(1) by (cases s') (simp add: with_evm_wallet_def)
qed

text \<open>C25: The sender of an operation is the one given; else the provider's; else the default key
  of the Ethereum key store, which the provider then keeps for the following operations. Without
  a default key the operation fails. Nothing is sent in any case.\<close>

theorem sender_choice:
  assumes ks: "evm_keystore (cw_prov w) = Some ks" "pks_inv (pe_keys V) (ks, ks_fs (cw_ks w))"
    "codec_ok (pe_libs V) (pe_keys V) (pe_json V)"
  shows "check_sender V s (Some a) w = (Ok a, w)
    \<and> (\<forall>b. sender (cw_prov w) = Some b \<longrightarrow> check_sender V s None w = (Ok b, w))
    \<and> (\<forall>k b. sender (cw_prov w) = None \<longrightarrow> default_key (memory ks) = Some k \<longrightarrow> eth_key_to_fil (pe_libs V) k = Ok b \<longrightarrow>
        (\<exists>w'. check_sender V s None w = (Ok b, w') \<and> cw_net w' = cw_net w
           \<and> (\<forall>s2. check_sender V s2 None w' = (Ok b, w'))))
    \<and> (sender (cw_prov w) = None \<longrightarrow> default_key (memory ks) = None \<longrightarrow>
        (\<exists>w'. check_sender V s None w = (Err ''no default evm account configured'', w') \<and> cw_net w' = cw_net w))"
proof -
  obtain w1 where w1: "with_evm_wallet (pks_get_default (pe_libs V) (pe_keys V) (pe_json V)) w
       = (Ok (default_key (memory ks)), w1)" "sender (cw_prov w1) = sender (cw_prov w)" "cw_net w1 = cw_net w"
    using with_evm_wallet_get_default [OF ks] by blast
  then show ?thesis
    by (auto simp: check_sender_def bind_io_def lift_def set_sender_def with_sender_def bail_def split: subnet_config.splits)
qed

section \<open>Unknown subnets\<close>

lemma parent_of_None: "parent s = None \<Longrightarrow> bind_io (parent_of s) f w = (Err ''no parent found'', w)"
  by (simp add: parent_of_def bail_def)

lemma connect_None:
  "map_of (subnets (prov_config (cw_prov w))) i = None \<Longrightarrow> bind_io (connect V e i) f w = (Err e, w)"
  by (simp add: connect_def connection_to_def bind_io_def)

lemma parent_of_Some: "parent s = Some p \<Longrightarrow> bind_io (parent_of s) f w = f p w"
  by (simp add: parent_of_def)

text \<open>The message of an operation whose own message for a missing parent network is \<open>e\<close>.\<close>

definition parent_error :: "'a subnet_id \<Rightarrow> string \<Rightarrow> string" where
  "parent_error s e = (if parent s = None then ''no parent found'' else e)"

lemma parent_connect_None:
  assumes "\<forall>p. parent s = Some p \<longrightarrow> map_of (subnets (prov_config (cw_prov w))) p = None"
  shows "bind_io (parent_of s) (\<lambda>p. bind_io (connect V e p) f) w = (Err (parent_error s e), w)"
  using assms by (cases "parent s") (auto simp: parent_of_None parent_of_Some connect_None parent_error_def)

lemmas parent_ops = prov_join_subnet_def prov_pre_fund_def prov_pre_release_def prov_stake_def
  prov_unstake_def prov_leave_subnet_def prov_claim_collateral_def prov_claim_relayer_reward_def
  prov_kill_subnet_def prov_fund_def prov_add_bootstrap_def

lemmas parent_queries = prov_genesis_epoch_def prov_get_validator_info_def prov_get_validator_changeset_def
  prov_get_genesis_info_def prov_get_top_down_msgs_def prov_has_submitted_in_last_checkpoint_height_def
  prov_last_bottom_up_checkpoint_height_def prov_list_bootstrap_nodes_def

lemmas own_ops = prov_create_subnet_def prov_release_def prov_send_value_def prov_list_child_subnets_def
  prov_wallet_balance_def prov_chain_head_def prov_get_block_hash_def prov_get_chain_id_def
  prov_get_chain_head_height_def prov_get_bottom_up_bundle_def prov_quorum_reached_events_def
  prov_latest_parent_finality_def

text \<open>C35: The operations that a subnet's parent hosts fail without any effect when the id is a root (\<open>no parent found\<close>)
  and when the parent is not in the configuration, the queries about a subnet that are answered by its
  parent as well. The operations and queries that run in a network itself, and the creation of a subnet in
  it, fail without effect when that network is not in the configuration, be it a root or not.\<close>

theorem unknown_subnet_refused:
  assumes "\<forall>p. parent s = Some p \<longrightarrow> map_of (subnets (prov_config (cw_prov w))) p = None"
    and "map_of (subnets (prov_config (cw_prov w))) i = None"
  shows "prov_join_subnet V s from c pk w = (Err (parent_error s ''target parent subnet not found''), w)
    \<and> prov_pre_fund V s from c w = (Err (parent_error s ''target parent subnet not found''), w)
    \<and> prov_pre_release V s from c w = (Err (parent_error s ''target parent subnet not found''), w)
    \<and> prov_stake V s from c w = (Err (parent_error s ''target parent subnet not found''), w)
    \<and> prov_unstake V s from c w = (Err (parent_error s ''target parent subnet not found''), w)
    \<and> prov_leave_subnet V s from w = (Err (parent_error s ''target parent subnet not found''), w)
    \<and> prov_claim_collateral V s from w = (Err (parent_error s ''target parent subnet not found''), w)
    \<and> prov_claim_relayer_reward V s from w = (Err (parent_error s ''target parent subnet not found''), w)
    \<and> prov_kill_subnet V s from w = (Err (parent_error s ''target parent subnet not found''), w)
    \<and> prov_fund V s gw from to c w = (Err (parent_error s ''target parent subnet not found''), w)
    \<and> prov_add_bootstrap V s from endpoint w = (Err (parent_error s ''target parent subnet not found''), w)
    \<and> prov_genesis_epoch V s w = (Err (parent_error s ''parent subnet config not found''), w)
    \<and> prov_get_genesis_info V s w = (Err (parent_error s ''parent subnet config not found''), w)
    \<and> prov_get_validator_info V s a w = (Err (parent_error s ''target subnet parent not found''), w)
    \<and> prov_get_validator_changeset V s h w = (Err (parent_error s ''target subnet parent not found''), w)
    \<and> prov_get_top_down_msgs V s h bh w = (Err (parent_error s ''target parent subnet not found''), w)
    \<and> prov_list_bootstrap_nodes V s w = (Err (parent_error s ''target parent subnet not found''), w)
    \<and> prov_has_submitted_in_last_checkpoint_height V s a w = (Err (parent_error s ''parent subnet not found''), w)
    \<and> prov_last_bottom_up_checkpoint_height V s w = (Err (parent_error s ''parent subnet not found''), w)
    \<and> prov_create_subnet V from i mv ms pl al fee' w = (Err ''target parent subnet not found'', w)
    \<and> prov_release V i gw from to c fee w = (Err ''target subnet not found'', w)
    \<and> prov_send_value V i from a c w = (Err ''target subnet not found'', w)
    \<and> prov_list_child_subnets V gw i w = (Err ''target subnet not found'', w)
    \<and> prov_wallet_balance V i a w = (Err ''target subnet not found'', w)
    \<and> prov_chain_head V i w = (Err ''target subnet not found'', w)
    \<and> prov_get_block_hash V i h w = (Err ''target subnet not found'', w)
    \<and> prov_get_chain_id V i w = (Err ''target subnet not found'', w)
    \<and> prov_get_chain_head_height V i w = (Err ''target subnet not found'', w)
    \<and> prov_get_bottom_up_bundle V i h w = (Err ''target subnet not found'', w)
    \<and> prov_quorum_reached_events V i h w = (Err ''target subnet not found'', w)
    \<and> prov_latest_parent_finality V i w = (Err ''target subnet not found'', w)"
  unfolding parent_ops parent_queries own_ops Let_def parent_connect_None [where V = V, OF assms(1)] connect_None [OF assms(2)] by simp

section \<open>Operations on the parent's network\<close>

text \<open>
  \<open>can_sign V w a e\<close>: the key store of the provider has, for the Ethereum address \<open>e\<close> of \<open>a\<close>, a
  key whose address is \<open>e\<close>. \<open>reachable V w p M\<close>: the subnet \<open>p\<close> is configured and \<open>M\<close> is the manager
  made from its entry, with a node that answers.
\<close>

definition can_sign :: "('a, 'c) prov_env \<Rightarrow> ('a, 'c) client_world \<Rightarrow> 'a \<Rightarrow> bytes \<Rightarrow> bool" where
  "can_sign V w a e \<longleftrightarrow> payload_to_evm_address (addr_payload (pe_libs V) a) = Ok e
     \<and> (\<exists>ks i. evm_keystore (cw_prov w) = Some ks \<and> map_of (data (memory ks)) e = Some i
          \<and> wallet_from_bytes (pe_eth V) (private_key i) = Ok e)"

definition reachable :: "('a, 'c) prov_env \<Rightarrow> ('a, 'c) client_world \<Rightarrow> 'a subnet_id \<Rightarrow> 'c eth_subnet_manager \<Rightarrow> bool" where
  "reachable V w p M \<longleftrightarrow> (\<exists>sn. map_of (subnets (prov_config (cw_prov w))) p = Some sn
     \<and> from_subnet_with_wallet_store (pe_libs V) (pe_connect V) sn (evm_keystore (cw_prov w)) = Ok M)
     \<and> answers (pe_eth V) M"

lemma reachable_manager:
  assumes "reachable V w p M" "config_inv (prov_config (cw_prov w))"
  shows "mgr_chain_id M = chain_id (pe_libs V) p" and "mgr_keystore M = evm_keystore (cw_prov w)"
proof -
  obtain sn where sn: "map_of (subnets (prov_config (cw_prov w))) p = Some sn"
      "from_subnet_with_wallet_store (pe_libs V) (pe_connect V) sn (evm_keystore (cw_prov w)) = Ok M"
    using assms(1) by (auto simp: reachable_def)
  have "sn_id sn = p" using assms(2) sn(1) by (auto simp: config_inv_def)
  with sn(2) show "mgr_chain_id M = chain_id (pe_libs V) p" "mgr_keystore M = evm_keystore (cw_prov w)"
    by (cases "sn_config sn"; auto simp: from_subnet_with_wallet_store_def eth_manager_new_def res_simps)+
qed

lemma can_sign_signer:
  assumes "can_sign V w a e" "reachable V w p M" "config_inv (prov_config (cw_prov w))"
  shows "get_signer (pe_libs V) (pe_eth V) M a = Ok \<lparr>signer_address = e, signer_chain_id = chain_id (pe_libs V) p\<rparr>"
  using assms reachable_manager [OF assms(2,3)]
  by (auto simp: can_sign_def get_signer_def mgr_keystore_get_def pks_get_def mem_get_def)

text \<open>The one transaction a client operation adds to the network; nothing else changes.\<close>

definition client_sends :: "('a, 'c) client_world \<Rightarrow> u64 \<Rightarrow> bytes \<Rightarrow> bytes \<Rightarrow> u256 \<Rightarrow> contract_call
    \<Rightarrow> (('a, 'c) client_world, 'b) io \<Rightarrow> bool" where
  "client_sends w cid e t val call m \<longleftrightarrow>
     (\<exists>r w' gp. m w = (Ok r, w') \<and> cw_prov w' = cw_prov w \<and> cw_ks w' = cw_ks w
        \<and> sent (cw_net w') = sent (cw_net w) @ [\<lparr>tx_sender = e, tx_chain_id = cid, tx_to = t, tx_value = val,
             tx_call = call, tx_gas_price = gp, tx_fee_cap = None\<rparr>])"

lemma connect_run:
  assumes "reachable V w p M"
  shows "\<exists>sn. bind_io (connect V err p) (\<lambda>conn. bind_io (check_sender V (conn_subnet conn) (Some a)) (\<lambda>sndr.
       on_manager conn (f sndr))) w = on_manager \<lparr>conn_subnet = sn, conn_manager = M\<rparr> (f a) w"
  using assms by (auto simp: reachable_def connect_def connection_to_def bind_io_def check_sender_def)

lemma on_manager_sends:
  assumes "sends_exactly (pe_eth V) M (Ok t) (Ok \<lparr>signer_address = e, signer_chain_id = cid\<rparr>) val call (f M)"
    and "answers (pe_eth V) M" "mgr_keystore M = evm_keystore (cw_prov w)"
  shows "client_sends w cid e t val call (on_manager \<lparr>conn_subnet = sn, conn_manager = M\<rparr> f)"
proof -
  have M: "M\<lparr>mgr_keystore := evm_keystore (cw_prov w)\<rparr> = M" using assms(3) by (cases M) simp
  obtain r n where run: "f M (cw_net w) = (r, n)" by (cases "f M (cw_net w)")
  from sends_exactly_run [OF assms(1,2), of "cw_net w"] run show ?thesis
    unfolding client_sends_def on_manager_def connection.simps M by (auto simp: is_ok_iff)
qed

lemma parent_op_sends:
  assumes "parent s = Some p" "reachable V w p M" "config_inv (prov_config (cw_prov w))" "can_sign V w a e"
    and "sends_exactly (pe_eth V) M (Ok t) (get_signer (pe_libs V) (pe_eth V) M a) val call (f a M)"
  shows "client_sends w (chain_id (pe_libs V) p) e t val call
      (\<lambda>w. bind_io (parent_of s) (\<lambda>p. bind_io (connect V err p) (\<lambda>conn.
         bind_io (check_sender V (conn_subnet conn) (Some a)) (\<lambda>sndr. on_manager conn (f sndr)))) w)"
proof -
  obtain sn where run: "bind_io (connect V err p) (\<lambda>conn. bind_io (check_sender V (conn_subnet conn) (Some a)) (\<lambda>sndr.
       on_manager conn (f sndr))) w = on_manager \<lparr>conn_subnet = sn, conn_manager = M\<rparr> (f a) w"
    using connect_run [OF assms(2)] by blast
  have "client_sends w (chain_id (pe_libs V) p) e t val call (on_manager \<lparr>conn_subnet = sn, conn_manager = M\<rparr> (f a))"
    using assms(2,5) reachable_manager(2) [OF assms(2,3)] can_sign_signer [OF assms(4,2,3)]
    by (intro on_manager_sends) (auto simp: reachable_def)
  then show ?thesis unfolding client_sends_def parent_of_Some [OF assms(1)] run .
qed

lemma parent_sends:
  assumes "parent s = Some p" "reachable V w p M" "config_inv (prov_config (cw_prov w))" "can_sign V w a e"
    and "contract_address_from_subnet (pe_libs V) s = Ok t" and "0 \<le> c" "c < 2 ^ 128"
  shows "client_sends w (chain_id (pe_libs V) p) e t (word_of_int c) (Join pk) (prov_join_subnet V s (Some a) c pk)"
    and "client_sends w (chain_id (pe_libs V) p) e t (word_of_int c) PreFund (prov_pre_fund V s (Some a) c)"
    and "client_sends w (chain_id (pe_libs V) p) e t (word_of_int c) Stake (prov_stake V s (Some a) c)"
    and "client_sends w (chain_id (pe_libs V) p) e t 0 (Unstake (word_of_int c)) (prov_unstake V s (Some a) c)"
    and "client_sends w (chain_id (pe_libs V) p) e t 0 (PreRelease (word_of_int c)) (prov_pre_release V s (Some a) c)"
    and "client_sends w (chain_id (pe_libs V) p) e t 0 Leave (prov_leave_subnet V s (Some a))"
    and "client_sends w (chain_id (pe_libs V) p) e t 0 Kill (prov_kill_subnet V s (Some a))"
    and "client_sends w (chain_id (pe_libs V) p) e t 0 Claim (prov_claim_collateral V s (Some a))"
    and "client_sends w (chain_id (pe_libs V) p) e t 0 ClaimRewardForRelayer (prov_claim_relayer_reward V s (Some a))"
proof -
  note op = parent_op_sends [OF assms(1-4)]
  note st = staking_sends [OF assms(6,7), of "pe_eth V" M "pe_libs V" s, unfolded assms(5)]
  note ac = actor_call_sends [of "pe_eth V" M "pe_libs V" s, unfolded assms(5)]
  show "client_sends w (chain_id (pe_libs V) p) e t (word_of_int c) (Join pk) (prov_join_subnet V s (Some a) c pk)"
    unfolding parent_ops by (intro op st ac)
  show "client_sends w (chain_id (pe_libs V) p) e t (word_of_int c) PreFund (prov_pre_fund V s (Some a) c)"
    unfolding parent_ops by (intro op st ac)
  show "client_sends w (chain_id (pe_libs V) p) e t (word_of_int c) Stake (prov_stake V s (Some a) c)"
    unfolding parent_ops by (intro op st ac)
  show "client_sends w (chain_id (pe_libs V) p) e t 0 (Unstake (word_of_int c)) (prov_unstake V s (Some a) c)"
    unfolding parent_ops by (intro op st ac)
  show "client_sends w (chain_id (pe_libs V) p) e t 0 (PreRelease (word_of_int c)) (prov_pre_release V s (Some a) c)"
    unfolding parent_ops by (intro op st ac)
  show "client_sends w (chain_id (pe_libs V) p) e t 0 Leave (prov_leave_subnet V s (Some a))"
    unfolding parent_ops by (intro op st ac)
  show "client_sends w (chain_id (pe_libs V) p) e t 0 Kill (prov_kill_subnet V s (Some a))"
    unfolding parent_ops by (intro op st ac)
  show "client_sends w (chain_id (pe_libs V) p) e t 0 Claim (prov_claim_collateral V s (Some a))"
    unfolding parent_ops by (intro op st ac)
  show "client_sends w (chain_id (pe_libs V) p) e t 0 ClaimRewardForRelayer (prov_claim_relayer_reward V s (Some a))"
    unfolding parent_ops by (intro op st ac)
qed

text \<open>C8: Joining, funding before genesis, staking, unstaking and releasing in a subnet, leaving and
  killing it, through the provider: with a configured parent whose node answers and a key for the
  sender, the operation succeeds and hands the parent's node one transaction, signed by the sender for the
  parent's chain id and addressed to the subnet's actor; provider and key files are unchanged.\<close>

theorem parent_operations:
  assumes "parent s = Some p" "reachable V w p M" "config_inv (prov_config (cw_prov w))" "can_sign V w a e"
    and "contract_address_from_subnet (pe_libs V) s = Ok t" and "0 \<le> c" "c < 2 ^ 128"
  shows "client_sends w (chain_id (pe_libs V) p) e t (word_of_int c) (Join pk) (prov_join_subnet V s (Some a) c pk)
    \<and> client_sends w (chain_id (pe_libs V) p) e t (word_of_int c) PreFund (prov_pre_fund V s (Some a) c)
    \<and> client_sends w (chain_id (pe_libs V) p) e t (word_of_int c) Stake (prov_stake V s (Some a) c)
    \<and> client_sends w (chain_id (pe_libs V) p) e t 0 (Unstake (word_of_int c)) (prov_unstake V s (Some a) c)
    \<and> client_sends w (chain_id (pe_libs V) p) e t 0 (PreRelease (word_of_int c)) (prov_pre_release V s (Some a) c)
    \<and> client_sends w (chain_id (pe_libs V) p) e t 0 Leave (prov_leave_subnet V s (Some a))
    \<and> client_sends w (chain_id (pe_libs V) p) e t 0 Kill (prov_kill_subnet V s (Some a))
    \<and> client_sends w (chain_id (pe_libs V) p) e t 0 Claim (prov_claim_collateral V s (Some a))
    \<and> client_sends w (chain_id (pe_libs V) p) e t 0 ClaimRewardForRelayer (prov_claim_relayer_reward V s (Some a))"
  by (intro conjI parent_sends [OF assms])

section \<open>Keys\<close>

lemma import_privkey_run:
  assumes ks: "evm_keystore (cw_prov w) = Some ks" "pks_inv (pe_keys V) (ks, ks_fs (cw_ks w))"
    and ok: "codec_ok (pe_libs V) (pe_keys V) (pe_json V)"
    and key: "key_of (pe_keys V) \<lparr>private_key = b\<rparr> = Some e" "e \<noteq> dflt_key (pe_keys V)"
    and hex: "\<not> starts_with (hex_encode (pe_libs V) b) ''0x''"
  obtains w' ks' where "import_evm_key_from_privkey V (hex_encode (pe_libs V) b) w = (Ok e, w')"
    "import_evm_key_from_privkey V (''0x'' @ hex_encode (pe_libs V) b) w = (Ok e, w')"
    "evm_keystore (cw_prov w') = Some ks'" "pks_inv (pe_keys V) (ks', ks_fs (cw_ks w'))"
    "mem_lookup (memory ks') = (mem_lookup (memory ks))(e \<mapsto> \<lparr>private_key = b\<rparr>)"
    "pks_new (pe_libs V) (pe_keys V) (pe_json V) (file_path ks) (ks_fs (cw_ks w')) = Ok ks'" "cw_net w' = cw_net w"
proof -
  have raw: "hex_decode (pe_libs V) (hex_encode (pe_libs V) b) = Ok b" using ok by (simp add: codec_ok_def)
  obtain ks' f' where
      put: "pks_put (pe_libs V) (pe_keys V) (pe_json V) \<lparr>private_key = b\<rparr> (ks, ks_fs (cw_ks w)) = (Ok e, (ks', f'))"
      and ks': "pks_inv (pe_keys V) (ks', f')" "pks_new (pe_libs V) (pe_keys V) (pe_json V) (file_path ks) f' = Ok ks'"
        "memory ks' = (memory ks)\<lparr>data := AList.update e \<lparr>private_key = b\<rparr> (data (memory ks))\<rparr>"
    using pks_put_run [OF ks(2) ok key] by (metis fst_conv snd_conv prod.collapse)
  let ?w = "w\<lparr>cw_prov := (cw_prov w)\<lparr>evm_keystore := Some ks'\<rparr>, cw_ks := (cw_ks w)\<lparr>ks_fs := f'\<rparr>\<rparr>"
  have "with_evm_wallet (bind_io (lift (Ok b)) (\<lambda>raw. pks_put (pe_libs V) (pe_keys V) (pe_json V) (key_info_new raw))) w = (Ok e, ?w)"
    using put by (simp add: with_evm_wallet_def ks(1) key_info_new_def)
  then have "import_evm_key_from_privkey V (hex_encode (pe_libs V) b) w = (Ok e, ?w)"
      "import_evm_key_from_privkey V (''0x'' @ hex_encode (pe_libs V) b) w = (Ok e, ?w)"
    using hex raw by (simp_all add: import_evm_key_from_privkey_def starts_with_def)
  then show ?thesis using that [of ?w ks'] ks' by (simp add: map_of_update)
qed

text \<open>C26: A private key imported from its hexadecimal text, with or without the prefix \<open>0x\<close>, is stored under
  its Ethereum address, the key store file is written, and from then on every manager signs for that address with it.\<close>

theorem imported_key_signs:
  assumes ks: "evm_keystore (cw_prov w) = Some ks" "pks_inv (pe_keys V) (ks, ks_fs (cw_ks w))"
    and ok: "codec_ok (pe_libs V) (pe_keys V) (pe_json V)"
    and key: "key_of (pe_keys V) \<lparr>private_key = b\<rparr> = Some e" "e \<noteq> dflt_key (pe_keys V)"
    and hex: "\<not> starts_with (hex_encode (pe_libs V) b) ''0x''"
    and wallet: "wallet_from_bytes (pe_eth V) b = Ok e"
    and addr: "payload_to_evm_address (addr_payload (pe_libs V) a) = Ok e"
  shows "\<exists>w'. import_evm_key_from_privkey V (hex_encode (pe_libs V) b) w = (Ok e, w')
     \<and> import_evm_key_from_privkey V (''0x'' @ hex_encode (pe_libs V) b) w = (Ok e, w')
     \<and> can_sign V w' a e
     \<and> (\<exists>ks'. evm_keystore (cw_prov w') = Some ks' \<and> pks_inv (pe_keys V) (ks', ks_fs (cw_ks w')))"
proof -
  obtain w' ks' where w': "import_evm_key_from_privkey V (hex_encode (pe_libs V) b) w = (Ok e, w')"
      "import_evm_key_from_privkey V (''0x'' @ hex_encode (pe_libs V) b) w = (Ok e, w')"
      "evm_keystore (cw_prov w') = Some ks'" "pks_inv (pe_keys V) (ks', ks_fs (cw_ks w'))"
      and look: "mem_lookup (memory ks') = (mem_lookup (memory ks))(e \<mapsto> \<lparr>private_key = b\<rparr>)"
    using import_privkey_run [OF ks ok key hex] by metis
  then have "can_sign V w' a e" using addr wallet fun_cong [OF look, of e] by (simp add: can_sign_def mem_lookup_def)
  with w' show ?thesis by blast
qed

text \<open>\<open>expand_tilde\<close> leaves a path that does not start with \<open>~\<close> alone and puts the home directory in place
  of the \<open>~\<close>; but when the home directory is the root, \<open>~/foo\<close> becomes the relative path \<open>foo\<close>, not
  \<open>/foo\<close>.\<close>

lemma expand_tilde_spec:
  "(\<not> path_starts_tilde p \<longrightarrow> expand_tilde home p = p)
   \<and> expand_tilde (Some h) \<lparr>absolute = False, comps = [''~'']\<rparr> = h
   \<and> (cs \<noteq> [] \<longrightarrow> comps h \<noteq> [] \<longrightarrow>
        expand_tilde (Some h) \<lparr>absolute = False, comps = ''~'' # cs\<rparr> = \<lparr>absolute = absolute h, comps = comps h @ cs\<rparr>)
   \<and> (cs \<noteq> [] \<longrightarrow> expand_tilde (Some \<lparr>absolute = True, comps = []\<rparr>) \<lparr>absolute = False, comps = ''~'' # cs\<rparr>
        = \<lparr>absolute = False, comps = cs\<rparr>)
   \<and> expand_tilde None p = p"
  by (auto simp: expand_tilde_def path_starts_tilde_def path_join_def)

section \<open>Evaluation at concrete inputs\<close>

definition demo_env :: "(demo_addr, unit) prov_env" where
  "demo_env = \<lparr>pe_libs = demo_libs, pe_keys = demo_keys, pe_json = demo_json, pe_eth = demo_eth_libs,
     pe_connect = (\<lambda>_ _. Ok demo_node), pe_ks = demo_ks_libs, pe_sig = demo_sig, pe_toml = demo_toml,
     pe_lotus_key = (\<lambda>s. Ok (''bls'', s)), pe_evm_key = (\<lambda>s. Ok \<lparr>pki_address = [], pki_private_key = s\<rparr>),
     pe_random_key = (\<lambda>n. replicate 20 (of_nat n)), pe_home_dir = None, pe_HOME = None\<rparr>"

definition demo_client :: "(demo_addr, unit) client_world" where
  "demo_client = \<lparr>cw_prov = \<lparr>sender = None, prov_config = add_subnet demo_subnet config_new, fvm_wallet = None,
       evm_keystore = Some demo_key_store\<rparr>,
     cw_ks = \<lparr>ks_fs = demo_fs, draws = 0, modes = []\<rparr>, cw_net = demo_world\<rparr>"

lemma demo_env_sel [simp]: "pe_libs demo_env = demo_libs" "pe_keys demo_env = demo_keys" "pe_json demo_env = demo_json"
    "pe_eth demo_env = demo_eth_libs"
  by (simp_all add: demo_env_def)

lemma demo_key_store_inv: "pks_inv demo_keys (demo_key_store, demo_fs)"
  using demo_pks_inv
  by (simp add: pks_inv_def demo_pks_def demo_key_store_def mem_inv_def)
    (simp add: demo_keys_def eth_key_ops_def demo_wallet_address_def eth_key_default_def demo_eth_def)

lemma demo_reachable: "\<exists>M. reachable demo_env demo_client \<lparr>root = 5, children = []\<rparr> M"
proof -
  have "\<exists>M. from_subnet_with_wallet_store demo_libs (\<lambda>_ _. Ok demo_node) demo_subnet (Some demo_key_store) = Ok M
      \<and> mgr_node M = demo_node"
    by (simp add: from_subnet_with_wallet_store_def demo_subnet_def eth_manager_new_def)
  then obtain M where M: "from_subnet_with_wallet_store demo_libs (\<lambda>_ _. Ok demo_node) demo_subnet (Some demo_key_store) = Ok M"
      "mgr_node M = demo_node" by blast
  have "answers demo_eth_libs M" using demo_answers M(2) by (simp add: answers_def)
  with M(1) show ?thesis
    by (intro exI [of _ M]) (simp add: reachable_def demo_client_def add_subnet_def config_new_def demo_env_def,
      simp add: demo_subnet_def)
qed

lemma demo_can_sign: "can_sign demo_env demo_client (DemoEth demo_eth) demo_eth"
  by (simp add: can_sign_def demo_client_def demo_key_store_def demo_eth_libs_def demo_wallet_address_def demo_eth_def
      eth_key_default_def)

lemma demo_config_inv: "config_inv (prov_config (cw_prov demo_client))"
  by (simp add: config_inv_def demo_client_def add_subnet_def config_new_def demo_subnet_def)

lemma sender_choice_witness:
  "check_sender demo_env demo_subnet (Some (DemoId 3)) demo_client = (Ok (DemoId 3), demo_client)
   \<and> (\<exists>w'. check_sender demo_env demo_subnet None demo_client = (Err ''no default evm account configured'', w'))"
  using sender_choice [of demo_client demo_key_store demo_env demo_subnet "DemoId 3"] demo_key_store_inv demo_codec_ok
  by (auto simp: demo_client_def demo_key_store_def)

text \<open>The root of the demo network has no parent; the child it could have is not configured, and neither is a
  grandchild's parent.\<close>

lemma unknown_subnet_refused_witness:
  "prov_leave_subnet demo_env (new_root 5) None demo_client = (Err ''no parent found'', demo_client)
   \<and> prov_get_genesis_info demo_env \<lparr>root = 5, children = [DemoId 1, DemoId 2]\<rparr> demo_client = (Err ''parent subnet config not found'', demo_client)
   \<and> prov_create_subnet demo_env None demo_child 1 1 1 1 1 demo_client = (Err ''target parent subnet not found'', demo_client)
   \<and> prov_send_value demo_env demo_child None (DemoId 3) 1 demo_client = (Err ''target subnet not found'', demo_client)"
proof -
  have cfg: "map_of (subnets (prov_config (cw_prov demo_client))) i = None" if "children i \<noteq> []" for i
    using that by (auto simp: demo_client_def add_subnet_def config_new_def demo_subnet_def)
  then have child: "map_of (subnets (prov_config (cw_prov demo_client))) demo_child = None" by (simp add: demo_child_def)
  have par: "parent \<lparr>root = 5, children = [DemoId 1, DemoId 2]\<rparr> = Some \<lparr>root = 5, children = [DemoId 1]\<rparr>"
    by (simp add: parent_def subnet_new_def)
  have root: "parent (new_root 5 :: demo_addr subnet_id) = None" by (simp add: parent_def new_root_def)
  have "prov_leave_subnet demo_env (new_root 5) None demo_client = (Err (parent_error (new_root 5 :: demo_addr subnet_id) ''target parent subnet not found''), demo_client)"
    using root unknown_subnet_refused [OF _ child, where s = "new_root 5" and V = demo_env] by simp
  moreover have "prov_get_genesis_info demo_env \<lparr>root = 5, children = [DemoId 1, DemoId 2]\<rparr> demo_client
      = (Err (parent_error \<lparr>root = 5, children = [DemoId 1, DemoId 2]\<rparr> ''parent subnet config not found''), demo_client)"
    using par cfg unknown_subnet_refused [OF _ child, where s = "\<lparr>root = 5, children = [DemoId 1, DemoId 2]\<rparr>" and V = demo_env] by simp
  moreover from root have "prov_create_subnet demo_env None demo_child 1 1 1 1 1 demo_client = (Err ''target parent subnet not found'', demo_client)
      \<and> prov_send_value demo_env demo_child None (DemoId 3) 1 demo_client = (Err ''target subnet not found'', demo_client)"
    using unknown_subnet_refused [OF _ child, where s = "new_root 5" and V = demo_env] by simp
  ultimately show ?thesis using root par by (simp add: parent_error_def)
qed

lemma parent_operations_witness:
  "client_sends demo_client (chain_id demo_libs \<lparr>root = 5, children = []\<rparr>) demo_eth demo_eth 10 (Join [1])
     (prov_join_subnet demo_env demo_child (Some (DemoEth demo_eth)) 10 [1])"
proof -
  obtain M where M: "reachable demo_env demo_client \<lparr>root = 5, children = []\<rparr> M" using demo_reachable by blast
  have "parent demo_child = Some \<lparr>root = 5, children = []\<rparr>"
    by (simp add: parent_def demo_child_def subnet_new_def)
  from parent_operations [OF this M demo_config_inv demo_can_sign, of demo_eth 10 "[1]"] show ?thesis by simp
qed

lemma imported_key_signs_witness:
  "\<exists>w'. import_evm_key_from_privkey demo_env (''0x'' @ demo_hex (replicate 20 8)) demo_client = (Ok (replicate 20 8), w')
     \<and> can_sign demo_env w' (DemoEth (replicate 20 8)) (replicate 20 8)"
proof -
  have "demo_hex (replicate 20 8) = nibble_char 0 # nibble_char 8 # demo_hex (replicate 19 8)"
    using replicate_Suc [of 19 "8 :: 8 word"] by simp
  then have "\<not> starts_with (demo_hex (replicate 20 8)) ''0x''"
    by (simp add: starts_with_def nibble_char_def char_of_def)
  with imported_key_signs [of demo_client demo_key_store demo_env "replicate 20 8" "replicate 20 8" "DemoEth (replicate 20 8)"]
    demo_key_store_inv demo_codec_ok
  show ?thesis
    by (auto simp: demo_client_def demo_keys_def eth_key_ops_def demo_wallet_address_def eth_key_default_def demo_eth_libs_def)
qed

end
