(* ===== verification/Keystore_Refinement.thy ===== *)
theory Keystore_Refinement
  imports Evm_Keystore
begin

text \<open>
  The Ethereum key store as its users see it: a key ring, a map from addresses to keys with an
  optional default address. The store keeps the default as a second copy of a key under a reserved address, and a
  file beside the memory; this theory shows that neither can be observed, in any sequence of calls
  and restarts.
\<close>

section \<open>The abstract key ring\<close>

record 'k key_ring =
  ring_keys :: "'k \<Rightarrow> key_info option"
  ring_of_default :: "'k option"

datatype 'k ring_call =
    RingPut key_info
  | RingRemove 'k
  | RingSetDefault 'k
  | RingGetDefault
  | RingGet 'k
  | RingReopen

datatype 'k ring_reply = RKey 'k | RDone | RDefault "'k option" | RInfo "key_info option" | RFailed string

fun ring_step :: "'k key_ops \<Rightarrow> 'k ring_call \<Rightarrow> 'k key_ring \<Rightarrow> 'k ring_reply \<times> 'k key_ring" where
  "ring_step K (RingPut i) r =
     (case key_of K i of
        None \<Rightarrow> (RFailed ''cannot convert private key to public key'', r)
      | Some k \<Rightarrow> (RKey k, r\<lparr>ring_keys := (ring_keys r)(k \<mapsto> i)\<rparr>))"
| "ring_step K (RingRemove k) r =
     (RDone, \<lparr>ring_keys = (ring_keys r)(k := None), ring_of_default = (if ring_of_default r = Some k then None else ring_of_default r)\<rparr>)"
| "ring_step K (RingSetDefault k) r =
     (case ring_keys r k of
        None \<Rightarrow> (RFailed ''can't set default key: not found in keystore'', r)
      | Some _ \<Rightarrow> (RDone, r\<lparr>ring_of_default := Some k\<rparr>))"
| "ring_step K RingGetDefault r = (RDefault (ring_of_default r), r)"
| "ring_step K (RingGet k) r = (RInfo (ring_keys r k), r)"
| "ring_step K RingReopen r = (RDone, r)"

text \<open>The reserved address of the default is not an argument of a call.\<close>

fun call_ok :: "'k key_ops \<Rightarrow> 'k ring_call \<Rightarrow> bool" where
  "call_ok K (RingPut i) \<longleftrightarrow> key_of K i \<noteq> Some (dflt_key K)"
| "call_ok K (RingRemove k) \<longleftrightarrow> k \<noteq> dflt_key K"
| "call_ok K (RingSetDefault k) \<longleftrightarrow> k \<noteq> dflt_key K"
| "call_ok K RingGetDefault \<longleftrightarrow> True"
| "call_ok K (RingGet k) \<longleftrightarrow> k \<noteq> dflt_key K"
| "call_ok K RingReopen \<longleftrightarrow> True"

section \<open>Stores that implement it\<close>

fun reply :: "('b \<Rightarrow> 'k ring_reply) \<Rightarrow> (string, 'b) res \<times> 's \<Rightarrow> 'k ring_reply \<times> 's" where
  "reply f (Ok b, s) = (f b, s)"
| "reply f (Err e, s) = (RFailed e, s)"
| "reply f (Panic p, s) = (RFailed p, s)"

text \<open>The ring a store stands for: the entry under the reserved address is hidden.\<close>

definition ring_of :: "('s \<Rightarrow> 'k \<Rightarrow> key_info option) \<Rightarrow> ('s \<Rightarrow> 'k option) \<Rightarrow> 'k key_ops \<Rightarrow> 's \<Rightarrow> 'k key_ring" where
  "ring_of lookup dflt_of K s = \<lparr>ring_keys = (lookup s)(dflt_key K := None), ring_of_default = dflt_of s\<rparr>"

locale ring_keystore = evm_keystore +
  assumes put_refused: "inv s \<Longrightarrow> key_of K i = None \<Longrightarrow> put i s = (Err ''cannot convert private key to public key'', s)"
    and set_default_refused: "inv s \<Longrightarrow> lookup s k = None \<Longrightarrow>
      set_default k s = (Err ''can't set default key: not found in keystore'', s)"
begin

abbreviation "ring \<equiv> ring_of lookup dflt_of K"

lemma ring_put:
  assumes "inv s" "key_of K i \<noteq> Some (dflt_key K)"
  shows "\<exists>s'. reply RKey (put i s) = (fst (ring_step K (RingPut i) (ring s)), s') \<and> inv s' \<and> ring s' = snd (ring_step K (RingPut i) (ring s))"
proof (cases "key_of K i")
  case None
  with put_refused [OF assms(1)] assms(1) show ?thesis by simp
next
  case (Some k)
  with assms(2) have k: "k \<noteq> dflt_key K" by auto
  from put_law [OF assms(1) Some k] obtain s' where s': "put i s = (Ok k, s')" "inv s'" "lookup s' = (lookup s)(k \<mapsto> i)" by blast
  moreover have "dflt_of s' = dflt_of s" using inv_dflt [OF s'(2)] inv_dflt [OF assms(1)] s'(3) k by simp
  ultimately show ?thesis using Some k by (simp add: ring_of_def fun_upd_twist)
qed

lemma ring_remove:
  assumes "inv s" "k \<noteq> dflt_key K"
  shows "\<exists>s'. reply (\<lambda>_. RDone) (remove k s) = (fst (ring_step K (RingRemove k) (ring s)), s') \<and> inv s'
    \<and> ring s' = snd (ring_step K (RingRemove k) (ring s))"
proof -
  from remove_law [OF assms] obtain s' where s': "remove k s = (Ok (), s')" "inv s'"
    "lookup s' = (lookup s)(k := None, dflt_key K := if dflt_of s = Some k then None else lookup s (dflt_key K))" by blast
  moreover have "dflt_of s' = (if dflt_of s = Some k then None else dflt_of s)"
    using inv_dflt [OF s'(2)] inv_dflt [OF assms(1)] s'(3) by simp
  ultimately show ?thesis using assms(2) by (auto simp: ring_of_def fun_eq_iff)
qed

lemma ring_set_default:
  assumes "inv s" "k \<noteq> dflt_key K"
  shows "\<exists>s'. reply (\<lambda>_. RDone) (set_default k s) = (fst (ring_step K (RingSetDefault k) (ring s)), s') \<and> inv s'
    \<and> ring s' = snd (ring_step K (RingSetDefault k) (ring s))"
proof (cases "lookup s k")
  case None
  with set_default_refused [OF assms(1)] assms show ?thesis by (simp add: ring_of_def)
next
  case (Some i)
  from set_default_law [OF assms Some] obtain s' where s': "set_default k s = (Ok (), s')" "inv s'" "lookup s' = (lookup s)(dflt_key K \<mapsto> i)"
    by blast
  moreover have "dflt_of s' = Some k" using inv_dflt [OF s'(2)] s'(3) inv_key [OF assms Some] by simp
  ultimately show ?thesis using Some assms(2) by (simp add: ring_of_def fun_eq_iff)
qed

lemma ring_get_default:
  assumes "inv s"
  shows "\<exists>s'. reply RDefault (get_default s) = (fst (ring_step K RingGetDefault (ring s)), s') \<and> inv s'
    \<and> ring s' = snd (ring_step K RingGetDefault (ring s))"
proof -
  from get_default_law [OF assms] obtain s' where s': "get_default s = (Ok (dflt_of s), s')" "inv s'" "lookup s' = lookup s" by blast
  moreover have "dflt_of s' = dflt_of s" using inv_dflt [OF s'(2)] inv_dflt [OF assms] s'(3) by simp
  ultimately show ?thesis by (simp add: ring_of_def)
qed

lemma ring_get: "k \<noteq> dflt_key K \<Longrightarrow> fst (ring_step K (RingGet k) (ring s)) = RInfo (lookup s k)"
  by (simp add: ring_of_def)

end

section \<open>The key store in memory and on disk\<close>

interpretation mem_ring: ring_keystore mem_lookup default_key "mem_put K" "mem_remove K"
    "mem_set_default K" "mem_get_default K" K "mem_inv K" for K :: "'k key_ops"
  by unfold_locales (simp_all add: mem_put_def mem_set_default_def)

text \<open>An open store agrees with its file.\<close>

definition pks_open :: "'a libs \<Rightarrow> 'k key_ops \<Rightarrow> key_json \<Rightarrow> 'k pks_world \<Rightarrow> bool" where
  "pks_open L K J w \<longleftrightarrow> pks_inv K w \<and> codec_ok L K J \<and> pks_new L K J (file_path (fst w)) (snd w) = Ok (fst w)"

lemma pks_open_step:
  assumes "pks_open L K J w" and run: "m (memory (fst w)) = (Ok r, mem)" and mem: "mem_inv K mem"
  shows "\<exists>w'. bind_io (in_memory m) (\<lambda>a. bind_io (flushed L K J) (\<lambda>_. ret a)) w = (Ok r, w')
     \<and> pks_open L K J w' \<and> memory (fst w') = mem"
proof -
  have "pks_inv K w" "codec_ok L K J" using assms(1) by (simp_all add: pks_open_def)
  then show ?thesis using pks_step [where m = m, OF _ _ run mem] unfolding pks_open_def by metis
qed

lemma pks_stops:
  assumes "m (memory (fst w)) = (Err e, memory (fst w))"
  shows "bind_io (in_memory m) f w = (Err e, w)"
  using assms by (cases w) (simp add: in_memory_def bind_io_def)

interpretation pks_ring: ring_keystore pks_lookup pks_default "pks_put L K J" "pks_remove L K J"
    "pks_set_default L K J" "pks_get_default L K J" K "pks_open L K J"
  for L :: "'a libs" and K :: "'k key_ops" and J :: key_json
proof unfold_locales
  fix w :: "'k pks_world" and k i
  assume w: "pks_open L K J w"
  then have m: "mem_inv K (memory (fst w))" by (simp add: pks_open_def pks_inv_def)
  note laws = pks_lookup_def pks_default_def
  note step = pks_open_step [OF w]
  show "pks_default w = Option.bind (pks_lookup w (dflt_key K)) (key_of K)"
    using mem.inv_dflt [OF m] by (simp add: laws)
  show "\<exists>s'. pks_get_default L K J w = (Ok (pks_default w), s') \<and> pks_open L K J s' \<and> pks_lookup s' = pks_lookup w"
    using mem.get_default_law [OF m] step unfolding pks_ops_via_step laws by metis
  show "\<exists>s'. pks_put L K J i w = (Ok k, s') \<and> pks_open L K J s' \<and> pks_lookup s' = (pks_lookup w)(k \<mapsto> i)"
    if "key_of K i = Some k" "k \<noteq> dflt_key K"
    using mem.put_law [OF m that] step unfolding pks_ops_via_step laws by metis
  show "pks_put L K J i w = (Err ''cannot convert private key to public key'', w)" if "key_of K i = None"
    unfolding pks_ops_via_step by (rule pks_stops, rule mem_ring.put_refused [OF m that])
  show "pks_set_default L K J k w = (Err ''can't set default key: not found in keystore'', w)" if "pks_lookup w k = None"
    unfolding pks_ops_via_step by (rule pks_stops, rule mem_ring.set_default_refused [OF m]) (use that in \<open>simp add: laws\<close>)
  assume k: "k \<noteq> dflt_key K"
  show "key_of K i = Some k" if "pks_lookup w k = Some i"
    using mem.inv_key [OF m k] that by (simp add: laws)
  show "\<exists>s'. pks_remove L K J k w = (Ok (), s') \<and> pks_open L K J s' \<and> pks_lookup s' = (pks_lookup w)
      (k := None, dflt_key K := if pks_default w = Some k then None else pks_lookup w (dflt_key K))"
    using mem.remove_law [OF m k] step unfolding pks_ops_via_step laws by metis
  show "\<exists>s'. pks_set_default L K J k w = (Ok (), s') \<and> pks_open L K J s' \<and> pks_lookup s' = (pks_lookup w)(dflt_key K \<mapsto> i)"
    if "pks_lookup w k = Some i"
    using mem.set_default_law [OF m k] that step unfolding pks_ops_via_step laws by metis
qed

fun pks_call :: "'a libs \<Rightarrow> 'k key_ops \<Rightarrow> key_json \<Rightarrow> 'k ring_call \<Rightarrow> 'k pks_world \<Rightarrow> 'k ring_reply \<times> 'k pks_world" where
  "pks_call L K J (RingPut i) w = reply RKey (pks_put L K J i w)"
| "pks_call L K J (RingRemove k) w = reply (\<lambda>_. RDone) (pks_remove L K J k w)"
| "pks_call L K J (RingSetDefault k) w = reply (\<lambda>_. RDone) (pks_set_default L K J k w)"
| "pks_call L K J RingGetDefault w = reply RDefault (pks_get_default L K J w)"
| "pks_call L K J (RingGet k) w = reply RInfo (pks_get k (fst w), w)"
| "pks_call L K J RingReopen w =
     (case pks_new L K J (file_path (fst w)) (snd w) of
        Ok s \<Rightarrow> (RDone, (s, snd w))
      | Err e \<Rightarrow> (RFailed e, w)
      | Panic p \<Rightarrow> (RFailed p, w))"

abbreviation pks_ring_of :: "'k key_ops \<Rightarrow> 'k pks_world \<Rightarrow> 'k key_ring" where
  "pks_ring_of \<equiv> ring_of pks_lookup pks_default"

lemma pks_call_refines:
  assumes "pks_open L K J w" "call_ok K c"
  shows "\<exists>w'. pks_call L K J c w = (fst (ring_step K c (pks_ring_of K w)), w') \<and> pks_open L K J w'
     \<and> pks_ring_of K w' = snd (ring_step K c (pks_ring_of K w))"
proof (cases c)
  case (RingGet k)
  with assms pks_ring.ring_get [of k K w] show ?thesis by (simp add: pks_get_def mem_get_def pks_lookup_def)
next
  case RingReopen
  with assms show ?thesis by (simp add: pks_open_def)
qed (use assms pks_ring.ring_put [of L K J w] pks_ring.ring_remove [of L K J w] pks_ring.ring_set_default [of L K J w]
      pks_ring.ring_get_default [of L K J w] in \<open>simp_all del: ring_step.simps\<close>)

section \<open>Opening\<close>

text \<open>Whatever the file holds, the keys read from it are filed under their own addresses.\<close>

definition keys_filed :: "'k key_ops \<Rightarrow> ('k \<times> key_info) list \<Rightarrow> bool" where
  "keys_filed K al \<longleftrightarrow> distinct (map fst al) \<and> (\<forall>k i. k \<noteq> dflt_key K \<longrightarrow> map_of al k = Some i \<longrightarrow> key_of K i = Some k)"

lemma load_keys_filed: "load_keys L K infos acc = Ok al \<Longrightarrow> keys_filed K acc \<Longrightarrow> keys_filed K al"
proof (induction infos arbitrary: acc)
  case (Cons info infos)
  then obtain pk a where run: "load_keys L K infos (AList.update a \<lparr>private_key = pk\<rparr> acc) = Ok al"
      and a: "infer_addr K info \<lparr>private_key = pk\<rparr> = Ok a"
    by (auto simp: res_simps Let_def)
  have "keys_filed K (AList.update a \<lparr>private_key = pk\<rparr> acc)"
    using a Cons.prems(2) by (auto simp: keys_filed_def infer_addr_def map_of_update res_simps split: if_splits)
  with Cons.IH [OF run] show ?case by simp
qed simp

lemma pks_new_inv:
  assumes "pks_new L K J p f = Ok s"
  shows "mem_inv K (memory s)" "file_path s = p"
proof -
  have "mem_inv K (memory s) \<and> file_path s = p"
  proof (cases "data (memory s) = [] \<and> default_key (memory s) = None \<and> file_path s = p")
    case True
    then show ?thesis by (simp add: mem_inv_def)
  next
    case False
    with assms obtain infos al d where run: "load_keys L K infos [] = Ok al"
        and d: "(case map_of al (dflt_key K) of Some i \<Rightarrow> and_then (ok_or ''couldn't get info for default key'' (key_of K i)) (\<lambda>k. Ok (Some k))
                 | None \<Rightarrow> Ok None) = Ok d"
        and s: "s = \<lparr>memory = \<lparr>data = al, default_key = d\<rparr>, file_path = p\<rparr>"
      by (auto simp: pks_new_def res_simps split: if_splits res.splits io_error.splits)
    have "keys_filed K al" by (rule load_keys_filed [OF run]) (simp add: keys_filed_def)
    with d s show ?thesis
      by (cases "map_of al (dflt_key K)") (auto simp: mem_inv_def keys_filed_def res_simps simp del: map_of_eq_Some_iff)
  qed
  then show "mem_inv K (memory s)" "file_path s = p" by simp_all
qed

lemma opened_pks_open:
  "pks_new L K J p f = Ok s \<Longrightarrow> writable f p \<Longrightarrow> codec_ok L K J \<Longrightarrow> pks_open L K J (s, f)"
  using pks_new_inv [of L K J p f s] by (simp add: pks_open_def pks_inv_def)

text \<open>C4: The key store on disk refines the key ring: from a store opened on a file, whatever the file holds, every sequence
  of puts, removals, changes and queries of the default, lookups and restarts (which read the file again)
  answers as the key ring does and ends in a store that stands for the ring the sequence leads to.\<close>

theorem pks_refines_ring:
  assumes "pks_new L K J p f = Ok s" "writable f p" "codec_ok L K J" "list_all (call_ok K) cs"
  shows "\<exists>w'. run_calls (pks_call L K J) cs (s, f) = (fst (run_calls (ring_step K) cs (pks_ring_of K (s, f))), w')
     \<and> pks_open L K J w' \<and> pks_ring_of K w' = snd (run_calls (ring_step K) cs (pks_ring_of K (s, f)))"
  by (rule run_calls_simulation [where I = "pks_open L K J" and P = "call_ok K" and alpha = "pks_ring_of K" and conc = "pks_call L K J" and spec = "ring_step K",
      OF pks_call_refines opened_pks_open [OF assms(1-3)] assms(4)])

text \<open>A key is stored, made the default, looked up after a restart, removed; then there is no default.\<close>

lemma pks_refines_ring_witness:
  "\<exists>w'. run_calls (pks_call demo_libs demo_keys demo_json)
       [RingPut \<lparr>private_key = replicate 20 7\<rparr>, RingSetDefault (replicate 20 7), RingReopen, RingGetDefault,
        RingRemove (replicate 20 7), RingReopen, RingGetDefault] demo_pks
     = ([RKey (replicate 20 7), RDone, RDone, RDefault (Some (replicate 20 7)), RDone, RDone, RDefault None], w')"
proof -
  have key: "key_of demo_keys \<lparr>private_key = replicate 20 7\<rparr> = Some (replicate 20 7)" "replicate 20 7 \<noteq> dflt_key demo_keys"
    by (simp_all add: demo_keys_def eth_key_ops_def demo_wallet_address_def eth_key_default_def)
  have new: "pks_new demo_libs demo_keys demo_json (file_path (fst demo_pks)) (snd demo_pks) = Ok (fst demo_pks)"
    by (simp add: pks_new_def demo_pks_def demo_fs_def fs_open_def path_exists_def is_dir_def)
      (simp add: demo_dir_def file_in_def DEFAULT_KEYSTORE_NAME_def empty_path_def)
  have wr: "writable (snd demo_pks) (file_path (fst demo_pks))" using demo_pks_inv by (simp add: pks_inv_def)
  let ?cs = "[RingPut \<lparr>private_key = replicate 20 7\<rparr>, RingSetDefault (replicate 20 7), RingReopen, RingGetDefault,
        RingRemove (replicate 20 7), RingReopen, RingGetDefault]"
  have ok: "list_all (call_ok demo_keys) ?cs" using key by simp
  have "fst (run_calls (ring_step demo_keys) ?cs (pks_ring_of demo_keys (fst demo_pks, snd demo_pks)))
      = [RKey (replicate 20 7), RDone, RDone, RDefault (Some (replicate 20 7)), RDone, RDone, RDefault None]"
    using key by simp
  with pks_refines_ring [OF new wr demo_codec_ok ok] show ?thesis by (auto simp del: run_calls.simps)
qed

end
