(* ===== verification/Client_Runs.thy ===== *)
theory Client_Runs
  imports Provider_Properties Keystore_Refinement
begin

text \<open>
  The client object over its life: it is built from a configuration file and then used in any order of
  operations. \<open>client_step\<close> is one use, with any arguments and any outcome, \<open>client_reach\<close> the states a client can get
  into, and the invariant says what holds in all of them.
\<close>

inductive client_step :: "('a, 'c) prov_env \<Rightarrow> ('a, 'c) client_world \<Rightarrow> ('a, 'c) client_world \<Rightarrow> bool" for V where
  step_create_subnet: "prov_create_subnet V fr par a1 a2 a3 a4 a5 w = (r, w') \<Longrightarrow> client_step V w w'"
| step_join_subnet: "prov_join_subnet V s fr c pk w = (r, w') \<Longrightarrow> client_step V w w'"
| step_pre_fund: "prov_pre_fund V s fr c w = (r, w') \<Longrightarrow> client_step V w w'"
| step_pre_release: "prov_pre_release V s fr c w = (r, w') \<Longrightarrow> client_step V w w'"
| step_stake: "prov_stake V s fr c w = (r, w') \<Longrightarrow> client_step V w w'"
| step_unstake: "prov_unstake V s fr c w = (r, w') \<Longrightarrow> client_step V w w'"
| step_leave_subnet: "prov_leave_subnet V s fr w = (r, w') \<Longrightarrow> client_step V w w'"
| step_kill_subnet: "prov_kill_subnet V s fr w = (r, w') \<Longrightarrow> client_step V w w'"
| step_claim_collateral: "prov_claim_collateral V s fr w = (r, w') \<Longrightarrow> client_step V w w'"
| step_claim_relayer_reward: "prov_claim_relayer_reward V s fr w = (r, w') \<Longrightarrow> client_step V w w'"
| step_fund: "prov_fund V s gw fr to c w = (r, w') \<Longrightarrow> client_step V w w'"
| step_release: "prov_release V s gw fr to c fee w = (r, w') \<Longrightarrow> client_step V w w'"
| step_send_value: "prov_send_value V s fr to1 c w = (r, w') \<Longrightarrow> client_step V w w'"
| step_add_bootstrap: "prov_add_bootstrap V s fr endpoint w = (r, w') \<Longrightarrow> client_step V w w'"
| step_list_child_subnets: "prov_list_child_subnets V gw s w = (r, w') \<Longrightarrow> client_step V w w'"
| step_wallet_balance: "prov_wallet_balance V s a w = (r, w') \<Longrightarrow> client_step V w w'"
| step_chain_head: "prov_chain_head V s w = (r, w') \<Longrightarrow> client_step V w w'"
| step_genesis_epoch: "prov_genesis_epoch V s w = (r, w') \<Longrightarrow> client_step V w w'"
| step_get_validator_info: "prov_get_validator_info V s a w = (r, w') \<Longrightarrow> client_step V w w'"
| step_get_validator_changeset: "prov_get_validator_changeset V s h w = (r, w') \<Longrightarrow> client_step V w w'"
| step_get_genesis_info: "prov_get_genesis_info V s w = (r, w') \<Longrightarrow> client_step V w w'"
| step_get_top_down_msgs: "prov_get_top_down_msgs V s h bh w = (r, w') \<Longrightarrow> client_step V w w'"
| step_get_block_hash: "prov_get_block_hash V s h w = (r, w') \<Longrightarrow> client_step V w w'"
| step_get_chain_id: "prov_get_chain_id V s w = (r, w') \<Longrightarrow> client_step V w w'"
| step_get_chain_head_height: "prov_get_chain_head_height V s w = (r, w') \<Longrightarrow> client_step V w w'"
| step_get_bottom_up_bundle: "prov_get_bottom_up_bundle V s h w = (r, w') \<Longrightarrow> client_step V w w'"
| step_has_submitted_in_last_checkpoint_height: "prov_has_submitted_in_last_checkpoint_height V s a w = (r, w') \<Longrightarrow> client_step V w w'"
| step_last_bottom_up_checkpoint_height: "prov_last_bottom_up_checkpoint_height V s w = (r, w') \<Longrightarrow> client_step V w w'"
| step_quorum_reached_events: "prov_quorum_reached_events V s h w = (r, w') \<Longrightarrow> client_step V w w'"
| step_list_bootstrap_nodes: "prov_list_bootstrap_nodes V s w = (r, w') \<Longrightarrow> client_step V w w'"
| step_latest_parent_finality: "prov_latest_parent_finality V s w = (r, w') \<Longrightarrow> client_step V w w'"
| step_propagate: "prov_propagate s a b key w = (r, w') \<Longrightarrow> client_step V w w'"
| step_send_cross_message: "prov_send_cross_message a b m w = (r, w') \<Longrightarrow> client_step V w w'"
| step_new_fvm_key: "new_fvm_key V tp w = (r, w') \<Longrightarrow> client_step V w w'"
| step_new_evm_key: "new_evm_key V w = (r, w') \<Longrightarrow> client_step V w w'"
| step_import_fvm_key: "import_fvm_key V t w = (r, w') \<Longrightarrow> client_step V w w'"
| step_import_evm_key_from_privkey: "import_evm_key_from_privkey V t w = (r, w') \<Longrightarrow> client_step V w w'"
| step_import_evm_key_from_json: "import_evm_key_from_json V t w = (r, w') \<Longrightarrow> client_step V w w'"
| step_with_sender: "w' = w\<lparr>cw_prov := with_sender a (cw_prov w)\<rparr> \<Longrightarrow> client_step V w w'"

inductive client_reach :: "('a, 'c) prov_env \<Rightarrow> 'a config \<Rightarrow> ('a, 'c) client_world \<Rightarrow> bool" for V c where
  reach_new: "from_file (pe_libs V) (pe_toml V) p (ks_fs k) = Ok c \<Longrightarrow> new_from_config V p k = (Ok pv, k') \<Longrightarrow>
    client_reach V c \<lparr>cw_prov = pv, cw_ks = k', cw_net = n\<rparr>"
| reach_step: "client_reach V c w \<Longrightarrow> client_step V w w' \<Longrightarrow> client_reach V c w'"

section \<open>What every operation keeps\<close>

definition client_ok :: "('a, 'c) prov_env \<Rightarrow> ('a, 'c) client_world \<Rightarrow> bool" where
  "client_ok V w \<longleftrightarrow> (\<exists>ks. evm_keystore (cw_prov w) = Some ks \<and> mem_inv (pe_keys V) (memory ks)) \<and> fvm_wallet (cw_prov w) \<noteq> None"

definition keeps_ok :: "('a, 'c) prov_env \<Rightarrow> ('a, 'c) client_world \<Rightarrow> ('a, 'c) client_world \<Rightarrow> bool" where
  "keeps_ok V w w' \<longleftrightarrow> prov_config (cw_prov w') = prov_config (cw_prov w) \<and>
     ((\<forall>i. key_of (pe_keys V) i \<noteq> Some (dflt_key (pe_keys V))) \<longrightarrow> client_ok V w \<longrightarrow> client_ok V w')"

lemma keeps_ok_props: "reflp (keeps_ok V)" "transp (keeps_ok V)"
  by (auto simp: keeps_ok_def reflp_def transp_def)

lemma keeps_manager: "io_rel (keeps_ok V) (on_manager conn f)"
  by (simp add: io_rel_def keeps_ok_def client_ok_def on_manager_def split: prod.splits)

lemma keeps_connect: "io_rel (keeps_ok V) (connect V e s)"
  by (simp add: io_rel_def keeps_ok_def connect_def)

lemma keeps_parent_of: "io_rel (keeps_ok V) (parent_of s)"
  by (simp add: io_rel_def keeps_ok_def parent_of_def)

lemma keeps_set_sender: "io_rel (keeps_ok V) (set_sender a)"
  by (simp add: io_rel_def keeps_ok_def client_ok_def set_sender_def with_sender_def)

lemma keeps_draw_key: "io_rel (keeps_ok V) (draw_key V)"
  by (simp add: io_rel_def keeps_ok_def client_ok_def draw_key_def)

lemma keeps_fvm: "io_rel (keeps_ok V) (with_fvm_wallet m)"
  by (auto simp: io_rel_def keeps_ok_def client_ok_def with_fvm_wallet_def split: option.split prod.split)

lemma keeps_evm:
  assumes "\<And>s f. (\<forall>i. key_of (pe_keys V) i \<noteq> Some (dflt_key (pe_keys V))) \<Longrightarrow> mem_inv (pe_keys V) (memory s) \<Longrightarrow>
    mem_inv (pe_keys V) (memory (fst (snd (m (s, f)))))"
  shows "io_rel (keeps_ok V) (with_evm_wallet m)"
  unfolding io_rel_def
proof
  fix w
  show "keeps_ok V w (snd (with_evm_wallet m w))"
  proof (cases "evm_keystore (cw_prov w)")
    case (Some s)
    obtain r s' f' where "m (s, ks_fs (cw_ks w)) = (r, (s', f'))" by (metis prod.collapse)
    with Some assms [of s "ks_fs (cw_ks w)"] show ?thesis
      by (auto simp: with_evm_wallet_def keeps_ok_def client_ok_def)
  qed (simp add: with_evm_wallet_def keeps_ok_def)
qed

text \<open>The store in memory changes before the file is written, whatever becomes of the file.\<close>

lemma snd_in_memory: "memory (fst (snd (bind_io (in_memory m) (\<lambda>a. bind_io (flushed L K J) (\<lambda>_. ret a)) (s, f))))
    = snd (m (memory s))"
  by (simp add: bind_io_def in_memory_def flushed_def ret_def split: prod.split res.split)

lemma keeps_put: "io_rel (keeps_ok V) (with_evm_wallet (pks_put (pe_libs V) (pe_keys V) (pe_json V) i))"
proof (rule keeps_evm)
  fix s :: "eth_key_address persistent_key_store" and f
  assume "\<forall>i. key_of (pe_keys V) i \<noteq> Some (dflt_key (pe_keys V))" "mem_inv (pe_keys V) (memory s)"
  then show "mem_inv (pe_keys V) (memory (fst (snd (pks_put (pe_libs V) (pe_keys V) (pe_json V) i (s, f)))))"
    using mem_put_inv [of "pe_keys V" "memory s" i]
    by (simp add: pks_ops_via_step snd_in_memory mem_put_def split: option.split) metis
qed

lemma keeps_get_default: "io_rel (keeps_ok V) (with_evm_wallet (pks_get_default (pe_libs V) (pe_keys V) (pe_json V)))"
  by (rule keeps_evm) (simp add: pks_ops_via_step snd_in_memory mem_get_default_run)

lemma keeps_option: "(\<And>x. io_rel R (f x)) \<Longrightarrow> io_rel R g \<Longrightarrow> io_rel R (case opt of Some x \<Rightarrow> f x | None \<Rightarrow> g)"
  by (cases opt) simp_all

lemmas keeps_steps = io_rel_bind [OF keeps_ok_props(2)] io_rel_ret [OF keeps_ok_props(1)] io_rel_lift [OF keeps_ok_props(1)]
  io_rel_bail [OF keeps_ok_props(1)] keeps_manager keeps_connect keeps_parent_of keeps_set_sender keeps_draw_key keeps_fvm
  keeps_get_default keeps_put keeps_option

lemma keeps_check_sender:
  fixes V :: "('a, 'c) prov_env"
  shows "io_rel (keeps_ok V) (check_sender V s from)"
proof -
  have "io_rel (keeps_ok V) (bind_io (with_evm_wallet (pks_get_default (pe_libs V) (pe_keys V) (pe_json V))) (\<lambda>dflt.
      case dflt of None \<Rightarrow> bail ''no default evm account configured''
      | Some k \<Rightarrow> bind_io (lift (eth_key_to_fil (pe_libs V) k)) set_sender))"
    by (intro keeps_steps)
  moreover have "keeps_ok V w w" for w by (simp add: keeps_ok_def)
  ultimately show ?thesis
    by (simp add: io_rel_def check_sender_def split: option.split subnet_config.split)
qed

lemma keeps_import: "io_rel (keeps_ok V) (with_evm_wallet (bind_io (lift r) (\<lambda>raw.
    pks_put (pe_libs V) (pe_keys V) (pe_json V) (key_info_new raw))))"
proof (cases r)
  case (Ok raw)
  then show ?thesis by (simp add: keeps_put)
qed (simp_all add: keeps_evm bind_io_def lift_def)

lemma operations_keep_ok:
  "io_rel (keeps_ok V) (prov_create_subnet V fr par a1 a2 a3 a4 a5)"
  "io_rel (keeps_ok V) (prov_join_subnet V s fr c pk)"
  "io_rel (keeps_ok V) (prov_pre_fund V s fr c)"
  "io_rel (keeps_ok V) (prov_pre_release V s fr c)"
  "io_rel (keeps_ok V) (prov_stake V s fr c)"
  "io_rel (keeps_ok V) (prov_unstake V s fr c)"
  "io_rel (keeps_ok V) (prov_leave_subnet V s fr)"
  "io_rel (keeps_ok V) (prov_kill_subnet V s fr)"
  "io_rel (keeps_ok V) (prov_claim_collateral V s fr)"
  "io_rel (keeps_ok V) (prov_claim_relayer_reward V s fr)"
  "io_rel (keeps_ok V) (prov_fund V s gw fr to c)"
  "io_rel (keeps_ok V) (prov_release V s gw fr to c fee)"
  "io_rel (keeps_ok V) (prov_send_value V s fr to1 c)"
  "io_rel (keeps_ok V) (prov_add_bootstrap V s fr endpoint)"
  "io_rel (keeps_ok V) (prov_list_child_subnets V gw s)"
  "io_rel (keeps_ok V) (prov_wallet_balance V s a)"
  "io_rel (keeps_ok V) (prov_chain_head V s)"
  "io_rel (keeps_ok V) (prov_genesis_epoch V s)"
  "io_rel (keeps_ok V) (prov_get_validator_info V s a)"
  "io_rel (keeps_ok V) (prov_get_validator_changeset V s h)"
  "io_rel (keeps_ok V) (prov_get_genesis_info V s)"
  "io_rel (keeps_ok V) (prov_get_top_down_msgs V s h bh)"
  "io_rel (keeps_ok V) (prov_get_block_hash V s h)"
  "io_rel (keeps_ok V) (prov_get_chain_id V s)"
  "io_rel (keeps_ok V) (prov_get_chain_head_height V s)"
  "io_rel (keeps_ok V) (prov_get_bottom_up_bundle V s h)"
  "io_rel (keeps_ok V) (prov_has_submitted_in_last_checkpoint_height V s a)"
  "io_rel (keeps_ok V) (prov_last_bottom_up_checkpoint_height V s)"
  "io_rel (keeps_ok V) (prov_quorum_reached_events V s h)"
  "io_rel (keeps_ok V) (prov_list_bootstrap_nodes V s)"
  "io_rel (keeps_ok V) (prov_latest_parent_finality V s)"
  "io_rel (keeps_ok V) (prov_propagate s a b key)"
  "io_rel (keeps_ok V) (prov_send_cross_message a b m)"
  unfolding prov_create_subnet_def prov_join_subnet_def prov_pre_fund_def prov_pre_release_def prov_stake_def
    prov_unstake_def prov_leave_subnet_def prov_kill_subnet_def prov_claim_collateral_def
    prov_claim_relayer_reward_def prov_fund_def prov_release_def prov_send_value_def
    prov_add_bootstrap_def prov_list_child_subnets_def prov_wallet_balance_def prov_chain_head_def
    prov_genesis_epoch_def prov_get_validator_info_def prov_get_validator_changeset_def
    prov_get_genesis_info_def prov_get_top_down_msgs_def prov_get_block_hash_def
    prov_get_chain_id_def prov_get_chain_head_height_def prov_get_bottom_up_bundle_def
    prov_has_submitted_in_last_checkpoint_height_def prov_last_bottom_up_checkpoint_height_def
    prov_quorum_reached_events_def prov_list_bootstrap_nodes_def prov_latest_parent_finality_def
    prov_propagate_def prov_send_cross_message_def Let_def
  by (intro keeps_steps keeps_check_sender)+

lemma key_operations_keep_ok:
  "io_rel (keeps_ok V) (new_fvm_key V tp)"
  "io_rel (keeps_ok V) (new_evm_key V)"
  "io_rel (keeps_ok V) (import_fvm_key V t)"
  "io_rel (keeps_ok V) (import_evm_key_from_privkey V t)"
  "io_rel (keeps_ok V) (import_evm_key_from_json V t)"
  unfolding new_fvm_key_def new_evm_key_def import_fvm_key_def import_evm_key_from_privkey_def
    import_evm_key_from_json_def
  by (intro keeps_steps keeps_import)+

lemmas all_keep_ok = operations_keep_ok key_operations_keep_ok

lemma client_step_keeps: "client_step V w w' \<Longrightarrow> keeps_ok V w w'"
  by (induction rule: client_step.induct)
    (use all_keep_ok [THEN io_relD] in \<open>metis snd_conv\<close> | simp add: keeps_ok_def client_ok_def with_sender_def)+

lemma new_from_config_ok:
  assumes "from_file (pe_libs V) (pe_toml V) p (ks_fs k) = Ok c" "new_from_config V p k = (Ok pv, k')"
  shows "prov_config pv = c" "config_inv c" "client_ok V \<lparr>cw_prov = pv, cw_ks = k', cw_net = n\<rparr>"
proof -
  from assms obtain ks ek f where pv: "pv = prov_new c (wallet_new ks) ek" and ek: "new_evm_keystore_from_config V c f = Ok ek"
    by (auto simp: new_from_config_def bind_io_Ok_iff read_fs_def ret_def)
  then have "mem_inv (pe_keys V) (memory ek)"
    by (auto simp: new_evm_keystore_from_config_def new_evm_keystore_from_path_def res_simps split: option.splits dest: pks_new_inv(1))
  with pv from_file_inv [OF assms(1)]
  show "prov_config pv = c" "config_inv c" "client_ok V \<lparr>cw_prov = pv, cw_ks = k', cw_net = n\<rparr>"
    by (simp_all add: prov_new_def client_ok_def)
qed

text \<open>C7: In every state a client built from a configuration file reaches, whatever operations are called with whatever
  outcome: the configuration is the one of the file, with every subnet filed under its own identifier; both key
  stores are there; and every key of the Ethereum store is filed under its own address, with the default address that of the
  default entry. The hypothesis says that no private key has the reserved zero address.\<close>

theorem client_invariant:
  assumes "client_reach V c w" "\<forall>i. key_of (pe_keys V) i \<noteq> Some (dflt_key (pe_keys V))"
  shows "prov_config (cw_prov w) = c \<and> config_inv c \<and> fvm_wallet (cw_prov w) \<noteq> None
    \<and> (\<exists>ks. evm_keystore (cw_prov w) = Some ks \<and> mem_inv (pe_keys V) (memory ks))"
proof -
  from assms(1) have "prov_config (cw_prov w) = c \<and> config_inv c \<and> client_ok V w"
  proof (induction rule: client_reach.induct)
    case (reach_new p k pv k' n)
    with new_from_config_ok [OF reach_new] show ?case by simp
  next
    case (reach_step w w')
    with client_step_keeps [OF reach_step(2)] assms(2) show ?case by (simp add: keeps_ok_def)
  qed
  then show ?thesis by (simp add: client_ok_def)
qed

end
