(* ===== verification/Cli_Properties.thy ===== *)
theory Cli_Properties
  imports Cli_Sends Client_Runs
begin

text \<open>
  What a user of the command line can rely on: the transactions a command sends, how keys leave and enter the
  key store, and what a running relayer may do.
\<close>

section \<open>The relayer command\<close>

lemma checkpoint_period_same_sent: "io_rel same_sent (checkpoint_period L M s)"
  unfolding checkpoint_period_def by (intro same_sent_steps same_sent_refl same_sent_trans)

lemma new_evm_manager_same_sent: "io_rel same_sent (new_evm_manager L E conn psn csn ks)"
  unfolding new_evm_manager_def cm_new_def eth_relayer_def relayer.simps
  by (intro same_sent_steps checkpoint_period_same_sent same_sent_refl same_sent_trans)

lemma new_evm_manager_handlers:
  assumes "new_evm_manager L E conn psn csn ks w = (Ok cm, w')"
  shows "\<exists>PM CM. parent_handler cm = eth_relayer L E PM \<and> child_handler cm = eth_relayer L E CM"
  using assms by (auto simp: new_evm_manager_def cm_new_def bind_io_Ok_iff lift_def ret_def)

lemma on_process_files_net [simp]: "pr_net (snd (on_process_files m pr)) = pr_net pr"
  by (simp add: on_process_files_def split: prod.splits)

lemma on_process_net_run: "on_process_net m pr = (fst (m (pr_net pr)), pr\<lparr>pr_net := snd (m (pr_net pr))\<rparr>)"
  by (simp add: on_process_net_def case_prod_beta)

lemma sent_on_process_net: "io_rel same_sent m \<Longrightarrow> sent (pr_net (snd (on_process_net m pr))) = sent (pr_net pr)"
  using io_relD [of same_sent m "pr_net pr"] by (simp add: on_process_net_run same_sent_def)

lemma on_process_net_Ok:
  "on_process_net m pr = (Ok a, pr') \<longleftrightarrow> (\<exists>n. m (pr_net pr) = (Ok a, n) \<and> pr' = pr\<lparr>pr_net := n\<rparr>)"
  by (auto simp: on_process_net_run prod_eq_iff)

definition quiet :: "'c process \<Rightarrow> 'c process \<Rightarrow> bool" where
  "quiet pr pr' \<longleftrightarrow> sent (pr_net pr') = sent (pr_net pr)"

lemma quiet_props: "reflp quiet" "transp quiet"
  by (simp_all add: quiet_def reflp_def transp_def)

lemma quiet_files: "io_rel quiet (on_process_files m)"
  by (simp add: io_rel_def quiet_def)

lemma quiet_net: "io_rel same_sent m \<Longrightarrow> io_rel quiet (on_process_net m)"
  by (simp add: io_rel_def quiet_def sent_on_process_net)

lemma relayer_setup_quiet: "io_rel quiet (relayer_setup C g args)"
  unfolding relayer_setup_def case_prod_beta
  by (intro io_rel_bind [OF quiet_props(2)] io_rel_ret [OF quiet_props(1)] io_rel_lift [OF quiet_props(1)]
      quiet_files quiet_net new_evm_manager_same_sent)

lemma relayer_setup_Ok:
  assumes "relayer_setup C g args pr = (Ok (cm, submitter, interval), pr')"
  shows "\<exists>PM CM. parent_handler cm = eth_relayer (cl_libs C) (pe_eth (cl_prov C)) PM
      \<and> child_handler cm = eth_relayer (cl_libs C) (pe_eth (cl_prov C)) CM"
    and "rla_submitter args = Some t \<Longrightarrow> require_fil_addr_from_str (cl_libs C) t = Ok submitter"
proof -
  from assms obtain cm0 psn csn ks w w' dflt where
      cm: "new_evm_manager (cl_libs C) (pe_eth (cl_prov C)) (pe_connect (cl_prov C)) psn csn ks w = (Ok cm0, w')"
        "cm = (case rla_finalization_blocks args of Some v \<Rightarrow> with_finalization_blocks (sint v) cm0 | None \<Rightarrow> cm0)"
      and sub: "relayer_submitter C (rla_submitter args) dflt = Ok submitter"
    by (auto simp: relayer_setup_def bind_io_Ok_iff lift_def ret_def on_process_net_Ok case_prod_beta)
  show "rla_submitter args = Some t \<Longrightarrow> require_fil_addr_from_str (cl_libs C) t = Ok submitter"
    using sub by (simp add: relayer_submitter_def)
  show "\<exists>PM CM. parent_handler cm = eth_relayer (cl_libs C) (pe_eth (cl_prov C)) PM
      \<and> child_handler cm = eth_relayer (cl_libs C) (pe_eth (cl_prov C)) CM"
    using new_evm_manager_handlers [OF cm(1)] cm(2) by (auto simp: with_finalization_blocks_def split: option.splits)
qed

lemma relayer_run_sends:
  assumes "relayer_setup C g args pr = (Ok (cm, submitter, interval), pr1)" "relayer_run cm submitter (pr_net pr1) net"
  obtains PM where "only_submits (cl_libs C) (pe_eth (cl_prov C)) PM submitter (pr_net pr) net"
    "only_submits (cl_libs C) (pe_eth (cl_prov C)) PM submitter (pr_net pr) (snd (cm_submit_checkpoint cm submitter net))"
proof -
  from relayer_setup_Ok(1) [OF assms(1)] obtain PM CM where
    h: "parent_handler cm = eth_relayer (cl_libs C) (pe_eth (cl_prov C)) PM"
      "child_handler cm = eth_relayer (cl_libs C) (pe_eth (cl_prov C)) CM" by blast
  let ?R = "only_submits (cl_libs C) (pe_eth (cl_prov C)) PM submitter"
  have base: "?R (pr_net pr) (pr_net pr1)"
    using io_relD [OF relayer_setup_quiet, of pr C g args] assms(1) by (simp add: quiet_def only_submits_def)
  have run: "?R (pr_net pr) net"
    by (rule transpD [OF only_submits_trans base relayer_run_only_submits [OF assms(2) h]])
  moreover have "?R (pr_net pr) (snd (cm_submit_checkpoint cm submitter net))"
    by (rule transpD [OF only_submits_trans run io_relD [OF round_only_submits [OF h]]])
  ultimately show ?thesis by (rule that)
qed

text \<open>C10: The relayer command, while it runs and when it has ended: whatever the nodes answer, all it has sent
  are checkpoint submissions without value by one submitter, and this is the address given with the command
  when one is given. It never returns successfully.\<close>

theorem cli_relayer_only_submits:
  fixes C :: "('a, 'c) cli_env"
  assumes "cli fmt C g (Some (Checkpoint (CheckpointRelayer args))) pr r pr'"
  shows "r \<noteq> Some (Ok ()) \<and> (\<exists>submitter (PM :: 'c eth_subnet_manager) ts. sent (pr_net pr') = sent (pr_net pr) @ ts
        \<and> list_all (is_submission (cl_libs C) (pe_eth (cl_prov C)) PM submitter) ts
        \<and> (\<forall>t. ts \<noteq> [] \<longrightarrow> rla_submitter args = Some t \<longrightarrow> require_fil_addr_from_str (cl_libs C) t = Ok submitter))"
  using assms
proof (cases rule: cli.cases)
  case (cli_returns h r')
  then show ?thesis by simp
next
  case (cli_relayer_fails args' r')
  then have "relayer_setup C g args pr = (r', pr')" "\<not> is_ok r'"
      "r = Some (map_err (\<lambda>_. ''error processing command '' @ fmt (Some (Checkpoint (CheckpointRelayer args)))) (and_then r' (\<lambda>_. Ok ())))"
    by simp_all
  with io_relD [OF relayer_setup_quiet, of pr C g args] show ?thesis
    by (cases r') (auto simp: quiet_def)
next
  case (cli_relayer_runs args' cm submitter interval pr1 net)
  then have run: "relayer_setup C g args pr = (Ok (cm, submitter, interval), pr1)" "relayer_run cm submitter (pr_net pr1) net"
    by simp_all
  from relayer_run_sends [OF run] obtain PM where
    "only_submits (cl_libs C) (pe_eth (cl_prov C)) PM submitter (pr_net pr) net" .
  then obtain ts where "sent net = sent (pr_net pr) @ ts" "list_all (is_submission (cl_libs C) (pe_eth (cl_prov C)) PM submitter) ts"
    by (auto simp: only_submits_def)
  with relayer_setup_Ok(2) [OF run(1)] cli_relayer_runs(1,2) show ?thesis
    by (intro conjI exI [of _ submitter] exI [of _ PM] exI [of _ ts]) simp_all
next
  case (cli_relayer_panics args' cm submitter interval pr1 net m net')
  then have run: "relayer_setup C g args pr = (Ok (cm, submitter, interval), pr1)" "relayer_run cm submitter (pr_net pr1) net"
    by simp_all
  from relayer_run_sends [OF run] obtain PM where
    "only_submits (cl_libs C) (pe_eth (cl_prov C)) PM submitter (pr_net pr) (snd (cm_submit_checkpoint cm submitter net))" .
  with cli_relayer_panics(6) obtain ts where "sent net' = sent (pr_net pr) @ ts"
      "list_all (is_submission (cl_libs C) (pe_eth (cl_prov C)) PM submitter) ts"
    by (auto simp: only_submits_def)
  with relayer_setup_Ok(2) [OF run(1)] cli_relayer_panics(1,2) show ?thesis
    by (intro conjI exI [of _ submitter] exI [of _ PM] exI [of _ ts]) simp_all
qed

section \<open>Commands that send a transaction\<close>

text \<open>\<open>opens C g pr w\<close>: the client of a command starts as \<open>w\<close>.\<close>

definition opens :: "('a, 'c) cli_env \<Rightarrow> global_arguments \<Rightarrow> 'c process \<Rightarrow> ('a, 'c) client_world \<Rightarrow> bool" where
  "opens C g pr w \<longleftrightarrow> cw_net w = pr_net pr \<and> get_ipc_provider C g (pr_ks pr) = (Ok (cw_prov w), cw_ks w)"

definition close_session :: "('a, 'c) session \<Rightarrow> 'c process" where
  "close_session s = \<lparr>pr_ks = cw_ks (fst s), pr_net = cw_net (fst s), pr_out = snd s\<rparr>"

lemma with_provider_run:
  "opens C g pr w \<Longrightarrow> with_provider C g body pr = (case body (w, pr_out pr) of (r, s) \<Rightarrow> (r, close_session s))"
  by (cases w) (simp add: opens_def with_provider_def close_session_def case_prod_beta)

lemma opens_config_inv: "opens C g pr w \<Longrightarrow> config_inv (prov_config (cw_prov w))"
  by (auto simp: opens_def get_ipc_provider_def new_from_config_def bind_io_Ok_iff lift_def ret_def read_fs_def prov_new_def
      dest!: from_file_inv arg_cong [of _ "cw_prov w" prov_config])

text \<open>A command succeeds, prints \<open>ls\<close>, leaves the key files as they were opened and adds transactions with the given sender,
  chain, destination, amounts and calls to those sent.\<close>

definition parent_tx :: "bytes \<Rightarrow> u64 \<Rightarrow> bytes \<Rightarrow> u256 \<times> contract_call \<Rightarrow> transaction \<Rightarrow> bool" where
  "parent_tx e cid t vc x \<longleftrightarrow> tx_sender x = e \<and> tx_chain_id x = cid \<and> tx_to x = t \<and> tx_value x = fst vc
     \<and> tx_call x = snd vc \<and> tx_fee_cap x = None"

definition cmd_sends :: "('a, 'c) client_world \<Rightarrow> 'c process \<Rightarrow> bytes \<Rightarrow> u64 \<Rightarrow> bytes \<Rightarrow> (u256 \<times> contract_call) list
    \<Rightarrow> ('c process, unit) io \<Rightarrow> bool" where
  "cmd_sends w pr e cid t vcs m \<longleftrightarrow> (\<exists>pr' txs. m pr = (Ok (), pr') \<and> pr_ks pr' = cw_ks w
     \<and> sent (pr_net pr') = sent (pr_net pr) @ txs \<and> list_all2 (parent_tx e cid t) vcs txs)"

lemma client_sends_step:
  assumes "client_sends w cid e t val cl m"
  obtains r w' x where "m w = (Ok r, w')" "cw_prov w' = cw_prov w" "cw_ks w' = cw_ks w"
    "sent (cw_net w') = sent (cw_net w) @ [x]" "parent_tx e cid t (val, cl) x"
  using assms by (auto simp: client_sends_def parent_tx_def)

lemma cmd_sends_call:
  assumes "opens C g pr w" "client_sends w cid e t val cl m"
    and "\<And>r s. fst (k r s) = Ok () \<and> fst (snd (k r s)) = fst s"
  shows "cmd_sends w pr e cid t [(val, cl)] (with_provider C g (bind_io (call m) k))"
proof -
  obtain r w' x where m: "m w = (Ok r, w')" "cw_ks w' = cw_ks w" "sent (cw_net w') = sent (cw_net w) @ [x]"
    and x: "parent_tx e cid t (val, cl) x" using client_sends_step [OF assms(2)] by metis
  obtain w2 out2 where k: "k r (w', pr_out pr) = (Ok (), (w2, out2))" "w2 = w'"
    using assms(3) [of r "(w', pr_out pr)"] by (metis fst_conv prod.collapse)
  have "with_provider C g (bind_io (call m) k) pr = (Ok (), close_session (w', out2))"
    by (simp add: with_provider_run [OF assms(1)] bind_io_def call_def m(1) k)
  with m(2,3) x assms(1) show ?thesis
    unfolding cmd_sends_def by (intro exI [of _ "close_session (w', out2)"] exI [of _ "[x]"]) (simp add: close_session_def opens_def)
qed

lemma f64_amount_nonneg: "f64_to_token_amount f = Ok c \<Longrightarrow> 0 \<le> c"
  by (auto simp: f64_to_token_amount_def Let_def)

text \<open>\<open>parent_cmd C w sarg from s p M a e t\<close>: the arguments of a command name the subnet \<open>s\<close> and the sender \<open>a\<close>, the
  parent \<open>p\<close> is configured with a node that answers, and the key of \<open>a\<close> is in the key store.\<close>

definition parent_cmd :: "('a, 'c) cli_env \<Rightarrow> ('a, 'c) client_world \<Rightarrow> string \<Rightarrow> string option \<Rightarrow> 'a subnet_id \<Rightarrow> 'a subnet_id
    \<Rightarrow> 'a \<Rightarrow> bytes \<Rightarrow> bytes \<Rightarrow> bool" where
  "parent_cmd C w sarg from s p a e t \<longleftrightarrow> subnet_from_str (cl_libs C) sarg = Ok s \<and> parent s = Some p
     \<and> (\<exists>x. from = Some x \<and> require_fil_addr_from_str (cl_libs C) x = Ok a)
     \<and> (\<exists>M. reachable (cl_prov C) w p M) \<and> can_sign (cl_prov C) w a e
     \<and> contract_address_from_subnet (cl_libs C) s = Ok t"

lemma parent_cmd_args:
  assumes "parent_cmd C w sarg from s p a e t"
  shows "arg_subnet C sarg = ret s" "arg_addr C from = ret (Some a)"
  using assms by (auto simp: parent_cmd_def arg_subnet_def arg_addr_def anyhow_sdk_def lift_def ret_def bind_io_def)

lemma arg_amount_Ok: "f64_to_token_amount f = Ok c \<Longrightarrow> arg_amount f = ret c"
  by (simp add: arg_amount_def lift_def ret_def)

lemma bind_ret_right: "bind_io m ret = m"
  by (auto simp: bind_io_def ret_def split: prod.split res.split)

lemma parent_cmd_reach:
  assumes "opens C g pr w" "parent_cmd C w sarg from s p a e t"
  obtains M where "parent s = Some p" "reachable (cl_prov C) w p M" "config_inv (prov_config (cw_prov w))"
    "can_sign (cl_prov C) w a e" "contract_address_from_subnet (cl_libs C) s = Ok t"
  using assms(2) opens_config_inv [OF assms(1)] by (auto simp: parent_cmd_def)

lemma done_println: "fst (println t s) = Ok () \<and> fst (snd (println t s)) = fst s"
  by (simp add: println_def case_prod_beta)

lemma done_log_info: "fst (log_info t s) = Ok () \<and> fst (snd (log_info t s)) = fst s"
  by (simp add: log_info_def case_prod_beta)

lemma cmd_sends_unit:
  assumes "opens C g pr w" "client_sends w cid e t val cl m"
  shows "cmd_sends w pr e cid t [(val, cl)] (with_provider C g (call m))"
  using cmd_sends_call [OF assms, of ret] by (simp add: bind_ret_right ret_def)

text \<open>C3: The commands that act on a subnet through its parent (join without an initial balance, stake, unstake, leave, kill,
  claim of the collateral or of the relayer's reward, funding and releasing before genesis), run from the command line:
  with arguments that name the subnet and a sender whose key is in the key store, a configured parent whose node
  answers and an amount below 2 to the 128, the command succeeds, leaves the key files alone and sends one
  transaction, signed by the sender for the parent's chain, to the subnet's actor, with the amount read from the
  command line in attoFIL.\<close>

theorem cli_parent_commands:
  assumes "opens C g pr w" "parent_cmd C w sarg from s p a e t" "f64_to_token_amount f = Ok c" "c < 2 ^ 128"
    and "hex_decode (cl_libs C) pkarg = Ok pk"
  shows "cmd_sends w pr e (chain_id (cl_libs C) p) t [(word_of_int c, Join pk)]
      (handle_join C g \<lparr>js_from = from, js_subnet = sarg, js_collateral = f, js_public_key = pkarg, js_initial_balance = None\<rparr>)
    \<and> cmd_sends w pr e (chain_id (cl_libs C) p) t [(word_of_int c, Stake)]
      (handle_stake C g \<lparr>ss_from = from, ss_subnet = sarg, ss_collateral = f\<rparr>)
    \<and> cmd_sends w pr e (chain_id (cl_libs C) p) t [(0, Unstake (word_of_int c))]
      (handle_unstake C g \<lparr>ss_from = from, ss_subnet = sarg, ss_collateral = f\<rparr>)
    \<and> cmd_sends w pr e (chain_id (cl_libs C) p) t [(0, Leave)] (handle_leave C g \<lparr>sf_from = from, sf_subnet = sarg\<rparr>)
    \<and> cmd_sends w pr e (chain_id (cl_libs C) p) t [(0, Kill)] (handle_kill C g \<lparr>sf_from = from, sf_subnet = sarg\<rparr>)
    \<and> cmd_sends w pr e (chain_id (cl_libs C) p) t [(0, if rewards then ClaimRewardForRelayer else Claim)]
      (handle_claim C g \<lparr>sf_from = from, sf_subnet = sarg, cl_rewards = rewards\<rparr>)
    \<and> cmd_sends w pr e (chain_id (cl_libs C) p) t [(word_of_int c, PreFund)]
      (handle_pre_fund C g \<lparr>pf_from = from, pf_subnet = sarg, pf_amount = f\<rparr>)
    \<and> cmd_sends w pr e (chain_id (cl_libs C) p) t [(0, PreRelease (word_of_int c))]
      (handle_pre_release C g \<lparr>pf_from = from, pf_subnet = sarg, pf_amount = f\<rparr>)"
proof -
  obtain M where M: "parent s = Some p" "reachable (cl_prov C) w p M" "config_inv (prov_config (cw_prov w))"
    "can_sign (cl_prov C) w a e" "contract_address_from_subnet (cl_libs C) s = Ok t"
    by (rule parent_cmd_reach [OF assms(1,2)])
  note sends = parent_sends [OF M f64_amount_nonneg [OF assms(3)] assms(4)]
  note args = parent_cmd_args [OF assms(2)] arg_amount_Ok [OF assms(3)] assms(5)
  note run = cmd_sends_call [OF assms(1)] cmd_sends_unit [OF assms(1)]
  show ?thesis
    unfolding handle_join_def handle_stake_def handle_unstake_def handle_leave_def handle_kill_def handle_claim_def
      handle_pre_fund_def handle_pre_release_def
    by (cases rewards) (simp_all add: args, (intro conjI run sends done_println done_log_info)+)
qed

text \<open>C17: Joining with an initial balance sends two transactions to the subnet's actor, the funding before the join; when the
  funding fails the join is not attempted and the command fails.\<close>

theorem cli_join_initial_balance:
  assumes "opens C g pr w" "parent_cmd C w sarg from s p a e t" "f64_to_token_amount f = Ok c" "c < 2 ^ 128"
    and "hex_decode (cl_libs C) pkarg = Ok pk" "f64_to_token_amount b = Ok i"
  shows "(i < 2 ^ 128 \<longrightarrow> cmd_sends w pr e (chain_id (cl_libs C) p) t [(word_of_int i, PreFund), (word_of_int c, Join pk)]
        (handle_join C g \<lparr>js_from = from, js_subnet = sarg, js_collateral = f, js_public_key = pkarg, js_initial_balance = Some b\<rparr>))
    \<and> (\<forall>r w'. prov_pre_fund (cl_prov C) s (Some a) i w = (r, w') \<longrightarrow> \<not> is_ok r \<longrightarrow>
        handle_join C g \<lparr>js_from = from, js_subnet = sarg, js_collateral = f, js_public_key = pkarg, js_initial_balance = Some b\<rparr> pr
          = (r, close_session (w', pr_out pr)))"
    (is "(_ \<longrightarrow> cmd_sends _ _ _ _ _ _ ?h) \<and> ?fail")
proof
  obtain M where M: "parent s = Some p" "reachable (cl_prov C) w p M" "config_inv (prov_config (cw_prov w))"
    "can_sign (cl_prov C) w a e" "contract_address_from_subnet (cl_libs C) s = Ok t"
    by (rule parent_cmd_reach [OF assms(1,2)])
  have run: "?h = with_provider C g (bind_io (call (prov_pre_fund (cl_prov C) s (Some a) i)) (\<lambda>_.
      bind_io (call (prov_join_subnet (cl_prov C) s (Some a) c pk)) (\<lambda>epoch. println (''joined at epoch: '' @ show_int epoch))))"
    unfolding handle_join_def
    by (simp add: parent_cmd_args [OF assms(2)] arg_amount_Ok [OF assms(3)] arg_amount_Ok [OF assms(6)] assms(5))
  show ?fail
    by (auto simp: run with_provider_run [OF assms(1)] bind_io_def call_def split: res.split)
  show "i < 2 ^ 128 \<longrightarrow> cmd_sends w pr e (chain_id (cl_libs C) p) t [(word_of_int i, PreFund), (word_of_int c, Join pk)] ?h"
  proof
    assume "i < 2 ^ 128"
    from client_sends_step [OF parent_sends(2) [OF M f64_amount_nonneg [OF assms(6)] this]] obtain r1 w1 x1 where
        1: "prov_pre_fund (cl_prov C) s (Some a) i w = (Ok r1, w1)" "cw_prov w1 = cw_prov w" "cw_ks w1 = cw_ks w"
          "sent (cw_net w1) = sent (cw_net w) @ [x1]" "parent_tx e (chain_id (cl_libs C) p) t (word_of_int i, PreFund) x1"
      by metis
    have M1: "reachable (cl_prov C) w1 p M" "config_inv (prov_config (cw_prov w1))" "can_sign (cl_prov C) w1 a e"
      using M by (simp_all add: 1(2) reachable_def can_sign_def)
    from client_sends_step [OF parent_sends(1) [OF M(1) M1 M(5) f64_amount_nonneg [OF assms(3)] assms(4)], of pk] obtain r2 w2 x2 where
        2: "prov_join_subnet (cl_prov C) s (Some a) c pk w1 = (Ok r2, w2)" "cw_ks w2 = cw_ks w1"
          "sent (cw_net w2) = sent (cw_net w1) @ [x2]" "parent_tx e (chain_id (cl_libs C) p) t (word_of_int c, Join pk) x2"
      by metis
    have "?h pr = (Ok (), close_session (w2, pr_out pr @ [Println (''joined at epoch: '' @ show_int r2)]))"
      by (simp add: run with_provider_run [OF assms(1)] bind_io_def call_def 1(1) 2(1) println_def)
    with 1 2 assms(1) show "cmd_sends w pr e (chain_id (cl_libs C) p) t [(word_of_int i, PreFund), (word_of_int c, Join pk)] ?h"
      unfolding cmd_sends_def
      by (intro exI [of _ "close_session (w2, pr_out pr @ [Println (''joined at epoch: '' @ show_int r2)])"] exI [of _ "[x1, x2]"])
        (simp add: close_session_def opens_def)
  qed
qed

section \<open>Keys on the command line\<close>

lemma wallet_type_evm: "wallet_type_from_str ''evm'' = Ok Evm"
  by (simp add: wallet_type_from_str_def)

text \<open>Importing an Ethereum key from a file: whatever the file holds, the command fails before it reads the file.\<close>

lemma cli_import_evm_file_refused:
  assumes "opens C g pr w" "wi_wallet_type args = ''evm''" "wi_private_key args = None"
  shows "handle_wallet_import C g args pr = (Err ''no private key supported'', close_session (w, pr_out pr))"
  by (simp add: handle_wallet_import_def with_provider_run [OF assms(1)] assms(2,3) wallet_type_evm bail_def)

lemma export_evm_run:
  assumes "evm_keystore (cw_prov w) = Some ks" "map_of (data (memory ks)) e = Some \<lparr>private_key = b\<rparr>"
    and "eth_from_str (cl_libs C) addr = Ok e" "we_address args = addr" "we_hex args"
  shows "export_evm C args (w, out) = (Ok (hex_encode (cl_libs C) b), (w, out))"
  using assms
  by (simp add: export_evm_def evm_key_at_def read_evm_def call_def with_evm_wallet_def bind_io_def lift_def ret_def
      pks_get_def mem_get_def)

text \<open>C18: Moving an Ethereum key between two machines: exporting with \<open>--hex\<close> prints one line and changes nothing, and
  importing that line with \<open>--private-key\<close> elsewhere stores the same private key under the same address; the key
  store read back from the file then has that key and every key it had before.\<close>

theorem cli_export_import:
  assumes src: "opens C g pr w" "evm_keystore (cw_prov w) = Some ks" "map_of (data (memory ks)) e = Some \<lparr>private_key = b\<rparr>"
      "eth_from_str (cl_libs C) addr = Ok e"
    and dst: "opens C g2 pr2 w2" "evm_keystore (cw_prov w2) = Some ks2"
      "pks_inv (pe_keys (cl_prov C)) (ks2, ks_fs (cw_ks w2))"
    and ok: "codec_ok (cl_libs C) (pe_keys (cl_prov C)) (pe_json (cl_prov C))"
    and key: "key_of (pe_keys (cl_prov C)) \<lparr>private_key = b\<rparr> = Some e" "e \<noteq> dflt_key (pe_keys (cl_prov C))"
    and hex: "\<not> starts_with (hex_encode (cl_libs C) b) ''0x''"
  shows "\<exists>line pr2' ks'.
      handle_wallet_export C g \<lparr>we_address = addr, we_output = None, we_wallet_type = ''evm'', we_fendermint = fm, we_hex = True\<rparr> pr
        = (Ok (), close_session (w, pr_out pr @ [Println line]))
    \<and> handle_wallet_import C g2 \<lparr>wi_wallet_type = ''evm'', wi_path = None, wi_private_key = Some line\<rparr> pr2 = (Ok (), pr2')
    \<and> pks_new (cl_libs C) (pe_keys (cl_prov C)) (pe_json (cl_prov C)) (file_path ks2) (ks_fs (pr_ks pr2')) = Ok ks'
    \<and> mem_lookup (memory ks') = (mem_lookup (memory ks2))(e \<mapsto> \<lparr>private_key = b\<rparr>)
    \<and> sent (pr_net pr2') = sent (pr_net pr2)"
proof -
  obtain w' ks' where w': "import_evm_key_from_privkey (cl_prov C) (hex_encode (cl_libs C) b) w2 = (Ok e, w')"
      "mem_lookup (memory ks') = (mem_lookup (memory ks2))(e \<mapsto> \<lparr>private_key = b\<rparr>)" "cw_net w' = cw_net w2"
      "pks_new (cl_libs C) (pe_keys (cl_prov C)) (pe_json (cl_prov C)) (file_path ks2) (ks_fs (cw_ks w')) = Ok ks'"
    using import_privkey_run [OF dst(2,3) ok key hex] by metis
  let ?x = "\<lparr>we_address = addr, we_output = None, we_wallet_type = ''evm'', we_fendermint = fm, we_hex = True\<rparr>"
  let ?out = "pr_out pr2 @ [Println (cl_debug_string C (eth_key_to_string (cl_libs C) e))]"
  have "export_evm C ?x (w, pr_out pr) = (Ok (hex_encode (cl_libs C) b), (w, pr_out pr))"
    by (rule export_evm_run [OF src(2,3,4)]) simp_all
  then have "handle_wallet_export C g ?x pr = (Ok (), close_session (w, pr_out pr @ [Println (hex_encode (cl_libs C) b)]))"
    by (simp add: handle_wallet_export_def with_provider_run [OF src(1)] wallet_type_evm bind_io_def lift_def println_def)
  moreover have "handle_wallet_import C g2 \<lparr>wi_wallet_type = ''evm'', wi_path = None, wi_private_key = Some (hex_encode (cl_libs C) b)\<rparr> pr2
      = (Ok (), close_session (w', ?out))"
    by (simp add: handle_wallet_import_def with_provider_run [OF dst(1)] wallet_type_evm bind_io_def lift_def println_def call_def w'(1))
  moreover have "sent (pr_net (close_session (w', ?out))) = sent (pr_net pr2)"
    using dst(1) w'(3) by (simp add: close_session_def opens_def)
  moreover have "ks_fs (pr_ks (close_session (w', ?out))) = ks_fs (cw_ks w')" by (simp add: close_session_def)
  ultimately show ?thesis using w'(2,4) by metis
qed

section \<open>Evaluation at concrete inputs\<close>

definition demo_raw_subnet :: "demo_addr subnet_id \<Rightarrow> raw_subnet" where
  "demo_raw_subnet i = \<lparr>raw_id = subnet_to_string demo_libs i, raw_config = \<lparr>raw_network_type = ''fevm'',
     raw_provider_http = ''u'', raw_auth_token = None, raw_registry_addr = ''0x'' @ demo_hex (replicate 20 1),
     raw_gateway_addr = ''0x'' @ demo_hex (replicate 20 2)\<rparr>\<rparr>"

definition demo_cli_toml :: toml_libs where
  "demo_cli_toml = \<lparr>toml_read = (\<lambda>_. Ok \<lparr>raw_keystore_path = Some ''/ipc'', raw_subnets = Some [demo_raw_subnet (new_root 5), demo_raw_subnet demo_child]\<rparr>),
     toml_write = (\<lambda>d. Ok ''one''), url_parse = Ok, eth_debug = demo_hex\<rparr>"

definition demo_cli :: "(demo_addr, unit) cli_env" where
  "demo_cli = \<lparr>cl_prov = demo_env\<lparr>pe_toml := demo_cli_toml\<rparr>, cl_debug_string = id, cl_debug_addr = demo_addr_to_string,
     cl_debug_checkpoint = (\<lambda>_. []), cl_debug_signatures = (\<lambda>_. []), cl_debug_addrs = (\<lambda>_. []),
     cl_debug_cross_msgs = (\<lambda>_. []), cl_debug_bundle = (\<lambda>_. []), cl_debug_changes = (\<lambda>_. []),
     cl_evm_key_json = (\<lambda>k. Ok (pki_private_key k)), cl_lotus_key_json = (\<lambda>_ k. Ok k), cl_secp_pubkey = Ok,
     cl_f4_from_str = demo_addr_from_str\<rparr>"

definition demo_key_file :: string where
  "demo_key_file = concat (map (\<lambda>k. demo_cell (pki_address k) @ demo_cell (pki_private_key k))
     (to_persist demo_libs demo_keys (memory demo_key_store)))"

definition demo_args :: global_arguments where
  "demo_args = \<lparr>ga_config_path = Some ''/c''\<rparr>"

definition demo_process :: "unit process" where
  "demo_process = \<lparr>pr_ks = \<lparr>ks_fs = \<lparr>files = [(\<lparr>absolute = True, comps = [''c'']\<rparr>, ''one''),
        (file_in demo_dir DEFAULT_KEYSTORE_NAME, demo_key_file)], dirs = [demo_dir], fault = (\<lambda>_. None), write_fault = (\<lambda>_. None)\<rparr>,
       draws = 0, modes = []\<rparr>,
     pr_net = demo_world, pr_out = []\<rparr>"

definition demo_cli_client :: "(demo_addr, unit) client_world" where
  "demo_cli_client = \<lparr>cw_prov = prov_new \<lparr>keystore_path = Some ''/ipc'', subnets = [(new_root 5, demo_subnet), (demo_child, demo_subnet\<lparr>sn_id := demo_child\<rparr>)]\<rparr>
       (wallet_new \<lparr>key_infos = [], persistence = Some (file_in demo_dir KEYSTORE_NAME), encryption = None\<rparr>) demo_key_store,
     cw_ks = pr_ks demo_process, cw_net = demo_world\<rparr>"

lemma demo_cli_toml_sel [simp]:
  "toml_read demo_cli_toml t = Ok \<lparr>raw_keystore_path = Some ''/ipc'', raw_subnets = Some [demo_raw_subnet (new_root 5), demo_raw_subnet demo_child]\<rparr>"
  "url_parse demo_cli_toml = Ok" "eth_debug demo_cli_toml = demo_hex"
  by (simp_all add: demo_cli_toml_def)

lemma demo_cli_sel [simp]:
  "pe_libs (cl_prov demo_cli) = demo_libs" "pe_keys (cl_prov demo_cli) = demo_keys" "pe_json (cl_prov demo_cli) = demo_json"
  "pe_eth (cl_prov demo_cli) = demo_eth_libs" "pe_toml (cl_prov demo_cli) = demo_cli_toml" "pe_home_dir (cl_prov demo_cli) = None"
  "pe_ks (cl_prov demo_cli) = demo_ks_libs" "pe_connect (cl_prov demo_cli) = (\<lambda>_ _. Ok demo_node)"
  by (simp_all add: demo_cli_def demo_env_def)

lemma demo_subnet_id: "sn_id demo_subnet = new_root 5" "new_root 5 \<noteq> demo_child"
  by (simp_all add: demo_subnet_def new_root_def demo_child_def)

lemma demo_raw_subnet_read:
  assumes "\<forall>a\<in>set (children i). addr_ok demo_libs a"
  shows "deserialize_subnet demo_libs demo_cli_toml (demo_raw_subnet i) = Ok (demo_subnet\<lparr>sn_id := i\<rparr>)"
proof -
  have "subnet_writable demo_libs demo_cli_toml (demo_subnet\<lparr>sn_id := i\<rparr>)"
    using assms by (simp add: demo_subnet_def subnet_writable_def demo_eth_from_str_def rpc_http_def)
  then obtain r where r: "serialize_subnet demo_libs demo_cli_toml (demo_subnet\<lparr>sn_id := i\<rparr>) = Ok r"
      "deserialize_subnet demo_libs demo_cli_toml r = Ok (demo_subnet\<lparr>sn_id := i\<rparr>)" by (rule subnet_roundtrip_toml)
  have "serialize_subnet demo_libs demo_cli_toml (demo_subnet\<lparr>sn_id := i\<rparr>) = Ok (demo_raw_subnet i)"
    by (simp add: demo_raw_subnet_def serialize_subnet_def demo_subnet_def
        serialize_subnet_id_to_str_def serialize_eth_address_to_str_def address_to_eth_address_def)
  with r show ?thesis by simp
qed

lemma demo_paths: "path_of_string ''/ipc'' = demo_dir" "path_of_string ''/c'' = \<lparr>absolute = True, comps = [''c'']\<rparr>"
  by (simp_all add: path_of_string_def demo_dir_def starts_with_def)

lemma demo_config_read:
  "from_file demo_libs demo_cli_toml ''/c'' (ks_fs (pr_ks demo_process))
     = Ok \<lparr>keystore_path = Some ''/ipc'', subnets = [(new_root 5, demo_subnet), (demo_child, demo_subnet\<lparr>sn_id := demo_child\<rparr>)]\<rparr>"
proof -
  have "fs_read_to_string (ks_fs (pr_ks demo_process)) (path_of_string ''/c'') = Ok ''one''"
    by (simp add: demo_paths fs_read_to_string_def demo_process_def fs_open_def path_exists_def fs_contents_def is_dir_def
        empty_path_def demo_dir_def)
  moreover have "demo_subnet\<lparr>sn_id := new_root 5\<rparr> = demo_subnet" by (simp add: demo_subnet_def new_root_def)
  moreover have "traverse (deserialize_subnet demo_libs demo_cli_toml) [demo_raw_subnet (new_root 5), demo_raw_subnet demo_child]
      = Ok [demo_subnet\<lparr>sn_id := new_root 5\<rparr>, demo_subnet\<lparr>sn_id := demo_child\<rparr>]"
    using demo_raw_subnet_read [of "new_root 5"] demo_raw_subnet_read [of demo_child] by (simp add: new_root_def demo_child_def)
  ultimately show ?thesis
    by (simp add: from_file_def demo_subnet_id from_toml_str_def deserialize_subnets_from_vec_def)
qed

lemma demo_keys_read:
  "pks_new demo_libs demo_keys demo_json (file_in demo_dir DEFAULT_KEYSTORE_NAME) (ks_fs (pr_ks demo_process)) = Ok demo_key_store"
proof -
  let ?p = "file_in demo_dir DEFAULT_KEYSTORE_NAME" and ?f = "ks_fs (pr_ks demo_process)"
  have p: "?p \<noteq> demo_dir" "comps ?p \<noteq> []" "?p \<noteq> empty_path" "\<lparr>absolute = True, comps = [''c'']\<rparr> \<noteq> ?p"
    by (simp_all add: file_in_def demo_dir_def empty_path_def)
  then have f: "fs_open ?f ?p = Ok ()" "fs_contents ?f ?p = Ok demo_key_file" "path_exists ?f demo_dir"
    by (simp_all add: demo_process_def fs_open_def path_exists_def fs_contents_def is_dir_def) (simp_all add: demo_dir_def empty_path_def)
  have "keys_from_json demo_json demo_key_file = Ok (to_persist demo_libs demo_keys (memory demo_key_store))"
    by (simp add: demo_json_def demo_key_file_def demo_json_parse demo_pairs_concat)
  then have k: "keys_from_json demo_json demo_key_file
      = Ok [\<lparr>pki_address = key_to_string demo_keys demo_eth, pki_private_key = demo_hex demo_eth\<rparr>]"
    by (simp add: to_persist_def demo_key_store_def)
  have "demo_eth \<noteq> dflt_key demo_keys" "key_of demo_keys \<lparr>private_key = demo_eth\<rparr> = Some demo_eth"
    by (simp_all add: demo_keys_def eth_key_ops_def demo_wallet_address_def eth_key_default_def demo_eth_def)
  moreover from this(1) demo_codec_ok have "key_to_string demo_keys demo_eth \<noteq> key_to_string demo_keys (dflt_key demo_keys)"
    unfolding codec_ok_def by blast
  ultimately show ?thesis
    by (simp add: pks_new_def f k infer_addr_def Let_def demo_key_store_def)
qed

lemma demo_opens: "opens demo_cli demo_args demo_process demo_cli_client"
proof -
  have e: "expand_tilde None p = p" for p by (simp add: expand_tilde_def)
  have n: "fs_open (ks_fs (pr_ks demo_process)) (file_in demo_dir KEYSTORE_NAME) = Err NotFound"
    by (simp add: demo_process_def fs_open_def path_exists_def is_dir_def)
      (simp add: file_in_def demo_dir_def KEYSTORE_NAME_def DEFAULT_KEYSTORE_NAME_def)
  show ?thesis
    by (simp add: opens_def demo_cli_client_def get_ipc_provider_def config_path_def demo_args_def new_from_config_def
        read_fs_def demo_config_read new_fvm_wallet_from_config_def new_evm_keystore_from_config_def
        new_evm_keystore_from_path_def new_fvm_keystore_from_path_def ks_new_def ks_new_persistent_def
        demo_paths e demo_keys_read n io_defs Let_def)
      (simp add: demo_process_def)
qed

lemma demo_writable: "writable (ks_fs (pr_ks demo_process)) (file_path demo_key_store)"
  by (simp add: writable_def demo_process_def demo_key_store_def is_dir_def)
    (simp add: file_in_def demo_dir_def empty_path_def DEFAULT_KEYSTORE_NAME_def)

lemma demo_child_arg: "subnet_from_str demo_libs (subnet_to_string demo_libs demo_child) = Ok demo_child"
    "parent demo_child = Some (new_root 5)"
proof -
  have "addr_ok demo_libs (DemoEth demo_eth)" by simp
  then show "subnet_from_str demo_libs (subnet_to_string demo_libs demo_child) = Ok demo_child"
    by (intro subnet_codec.parse_print) (simp add: demo_child_def)
  show "parent demo_child = Some (new_root 5)"
    by (simp add: parent_def demo_child_def subnet_new_def new_root_def)
qed

lemma demo_cli_parent_cmd:
  "parent_cmd demo_cli demo_cli_client (subnet_to_string demo_libs demo_child) (Some (demo_addr_to_string (DemoEth demo_eth)))
     demo_child (new_root 5) (DemoEth demo_eth) demo_eth demo_eth"
proof -
  obtain M where M: "from_subnet_with_wallet_store demo_libs (\<lambda>_ _. Ok demo_node) demo_subnet (Some demo_key_store) = Ok M"
      "mgr_node M = demo_node"
    by (simp add: from_subnet_with_wallet_store_def demo_subnet_def eth_manager_new_def)
  moreover have "answers demo_eth_libs M" using demo_answers M(2) by (simp add: answers_def)
  ultimately have "reachable (cl_prov demo_cli) demo_cli_client (new_root 5) M"
    by (simp add: reachable_def demo_cli_client_def prov_new_def)
  moreover have "can_sign (cl_prov demo_cli) demo_cli_client (DemoEth demo_eth) demo_eth"
    by (simp add: can_sign_def demo_cli_client_def prov_new_def demo_key_store_def demo_eth_libs_def demo_wallet_address_def
        demo_eth_def eth_key_default_def)
  ultimately show ?thesis using demo_child_arg
    by (auto simp: parent_cmd_def require_fil_addr_from_str_def simp del: demo_addr_to_string.simps)
qed

text \<open>One and a half token, and two tokens.\<close>

lemma demo_amounts: "f64_to_token_amount (Fin False 3 (- 1)) = Ok 1500000000000000000"
    "f64_to_token_amount (Fin False 2 0) = Ok 2000000000000000000"
  by (simp_all add: f64_to_token_amount_def FIL_AMOUNT_NANO_DIGITS_def round_f64_def round_shift_def Let_def bitlen.simps)

lemma cli_parent_commands_witness:
  "cmd_sends demo_cli_client demo_process demo_eth (chain_id demo_libs (new_root 5)) demo_eth [(1500000000000000000, Stake)]
     (handle_stake demo_cli demo_args \<lparr>ss_from = Some (demo_addr_to_string (DemoEth demo_eth)),
        ss_subnet = subnet_to_string demo_libs demo_child, ss_collateral = Fin False 3 (- 1)\<rparr>)"
  using cli_parent_commands [OF demo_opens demo_cli_parent_cmd demo_amounts(1), of "demo_hex [1]" "[1]" False]
  by (simp del: demo_addr_to_string.simps)

lemma cli_join_initial_balance_witness:
  "cmd_sends demo_cli_client demo_process demo_eth (chain_id demo_libs (new_root 5)) demo_eth
     [(2000000000000000000, PreFund), (1500000000000000000, Join [1])]
     (handle_join demo_cli demo_args \<lparr>js_from = Some (demo_addr_to_string (DemoEth demo_eth)),
        js_subnet = subnet_to_string demo_libs demo_child, js_collateral = Fin False 3 (- 1), js_public_key = demo_hex [1],
        js_initial_balance = Some (Fin False 2 0)\<rparr>)"
  using cli_join_initial_balance [OF demo_opens demo_cli_parent_cmd demo_amounts(1) _ _ demo_amounts(2), of "demo_hex [1]" "[1]"]
  by (simp del: demo_addr_to_string.simps)

lemma cli_export_import_witness:
  "\<exists>line pr2'. handle_wallet_export demo_cli demo_args \<lparr>we_address = ''0x'' @ demo_hex demo_eth, we_output = None,
        we_wallet_type = ''evm'', we_fendermint = False, we_hex = True\<rparr> demo_process
      = (Ok (), close_session (demo_cli_client, [Println line]))
    \<and> handle_wallet_import demo_cli demo_args \<lparr>wi_wallet_type = ''evm'', wi_path = None, wi_private_key = Some line\<rparr> demo_process
      = (Ok (), pr2')"
proof -
  have "demo_hex demo_eth = nibble_char 0 # nibble_char 7 # demo_hex (replicate 19 7)"
    using replicate_Suc [of 19 "7 :: 8 word"] by (simp add: demo_eth_def)
  then have hex: "\<not> starts_with (demo_hex demo_eth) ''0x''" by (simp add: starts_with_def nibble_char_def char_of_def)
  have key: "key_of demo_keys \<lparr>private_key = demo_eth\<rparr> = Some demo_eth" "demo_eth \<noteq> dflt_key demo_keys"
    by (simp_all add: demo_keys_def eth_key_ops_def demo_wallet_address_def eth_key_default_def demo_eth_def)
  have ks: "evm_keystore (cw_prov demo_cli_client) = Some demo_key_store" by (simp add: demo_cli_client_def prov_new_def)
  have m: "map_of (data (memory demo_key_store)) demo_eth = Some \<lparr>private_key = demo_eth\<rparr>" by (simp add: demo_key_store_def)
  have a: "eth_from_str demo_libs (''0x'' @ demo_hex demo_eth) = Ok demo_eth"
    by (simp add: demo_eth_from_str_def demo_eth_def)
  have inv: "pks_inv demo_keys (demo_key_store, ks_fs (cw_ks demo_cli_client))"
    using demo_key_store_inv demo_writable by (simp add: pks_inv_def demo_cli_client_def)
  from cli_export_import [OF demo_opens ks m, of "''0x'' @ demo_hex demo_eth" demo_args demo_process demo_cli_client demo_key_store False]
  show ?thesis using a demo_opens ks inv key hex by (auto simp: demo_process_def)
qed

text \<open>The key file of the instance is what a flush writes, so looking up the default key changes nothing.\<close>

lemma demo_get_default:
  "pks_get_default demo_libs demo_keys demo_json (demo_key_store, ks_fs (pr_ks demo_process))
     = (Ok None, (demo_key_store, ks_fs (pr_ks demo_process)))"
proof -
  let ?f = "ks_fs (pr_ks demo_process)" and ?p = "file_in demo_dir DEFAULT_KEYSTORE_NAME"
  have p: "file_path demo_key_store = ?p" by (simp add: demo_key_store_def)
  have dirs: "ensure_dirs demo_dir ?f = ?f" by (simp add: ensure_dirs_def demo_process_def) (simp add: demo_dir_def)
  have "\<lparr>absolute = True, comps = [''c'']\<rparr> \<noteq> ?p" by (simp add: file_in_def demo_dir_def)
  then have same: "store_file ?p demo_key_file ?f = ?f" by (simp add: store_file_def demo_process_def)
  have "keys_to_json demo_json (to_persist demo_libs demo_keys (memory demo_key_store)) = Ok demo_key_file"
    by (simp add: demo_json_def demo_key_file_def)
  then have "flush_no_encryption demo_libs demo_keys demo_json demo_key_store ?f = (Ok (), ?f)"
    using create_dir_all_writable [OF demo_writable [unfolded p], of demo_dir] fs_write_writable [OF demo_writable [unfolded p]]
      fs_write_writable [OF writable_store_file [OF demo_writable [unfolded p]]] same dirs
    by (simp add: flush_no_encryption_def io_defs p)
  moreover have "mem_get_default demo_keys (memory demo_key_store) = (Ok None, memory demo_key_store)"
    using mem_get_default_run [of demo_keys "memory demo_key_store"] demo_key_store_inv
    by (simp add: pks_inv_def) (simp add: demo_key_store_def)
  ultimately show ?thesis by (simp add: pks_defs io_defs)
qed

definition demo_relayer_args :: relayer_args where
  "demo_relayer_args = \<lparr>rla_subnet = subnet_to_string demo_libs demo_child, rla_checkpoint_interval_sec = None,
     rla_finalization_blocks = Some 0, rla_submitter = Some (demo_addr_to_string (DemoEth demo_eth))\<rparr>"

lemma process_read: "on_process_files (read_fs h) pr = (h (ks_fs (pr_ks pr)), pr)"
  by (simp add: on_process_files_def read_fs_def)

lemma demo_relayer_setup:
  "\<exists>cm i. relayer_setup demo_cli demo_args demo_relayer_args demo_process = (Ok (cm, DemoEth demo_eth, i), demo_process)"
proof -
  have ks: "new_evm_keystore_from_config (cl_prov demo_cli) \<lparr>keystore_path = Some ''/ipc'', subnets = al\<rparr> (ks_fs (pr_ks demo_process))
      = Ok demo_key_store" for al
    by (simp add: new_evm_keystore_from_config_def new_evm_keystore_from_path_def demo_paths demo_keys_read expand_tilde_def)
  have dflt: "on_process_files (on_fs (\<lambda>f. case pks_get_default demo_libs demo_keys demo_json (demo_key_store, f) of
      (r, (s, f')) \<Rightarrow> (and_then r (\<lambda>d. Ok (d, s)), f'))) demo_process = (Ok (None, demo_key_store), demo_process)"
    by (simp add: on_process_files_def on_fs_def demo_get_default)
  have sub: "relayer_submitter demo_cli (Some (demo_addr_to_string (DemoEth demo_eth))) None = Ok (DemoEth demo_eth)"
    by (simp add: relayer_submitter_def require_fil_addr_from_str_def del: demo_addr_to_string.simps)
  have "\<exists>cm. new_evm_manager demo_libs demo_eth_libs (\<lambda>_ _. Ok demo_node) demo_subnet (demo_subnet\<lparr>sn_id := demo_child\<rparr>)
      demo_key_store demo_world = (Ok cm, demo_world)"
    by (simp add: new_evm_manager_def from_subnet_with_wallet_store_def demo_subnet_def cm_new_def eth_relayer_def checkpoint_period_def
        io_defs eth_manager_new_def demo_node_def)
  then obtain cm where "new_evm_manager demo_libs demo_eth_libs (\<lambda>_ _. Ok demo_node) demo_subnet (demo_subnet\<lparr>sn_id := demo_child\<rparr>)
      demo_key_store demo_world = (Ok cm, demo_world)" by blast
  then have net: "on_process_net (new_evm_manager demo_libs demo_eth_libs (\<lambda>_ _. Ok demo_node) demo_subnet (demo_subnet\<lparr>sn_id := demo_child\<rparr>)
      demo_key_store) demo_process = (Ok cm, demo_process)"
    by (simp add: on_process_net_def demo_process_def)
  have sn: "get_subnet_config demo_cli ''/c'' demo_child (ks_fs (pr_ks demo_process)) = Ok (demo_subnet\<lparr>sn_id := demo_child\<rparr>)"
      "get_subnet_config demo_cli ''/c'' (new_root 5) (ks_fs (pr_ks demo_process)) = Ok demo_subnet"
    using demo_subnet_id(2) by (simp_all add: get_subnet_config_def demo_config_read)
  show ?thesis
    by (simp add: relayer_setup_def config_path_def demo_args_def bind_io_def lift_def ret_def process_read demo_config_read ks dflt sub sn net
        demo_child_arg(2) anyhow_sdk_def demo_relayer_args_def demo_child_arg(1) del: demo_addr_to_string.simps)
qed

lemma cli_relayer_only_submits_witness:
  "\<exists>pr' ts submitter. cli (\<lambda>_. []) demo_cli demo_args (Some (Checkpoint (CheckpointRelayer demo_relayer_args))) demo_process None pr'
     \<and> sent (pr_net pr') = sent (pr_net demo_process) @ ts
     \<and> (ts \<noteq> [] \<longrightarrow> require_fil_addr_from_str demo_libs (demo_addr_to_string (DemoEth demo_eth)) = Ok submitter)"
proof -
  obtain cm i where "relayer_setup demo_cli demo_args demo_relayer_args demo_process = (Ok (cm, DemoEth demo_eth, i), demo_process)"
    using demo_relayer_setup by blast
  from cli_relayer_runs [OF refl this run_start, of "\<lambda>_. []"]
  have run: "cli (\<lambda>_. []) demo_cli demo_args (Some (Checkpoint (CheckpointRelayer demo_relayer_args))) demo_process None
      (demo_process\<lparr>pr_net := pr_net demo_process\<rparr>)" .
  from cli_relayer_only_submits [OF this] run show ?thesis
    by (auto simp: demo_relayer_args_def simp del: demo_addr_to_string.simps)
qed

lemma cli_max_sends_witness:
  "\<exists>r pr' ts. cli (\<lambda>_. []) demo_cli demo_args (Some (Subnet (SubnetLeave \<lparr>sf_from = Some (demo_addr_to_string (DemoEth demo_eth)),
       sf_subnet = subnet_to_string demo_libs demo_child\<rparr>))) demo_process r pr'
     \<and> sent (pr_net pr') = ts \<and> length ts \<le> 1"
proof -
  let ?c = "Subnet (SubnetLeave \<lparr>sf_from = Some (demo_addr_to_string (DemoEth demo_eth)), sf_subnet = subnet_to_string demo_libs demo_child\<rparr>)"
  obtain h where h: "handle_command demo_cli demo_args ?c = Some h" by (simp del: demo_addr_to_string.simps)
  obtain r pr' where "h demo_process = (r, pr')" by (cases "h demo_process")
  from cli_returns [OF h this, of "\<lambda>_. []"] obtain r' where
    run: "cli (\<lambda>_. []) demo_cli demo_args (Some ?c) demo_process r' pr'" by blast
  from cli_max_sends [OF this] have "\<exists>ts. sent (pr_net pr') = sent (pr_net demo_process) @ ts \<and> length ts \<le> 1"
    by (simp del: demo_addr_to_string.simps)
  with run show ?thesis by (auto simp: demo_process_def simp del: demo_addr_to_string.simps)
qed

lemma client_invariant_witness:
  "\<exists>c w. client_reach (cl_prov demo_cli) c w \<and> config_inv c \<and> draws (cw_ks w) = 1
     \<and> (\<exists>ks. evm_keystore (cw_prov w) = Some ks \<and> mem_inv demo_keys (memory ks))"
proof -
  let ?c = "\<lparr>keystore_path = Some ''/ipc'', subnets = [(new_root 5, demo_subnet), (demo_child, demo_subnet\<lparr>sn_id := demo_child\<rparr>)]\<rparr>"
  have cfg: "from_file (cl_libs demo_cli) (pe_toml (cl_prov demo_cli)) ''/c'' (ks_fs (pr_ks demo_process)) = Ok ?c"
    by (simp add: demo_config_read)
  have new: "new_from_config (cl_prov demo_cli) ''/c'' (pr_ks demo_process) = (Ok (cw_prov demo_cli_client), cw_ks demo_cli_client)"
    using demo_opens by (simp add: opens_def get_ipc_provider_def config_path_def demo_args_def)
  have "demo_cli_client = \<lparr>cw_prov = cw_prov demo_cli_client, cw_ks = cw_ks demo_cli_client, cw_net = cw_net demo_cli_client\<rparr>"
    by simp
  with reach_new [where V = "cl_prov demo_cli" and n = "cw_net demo_cli_client", OF cfg new]
  have start: "client_reach (cl_prov demo_cli) ?c demo_cli_client" by metis
  obtain r w' where run: "new_evm_key (cl_prov demo_cli) demo_cli_client = (r, w')" by (cases "new_evm_key (cl_prov demo_cli) demo_cli_client")
  then have "draws (cw_ks w') = 1"
    by (auto simp: new_evm_key_def draw_key_def bind_io_def with_evm_wallet_def demo_cli_client_def prov_new_def demo_process_def
        split: prod.splits)
  moreover have reach: "client_reach (cl_prov demo_cli) ?c w'" by (rule reach_step [OF start step_new_evm_key [OF run]])
  moreover have "\<forall>i. key_of (pe_keys (cl_prov demo_cli)) i \<noteq> Some (dflt_key (pe_keys (cl_prov demo_cli)))"
    by (simp add: demo_keys_def eth_key_ops_def demo_wallet_address_def)
  ultimately show ?thesis using client_invariant [OF reach] by auto
qed

end
