(* ===== verification/Lotus_Client.thy ===== *)
theory Lotus_Client
  imports Lotus_Message Config
begin

text \<open>
  \<open>ipc/provider/src/lotus/client.rs\<close>: the client of a Lotus node. Each operation is a JSON-RPC request;
  \<open>mpool_push\<close> completes a message (nonce, version, gas), signs it with the local wallet and pushes
  the signed message. The node is a parameter with a state of its own; \<open>lw_sent\<close> records the
  request bodies in the order they are posted.
\<close>

section \<open>Environment and state\<close>

record ('a, 'i, 'n) lotus_env =
  le_libs :: "'a libs"
  le_json :: json_libs
  le_cid :: "('a, 'i) lotus_libs"
  le_ks :: ks_libs
  le_sig :: "'a sig_libs"
  le_post :: "string \<Rightarrow> string option \<Rightarrow> json \<Rightarrow> ('n, string) io"

record ('a, 'n) lotus_world =
  lw_wallet :: "'a wallet"
  lw_ks :: ks_world
  lw_node :: 'n
  lw_sent :: "json list"

text \<open>The wallet store is shared: the client has a handle to it or none.\<close>

record 'a lotus_client =
  lc_client :: json_rpc_client
  lc_subnet :: "'a subnet_id"
  lc_wallet_store :: "unit option"

definition lotus_new :: "json_rpc_client \<Rightarrow> 'a subnet_id \<Rightarrow> 'a lotus_client" where
  "lotus_new c s = \<lparr>lc_client = c, lc_subnet = s, lc_wallet_store = None\<rparr>"

definition lotus_new_with_wallet_store :: "json_rpc_client \<Rightarrow> 'a subnet_id \<Rightarrow> 'a lotus_client" where
  "lotus_new_with_wallet_store c s = \<lparr>lc_client = c, lc_subnet = s, lc_wallet_store = Some ()\<rparr>"

definition lotus_from_subnet :: "'a subnet \<Rightarrow> 'a lotus_client" where
  "lotus_from_subnet s = lotus_new (json_rpc_new (rpc_http s) (auth_token s)) (sn_id s)"

definition lotus_from_subnet_with_wallet_store :: "'a subnet \<Rightarrow> 'a lotus_client" where
  "lotus_from_subnet_with_wallet_store s =
     lotus_new_with_wallet_store (json_rpc_new (rpc_http s) (auth_token s)) (sn_id s)"

definition lotus_post :: "('a, 'i, 'n) lotus_env \<Rightarrow> string \<Rightarrow> string option \<Rightarrow> json \<Rightarrow> (('a, 'n) lotus_world, string) io" where
  "lotus_post V url token body w =
     (case le_post V url token body (lw_node w) of
        (r, n) \<Rightarrow> (r, w\<lparr>lw_node := n, lw_sent := lw_sent w @ [body]\<rparr>))"

definition lotus_request ::
    "('a, 'i, 'n) lotus_env \<Rightarrow> 'a lotus_client \<Rightarrow> (json \<Rightarrow> (string, 't) res) \<Rightarrow> string \<Rightarrow> json \<Rightarrow> (('a, 'n) lotus_world, 't) io" where
  "lotus_request V K de meth params = rpc_request (le_json V) (lotus_post V) de (lc_client K) meth params"

definition lotus_wallet :: "('a wallet_state, 'b) io \<Rightarrow> (('a, 'n) lotus_world, 'b) io" where
  "lotus_wallet m w =
     (case m (lw_wallet w, lw_ks w) of (r, (s, k)) \<Rightarrow> (r, w\<lparr>lw_wallet := s, lw_ks := k\<rparr>))"

section \<open>RPC methods\<close>

definition MPOOL_PUSH_MESSAGE :: string where "MPOOL_PUSH_MESSAGE = ''Filecoin.MpoolPushMessage''"

definition MPOOL_PUSH :: string where "MPOOL_PUSH = ''Filecoin.MpoolPush''"

definition MPOOL_GET_NONCE :: string where "MPOOL_GET_NONCE = ''Filecoin.MpoolGetNonce''"

definition STATE_WAIT_MSG :: string where "STATE_WAIT_MSG = ''Filecoin.StateWaitMsg''"

definition STATE_NETWORK_NAME :: string where "STATE_NETWORK_NAME = ''Filecoin.StateNetworkName''"

definition STATE_NETWORK_VERSION :: string where "STATE_NETWORK_VERSION = ''Filecoin.StateNetworkVersion''"

definition STATE_ACTOR_CODE_CIDS :: string where "STATE_ACTOR_CODE_CIDS = ''Filecoin.StateActorCodeCIDs''"

definition WALLET_NEW :: string where "WALLET_NEW = ''Filecoin.WalletNew''"

definition WALLET_LIST :: string where "WALLET_LIST = ''Filecoin.WalletList''"

definition WALLET_BALANCE :: string where "WALLET_BALANCE = ''Filecoin.WalletBalance''"

definition WALLET_DEFAULT_ADDRESS :: string where "WALLET_DEFAULT_ADDRESS = ''Filecoin.WalletDefaultAddress''"

definition STATE_READ_STATE :: string where "STATE_READ_STATE = ''Filecoin.StateReadState''"

definition CHAIN_HEAD :: string where "CHAIN_HEAD = ''Filecoin.ChainHead''"

definition GET_TIPSET_BY_HEIGHT :: string where "GET_TIPSET_BY_HEIGHT = ''Filecoin.ChainGetTipSetByHeight''"

definition ESTIMATE_MESSAGE_GAS :: string where "ESTIMATE_MESSAGE_GAS = ''Filecoin.GasEstimateMessageGas''"

definition STATE_WAIT_CONFIDENCE :: u8 where "STATE_WAIT_CONFIDENCE = 0"

definition STATE_WAIT_LOOK_BACK_NO_LIMIT :: int where "STATE_WAIT_LOOK_BACK_NO_LIMIT = -1"

definition STATE_WAIT_ALLOW_REPLACE :: bool where "STATE_WAIT_ALLOW_REPLACE = True"

section \<open>JSON of messages\<close>

text \<open>\<open>to_u64().unwrap()\<close> of a token amount panics outside the range of \<open>u64\<close>.\<close>

definition atto_to_u64 :: "int \<Rightarrow> (string, u64) res" where
  "atto_to_u64 n = (if 0 \<le> n \<and> n < 2 ^ 64 then Ok (word_of_int n) else Panic ''called `Option::unwrap()` on a `None` value'')"

definition to_value :: "int option \<Rightarrow> (string, json) res" where
  "to_value t = (case t of None \<Rightarrow> Ok JNull | Some n \<Rightarrow> and_then (atto_to_u64 n) (\<lambda>v. Ok (JNum (uint v))))"

definition to_value_str :: "int option \<Rightarrow> (string, json) res" where
  "to_value_str t = (case t of None \<Rightarrow> Ok JNull | Some n \<Rightarrow> and_then (atto_to_u64 n) (\<lambda>v. Ok (JStr (show_u64 v))))"

definition nonce_value :: "u64 option \<Rightarrow> json" where
  "nonce_value n = (case n of None \<Rightarrow> JNull | Some v \<Rightarrow> JNum (uint v))"

definition bytes_value :: "bytes \<Rightarrow> json" where
  "bytes_value bs = JArr (map (\<lambda>b. JNum (uint b)) bs)"

definition version_value :: "u16 option \<Rightarrow> json" where
  "version_value v = JNum (case v of Some n \<Rightarrow> uint n | None \<Rightarrow> 0)"

fun sig_type_u8 :: "signature_type \<Rightarrow> int" where
  "sig_type_u8 SigSecp256k1 = 1"
| "sig_type_u8 SigBLS = 2"

definition create_signed_message_params ::
    "('a, 'i, 'n) lotus_env \<Rightarrow> ('a, 'i) mpool_push_message \<Rightarrow> fvm_signature \<Rightarrow> (string, json) res" where
  "create_signed_message_params V pmsg sig =
     and_then (to_value (mp_gas_limit pmsg)) (\<lambda>gas_limit.
     and_then (to_value_str (mp_gas_premium pmsg)) (\<lambda>gas_premium.
     and_then (to_value_str (mp_gas_fee_cap pmsg)) (\<lambda>gas_fee_cap.
       Ok (JArr [JObj [
         (''Message'', JObj [
            (''Version'', version_value (mp_version pmsg)),
            (''To'', JStr (addr_to_string (le_libs V) (mp_to pmsg))),
            (''From'', JStr (addr_to_string (le_libs V) (mp_from pmsg))),
            (''Value'', JStr (bigint_to_string (le_libs V) (mp_value pmsg))),
            (''Method'', JNum (uint (mp_method pmsg))),
            (''Params'', JStr (base64_encode (le_ks V) (mp_params pmsg))),
            (''Nonce'', nonce_value (mp_nonce pmsg)),
            (''GasLimit'', gas_limit),
            (''GasFeeCap'', gas_fee_cap),
            (''GasPremium'', gas_premium),
            (''CID'', cid_map_ser (cid_map_of_option (le_cid V) (mp_cid pmsg)))]),
         (''Signature'', JObj [
            (''Type'', JNum (sig_type_u8 (sig_type sig))),
            (''Data'', JStr (base64_encode (le_ks V) (sig_bytes sig)))])]]))))"

section \<open>The message pool\<close>

definition mpool_push_message_op :: "('a, 'i, 'n) lotus_env \<Rightarrow> 'a lotus_client \<Rightarrow> ('a, 'i) mpool_push_message
    \<Rightarrow> (('a, 'n) lotus_world, mpool_push_response_inner) io" where
  "mpool_push_message_op V K pmsg =
     bind_io (lift (to_value (mp_gas_limit pmsg))) (\<lambda>gas_limit.
     bind_io (lift (to_value (mp_gas_premium pmsg))) (\<lambda>gas_premium.
     bind_io (lift (to_value (mp_gas_fee_cap pmsg))) (\<lambda>gas_fee_cap.
     bind_io (lift (to_value (mp_max_fee pmsg))) (\<lambda>max_fee.
     bind_io (lotus_request V K (mpool_push_response_de (le_json V)) MPOOL_PUSH_MESSAGE (JArr [
         JObj [
           (''to'', JStr (addr_to_string (le_libs V) (mp_to pmsg))),
           (''from'', JStr (addr_to_string (le_libs V) (mp_from pmsg))),
           (''value'', JStr (bigint_to_string (le_libs V) (mp_value pmsg))),
           (''method'', JNum (uint (mp_method pmsg))),
           (''params'', bytes_value (mp_params pmsg)),
           (''nonce'', nonce_value (mp_nonce pmsg)),
           (''gas_limit'', gas_limit),
           (''gas_fee_cap'', gas_fee_cap),
           (''gas_premium'', gas_premium),
           (''cid'', cid_map_ser (cid_map_of_option (le_cid V) (mp_cid pmsg))),
           (''version'', JNull)],
         JObj [(''max_fee'', max_fee)]])) (\<lambda>r.
       ret (fst r))))))"

text \<open>\<open>String::contains\<close>.\<close>

fun str_contains :: "string \<Rightarrow> string \<Rightarrow> bool" where
  "str_contains p [] \<longleftrightarrow> p = []"
| "str_contains p (c # s) \<longleftrightarrow> starts_with (c # s) p \<or> str_contains p s"

definition mpool_nonce :: "('a, 'i, 'n) lotus_env \<Rightarrow> 'a lotus_client \<Rightarrow> 'a \<Rightarrow> (('a, 'n) lotus_world, u64) io" where
  "mpool_nonce V K a w =
     (case lotus_request V K (de_num (le_json V) ''u64'') MPOOL_GET_NONCE (JArr [JStr (addr_to_string (le_libs V) a)]) w of
        (Err e, w') \<Rightarrow> (if str_contains ''resolution lookup failed'' e then Ok 0 else Err e, w')
      | r \<Rightarrow> r)"

definition estimate_message_gas :: "('a, 'i, 'n) lotus_env \<Rightarrow> 'a lotus_client \<Rightarrow> ('a, 'i) mpool_push_message
    \<Rightarrow> (('a, 'n) lotus_world, ('a, 'i) mpool_push_message) io" where
  "estimate_message_gas V K pmsg =
     bind_io (lotus_request V K (estimate_gas_response_de (le_libs V) (le_json V)) ESTIMATE_MESSAGE_GAS (JArr [
         JObj [
           (''Version'', version_value (mp_version pmsg)),
           (''To'', JStr (addr_to_string (le_libs V) (mp_to pmsg))),
           (''From'', JStr (addr_to_string (le_libs V) (mp_from pmsg))),
           (''Value'', JStr (bigint_to_string (le_libs V) (mp_value pmsg))),
           (''Method'', JNum (uint (mp_method pmsg))),
           (''Params'', bytes_value (mp_params pmsg)),
           (''Nonce'', nonce_value (mp_nonce pmsg)),
           (''GasLimit'', JNum 0),
           (''GasFeeCap'', JStr ''0''),
           (''GasPremium'', JStr ''0''),
           (''CID'', cid_map_ser (cid_map_of_option (le_cid V) (mp_cid pmsg)))],
         JObj [], JArr []])) (\<lambda>gas.
       ret (pmsg\<lparr>mp_gas_fee_cap := eg_gas_fee_cap gas, mp_gas_limit := eg_gas_limit gas, mp_gas_premium := eg_gas_premium gas\<rparr>))"

definition message_of :: "('a, 'i) mpool_push_message \<Rightarrow> (string, 'a lotus_msg) res" where
  "message_of pmsg =
     and_then (ok_or ''version should not be empty'' (mp_version pmsg)) (\<lambda>version.
     and_then (ok_or ''nonce should not be empty'' (mp_nonce pmsg)) (\<lambda>sequence.
     and_then (and_then (ok_or ''gas_limit should not be empty'' (mp_gas_limit pmsg)) atto_to_u64) (\<lambda>gas_limit.
     and_then (ok_or ''gas_fee_cap should not be empty'' (mp_gas_fee_cap pmsg)) (\<lambda>gas_fee_cap.
     and_then (ok_or ''gas_premium should not be empty'' (mp_gas_premium pmsg)) (\<lambda>gas_premium.
       Ok \<lparr>lm_version = ucast version, lm_from = mp_from pmsg, lm_to = mp_to pmsg, lm_sequence = sequence, lm_value = mp_value pmsg,
          lm_method_num = mp_method pmsg, lm_params = mp_params pmsg, lm_gas_limit = gas_limit,
          lm_gas_fee_cap = gas_fee_cap, lm_gas_premium = gas_premium\<rparr>)))))"

definition message_cid_bytes :: "('a, 'i) lotus_libs \<Rightarrow> 'a lotus_msg \<Rightarrow> (string, bytes) res" where
  "message_cid_bytes C m =
     and_then (message_to_vec C m) (\<lambda>b. Ok (cid_to_bytes C (cid_new_v1 C (blake2b256_digest C b))))"

definition sign_mpool_message :: "('a, 'i, 'n) lotus_env \<Rightarrow> 'a lotus_client \<Rightarrow> ('a, 'i) mpool_push_message
    \<Rightarrow> (('a, 'n) lotus_world, fvm_signature) io" where
  "sign_mpool_message V K pmsg =
     (if lc_wallet_store K = None then bail ''key store not set, function not supported''
      else bind_io (lift (message_of pmsg)) (\<lambda>message.
           bind_io (lift (message_cid_bytes (le_cid V) message)) (\<lambda>msg_cid.
             lotus_wallet (map_err_io fvm_error_display (wallet_sign (le_libs V) (le_sig V) (mp_from pmsg) msg_cid)))))"

definition mpool_push :: "('a, 'i, 'n) lotus_env \<Rightarrow> 'a lotus_client \<Rightarrow> ('a, 'i) mpool_push_message \<Rightarrow> (('a, 'n) lotus_world, 'i) io" where
  "mpool_push V K pmsg0 =
     bind_io (case mp_nonce pmsg0 of
         None \<Rightarrow> bind_io (mpool_nonce V K (mp_from pmsg0)) (\<lambda>nonce. ret (pmsg0\<lparr>mp_nonce := Some nonce\<rparr>))
       | Some _ \<Rightarrow> ret pmsg0) (\<lambda>pmsg1.
     bind_io (estimate_message_gas V K (if mp_version pmsg1 = None then pmsg1\<lparr>mp_version := Some 0\<rparr> else pmsg1)) (\<lambda>pmsg.
     bind_io (sign_mpool_message V K pmsg) (\<lambda>signature.
     bind_io (lift (create_signed_message_params V pmsg signature)) (\<lambda>params.
     bind_io (lotus_request V K (cid_map_de (le_json V)) MPOOL_PUSH params) (\<lambda>r.
       lift (cid_try_from_map (le_cid V) r))))))"

section \<open>State, wallet and chain queries\<close>

definition state_wait_msg :: "('a, 'i, 'n) lotus_env \<Rightarrow> 'a lotus_client \<Rightarrow> 'i \<Rightarrow> (('a, 'n) lotus_world, state_wait_msg_response) io" where
  "state_wait_msg V K c =
     lotus_request V K (state_wait_msg_response_de (le_json V)) STATE_WAIT_MSG
       (JArr [cid_map_ser (cid_map_of (le_cid V) c), JNum (uint STATE_WAIT_CONFIDENCE),
              JNum STATE_WAIT_LOOK_BACK_NO_LIMIT, JBool STATE_WAIT_ALLOW_REPLACE])"

definition state_network_name :: "('a, 'i, 'n) lotus_env \<Rightarrow> 'a lotus_client \<Rightarrow> (('a, 'n) lotus_world, string) io" where
  "state_network_name V K = lotus_request V K (de_string (le_json V)) STATE_NETWORK_NAME JNull"

definition state_network_version :: "('a, 'i, 'n) lotus_env \<Rightarrow> 'a lotus_client \<Rightarrow> 'i list \<Rightarrow> (('a, 'n) lotus_world, u32) io" where
  "state_network_version V K tip_sets =
     lotus_request V K (de_num (le_json V) ''u32'') STATE_NETWORK_VERSION
       (JArr [JArr (map (\<lambda>c. cid_map_ser (cid_map_of (le_cid V) c)) tip_sets)])"

definition state_actor_code_cids :: "('a, 'i, 'n) lotus_env \<Rightarrow> 'a lotus_client \<Rightarrow> u32
    \<Rightarrow> (('a, 'n) lotus_world, (string \<times> 'i) list) io" where
  "state_actor_code_cids V K network_version =
     bind_io (lotus_request V K (de_map (le_json V) (cid_map_de (le_json V))) STATE_ACTOR_CODE_CIDS
       (JArr [JNum (uint network_version)])) (\<lambda>r.
     lift (traverse (\<lambda>(key, m). and_then (cid_try_from_map (le_cid V) m) (\<lambda>c. Ok (key, c))) r))"

definition lotus_wallet_default :: "('a, 'i, 'n) lotus_env \<Rightarrow> 'a lotus_client \<Rightarrow> (('a, 'n) lotus_world, 'a) io" where
  "lotus_wallet_default V K =
     bind_io (lotus_request V K (de_string (le_json V)) WALLET_DEFAULT_ADDRESS (JObj [])) (\<lambda>r.
       lift (addr_from_str (le_libs V) r))"

definition lotus_wallet_list :: "('a, 'i, 'n) lotus_env \<Rightarrow> 'a lotus_client \<Rightarrow> (('a, 'n) lotus_world, string list) io" where
  "lotus_wallet_list V K = lotus_request V K (de_vec (le_json V) (de_string (le_json V))) WALLET_LIST (JObj [])"

definition lotus_wallet_new :: "('a, 'i, 'n) lotus_env \<Rightarrow> 'a lotus_client \<Rightarrow> wallet_key_type \<Rightarrow> (('a, 'n) lotus_world, string) io" where
  "lotus_wallet_new V K kt =
     lotus_request V K (de_string (le_json V)) WALLET_NEW (JArr [JStr (wallet_key_type_as_ref kt)])"

definition lotus_wallet_balance :: "('a, 'i, 'n) lotus_env \<Rightarrow> 'a lotus_client \<Rightarrow> 'a \<Rightarrow> (('a, 'n) lotus_world, int) io" where
  "lotus_wallet_balance V K a =
     bind_io (lotus_request V K (de_string (le_json V)) WALLET_BALANCE (JArr [JStr (addr_to_string (le_libs V) a)])) (\<lambda>r.
       lift (bigint_from_str (le_libs V) r))"

definition read_state :: "('a, 'i, 'n) lotus_env \<Rightarrow> 'a lotus_client \<Rightarrow> (json \<Rightarrow> (string, 't) res) \<Rightarrow> 'a \<Rightarrow> 'i
    \<Rightarrow> (('a, 'n) lotus_world, 't read_state_response) io" where
  "read_state V K de a tipset =
     lotus_request V K (read_state_response_de (le_json V) de) STATE_READ_STATE
       (JArr [JStr (addr_to_string (le_libs V) a), JArr [cid_map_ser (cid_map_of (le_cid V) tipset)]])"

definition lotus_chain_head :: "('a, 'i, 'n) lotus_env \<Rightarrow> 'a lotus_client \<Rightarrow> (('a, 'n) lotus_world, chain_head_response) io" where
  "lotus_chain_head V K = lotus_request V K (chain_head_response_de (le_json V)) CHAIN_HEAD NO_PARAMS"

text \<open>The height is cast to the signed \<open>ChainEpoch\<close>.\<close>

definition current_epoch :: "('a, 'i, 'n) lotus_env \<Rightarrow> 'a lotus_client \<Rightarrow> (('a, 'n) lotus_world, int) io" where
  "current_epoch V K = bind_io (lotus_chain_head V K) (\<lambda>h. ret (sint (ch_height h)))"

definition get_tipset_by_height :: "('a, 'i, 'n) lotus_env \<Rightarrow> 'a lotus_client \<Rightarrow> int \<Rightarrow> 'i
    \<Rightarrow> (('a, 'n) lotus_world, tip_set_by_height) io" where
  "get_tipset_by_height V K epoch tip_set =
     lotus_request V K (tip_set_by_height_de (le_json V)) GET_TIPSET_BY_HEIGHT
       (JArr [JNum epoch, JArr [cid_map_ser (cid_map_of (le_cid V) tip_set)]])"

section \<open>Properties\<close>

lemma build_method: "build_jsonrpc_request meth params = Ok body \<Longrightarrow> json_get ''method'' body = Some (JStr meth)"
  by (auto simp: build_jsonrpc_request_def res_simps)

lemma lotus_request_world:
  "snd (lotus_request V K de meth params w) =
     (case build_jsonrpc_request meth params of
        Ok body \<Rightarrow> snd (lotus_post V (rpc_url (lc_client K)) (bearer_token (lc_client K)) body w)
      | _ \<Rightarrow> w)"
  by (auto simp: lotus_request_def rpc_request_def snd_bind_cases lift_def bail_def split: res.splits)

text \<open>The pushes among the requests posted.\<close>

definition pushes :: "('a, 'n) lotus_world \<Rightarrow> json list" where
  "pushes w = filter (\<lambda>b. json_get ''method'' b = Some (JStr MPOOL_PUSH)) (lw_sent w)"

lemma lotus_request_effect:
  assumes "lotus_request V K de meth params w = (r, w')"
  shows lotus_request_wallet: "lw_wallet w' = lw_wallet w" "lw_ks w' = lw_ks w"
    and lotus_request_other: "meth \<noteq> MPOOL_PUSH \<Longrightarrow> pushes w' = pushes w"
  using assms lotus_request_world [of V K de meth params w] build_method [of meth params]
  by (auto simp: lotus_post_def pushes_def split: res.splits prod.splits)

lemma lotus_request_push:
  assumes "lotus_request V K de MPOOL_PUSH params w = (r, w')"
  shows "pushes w' = pushes w \<and> \<not> is_ok r
    \<or> (\<exists>body. build_jsonrpc_request MPOOL_PUSH params = Ok body \<and> pushes w' = pushes w @ [body])"
proof (cases "build_jsonrpc_request MPOOL_PUSH params")
  case (Ok body)
  with assms lotus_request_world [of V K de MPOOL_PUSH params w] build_method [OF Ok] show ?thesis
    by (auto simp: lotus_post_def pushes_def split: prod.splits)
qed (use assms lotus_request_world [of V K de MPOOL_PUSH params w] in
     \<open>auto simp: lotus_request_def rpc_request_def bail_def bind_io_def lift_def\<close>)

lemma mpool_nonce_world:
  "snd (mpool_nonce V K a w) =
     snd (lotus_request V K (de_num (le_json V) ''u64'' :: json \<Rightarrow> (string, u64) res) MPOOL_GET_NONCE (JArr [JStr (addr_to_string (le_libs V) a)]) w)"
  by (auto simp: mpool_nonce_def split: res.splits prod.splits)

lemma mpool_nonce_effect:
  assumes "mpool_nonce V K a w = (r, w')"
  shows "lw_wallet w' = lw_wallet w \<and> lw_ks w' = lw_ks w \<and> pushes w' = pushes w"
proof -
  obtain q where "lotus_request V K (de_num (le_json V) ''u64'' :: json \<Rightarrow> (string, u64) res) MPOOL_GET_NONCE
      (JArr [JStr (addr_to_string (le_libs V) a)]) w = (q, w')"
    using mpool_nonce_world [of V K a w] assms by (metis prod.collapse snd_conv)
  from lotus_request_effect [OF this] show ?thesis
    by (simp add: MPOOL_GET_NONCE_def MPOOL_PUSH_def)
qed

lemma estimate_message_gas_effect:
  assumes "estimate_message_gas V K m w = (r, w')"
  shows "lw_wallet w' = lw_wallet w \<and> lw_ks w' = lw_ks w \<and> pushes w' = pushes w
    \<and> (\<forall>m'. r = Ok m' \<longrightarrow> (\<exists>gl gf gp. m' = m\<lparr>mp_gas_limit := gl, mp_gas_fee_cap := gf, mp_gas_premium := gp\<rparr>))"
  using assms unfolding estimate_message_gas_def
proof (cases rule: bind_io_cases)
  case (stop r1)
  with lotus_request_effect [OF stop(1)] show ?thesis by (auto simp: ESTIMATE_MESSAGE_GAS_def MPOOL_PUSH_def)
next
  case (go gas w1)
  with lotus_request_effect [OF go(1)] show ?thesis
    by (cases m) (auto simp: ret_def ESTIMATE_MESSAGE_GAS_def MPOOL_PUSH_def)
qed

lemma lotus_wallet_pushes [simp]: "pushes (snd (lotus_wallet m w)) = pushes w"
  by (auto simp: lotus_wallet_def pushes_def split: prod.splits)

lemma sign_mpool_message_effect:
  assumes "sign_mpool_message V K m w = (r, w')"
  shows "pushes w' = pushes w"
    "r = Ok sig \<Longrightarrow> lc_wallet_store K = Some () \<and> (\<exists>message b st. message_of m = Ok message
       \<and> message_cid_bytes (le_cid V) message = Ok b
       \<and> wallet_sign (le_libs V) (le_sig V) (mp_from m) b (lw_wallet w, lw_ks w) = (Ok sig, st))"
proof -
  have "pushes (snd (sign_mpool_message V K m w)) = pushes w"
    by (auto simp: sign_mpool_message_def snd_bind_cases lift_def bail_def split: res.splits)
  with assms show "pushes w' = pushes w" by simp
  show "r = Ok sig \<Longrightarrow> lc_wallet_store K = Some () \<and> (\<exists>message b st. message_of m = Ok message
       \<and> message_cid_bytes (le_cid V) message = Ok b
       \<and> wallet_sign (le_libs V) (le_sig V) (mp_from m) b (lw_wallet w, lw_ks w) = (Ok sig, st))"
    using assms by (auto simp: sign_mpool_message_def bind_io_Ok_iff lift_def bail_def lotus_wallet_def map_err_io_def
        res_simps split: if_splits prod.splits)
qed

text \<open>
  The body of a push for the message \<open>m\<close>: the request with the message as given except for its nonce
  (given, or the one the node reports), its version (given, or 0) and the gas fields, and the
  signature that the wallet makes over the CID of that very message.
\<close>

definition signed_push ::
    "('a, 'i, 'n) lotus_env \<Rightarrow> 'a lotus_client \<Rightarrow> ('a, 'i) mpool_push_message \<Rightarrow> ('a, 'n) lotus_world \<Rightarrow> json \<Rightarrow> bool" where
  "signed_push V K m w body \<longleftrightarrow>
     (\<exists>n gl gf gp m' message b st sig params.
        m' = m\<lparr>mp_nonce := Some n, mp_version := Some (case mp_version m of Some v \<Rightarrow> v | None \<Rightarrow> 0),
               mp_gas_limit := gl, mp_gas_fee_cap := gf, mp_gas_premium := gp\<rparr>
        \<and> (case mp_nonce m of Some k \<Rightarrow> n = k | None \<Rightarrow> fst (mpool_nonce V K (mp_from m) w) = Ok n)
        \<and> message_of m' = Ok message \<and> message_cid_bytes (le_cid V) message = Ok b
        \<and> wallet_sign (le_libs V) (le_sig V) (mp_from m) b (lw_wallet w, lw_ks w) = (Ok sig, st)
        \<and> create_signed_message_params V m' sig = Ok params
        \<and> build_jsonrpc_request MPOOL_PUSH params = Ok body)"

lemma mpool_push_nonce_stage:
  assumes "(case mp_nonce m of
         None \<Rightarrow> bind_io (mpool_nonce V K (mp_from m)) (\<lambda>nonce. ret (m\<lparr>mp_nonce := Some nonce\<rparr>))
       | Some _ \<Rightarrow> ret m) w = (r, w')"
  shows "lw_wallet w' = lw_wallet w \<and> lw_ks w' = lw_ks w \<and> pushes w' = pushes w"
    "r = Ok m1 \<Longrightarrow> \<exists>n. m1 = m\<lparr>mp_nonce := Some n\<rparr>
       \<and> (case mp_nonce m of Some k \<Rightarrow> n = k | None \<Rightarrow> fst (mpool_nonce V K (mp_from m) w) = Ok n)"
  using assms
  by (cases m; auto simp: ret_def bind_io_def split: option.splits res.splits prod.splits dest!: mpool_nonce_effect)+

text \<open>C16: Whatever its outcome, pushing a message posts at most one \<open>MpoolPush\<close>, and what it posts is a signed
  push of that message: the nonce is the given one or the node's, and the signature is the
  wallet's over the CID of exactly the message in the body. When it succeeds, one was posted and
  the client has a wallet; a client without a wallet posts none.\<close>

theorem mpool_push_signed:
  assumes "mpool_push V K m w = (r, w')"
  shows "(pushes w' = pushes w \<and> \<not> is_ok r)
    \<or> (lc_wallet_store K = Some () \<and> (\<exists>body. signed_push V K m w body \<and> pushes w' = pushes w @ [body]))"
  using assms unfolding mpool_push_def
proof (cases rule: bind_io_cases)
  case (stop r1)
  with mpool_push_nonce_stage(1) [OF stop(1)] show ?thesis by simp
next
  case (go m1 w1)
  note st1 = mpool_push_nonce_stage(1) [OF go(1)]
  from mpool_push_nonce_stage(2) [OF go(1) refl] obtain n where
    n: "m1 = m\<lparr>mp_nonce := Some n\<rparr>" "case mp_nonce m of Some k \<Rightarrow> n = k | None \<Rightarrow> fst (mpool_nonce V K (mp_from m) w) = Ok n" by blast
  define m2 where "m2 = m\<lparr>mp_nonce := Some n, mp_version := Some (case mp_version m of Some v \<Rightarrow> v | None \<Rightarrow> 0)\<rparr>"
  have m2: "(if mp_version m1 = None then m1\<lparr>mp_version := Some 0\<rparr> else m1) = m2"
    by (cases m) (auto simp: n(1) m2_def split: option.splits)
  from go(2) [unfolded m2] show ?thesis
  proof (cases rule: bind_io_cases)
    case (stop r1)
    with estimate_message_gas_effect [OF stop(1)] st1 show ?thesis by simp
  next
    case (go m3 w2)
    from estimate_message_gas_effect [OF go(1)] obtain gl gf gp where
      st2: "lw_wallet w2 = lw_wallet w" "lw_ks w2 = lw_ks w" "pushes w2 = pushes w"
        and m3: "m3 = m2\<lparr>mp_gas_limit := gl, mp_gas_fee_cap := gf, mp_gas_premium := gp\<rparr>" using st1 by auto
    have mf: "mp_from m3 = mp_from m" by (simp add: m3 m2_def)
    from go(2) show ?thesis
    proof (cases rule: bind_io_cases)
      case (stop r1)
      with sign_mpool_message_effect(1) [OF stop(1)] st2 show ?thesis by simp
    next
      case (go sig w3)
      note sg = sign_mpool_message_effect [OF go(1)]
      from go(2) show ?thesis
      proof (cases rule: bind_io_cases)
        case (stop r1)
        with sg(1) st2 show ?thesis by (simp add: lift_def)
      next
        case (go params w4)
        then have prm: "create_signed_message_params V m3 sig = Ok params" and w4: "w4 = w3" by (simp_all add: lift_def)
        have push: "build_jsonrpc_request MPOOL_PUSH params = Ok body \<Longrightarrow> signed_push V K m w body" for body
          unfolding signed_push_def using n(2) sg(2) [OF refl] prm mf st2 by (force simp: m3 m2_def)
        from go(2) [unfolded w4] show ?thesis
          by (cases rule: bind_io_cases) (use lotus_request_push sg(1) sg(2) [OF refl] st2 push in \<open>fastforce simp: lift_def\<close>)+
      qed
    qed
  qed
qed

text \<open>A node that reports nonce 5, fixed gas values and a CID.\<close>

definition demo_reply :: "string \<Rightarrow> json" where
  "demo_reply meth =
     (if meth = MPOOL_GET_NONCE then JNum 5
      else if meth = ESTIMATE_MESSAGE_GAS then JObj [(''GasLimit'', JNum 100), (''GasFeeCap'', JStr ''7''), (''GasPremium'', JStr ''1'')]
      else JObj [(''/'', JStr ''pushed'')])"

definition demo_lotus_env :: "(demo_addr, string, nat) lotus_env" where
  "demo_lotus_env = \<lparr>le_libs = demo_libs,
     le_json = demo_lotus_json\<lparr>read_json := (\<lambda>t. Ok (JObj [(''jsonrpc'', JStr ''2.0''), (''id'', JNum 1), (''result'', demo_reply t)]))\<rparr>,
     le_cid = demo_lotus_libs, le_ks = demo_ks_libs, le_sig = demo_sig,
     le_post = (\<lambda>url token body n. (Ok (case json_get ''method'' body of Some (JStr s) \<Rightarrow> s | _ \<Rightarrow> []), n + 1))\<rparr>"

definition demo_lotus_world :: "(demo_addr, nat) lotus_world" where
  "demo_lotus_world = \<lparr>lw_wallet = fst (demo_wallet_with 3), lw_ks = snd (demo_wallet_with 3), lw_node = 0, lw_sent = []\<rparr>"

definition demo_lotus_msg :: "(demo_addr, string) mpool_push_message" where
  "demo_lotus_msg = mpool_push_message_new (DemoId 64) (address (demo_key 3)) 2 [1, 2, 3]"

definition demo_lotus_client :: "demo_addr lotus_client" where
  "demo_lotus_client = lotus_new_with_wallet_store (json_rpc_new ''node'' None) (new_root 123)"

lemma demo_request:
  assumes "de (demo_reply meth) = Ok v" and "demo_reply meth \<noteq> JNull"
  shows "lotus_request demo_lotus_env demo_lotus_client de meth (JArr (x # xs)) w =
    (Ok v, w\<lparr>lw_node := lw_node w + 1, lw_sent := lw_sent w @
       [JObj [(''jsonrpc'', JStr ''2.0''), (''id'', JNum 1), (''method'', JStr meth), (''params'', JArr (x # xs))]]\<rparr>)"
  using assms
  by (simp add: lotus_request_def demo_lotus_client_def lotus_new_with_wallet_store_def json_rpc_new_def rpc_request_def build_jsonrpc_request_def
      bind_io_def lift_def lotus_post_def demo_lotus_env_def response_de_def seq_struct_def field_value_def field_def opt_field_def de_option_def de_num_def de_string_def
      response_to_result_def DEFAULT_JSON_RPC_ID_def DEFAULT_JSON_RPC_VERSION_def)

lemma demo_reply_values:
  "de_num (le_json demo_lotus_env) ''u64'' (demo_reply MPOOL_GET_NONCE) = Ok (5 :: u64)"
  "estimate_gas_response_de (le_libs demo_lotus_env) (le_json demo_lotus_env) (demo_reply ESTIMATE_MESSAGE_GAS)
     = Ok \<lparr>eg_gas_limit = Some 100, eg_gas_fee_cap = Some 7, eg_gas_premium = Some 1\<rparr>"
  "cid_map_de (le_json demo_lotus_env) (demo_reply MPOOL_PUSH) = Ok (Some ''pushed'')"
  "demo_reply MPOOL_GET_NONCE \<noteq> JNull" "demo_reply ESTIMATE_MESSAGE_GAS \<noteq> JNull" "demo_reply MPOOL_PUSH \<noteq> JNull"
  by (simp_all add: demo_lotus_env_def demo_lotus_json_def demo_reply_def MPOOL_GET_NONCE_def ESTIMATE_MESSAGE_GAS_def MPOOL_PUSH_def
      de_num_def estimate_gas_response_de_def seq_struct_def field_value_def field_def opt_field_def de_option_def de_string_def cid_map_de_def
      de_some_token_amount_from_num_def de_some_token_amount_from_str_def demo_bigint_from_str_def parse_unsigned_def char_digit_def)

definition demo_signed_msg :: "(demo_addr, string) mpool_push_message" where
  "demo_signed_msg = demo_lotus_msg\<lparr>mp_nonce := Some 5, mp_version := Some 0,
     mp_gas_fee_cap := Some 7, mp_gas_limit := Some 100, mp_gas_premium := Some 1\<rparr>"

lemma demo_sign:
  assumes "lw_wallet w = fst (demo_wallet_with 3)" "lw_ks w = snd (demo_wallet_with 3)"
  shows "\<exists>sig w'. sign_mpool_message demo_lotus_env demo_lotus_client demo_signed_msg w = (Ok sig, w')"
proof -
  have "\<exists>sig st. wallet_sign demo_libs demo_sig (address (demo_key 3)) [1, 2, 3] (demo_wallet_with 3) = (Ok sig, st)"
  proof -
    have "fst (wallet_find_key demo_libs demo_sig (address (demo_key 3)) (demo_wallet_with 3)) = Ok (demo_key 3)"
      by (rule find_key_stored [OF _ demo_wallet_with_simps(2) demo_key_try]) (simp add: demo_wallet_with_def wallet_new_def)
    then obtain st where "wallet_find_key demo_libs demo_sig (address (demo_key 3)) (demo_wallet_with 3) = (Ok (demo_key 3), st)"
      by (metis prod.collapse)
    then show ?thesis
      by (simp add: wallet_sign_def bind_io_def map_err_io_def lift_def helper_sign_def) (simp add: demo_key_def demo_sig_def)
  qed
  then show ?thesis
    using assms
    by (auto simp: sign_mpool_message_def demo_lotus_client_def lotus_new_with_wallet_store_def message_of_def demo_signed_msg_def
        demo_lotus_msg_def mpool_push_message_new_def atto_to_u64_def message_cid_bytes_def demo_lotus_env_def demo_lotus_libs_def
        lotus_wallet_def map_err_io_def)
qed

lemmas demo_requests =
  demo_request [where de = "de_num (le_json demo_lotus_env) ''u64''", OF demo_reply_values(1,4)]
  demo_request [where de = "estimate_gas_response_de (le_libs demo_lotus_env) (le_json demo_lotus_env)", OF demo_reply_values(2,5)]
  demo_request [where de = "cid_map_de (le_json demo_lotus_env)", OF demo_reply_values(3,6)]

lemma demo_params:
  "\<exists>j js. create_signed_message_params demo_lotus_env demo_signed_msg sig = Ok (JArr (j # js))"
  by (simp add: create_signed_message_params_def to_value_def to_value_str_def demo_signed_msg_def atto_to_u64_def)

lemma demo_mpool_push_ok: "fst (mpool_push demo_lotus_env demo_lotus_client demo_lotus_msg demo_lotus_world) = Ok ''pushed''"
proof -
  obtain w1 where n: "mpool_nonce demo_lotus_env demo_lotus_client (mp_from demo_lotus_msg) demo_lotus_world = (Ok 5, w1)"
    and w1: "lw_wallet w1 = fst (demo_wallet_with 3)" "lw_ks w1 = snd (demo_wallet_with 3)"
    by (simp add: mpool_nonce_def demo_requests demo_lotus_world_def)
  obtain w2 where g: "estimate_message_gas demo_lotus_env demo_lotus_client (demo_lotus_msg\<lparr>mp_nonce := Some 5, mp_version := Some 0\<rparr>) w1
      = (Ok demo_signed_msg, w2)" and w2: "lw_wallet w2 = fst (demo_wallet_with 3)" "lw_ks w2 = snd (demo_wallet_with 3)"
    using w1 by (simp add: estimate_message_gas_def bind_io_def ret_def demo_signed_msg_def demo_requests)
  from demo_sign [OF w2] obtain sig w3 where
    sg: "sign_mpool_message demo_lotus_env demo_lotus_client demo_signed_msg w2 = (Ok sig, w3)" by blast
  from demo_params [of sig] obtain j js where
    prm: "create_signed_message_params demo_lotus_env demo_signed_msg sig = Ok (JArr (j # js))" by blast
  have "cid_try_from_map (le_cid demo_lotus_env) (Some ''pushed'') = Ok ''pushed''"
    by (simp add: cid_try_from_map_def option_cid_of_map_def demo_lotus_env_def demo_lotus_libs_def)
  moreover have "mp_nonce demo_lotus_msg = None" "mp_version demo_lotus_msg = None"
    by (simp_all add: demo_lotus_msg_def mpool_push_message_new_def)
  ultimately show ?thesis
    using n g sg prm by (simp add: mpool_push_def bind_io_def ret_def lift_def demo_requests)
qed

theorem mpool_push_signed_witness:
  "let K = demo_lotus_client in
   fst (mpool_push demo_lotus_env K demo_lotus_msg demo_lotus_world) = Ok ''pushed''
   \<and> (\<exists>body. signed_push demo_lotus_env K demo_lotus_msg demo_lotus_world body
        \<and> pushes (snd (mpool_push demo_lotus_env K demo_lotus_msg demo_lotus_world)) = pushes demo_lotus_world @ [body])"
  using mpool_push_signed [OF prod.collapse [symmetric], of demo_lotus_env
    demo_lotus_client demo_lotus_msg demo_lotus_world]
  by (simp add: demo_mpool_push_ok Let_def)

end
