(* ===== verification/Lotus_Ipc.thy ===== *)
theory Lotus_Ipc
  imports Lotus_Message Eth_Manager
begin

text \<open>
  \<open>ipc/provider/src/lotus/message/ipc.rs\<close>: the state of the IPC actors as a Lotus node reports it, with
  the derived readers and writers of its JSON form. The readers of the library types \<open>TokenAmount\<close> and
  \<open>RawBytes\<close> are parameters.
\<close>

section \<open>Readers\<close>

definition de_i64 :: "json_libs \<Rightarrow> json \<Rightarrow> (string, int) res" where
  "de_i64 J j =
     (case j of
        JNum n \<Rightarrow> if - (2 ^ 63) \<le> n \<and> n < 2 ^ 63 then Ok n else Err (invalid_type J j ''i64'')
      | _ \<Rightarrow> Err (invalid_type J j ''i64''))"

definition de_bool :: "json_libs \<Rightarrow> json \<Rightarrow> (string, bool) res" where
  "de_bool J j = (case j of JBool b \<Rightarrow> Ok b | _ \<Rightarrow> Err (invalid_type J j ''a boolean''))"

text \<open>\<open>Status\<close> in \<open>sdk/src/gateway.rs\<close> is read and written as its discriminant.\<close>

definition status_de :: "json_libs \<Rightarrow> json \<Rightarrow> (string, status) res" where
  "status_de J j =
     and_then (de_i64 J j) (\<lambda>n.
       if n = 0 then Ok Active else if n = 1 then Ok Inactive else if n = 2 then Ok Killed
       else Err (''invalid value: '' @ show_int n @ '', expected one of: 0, 1, 2''))"

fun status_ser :: "status \<Rightarrow> json" where
  "status_ser Active = JNum 0"
| "status_ser Inactive = JNum 1"
| "status_ser Killed = JNum 2"

section \<open>Actor states\<close>

definition prev_checkpoint_response_de :: "json_libs \<Rightarrow> json \<Rightarrow> (string, cid_map option) res" where
  "prev_checkpoint_response_de J = opt_field J ''CID'' (cid_map_de J)"

record voting =
  vt_genesis_epoch :: int
  last_voting_executed :: int

definition voting_de :: "json_libs \<Rightarrow> json \<Rightarrow> (string, voting) res" where
  "voting_de J j =
     and_then (field J ''GenesisEpoch'' (de_i64 J) j) (\<lambda>g.
     and_then (field J ''LastVotingExecuted'' (de_i64 J) j) (\<lambda>l.
       Ok \<lparr>vt_genesis_epoch = g, last_voting_executed = l\<rparr>))"

record gateway_state =
  gs_bottom_up_check_period :: int
  gs_top_down_check_period :: int
  gs_applied_topdown_nonce :: u64
  gs_top_down_checkpoint_voting :: voting
  gs_initialized :: bool

definition gateway_state_de :: "json_libs \<Rightarrow> json \<Rightarrow> (string, gateway_state) res" where
  "gateway_state_de J j =
     and_then (field J ''BottomUpCheckPeriod'' (de_i64 J) j) (\<lambda>b.
     and_then (field J ''TopDownCheckPeriod'' (de_i64 J) j) (\<lambda>t.
     and_then (field J ''AppliedTopdownNonce'' (de_num J ''u64'') j) (\<lambda>n.
     and_then (field J ''TopDownCheckpointVoting'' (voting_de J) j) (\<lambda>v.
     and_then (field J ''Initialized'' (de_bool J) j) (\<lambda>i.
       Ok \<lparr>gs_bottom_up_check_period = b, gs_top_down_check_period = t, gs_applied_topdown_nonce = n,
           gs_top_down_checkpoint_voting = v, gs_initialized = i\<rparr>)))))"

text \<open>The validators keep the names of the fields of the actor.\<close>

record lotus_validator =
  lv_addr :: string
  lv_net_addr :: string
  lv_worker_addr :: "string option"
  lv_weight :: string

definition lotus_validator_de :: "json_libs \<Rightarrow> json \<Rightarrow> (string, lotus_validator) res" where
  "lotus_validator_de J j =
     and_then (field J ''addr'' (de_string J) j) (\<lambda>a.
     and_then (field J ''net_addr'' (de_string J) j) (\<lambda>n.
     and_then (opt_field J ''worker_addr'' (de_string J) j) (\<lambda>w.
     and_then (field J ''weight'' (de_string J) j) (\<lambda>x.
       Ok \<lparr>lv_addr = a, lv_net_addr = n, lv_worker_addr = w, lv_weight = x\<rparr>))))"

definition ser_option :: "('b \<Rightarrow> json) \<Rightarrow> 'b option \<Rightarrow> json" where
  "ser_option ser v = (case v of None \<Rightarrow> JNull | Some b \<Rightarrow> ser b)"

definition lotus_validator_ser :: "lotus_validator \<Rightarrow> json" where
  "lotus_validator_ser v = JObj [(''addr'', JStr (lv_addr v)), (''net_addr'', JStr (lv_net_addr v)),
     (''worker_addr'', ser_option JStr (lv_worker_addr v)), (''weight'', JStr (lv_weight v))]"

record lotus_validator_set =
  lvs_validators :: "lotus_validator list option"
  lvs_configuration_number :: u64

definition validator_set_de :: "json_libs \<Rightarrow> json \<Rightarrow> (string, lotus_validator_set) res" where
  "validator_set_de J j =
     and_then (opt_field J ''validators'' (de_vec J (lotus_validator_de J)) j) (\<lambda>vs.
     and_then (field J ''configuration_number'' (de_num J ''u64'') j) (\<lambda>n.
       Ok \<lparr>lvs_validators = vs, lvs_configuration_number = n\<rparr>))"

definition validator_set_ser :: "lotus_validator_set \<Rightarrow> json" where
  "validator_set_ser s = JObj [(''validators'', ser_option (\<lambda>vs. JArr (map lotus_validator_ser vs)) (lvs_validators s)),
     (''configuration_number'', JNum (uint (lvs_configuration_number s)))]"

record subnet_actor_state =
  sa_bottom_up_check_period :: int
  sa_validator_set :: lotus_validator_set
  sa_min_validators :: u64
  sa_bottom_up_checkpoint_voting :: voting

definition subnet_actor_state_de :: "json_libs \<Rightarrow> json \<Rightarrow> (string, subnet_actor_state) res" where
  "subnet_actor_state_de J j =
     and_then (field J ''BottomUpCheckPeriod'' (de_i64 J) j) (\<lambda>b.
     and_then (field J ''ValidatorSet'' (validator_set_de J) j) (\<lambda>v.
     and_then (field J ''MinValidators'' (de_num J ''u64'') j) (\<lambda>m.
     and_then (field J ''BottomUpCheckpointVoting'' (voting_de J) j) (\<lambda>w.
       Ok \<lparr>sa_bottom_up_check_period = b, sa_validator_set = v, sa_min_validators = m, sa_bottom_up_checkpoint_voting = w\<rparr>))))"

record query_validator_set_response =
  qv_validator_set :: lotus_validator_set
  qv_min_validators :: u64
  qv_genesis_epoch :: int

definition query_validator_set_response_de :: "json_libs \<Rightarrow> json \<Rightarrow> (string, query_validator_set_response) res" where
  "query_validator_set_response_de J j =
     and_then (field J ''validator_set'' (validator_set_de J) j) (\<lambda>v.
     and_then (field J ''min_validators'' (de_num J ''u64'') j) (\<lambda>m.
     and_then (field J ''genesis_epoch'' (de_i64 J) j) (\<lambda>g.
       Ok \<lparr>qv_validator_set = v, qv_min_validators = m, qv_genesis_epoch = g\<rparr>)))"

definition query_validator_set_response_ser :: "query_validator_set_response \<Rightarrow> json" where
  "query_validator_set_response_ser r = JObj [(''validator_set'', validator_set_ser (qv_validator_set r)),
     (''min_validators'', JNum (uint (qv_min_validators r))), (''genesis_epoch'', JNum (qv_genesis_epoch r))]"

section \<open>SubnetInfo\<close>

definition subnet_info_de :: "'a libs \<Rightarrow> ('a, 'i) lotus_libs \<Rightarrow> json_libs \<Rightarrow> json \<Rightarrow> (string, 'a subnet_info) res" where
  "subnet_info_de L C J j =
     and_then (field J ''ID'' (de_subnet_id_from_map L C J) j) (\<lambda>i.
     and_then (field J ''Stake'' (de_token_amount_from_str L J) j) (\<lambda>stk.
     and_then (field J ''CircSupply'' (de_token_amount_from_str L J) j) (\<lambda>c.
     and_then (field J ''Status'' (status_de J) j) (\<lambda>st.
     and_then (field J ''genesis_epoch'' (de_i64 J) j) (\<lambda>g.
       Ok \<lparr>si_id = i, si_stake = stk, si_circ_supply = c, si_genesis_epoch = g, si_status = st\<rparr>)))))"

definition subnet_info_ser :: "'a libs \<Rightarrow> 'a subnet_info \<Rightarrow> json" where
  "subnet_info_ser L s = JObj [(''id'', ser_subnet_id_to_str L (si_id s)), (''stake'', ser_token_amount_to_atto L (si_stake s)),
     (''circ_supply'', ser_token_amount_to_atto L (si_circ_supply s)), (''status'', status_ser (si_status s)),
     (''genesis_epoch'', JNum (si_genesis_epoch s))]"

section \<open>Cross-network messages\<close>

record fvm_json =
  token_amount_de :: "json \<Rightarrow> (string, int) res"
  raw_bytes_de :: "json \<Rightarrow> (string, bytes) res"

record 'a storable_msgs_wrapper =
  sw_from :: "'a ipc_address"
  sw_to :: "'a ipc_address"
  sw_method :: u64
  sw_params :: bytes
  sw_value :: int
  sw_nonce :: u64
  sw_fee :: int

definition storable_msgs_wrapper_de ::
    "'a libs \<Rightarrow> ('a, 'i) lotus_libs \<Rightarrow> json_libs \<Rightarrow> fvm_json \<Rightarrow> json \<Rightarrow> (string, 'a storable_msgs_wrapper) res" where
  "storable_msgs_wrapper_de L C J F j =
     and_then (field J ''From'' (de_ipc_address_from_map L C J) j) (\<lambda>fr.
     and_then (field J ''To'' (de_ipc_address_from_map L C J) j) (\<lambda>t.
     and_then (field J ''Method'' (de_num J ''u64'') j) (\<lambda>me.
     and_then (field J ''Params'' (raw_bytes_de F) j) (\<lambda>p.
     and_then (field J ''Value'' (token_amount_de F) j) (\<lambda>v.
     and_then (field J ''Nonce'' (de_num J ''u64'') j) (\<lambda>n.
     and_then (field J ''Fee'' (token_amount_de F) j) (\<lambda>fe.
       Ok \<lparr>sw_from = fr, sw_to = t, sw_method = me, sw_params = p, sw_value = v, sw_nonce = n, sw_fee = fe\<rparr>)))))))"

record 'a cross_msgs_wrapper =
  cw_msg :: "'a storable_msgs_wrapper"
  cw_wrapped :: bool

definition cross_msgs_wrapper_de ::
    "'a libs \<Rightarrow> ('a, 'i) lotus_libs \<Rightarrow> json_libs \<Rightarrow> fvm_json \<Rightarrow> json \<Rightarrow> (string, 'a cross_msgs_wrapper) res" where
  "cross_msgs_wrapper_de L C J F j =
     and_then (field J ''Msg'' (storable_msgs_wrapper_de L C J F) j) (\<lambda>m.
     and_then (field J ''Wrapped'' (de_bool J) j) (\<lambda>w.
       Ok \<lparr>cw_msg = m, cw_wrapped = w\<rparr>))"

section \<open>Reading back\<close>

lemma de_num_uint [simp]: "de_num J ty (JNum (uint (n :: 'l::len word))) = Ok n"
  using unsigned_less [of n, where 'a = int] by (simp add: de_num_def)

lemma lotus_validator_roundtrip [simp]: "lotus_validator_de J (lotus_validator_ser v) = Ok v"
  by (cases "lv_worker_addr v")
    (simp_all add: lotus_validator_de_def lotus_validator_ser_def field_value_def field_def opt_field_def de_string_def de_option_def ser_option_def)

lemma validator_set_roundtrip [simp]: "validator_set_de J (validator_set_ser s) = Ok s"
proof -
  have "traverse (lotus_validator_de J) (map lotus_validator_ser vs) = Ok vs" for vs by (induction vs) simp_all
  then show ?thesis
    by (cases "lvs_validators s")
      (simp_all add: validator_set_de_def validator_set_ser_def field_value_def field_def opt_field_def de_option_def de_vec_def ser_option_def)
qed

text \<open>The answer to a query of the validators reads back as it was written.\<close>

lemma query_validator_set_roundtrip:
  assumes "- (2 ^ 63) \<le> qv_genesis_epoch r" "qv_genesis_epoch r < 2 ^ 63"
  shows "query_validator_set_response_de J (query_validator_set_response_ser r) = Ok r"
  using assms by (simp add: query_validator_set_response_de_def query_validator_set_response_ser_def field_value_def field_def de_i64_def)

text \<open>A subnet in the casing of the actor is refused: the field \<open>genesis_epoch\<close> is read under its Rust name
  although all others are renamed.\<close>

lemma subnet_info_actor_casing:
  assumes "de_subnet_id_from_map L C J i = Ok i'" "bigint_from_str L stk = Ok n" "bigint_from_str L c = Ok m"
  shows "subnet_info_de L C J (JObj [(''ID'', i), (''Stake'', JStr stk), (''CircSupply'', JStr c), (''Status'', status_ser st),
     (''GenesisEpoch'', JNum g)]) = Err (missing_field J ''genesis_epoch'')"
  using assms by (cases st) (simp_all add: subnet_info_de_def field_value_def field_def de_token_amount_from_str_def de_string_def status_de_def de_i64_def)

end
