(* ===== verification/Wallet_Cache.thy ===== *)
theory Wallet_Cache
  imports Fvm_Wallet
begin

text \<open>
  The cache of the Filecoin wallet. \<open>Wallet::find_key\<close> looks in the map \<open>keys\<close> first and
  fills it from the key store; \<open>generate_addr\<close> fills it too, nothing ever empties it. The
  reference is a wallet opened anew for every call, whose cache is always empty: both give the
  same answers and leave the same key store behind, in every sequence of calls.
\<close>

section \<open>Calls\<close>

datatype 'a wallet_request =
    WFind 'a
  | WSign 'a bytes
  | WExport 'a
  | WImport fvm_key_info
  | WList
  | WRemove 'a
  | WGetDefault
  | WSetDefault 'a
  | WGenerate signature_type
  | WHas 'a

datatype 'a wallet_reply =
    WKey "(fvm_error, 'a fvm_key) res"
  | WSig "(fvm_error, fvm_signature) res"
  | WInfo "(fvm_error, fvm_key_info) res"
  | WAddr "(fvm_error, 'a) res"
  | WAddrs "(fvm_error, 'a list) res"
  | WNew "(string, 'a) res"
  | WUnit "(string, unit) res"
  | WBool bool

fun wallet_call :: "'a libs \<Rightarrow> ks_libs \<Rightarrow> 'a sig_libs \<Rightarrow> 'a wallet_request \<Rightarrow> 'a wallet_state \<Rightarrow> 'a wallet_reply \<times> 'a wallet_state" where
  "wallet_call L S G (WFind a) st = apfst WKey (wallet_find_key L G a st)"
| "wallet_call L S G (WSign a m) st = apfst WSig (wallet_sign L G a m st)"
| "wallet_call L S G (WExport a) st = apfst WInfo (wallet_export L G a st)"
| "wallet_call L S G (WImport ki) st = apfst WAddr (wallet_import L S G ki st)"
| "wallet_call L S G WList st = (WAddrs (wallet_list_addrs L (fst st)), st)"
| "wallet_call L S G (WRemove a) st = apfst WUnit (wallet_remove L S a st)"
| "wallet_call L S G WGetDefault st = (WAddr (wallet_get_default G (fst st)), st)"
| "wallet_call L S G (WSetDefault a) st = apfst WUnit (wallet_set_default L S a st)"
| "wallet_call L S G (WGenerate ty) st = apfst WNew (wallet_generate_addr L S G ty st)"
| "wallet_call L S G (WHas a) st = apfst WBool (wallet_has_key L G a st)"

text \<open>The state without the cache, and the reference wallet on it.\<close>

definition stored :: "'a wallet_state \<Rightarrow> ks_state" where
  "stored = (\<lambda>(s, w). (keystore s, w))"

lemma stored_new [simp]: "stored (wallet_new ks, w) = (ks, w)"
  by (simp add: stored_def wallet_new_def)

definition uncached_call ::
    "'a libs \<Rightarrow> ks_libs \<Rightarrow> 'a sig_libs \<Rightarrow> 'a wallet_request \<Rightarrow> ks_state \<Rightarrow> 'a wallet_reply \<times> ks_state" where
  "uncached_call L S G c = (\<lambda>(ks, w). apsnd stored (wallet_call L S G c (wallet_new ks, w)))"

section \<open>What the equivalence rests on\<close>

text \<open>The text of an address starts with the letter of the network and determines the address.\<close>

definition display_ok :: "'a libs \<Rightarrow> bool" where
  "display_ok L \<longleftrightarrow> inj (addr_to_string L)
     \<and> (\<exists>c \<in> {CHR ''f'', CHR ''t''}. \<forall>a. addr_to_string L a \<noteq> [] \<and> hd (addr_to_string L a) = c)"

definition testnet_name :: "'a libs \<Rightarrow> 'a \<Rightarrow> string" where
  "testnet_name L a = ''wallet-t'' @ tl (addr_to_string L a)"

text \<open>The store of one network: no entry under a test network name that is not its own name as well.\<close>

definition one_network :: "'a libs \<Rightarrow> (string \<Rightarrow> fvm_key_info option) \<Rightarrow> bool" where
  "one_network L look \<longleftrightarrow> (\<forall>a. look (testnet_name L a) \<noteq> None \<longrightarrow> testnet_name L a = wallet_name L a)"

text \<open>Where an address has an entry under both names, the two hold the same key.\<close>

definition agreeing :: "'a libs \<Rightarrow> (string \<Rightarrow> fvm_key_info option) \<Rightarrow> bool" where
  "agreeing L look \<longleftrightarrow> (\<forall>a i j. look (wallet_name L a) = Some i \<longrightarrow> look (testnet_name L a) = Some j \<longrightarrow> i = j)"

lemma one_network_agreeing: "one_network L look \<Longrightarrow> agreeing L look"
  unfolding one_network_def agreeing_def by (metis option.distinct(1) option.inject)

text \<open>The lookup in the key store alone.\<close>

definition plain_find :: "'a libs \<Rightarrow> 'a sig_libs \<Rightarrow> (string \<Rightarrow> fvm_key_info option) \<Rightarrow> 'a \<Rightarrow> (fvm_error, 'a fvm_key) res" where
  "plain_find L G look a =
     and_then (case look (wallet_name L a) of
         Some i \<Rightarrow> Ok i
       | None \<Rightarrow> and_then (str_from_1 (addr_to_string L a)) (\<lambda>t. ok_or KeyInfoMissing (look (''wallet-t'' @ t)))) (key_try_from G)"

definition cache_ok :: "'a libs \<Rightarrow> 'a sig_libs \<Rightarrow> 'a wallet_state \<Rightarrow> bool" where
  "cache_ok L G st \<longleftrightarrow> (\<forall>a k. map_of (keys (fst st)) a = Some k \<longrightarrow> plain_find L G (wallet_lookup st) a = Ok k)"

lemma find_key_plain:
  "wallet_find_key L G a (s, w) = (case map_of (keys s) a of
       Some k \<Rightarrow> (Ok k, (s, w))
     | None \<Rightarrow> (case plain_find L G (wallet_lookup (s, w)) a of
           Ok k \<Rightarrow> (Ok k, (s\<lparr>keys := AList.update a k (keys s)\<rparr>, w))
         | r \<Rightarrow> (r, (s, w))))"
  by (auto simp: wallet_find_key_def plain_find_def ks_get_keystore [where w = w] Let_def split: option.splits res.splits)

lemma str_from_1_tl: "str_from_1 s = Ok t \<Longrightarrow> t = tl s"
  by (cases s rule: str_from_1.cases) (auto split: if_splits)

lemma plain_find_testnet:
  "plain_find L G look a = Ok k \<Longrightarrow> look (wallet_name L a) = None \<Longrightarrow>
     \<exists>i. look (testnet_name L a) = Some i \<and> key_try_from G i = Ok k"
  by (auto simp: plain_find_def testnet_name_def res_simps dest: str_from_1_tl)

lemma plain_find_cong:
  "look' (wallet_name L a) = look (wallet_name L a) \<Longrightarrow> look' (testnet_name L a) = look (testnet_name L a) \<Longrightarrow>
     plain_find L G look' a = plain_find L G look a"
  by (cases "str_from_1 (addr_to_string L a) :: (fvm_error, string) res")
    (auto simp: plain_find_def testnet_name_def dest: str_from_1_tl split: option.splits)

section \<open>Names\<close>

lemma display_split:
  assumes "display_ok L"
  obtains c where "c \<in> {CHR ''f'', CHR ''t''}" "\<And>a. addr_to_string L a = c # tl (addr_to_string L a)"
  using assms unfolding display_ok_def by (metis list.collapse)

lemma wallet_name_eq_iff: "display_ok L \<Longrightarrow> wallet_name L a = wallet_name L b \<longleftrightarrow> a = b"
  by (auto simp: display_ok_def wallet_name_def inj_eq)

lemma testnet_name_eqD:
  assumes L: "display_ok L" and "testnet_name L a = wallet_name L b"
  shows "a = b"
proof -
  obtain c where c: "\<And>a. addr_to_string L a = c # tl (addr_to_string L a)" using display_split [OF L] by metis
  have "addr_to_string L b = CHR ''t'' # tl (addr_to_string L a)"
    using assms(2) by (simp add: testnet_name_def wallet_name_def)
  with c [of a] c [of b] have "addr_to_string L a = addr_to_string L b" by simp
  with L show ?thesis by (simp add: display_ok_def inj_eq)
qed

lemma names_differ:
  assumes "display_ok L" and "n = ''default'' \<or> n = addr_to_string L b"
  shows "wallet_name L a \<noteq> n \<and> testnet_name L a \<noteq> n"
proof -
  obtain c where "c \<in> {CHR ''f'', CHR ''t''}" "addr_to_string L b = c # tl (addr_to_string L b)"
    using display_split [OF assms(1)] by metis
  then have "hd (addr_to_string L b) \<in> {CHR ''f'', CHR ''t''}" by (metis list.sel(1))
  then have "hd n \<noteq> CHR ''w''" using assms(2) by auto
  then show ?thesis by (auto simp: wallet_name_def testnet_name_def)
qed

section \<open>The invariant of the cache\<close>

text \<open>The entries of keys are never removed or changed; new ones are filed under the names of the network.\<close>

definition names_kept :: "'a libs \<Rightarrow> (string \<Rightarrow> fvm_key_info option) \<Rightarrow> (string \<Rightarrow> fvm_key_info option) \<Rightarrow> bool" where
  "names_kept L look look' \<longleftrightarrow>
     (\<forall>a n. n = wallet_name L a \<or> n = testnet_name L a \<longrightarrow> look n \<noteq> None \<longrightarrow> look' n = look n)
     \<and> (one_network L look \<longrightarrow> one_network L look')"

lemma names_kept_refl [simp]: "names_kept L look look"
  by (simp add: names_kept_def)

lemma names_kept_trans: "names_kept L look look1 \<Longrightarrow> names_kept L look1 look2 \<Longrightarrow> names_kept L look look2"
  unfolding names_kept_def by (metis (no_types, lifting))

lemma names_kept_agreeing:
  assumes "names_kept L look look'" "agreeing L look'"
  shows "agreeing L look"
  using assms unfolding names_kept_def agreeing_def by (metis option.distinct(1))

lemma names_kept_same:
  assumes "\<And>a. look' (wallet_name L a) = look (wallet_name L a)" "\<And>a. look' (testnet_name L a) = look (testnet_name L a)"
  shows "names_kept L look look'"
  using assms unfolding names_kept_def one_network_def by (metis (no_types, lifting))

lemma names_kept_put:
  assumes L: "display_ok L" and new: "look (wallet_name L b) = None"
  shows "names_kept L look (look(wallet_name L b \<mapsto> i))"
proof -
  have "one_network L (look(wallet_name L b \<mapsto> i))" if "one_network L look"
    unfolding one_network_def
  proof (intro allI impI)
    fix a assume "(look(wallet_name L b \<mapsto> i)) (testnet_name L a) \<noteq> None"
    with that testnet_name_eqD [OF L, of a b] show "testnet_name L a = wallet_name L a"
      unfolding one_network_def by (metis fun_upd_other)
  qed
  with new show ?thesis unfolding names_kept_def by auto
qed

text \<open>A step of the wallet: the entries are kept, and the cache stays right where the entries after it agree.\<close>

definition cache_step :: "'a libs \<Rightarrow> 'a sig_libs \<Rightarrow> 'a wallet_state \<Rightarrow> 'a wallet_state \<Rightarrow> bool" where
  "cache_step L G st st' \<longleftrightarrow> names_kept L (wallet_lookup st) (wallet_lookup st')
     \<and> (cache_ok L G st \<longrightarrow> agreeing L (wallet_lookup st') \<longrightarrow> cache_ok L G st')"

lemma cache_step_refl [simp]: "cache_step L G st st"
  by (simp add: cache_step_def)

lemma cache_step_trans: "cache_step L G st st1 \<Longrightarrow> cache_step L G st1 st2 \<Longrightarrow> cache_step L G st st2"
  unfolding cache_step_def using names_kept_trans names_kept_agreeing by metis

lemma cache_step_same_keys:
  assumes "keys (fst st') = keys (fst st)"
    and "\<And>a. wallet_lookup st' (wallet_name L a) = wallet_lookup st (wallet_name L a)"
    and "\<And>a. wallet_lookup st' (testnet_name L a) = wallet_lookup st (testnet_name L a)"
  shows "cache_step L G st st'"
  using assms plain_find_cong [of "wallet_lookup st'" L _ "wallet_lookup st" G] names_kept_same [of "wallet_lookup st'" L "wallet_lookup st"]
  by (simp add: cache_step_def cache_ok_def)

lemma cache_step_store:
  assumes L: "display_ok L"
    and k: "key_try_from G i = Ok k" and new: "wallet_lookup st (wallet_name L (address k)) = None"
    and st': "keys (fst st') = keys (fst st)" "wallet_lookup st' = (wallet_lookup st)(wallet_name L (address k) \<mapsto> i)"
  shows "cache_step L G st st'"
proof -
  let ?n = "wallet_name L (address k)"
  have kept: "names_kept L (wallet_lookup st) (wallet_lookup st')"
    unfolding st'(2) using L new by (rule names_kept_put)
  have "plain_find L G (wallet_lookup st') a = Ok l"
    if ok: "cache_ok L G st" and agree: "agreeing L (wallet_lookup st')" and l: "map_of (keys (fst st)) a = Some l" for a l
  proof -
    have old: "plain_find L G (wallet_lookup st) a = Ok l" using ok l by (simp add: cache_ok_def)
    show ?thesis
    proof (cases "a = address k")
      case True
      obtain j where j: "wallet_lookup st (testnet_name L a) = Some j" "key_try_from G j = Ok l"
        using plain_find_testnet [OF old] new True by auto
      have "wallet_lookup st' (testnet_name L a) = Some j" using kept j(1) unfolding names_kept_def by (metis option.distinct(1))
      with agree True st'(2) have "j = i" unfolding agreeing_def by (metis fun_upd_same)
      with True st'(2) j(2) show ?thesis by (simp add: plain_find_def)
    next
      case False
      then have "wallet_name L a \<noteq> ?n" "testnet_name L a \<noteq> ?n"
        using wallet_name_eq_iff [OF L] testnet_name_eqD [OF L] by blast+
      with old plain_find_cong [of "wallet_lookup st'" L a "wallet_lookup st" G] st'(2) show ?thesis by simp
    qed
  qed
  with kept st'(1) show ?thesis by (simp add: cache_step_def cache_ok_def)
qed

lemma find_key_spec:
  assumes "cache_ok L G st"
  shows "\<exists>st'. wallet_find_key L G a st = (plain_find L G (wallet_lookup st) a, st') \<and> cache_ok L G st' \<and> stored st' = stored st"
proof (cases st)
  case (Pair s w)
  have lk: "wallet_lookup (s\<lparr>keys := ks\<rparr>, w) = wallet_lookup (s, w)" for ks by (simp add: wallet_lookup_def)
  show ?thesis
    using assms unfolding Pair find_key_plain
    by (auto simp: cache_ok_def lk stored_def map_of_update split: option.splits res.splits)
qed

section \<open>Operations that do not read the cache\<close>

definition cache_blind :: "('a wallet_state, 'e, 'b) eio \<Rightarrow> bool" where
  "cache_blind m \<longleftrightarrow> (\<forall>st st'. stored st = stored st' \<longrightarrow> fst (m st) = fst (m st') \<and> stored (snd (m st)) = stored (snd (m st')))"

lemma cache_blindD:
  "cache_blind m \<Longrightarrow> stored st = stored st' \<Longrightarrow> fst (m st) = fst (m st') \<and> stored (snd (m st)) = stored (snd (m st'))"
  unfolding cache_blind_def by blast

lemma cache_blindI:
  "(\<And>st st'. stored st = stored st' \<Longrightarrow> fst (m st) = fst (m st') \<and> stored (snd (m st)) = stored (snd (m st'))) \<Longrightarrow> cache_blind m"
  unfolding cache_blind_def by blast

lemma cache_blind_bind [intro]:
  assumes m: "cache_blind m" and f: "\<And>a. cache_blind (f a)"
  shows "cache_blind (bind_io m f)"
proof (rule cache_blindI)
  fix st st' :: "'a wallet_state"
  assume "stored st = stored st'"
  with cache_blindD [OF m] have "fst (m st) = fst (m st')" "stored (snd (m st)) = stored (snd (m st'))" by blast+
  then obtain r t t' where run: "m st = (r, t)" "m st' = (r, t')" "stored t = stored t'" by (metis prod.collapse)
  show "fst (bind_io m f st) = fst (bind_io m f st') \<and> stored (snd (bind_io m f st)) = stored (snd (bind_io m f st'))"
    using run cache_blindD [OF f run(3)] by (cases r) (simp_all add: bind_io_def)
qed

lemma cache_blind_map_err [intro]: "cache_blind m \<Longrightarrow> cache_blind (map_err_io g m)"
  by (rule cache_blindI, drule (1) cache_blindD) (simp add: map_err_io_def case_prod_beta)

lemma cache_blind_on_ks [intro]: "cache_blind (on_ks m)"
  by (auto simp: cache_blind_def on_ks_def stored_def split: prod.splits)

lemma cache_blind_on_rng [intro]: "cache_blind (on_rng m)"
  by (auto simp: cache_blind_def on_rng_def stored_def split: prod.splits)

lemma cache_blind_cache_key [intro]: "cache_blind (cache_key k)"
  by (auto simp: cache_blind_def cache_key_def stored_def)

lemma cache_blind_lift [intro]: "cache_blind (lift r)"
  by (simp add: cache_blind_def lift_def)

lemma cache_blind_ret [intro]: "cache_blind (ret r)"
  by (simp add: cache_blind_def ret_def)

text \<open>An operation that reads the key store before it runs.\<close>

lemma cache_blind_read:
  assumes "\<And>ks. cache_blind (F ks)"
  shows "cache_blind (\<lambda>(s, w). F (keystore s) (s, w))"
proof (rule cache_blindI)
  fix st st' :: "'a wallet_state"
  assume eq: "stored st = stored st'"
  obtain s w s' where st: "st = (s, w)" "st' = (s', w)" "keystore s' = keystore s"
    using eq by (cases st; cases st') (auto simp: stored_def)
  show "fst ((\<lambda>(s, w). F (keystore s) (s, w)) st) = fst ((\<lambda>(s, w). F (keystore s) (s, w)) st')
      \<and> stored (snd ((\<lambda>(s, w). F (keystore s) (s, w)) st)) = stored (snd ((\<lambda>(s, w). F (keystore s) (s, w)) st'))"
    using cache_blindD [OF assms eq] by (simp add: st)
qed

lemma cache_blind_if [intro]: "cache_blind m \<Longrightarrow> cache_blind m' \<Longrightarrow> cache_blind (if b then m else m')"
  by simp

lemma cache_blind_default:
  assumes "cache_blind m"
  shows "cache_blind (\<lambda>(s, w). if P (keystore s) then m (s, w) else (Ok (), (s, w)))"
proof -
  have "cache_blind (\<lambda>(s, w). (if P (keystore s) then m else ret ()) (s, w))"
    using assms by (intro cache_blind_read) blast
  also have "(\<lambda>(s, w). (if P (keystore s) then m else ret ()) (s, w)) = (\<lambda>(s, w). if P (keystore s) then m (s, w) else (Ok (), (s, w)))"
    by (simp add: ret_def fun_eq_iff)
  finally show ?thesis .
qed

lemma cache_blind_ops:
  "cache_blind (wallet_import L S G ki)" "cache_blind (wallet_remove L S a)"
  "cache_blind (wallet_set_default L S a)" "cache_blind (wallet_generate_addr L S G ty)"
proof -
  show "cache_blind (wallet_import L S G ki)" unfolding wallet_import_def by blast
  show "cache_blind (wallet_remove L S a)" unfolding wallet_remove_def by blast
  show "cache_blind (wallet_generate_addr L S G ty)" unfolding wallet_generate_addr_def
    by (intro cache_blind_bind cache_blind_map_err cache_blind_default) blast+
  show "cache_blind (wallet_set_default L S a)" unfolding wallet_set_default_def
    by (rule cache_blind_read) blast
qed

section \<open>Operations that keep the invariant\<close>

lemma put_changes:
  assumes "on_ks (ks_put S n i) st = (r, st')"
  shows "keys (fst st') = keys (fst st)"
    and "r = Ok () \<Longrightarrow> wallet_lookup st n = None \<and> wallet_lookup st' = (wallet_lookup st)(n \<mapsto> i)"
    and "wallet_lookup st' = wallet_lookup st \<or> wallet_lookup st n = None \<and> wallet_lookup st' = (wallet_lookup st)(n \<mapsto> i)"
  using assms keys_on_ks_run [OF assms]
  by (cases st; auto simp: on_ks_def ks_put_def flush_state_def map_err_io_def wallet_lookup_def map_of_update
      split: prod.splits if_splits)+

lemma remove_changes:
  assumes "on_ks (ks_remove S n) st = (r, st')"
  shows "keys (fst st') = keys (fst st)" "wallet_lookup st' = wallet_lookup st \<or> wallet_lookup st' = (wallet_lookup st)(n := None)"
proof -
  show "keys (fst st') = keys (fst st)" by (rule keys_on_ks_run [OF assms])
  show "wallet_lookup st' = wallet_lookup st \<or> wallet_lookup st' = (wallet_lookup st)(n := None)"
    using assms
    by (cases st) (auto simp: on_ks_def ks_remove_def flush_state_def bind_io_def ret_def wallet_lookup_def map_of_delete
      split: prod.splits if_splits option.splits res.splits)
qed

definition keeps_cache :: "'a libs \<Rightarrow> 'a sig_libs \<Rightarrow> ('a wallet_state, 'e, 'b) eio \<Rightarrow> bool" where
  "keeps_cache L G m \<longleftrightarrow> io_rel (cache_step L G) m"

lemma keeps_cacheI: "(\<And>st r st'. m st = (r, st') \<Longrightarrow> cache_step L G st st') \<Longrightarrow> keeps_cache L G m"
  unfolding keeps_cache_def io_rel_def by (metis prod.collapse)

lemma keeps_cacheD: "keeps_cache L G m \<Longrightarrow> m st = (r, st') \<Longrightarrow> cache_step L G st st'"
  unfolding keeps_cache_def using io_relD by (metis snd_conv)

lemma keeps_cache_bind_run:
  assumes "keeps_cache L G m" "\<And>st a st'. m st = (Ok a, st') \<Longrightarrow> keeps_cache L G (f a)"
  shows "keeps_cache L G (bind_io m f)"
proof (rule keeps_cacheI)
  fix st st' :: "'a wallet_state" and r assume "bind_io m f st = (r, st')"
  then show "cache_step L G st st'"
  proof (cases rule: bind_io_cases)
    case (stop r1)
    with keeps_cacheD [OF assms(1)] show ?thesis by blast
  next
    case (go a w1)
    with keeps_cacheD [OF assms(1)] keeps_cacheD [OF assms(2)] cache_step_trans show ?thesis by metis
  qed
qed

lemma keeps_cache_bind [intro]: "keeps_cache L G m \<Longrightarrow> (\<And>a. keeps_cache L G (f a)) \<Longrightarrow> keeps_cache L G (bind_io m f)"
  by (rule keeps_cache_bind_run)

lemma keeps_cache_pure [intro]: "keeps_cache L G (lift r)" "keeps_cache L G (ret a)"
  by (simp_all add: keeps_cache_def io_rel_def lift_def ret_def)

lemma keeps_cache_map_err [intro]: "keeps_cache L G m \<Longrightarrow> keeps_cache L G (map_err_io g m)"
  by (simp add: keeps_cache_def io_rel_def map_err_io_def case_prod_beta)

lemma keeps_cache_remove [intro]:
  assumes "display_ok L" "n = ''default'' \<or> n = addr_to_string L b"
  shows "keeps_cache L G (on_ks (ks_remove S n))"
proof (rule keeps_cacheI)
  fix st st' :: "'a wallet_state" and r assume run: "on_ks (ks_remove S n) st = (r, st')"
  show "cache_step L G st st'"
    by (rule cache_step_same_keys) (use remove_changes [OF run] names_differ [OF assms] in auto)
qed

lemma keeps_cache_put_default [intro]:
  assumes "display_ok L"
  shows "keeps_cache L G (on_ks (ks_put S ''default'' i))"
proof (rule keeps_cacheI)
  fix st st' :: "'a wallet_state" and r assume run: "on_ks (ks_put S ''default'' i) st = (r, st')"
  show "cache_step L G st st'"
    by (rule cache_step_same_keys) (use put_changes [OF run] names_differ [OF assms] in auto)
qed

lemma keeps_cache_put_key:
  assumes "display_ok L" "key_try_from G i = Ok k"
  shows "keeps_cache L G (on_ks (ks_put S (wallet_name L (address k)) i))"
proof (rule keeps_cacheI)
  fix st st' :: "'a wallet_state" and r assume run: "on_ks (ks_put S (wallet_name L (address k)) i) st = (r, st')"
  show "cache_step L G st st'"
    using put_changes(3) [OF run]
  proof
    assume "wallet_lookup st' = wallet_lookup st"
    with put_changes(1) [OF run] show ?thesis by (auto intro: cache_step_same_keys)
  next
    assume "wallet_lookup st (wallet_name L (address k)) = None \<and> wallet_lookup st' = (wallet_lookup st)(wallet_name L (address k) \<mapsto> i)"
    with cache_step_store [OF assms] put_changes(1) [OF run] show ?thesis by blast
  qed
qed

lemma keeps_cache_import:
  assumes "display_ok L"
  shows "keeps_cache L G (wallet_import L S G ki)"
  unfolding wallet_import_def
proof (rule keeps_cache_bind_run)
  fix st k and st' :: "'a wallet_state" assume "lift (key_try_from G ki) st = (Ok k, st')"
  then have k: "key_try_from G ki = Ok k" by (simp add: lift_def)
  with keeps_cache_put_key [OF assms]
  show "keeps_cache L G (bind_io (on_ks (ks_put S (wallet_name L (address k)) (fk_key_info k))) (\<lambda>_. ret (address k)))"
    by (auto simp: key_try_from_info [OF k])
qed blast

text \<open>The key that was just stored is put into the cache.\<close>

lemma keeps_cache_put_cached:
  assumes L: "display_ok L" and k: "key_try_from G i = Ok k" and m: "keeps_cache L G m"
  shows "keeps_cache L G (bind_io (map_err_io d (on_ks (ks_put S (wallet_name L (address k)) i))) (\<lambda>_. bind_io (cache_key k) (\<lambda>_. m)))"
proof (rule keeps_cacheI)
  fix st st' :: "'a wallet_state" and r assume run: "bind_io (map_err_io d (on_ks (ks_put S (wallet_name L (address k)) i))) (\<lambda>_. bind_io (cache_key k) (\<lambda>_. m)) st = (r, st')"
  obtain r1 s1 w1 where put: "on_ks (ks_put S (wallet_name L (address k)) i) st = (r1, (s1, w1))" by (metis prod.collapse)
  note step1 = keeps_cacheD [OF keeps_cache_put_key [OF L k] put]
  show "cache_step L G st st'"
  proof (cases "r1 = Ok ()")
    case True
    have lk: "wallet_lookup (s1\<lparr>keys := ks\<rparr>, w1) = wallet_lookup (s1, w1)" for ks by (simp add: wallet_lookup_def)
    have "wallet_lookup (s1, w1) (wallet_name L (address k)) = Some i" using put_changes(2) [OF put True] by simp
    then have "plain_find L G (wallet_lookup (s1, w1)) (address k) = Ok k" using k by (simp add: plain_find_def)
    then have "cache_step L G (s1, w1) (s1\<lparr>keys := AList.update (address k) k (keys s1)\<rparr>, w1)"
      by (simp add: cache_step_def cache_ok_def lk map_of_update)
    moreover have "m (s1\<lparr>keys := AList.update (address k) k (keys s1)\<rparr>, w1) = (r, st')"
      using run put True by (simp add: bind_io_def map_err_io_def cache_key_def)
    ultimately show ?thesis using step1 keeps_cacheD [OF m] cache_step_trans by metis
  next
    case False
    with run put have "st' = (s1, w1)" by (cases r1) (auto simp: bind_io_def map_err_io_def)
    with step1 show ?thesis by simp
  qed
qed

lemma keeps_cache_if_default:
  "keeps_cache L G m \<Longrightarrow> keeps_cache L G (\<lambda>(s, w). if P (keystore s) then m (s, w) else (Ok (), (s, w)))"
  by (auto simp: keeps_cache_def io_rel_def)

lemma keeps_cache_generate:
  assumes "display_ok L"
  shows "keeps_cache L G (wallet_generate_addr L S G ty)"
  unfolding wallet_generate_addr_def
proof (rule keeps_cache_bind_run)
  have "wallet_lookup (s, w') = wallet_lookup (s, w)" for s :: "'a wallet" and w w' by (simp add: wallet_lookup_def)
  then have "cache_step L G (s, w) (s, w')" for s w w' by (intro cache_step_same_keys) (simp_all, metis+)
  then show "keeps_cache L G (map_err_io fvm_error_display (on_rng (generate_key G ty)))"
    by (intro keeps_cache_map_err keeps_cacheI) (auto simp: on_rng_def split: prod.splits)
next
  fix st k st' assume "map_err_io fvm_error_display (on_rng (generate_key G ty)) st = (Ok k, st')"
  then obtain i where "key_try_from G i = Ok k"
    by (cases st) (auto simp: map_err_io_def on_rng_def generate_key_def generate_def bind_io_def lift_def res_simps)
  then have k: "key_try_from G (fk_key_info k) = Ok k" by (simp add: key_try_from_info)
  show "keeps_cache L G (bind_io (map_err_io fvm_error_display (on_ks (ks_put S (wallet_name L (address k)) (fk_key_info k)))) (\<lambda>_.
     bind_io (cache_key k) (\<lambda>_.
     bind_io (\<lambda>(s, w). if \<not> is_ok (ks_get ''default'' (keystore s))
        then map_err_io fvm_error_display (on_ks (ks_put S ''default'' (fk_key_info k))) (s, w)
        else (Ok (), (s, w))) (\<lambda>_. ret (address k)))))"
    using assms by (intro keeps_cache_put_cached [OF _ k] keeps_cache_bind keeps_cache_if_default keeps_cache_map_err
      keeps_cache_put_default keeps_cache_pure)
qed

lemma keeps_cache_if [intro]: "keeps_cache L G m \<Longrightarrow> keeps_cache L G m' \<Longrightarrow> keeps_cache L G (if b then m else m')"
  by simp

lemma keeps_cache_set_default:
  assumes "display_ok L"
  shows "keeps_cache L G (wallet_set_default L S a)"
proof (rule keeps_cacheI)
  fix st st' :: "'a wallet_state" and r assume run: "wallet_set_default L S a st = (r, st')"
  obtain s w where st: "st = (s, w)" by (cases st)
  have "keeps_cache L G (bind_io (lift (map_err fvm_error_display (ks_get (wallet_name L a) (keystore s)))) (\<lambda>ki.
     bind_io (if is_ok (ks_get ''default'' (keystore s))
              then bind_io (on_ks (ks_remove S ''default'')) (\<lambda>_. ret ()) else ret ()) (\<lambda>_.
       map_err_io fvm_error_display (on_ks (ks_put S ''default'' ki)))))"
    using assms by (intro keeps_cache_bind keeps_cache_if keeps_cache_map_err keeps_cache_put_default keeps_cache_pure keeps_cache_remove disjI1 refl)
  from keeps_cacheD [OF this, of "(s, w)" r st'] run show "cache_step L G st st'" by (simp add: st wallet_set_default_def)
qed

section \<open>Equivalence\<close>

lemma find_then:
  assumes "cache_ok L G st" and "\<And>st. m st = (case wallet_find_key L G a st of (r, st') \<Rightarrow> (f r, st'))"
  shows "\<exists>st'. m st = (f (plain_find L G (wallet_lookup st) a), st') \<and> cache_ok L G st' \<and> stored st' = stored st"
  using find_key_spec [OF assms(1), of a] assms(2) by auto

text \<open>The calls that go through \<open>find_key\<close>.\<close>

fun found_reply :: "'a sig_libs \<Rightarrow> 'a wallet_request \<Rightarrow> ('a \<times> ((fvm_error, 'a fvm_key) res \<Rightarrow> 'a wallet_reply)) option" where
  "found_reply G (WFind a) = Some (a, WKey)"
| "found_reply G (WSign a m) = Some (a, \<lambda>r. WSig (and_then (map_err (\<lambda>_. KeyNotExists) r)
     (\<lambda>k. helper_sign G (key_type (fk_key_info k)) (fvm_private_key (fk_key_info k)) m)))"
| "found_reply G (WExport a) = Some (a, \<lambda>r. WInfo (and_then r (\<lambda>k. Ok (fk_key_info k))))"
| "found_reply G (WHas a) = Some (a, \<lambda>r. WBool (is_ok r))"
| "found_reply G _ = None"

lemma found_reply_call:
  assumes "found_reply G c = Some (a, f)"
  shows "wallet_call L S G c st = (case wallet_find_key L G a st of (r, st') \<Rightarrow> (f r, st'))"
  using assms
  by (cases c; cases "wallet_find_key L G a st"; cases "fst (wallet_find_key L G a st)")
    (auto simp: wallet_sign_def wallet_export_def wallet_has_key_def io_defs)

lemma lookup_stored: "wallet_lookup st = ks_lookup (stored st)"
  by (cases st) (simp add: wallet_lookup_def ks_lookup_def stored_def)

lemma cache_ok_new: "cache_ok L G (wallet_new ks, w)"
  by (simp add: cache_ok_def wallet_new_def)

text \<open>A call on a right cache answers as on an empty one.\<close>

lemma call_same_found:
  assumes "cache_ok L G st" "found_reply G c = Some (a, f)"
  shows "fst (wallet_call L S G c st) = fst (uncached_call L S G c (stored st))
     \<and> stored (snd (wallet_call L S G c st)) = snd (uncached_call L S G c (stored st))"
proof -
  obtain ks w where st: "stored st = (ks, w)" by (cases "stored st")
  have lk: "wallet_lookup (wallet_new ks, w) = wallet_lookup st" by (simp add: lookup_stored st)
  note call = found_reply_call [OF assms(2), of L S]
  obtain t where "wallet_call L S G c (wallet_new ks, w) = (f (plain_find L G (wallet_lookup st) a), t)" "stored t = (ks, w)"
    using find_then [OF cache_ok_new [of L G ks w] call] unfolding lk stored_new by blast
  moreover obtain t' where "wallet_call L S G c st = (f (plain_find L G (wallet_lookup st) a), t')" "stored t' = (ks, w)"
    using find_then [OF assms(1) call] st by auto
  ultimately show ?thesis using st by (simp add: uncached_call_def)
qed

lemma call_same_blind:
  assumes "cache_blind m" "\<And>st. wallet_call L S G c st = apfst g (m st)"
  shows "fst (wallet_call L S G c st) = fst (uncached_call L S G c (stored st))
     \<and> stored (snd (wallet_call L S G c st)) = snd (uncached_call L S G c (stored st))"
proof -
  obtain ks w where st: "stored st = (ks, w)" by (cases "stored st")
  have "stored st = stored (wallet_new ks, w)" by (simp add: st)
  from cache_blindD [OF assms(1) this] show ?thesis
    by (simp add: st uncached_call_def assms(2) apfst_def map_prod_def case_prod_beta)
qed

lemma call_same:
  assumes ok: "cache_ok L G st"
  shows "fst (wallet_call L S G c st) = fst (uncached_call L S G c (stored st))
     \<and> stored (snd (wallet_call L S G c st)) = snd (uncached_call L S G c (stored st))"
proof (cases "found_reply G c")
  case (Some p)
  then show ?thesis using call_same_found [OF ok] by (cases p) auto
next
  case None
  show ?thesis
  proof (cases c)
    case (WImport ki)
    show ?thesis by (rule call_same_blind [OF cache_blind_ops(1), where g = WAddr]) (simp add: WImport)
  next
    case (WRemove a)
    show ?thesis by (rule call_same_blind [OF cache_blind_ops(2), where g = WUnit]) (simp add: WRemove)
  next
    case (WSetDefault a)
    show ?thesis by (rule call_same_blind [OF cache_blind_ops(3), where g = WUnit]) (simp add: WSetDefault)
  next
    case (WGenerate ty)
    show ?thesis by (rule call_same_blind [OF cache_blind_ops(4), where g = WNew]) (simp add: WGenerate)
  next
    case WList
    then show ?thesis by (cases st) (simp add: uncached_call_def stored_def wallet_list_addrs_def wallet_new_def)
  next
    case WGetDefault
    then show ?thesis by (cases st) (simp add: uncached_call_def stored_def wallet_get_default_def wallet_new_def)
  qed (use None in auto)
qed

lemma call_step_found:
  assumes "found_reply G c = Some (a, f)"
  shows "cache_step L G st (snd (wallet_call L S G c st))"
proof -
  obtain r st' where find: "wallet_find_key L G a st = (r, st')" by (cases "wallet_find_key L G a st")
  then have "stored st' = stored st"
    by (cases st) (auto simp: find_key_plain stored_def split: option.splits res.splits)
  moreover have "cache_ok L G st \<Longrightarrow> cache_ok L G st'" using find_key_spec [of L G st a] find by auto
  ultimately have "cache_step L G st st'" by (simp add: cache_step_def lookup_stored)
  then show ?thesis using found_reply_call [OF assms, of L S st] find by simp
qed

lemma call_step:
  assumes L: "display_ok L"
  shows "cache_step L G st (snd (wallet_call L S G c st))"
proof (cases "found_reply G c")
  case (Some p)
  then obtain a f where "found_reply G c = Some (a, f)" by (cases p) auto
  then show ?thesis by (rule call_step_found)
next
  case None
  have "keeps_cache L G (wallet_remove L S a)" for a unfolding wallet_remove_def using L by blast
  note ops = this keeps_cache_import [OF L] keeps_cache_set_default [OF L] keeps_cache_generate [OF L]
  note steps = ops [unfolded keeps_cache_def, THEN io_relD]
  show ?thesis using None by (cases c) (auto intro: steps)
qed

text \<open>The reference keeps the entries of keys too.\<close>

lemma uncached_kept:
  assumes "display_ok L"
  shows "names_kept L (ks_lookup s) (ks_lookup (snd (run_calls (uncached_call L S G) cs s)))"
proof (induction cs arbitrary: s)
  case (Cons c cs)
  obtain ks w where s: "s = (ks, w)" by (cases s)
  have "names_kept L (ks_lookup s) (ks_lookup (snd (uncached_call L S G c s)))"
    using call_step [OF assms, of G "(wallet_new ks, w)" S c] by (simp add: s uncached_call_def cache_step_def lookup_stored)
  from names_kept_trans [OF this Cons.IH] show ?case by (simp add: case_prod_beta)
qed simp

lemma calls_same:
  assumes L: "display_ok L"
  shows "cache_ok L G st \<Longrightarrow> agreeing L (ks_lookup (snd (run_calls (uncached_call L S G) cs (stored st)))) \<Longrightarrow>
    run_calls (uncached_call L S G) cs (stored st) = apsnd stored (run_calls (wallet_call L S G) cs st)"
proof (induction cs arbitrary: st)
  case (Cons c cs)
  obtain r st1 where run: "wallet_call L S G c st = (r, st1)" by (cases "wallet_call L S G c st")
  with call_same [OF Cons.prems(1), of S c] have ref: "uncached_call L S G c (stored st) = (r, stored st1)"
    by (cases "uncached_call L S G c (stored st)") simp
  with Cons.prems(2) have agree: "agreeing L (ks_lookup (snd (run_calls (uncached_call L S G) cs (stored st1))))"
    by (simp add: case_prod_beta)
  from names_kept_agreeing [OF uncached_kept [OF L] this] have "agreeing L (wallet_lookup st1)" by (simp add: lookup_stored)
  moreover have "cache_step L G st st1" using call_step [OF L, of G st S c] run by simp
  ultimately have "cache_ok L G st1" using Cons.prems(1) by (simp add: cache_step_def)
  from Cons.IH [OF this agree] run ref show ?case by (simp add: case_prod_beta)
qed simp

text \<open>C5: The cache of the Filecoin wallet cannot be observed. When the text of an address starts with the letter of
  the network and determines the address, a wallet opened on a key store answers every sequence of calls (find, sign,
  export, import, list, remove, default, generate, has), failing ones included, as a wallet that is opened anew for each
  call, and leaves the same key store, files and random generator behind: for every store without
  entries of the test network that the network's own names do not cover, and for every other store
  if in the end no address has two different keys filed, one under each of its two names.\<close>

theorem wallet_cache_transparent:
  assumes "display_ok L"
    and "one_network L (ks_lookup (ks, w)) \<or> agreeing L (ks_lookup (snd (run_calls (uncached_call L S G) cs (ks, w))))"
  shows "run_calls (uncached_call L S G) cs (ks, w) = apsnd stored (run_calls (wallet_call L S G) cs (wallet_new ks, w))"
proof -
  have "one_network L (ks_lookup (snd (run_calls (uncached_call L S G) cs (ks, w))))" if "one_network L (ks_lookup (ks, w))"
    using uncached_kept [OF assms(1), of "(ks, w)" S G cs] that by (simp add: names_kept_def)
  with assms(2) have "agreeing L (ks_lookup (snd (run_calls (uncached_call L S G) cs (stored (wallet_new ks, w)))))"
    using one_network_agreeing by auto
  from calls_same [OF assms(1) cache_ok_new this] show ?thesis by simp
qed

lemma demo_display_ok: "display_ok demo_libs"
proof -
  have "inj demo_addr_to_string" by (rule injI) (metis demo_addr_from_to res.inject(1))
  moreover have "demo_addr_to_string a \<noteq> [] \<and> hd (demo_addr_to_string a) = CHR ''f''" for a by (cases a) simp_all
  ultimately show ?thesis by (auto simp: display_ok_def)
qed

text \<open>A store of the test network used on the main network: the key is found under its old name, then imported under
  the new one.\<close>

definition demo_old_store :: fvm_key_store where
  "demo_old_store = \<lparr>key_infos = [(''wallet-t410f07'', \<lparr>key_type = SigBLS, fvm_private_key = [7]\<rparr>)], persistence = None, encryption = None\<rparr>"

definition demo_old_calls :: "demo_addr wallet_request list" where
  "demo_old_calls = [WSign (DemoEth [7]) [1], WImport \<lparr>key_type = SigBLS, fvm_private_key = [7]\<rparr>, WSign (DemoEth [7]) [2]]"

lemma demo_old_name: "wallet_name demo_libs (DemoEth [7]) = ''wallet-f410f07''"
  by (simp add: wallet_name_def) code_simp

lemma demo_old_key: "key_try_from demo_sig \<lparr>key_type = SigBLS, fvm_private_key = [7]\<rparr>
    = Ok \<lparr>fk_key_info = \<lparr>key_type = SigBLS, fvm_private_key = [7]\<rparr>, public_key = [7], address = DemoEth [7]\<rparr>"
  by (simp add: key_try_from_def to_public_def new_address_def demo_sig_def)

lemma demo_old_agreeing:
  "agreeing demo_libs (ks_lookup (snd (run_calls (uncached_call demo_libs demo_ks_libs demo_sig) demo_old_calls (demo_old_store, snd demo_wallet))))"
proof -
  have "map_of (key_infos (fst (snd (run_calls (uncached_call demo_libs demo_ks_libs demo_sig) demo_old_calls (demo_old_store, snd demo_wallet))))) n
      \<in> {None, Some \<lparr>key_type = SigBLS, fvm_private_key = [7]\<rparr>}" for n
    by (simp add: demo_old_calls_def uncached_call_def wallet_sign_def wallet_import_def find_key_plain demo_old_store_def demo_wallet_def
      io_defs plain_find_def demo_old_name demo_old_key stored_def on_ks_def ks_put_def wallet_new_def wallet_lookup_def flush_state_def
      split: res.splits prod.splits)
  then show ?thesis unfolding agreeing_def ks_lookup_def by (metis empty_iff insertE option.distinct(1) option.inject)
qed

text \<open>Two keys of the two types with the same address: the second import fails; the first key is used, its removal
  fails, and it signs again, now from the cache.\<close>

lemma wallet_cache_transparent_witness:
  "(let ki = \<lparr>key_type = SigBLS, fvm_private_key = replicate 20 7\<rparr>; a = DemoEth (replicate 20 7);
       cs = [WImport ki, WSign a [1], WImport (ki\<lparr>key_type := SigSecp256k1\<rparr>), WRemove a, WSign a [2], WGenerate SigSecp256k1, WList];
       st = (\<lparr>key_infos = [], persistence = None, encryption = None\<rparr>, snd demo_wallet)
   in run_calls (uncached_call demo_libs demo_ks_libs demo_sig) cs st
        = apsnd stored (run_calls (wallet_call demo_libs demo_ks_libs demo_sig) cs (wallet_new (fst st), snd st)))
   \<and> run_calls (uncached_call demo_libs demo_ks_libs demo_sig) demo_old_calls (demo_old_store, snd demo_wallet)
        = apsnd stored (run_calls (wallet_call demo_libs demo_ks_libs demo_sig) demo_old_calls (wallet_new demo_old_store, snd demo_wallet))"
  unfolding Let_def fst_conv snd_conv
proof
  show "run_calls (uncached_call demo_libs demo_ks_libs demo_sig) demo_old_calls (demo_old_store, snd demo_wallet)
        = apsnd stored (run_calls (wallet_call demo_libs demo_ks_libs demo_sig) demo_old_calls (wallet_new demo_old_store, snd demo_wallet))"
    by (rule wallet_cache_transparent [OF demo_display_ok disjI2 [OF demo_old_agreeing]])
qed (rule wallet_cache_transparent [OF demo_display_ok disjI1], simp add: one_network_def ks_lookup_def)

end
