(* ===== verification/Itest_Node.thy ===== *)
theory Itest_Node
  imports Subnet_Id Rust_Fs
begin

text \<open>
  \<open>ipc/testing/itest/src/infra/{util,subnet}.rs\<close>: a node of the subnet the integration tests
  run, its validator and their child processes. The node binary \<open>eudico\<close>, the operating system,
  the other holders of the port counter and the crate \<open>ipc_agent\<close> are parameters (\<open>it_env\<close>);
  what they answer may depend on when they are asked. A process is known by the handle its \<open>spawn\<close>
  returns. The retry loops may run forever: they are partial functions.
\<close>

section \<open>Text\<close>

text \<open>\<open>String::from_utf8_lossy\<close>: a maximal prefix of an ill-formed sequence becomes one
  \<open>U+FFFD\<close>.\<close>

definition utf8_width :: "nat \<Rightarrow> nat" where
  "utf8_width a = (if a \<le> 127 then 1 else if 194 \<le> a \<and> a \<le> 223 then 2 else if 224 \<le> a \<and> a \<le> 239 then 3
     else if 240 \<le> a \<and> a \<le> 244 then 4 else 0)"

definition second_byte_ok :: "nat \<Rightarrow> nat \<Rightarrow> bool" where
  "second_byte_ok a b \<longleftrightarrow> cont_byte b \<and> (a = 224 \<longrightarrow> 160 \<le> b) \<and> (a = 237 \<longrightarrow> b \<le> 159) \<and> (a = 240 \<longrightarrow> 144 \<le> b) \<and> (a = 244 \<longrightarrow> b \<le> 143)"

definition valid_tail :: "char \<Rightarrow> string \<Rightarrow> string" where
  "valid_tail c cs = (case cs of
       [] \<Rightarrow> []
     | b # bs \<Rightarrow> if second_byte_ok (of_char c) (of_char b)
                then b # takeWhile (\<lambda>x. cont_byte (of_char x)) (take (utf8_width (of_char c) - 2) bs) else [])"

function from_utf8_lossy :: "string \<Rightarrow> string" where
  "from_utf8_lossy [] = []"
| "from_utf8_lossy (c # cs) =
     (let width = utf8_width (of_char c); t = (if 2 \<le> width then valid_tail c cs else []) in
      (if 1 \<le> width \<and> length t = width - 1 then c # t else [CHR 0xEF, CHR 0xBF, CHR 0xBD])
        @ from_utf8_lossy (drop (length t) cs))"
  by pat_completeness auto
termination
  by (relation "measure length") auto

declare from_utf8_lossy.simps [simp del]

lemma from_utf8_lossy_ascii: "list_all (\<lambda>c. of_char c \<le> (127 :: nat)) s \<Longrightarrow> from_utf8_lossy s = s"
  by (induction s) (simp_all add: from_utf8_lossy.simps utf8_width_def)

text \<open>\<open>str::lines\<close>: the pieces between line feeds, without a carriage return at their end
  and without an empty last piece.\<close>

definition str_lines :: "string \<Rightarrow> string list" where
  "str_lines s =
     (let ps = str_split (CHR 0x0A) s in
      map (\<lambda>l. if l \<noteq> [] \<and> last l = CHR 0x0D then butlast l else l) (if last ps = [] then butlast ps else ps))"

fun str_contains :: "string \<Rightarrow> string \<Rightarrow> bool" where
  "str_contains p [] \<longleftrightarrow> p = []"
| "str_contains p (x # xs) \<longleftrightarrow> starts_with (x # xs) p \<or> str_contains p xs"

text \<open>\<open>str::replacen\<close> on a character.\<close>

fun replacen :: "char \<Rightarrow> string \<Rightarrow> nat \<Rightarrow> string \<Rightarrow> string" where
  "replacen c r n [] = []"
| "replacen c r 0 s = s"
| "replacen c r (Suc n) (x # xs) = (if x = c then r @ replacen c r n xs else x # replacen c r (Suc n) xs)"

definition trim_newline :: "string \<Rightarrow> string" where
  "trim_newline s =
     (if s \<noteq> [] \<and> last s = CHR 0x0A
      then let t = butlast s in if t \<noteq> [] \<and> last t = CHR 0x0D then butlast t else t
      else s)"

definition show_u16 :: "u16 \<Rightarrow> string" where
  "show_u16 p = show_nat (unat p)"

section \<open>lib.rs\<close>

definition DEFAULT_ROOT :: string where
  "DEFAULT_ROOT = ''/r31415926''"

text \<open>\<open>Network::from_u8\<close> is the library's; the network is returned instead of being made the current one.\<close>

definition set_network_from_env :: "(nat \<Rightarrow> 'n option) \<Rightarrow> string option \<Rightarrow> ('e, 'n) res" where
  "set_network_from_env from_u8 lotus_network =
     (case parse_unsigned 255 (case lotus_network of Some s \<Rightarrow> s | None \<Rightarrow> ''1'') of
        None \<Rightarrow> Panic ''called `Result::unwrap()` on an `Err` value''
      | Some n \<Rightarrow> (case from_u8 n of
            None \<Rightarrow> Panic ''called `Option::unwrap()` on a `None` value''
          | Some network \<Rightarrow> Ok network))"

section \<open>The environment\<close>

record command =
  program :: string
  cmd_args :: "string list"
  lotus_path_env :: string

record cmd_output =
  cmd_success :: bool
  exit_status :: string
  cmd_stdout :: string
  cmd_stderr :: string

text \<open>The requests to the agent, with the parameters the code sets; the stake is the \<open>f64\<close> 1.0.\<close>

datatype agent_request =
    AgentCreate "string option" string string nat u64 int int
  | AgentJoin string "string option" nat string "string option"
  | AgentReload "string option"
  | AgentImport string

record 'a agent_subnet =
  as_id :: "'a subnet_id"
  as_network_name :: string
  as_gateway_addr :: 'a
  as_jsonrpc_api_http :: string
  as_auth_token :: "string option"
  as_accounts :: "'a list"

text \<open>The answers of the environment, at the time of the request: commands and their effect on
  files (\<open>Inl\<close> is an I/O error), the error of \<open>spawn\<close> if any, the outcome of \<open>kill\<close>, the agent, the value another holder of the port
  counter leaves in it, and the configuration type of \<open>ipc_agent\<close>.\<close>

record ('a, 'c) it_env =
  env_HOME :: "string option"
  run_cmd :: "nat \<Rightarrow> command \<Rightarrow> string + cmd_output"
  cmd_files :: "nat \<Rightarrow> command \<Rightarrow> fs \<Rightarrow> fs"
  spawn_cmd :: "nat \<Rightarrow> command \<Rightarrow> string option"
  kill_child :: "nat \<Rightarrow> nat \<Rightarrow> string + unit"
  agent :: "nat \<Rightarrow> string \<Rightarrow> agent_request \<Rightarrow> (string, string) res"
  agent_url_parse :: "string \<Rightarrow> (string, string) res"
  lotus_json_from_str :: "string \<Rightarrow> (string, string) res"
  other_holders :: "nat \<Rightarrow> u16 \<Rightarrow> u16"
  agent_config_from_file :: "string \<Rightarrow> fs \<Rightarrow> (string, 'c) res"
  agent_add_subnet :: "'a agent_subnet \<Rightarrow> 'c \<Rightarrow> 'c"
  agent_remove_subnet :: "'a subnet_id \<Rightarrow> 'c \<Rightarrow> 'c"
  agent_config_write :: "string \<Rightarrow> 'c \<Rightarrow> (fs, unit) io"

datatype it_event =
    Ran command
  | Spawned nat command
  | Killed nat
  | KillFailed nat
  | Asked string agent_request

record it_world =
  it_time :: nat
  it_ports :: u16
  it_children :: nat
  it_fs :: fs
  it_log :: "it_event list"

text \<open>An error is its message; \<open>ItDebug\<close> is a message that ends in the \<open>Debug\<close> text of a
  string or status.\<close>

datatype it_error = ItMsg string | ItDebug string string

definition it_event :: "it_event \<Rightarrow> it_world \<Rightarrow> it_world" where
  "it_event e w = w\<lparr>it_time := it_time w + 1, it_log := it_log w @ [e]\<rparr>"

text \<open>\<open>Command::output\<close> and \<open>status\<close>, \<open>Command::spawn\<close>, \<open>Child::kill\<close>.\<close>

fun io_result :: "string + 'b \<Rightarrow> (it_error, 'b) res" where
  "io_result (Inl e) = Err (ItMsg e)"
| "io_result (Inr b) = Ok b"

definition command_output :: "('a, 'c) it_env \<Rightarrow> command \<Rightarrow> (it_world, it_error, cmd_output) eio" where
  "command_output E c = (\<lambda>w.
     (io_result (run_cmd E (it_time w) c),
      (it_event (Ran c) w)\<lparr>it_fs := cmd_files E (it_time w) c (it_fs w)\<rparr>))"

definition command_spawn :: "('a, 'c) it_env \<Rightarrow> command \<Rightarrow> (it_world, it_error, nat) eio" where
  "command_spawn E c = (\<lambda>w.
     case spawn_cmd E (it_time w) c of
       None \<Rightarrow> (Ok (it_children w), (it_event (Spawned (it_children w) c) w)\<lparr>it_children := it_children w + 1\<rparr>)
     | Some e \<Rightarrow> (Err (ItMsg e), w\<lparr>it_time := it_time w + 1\<rparr>))"

definition child_kill :: "('a, 'c) it_env \<Rightarrow> nat \<Rightarrow> (it_world, it_error, unit) eio" where
  "child_kill E h = (\<lambda>w. case kill_child E (it_time w) h of
       Inr u \<Rightarrow> (Ok u, it_event (Killed h) w)
     | Inl e \<Rightarrow> (Err (ItMsg e), it_event (KillFailed h) w))"

definition on_it_fs :: "(fs, unit) io \<Rightarrow> (it_world, it_error, unit) eio" where
  "on_it_fs m = (\<lambda>w. case m (it_fs w) of (r, f) \<Rightarrow> (map_err ItMsg r, w\<lparr>it_fs := f\<rparr>))"

definition ask_agent :: "('a, 'c) it_env \<Rightarrow> string \<Rightarrow> agent_request \<Rightarrow> (it_world, it_error, string) eio" where
  "ask_agent E url q = (\<lambda>w. (map_err ItMsg (agent E (it_time w) url q), it_event (Asked url q) w))"

section \<open>util.rs: the agent\<close>

definition DEFAULT_MIN_STAKE :: nat where
  "DEFAULT_MIN_STAKE = 1"

definition client_from_url :: "('a, 'c) it_env \<Rightarrow> string \<Rightarrow> (it_error, string) res" where
  "client_from_url E url = map_err ItMsg (agent_url_parse E url)"

definition util_create_subnet ::
    "('a, 'c) it_env \<Rightarrow> string \<Rightarrow> string option \<Rightarrow> string \<Rightarrow> string \<Rightarrow> u64 \<Rightarrow> (it_world, it_error, string) eio" where
  "util_create_subnet E ipc_agent_url frm par name min_validators =
     bind_io (lift (client_from_url E ipc_agent_url)) (\<lambda>client.
       ask_agent E client (AgentCreate frm par name DEFAULT_MIN_STAKE min_validators 10 10))"

definition util_join_subnet ::
    "('a, 'c) it_env \<Rightarrow> string \<Rightarrow> string option \<Rightarrow> string option \<Rightarrow> string \<Rightarrow> nat \<Rightarrow> string \<Rightarrow> (it_world, it_error, unit) eio" where
  "util_join_subnet E ipc_agent_url frm worker_addr sn collateral validator_net_addr =
     bind_io (lift (client_from_url E ipc_agent_url)) (\<lambda>client.
     bind_io (ask_agent E client (AgentJoin sn frm collateral validator_net_addr worker_addr)) (\<lambda>_. ret ()))"

definition util_reload_config :: "('a, 'c) it_env \<Rightarrow> string \<Rightarrow> string option \<Rightarrow> (it_world, it_error, unit) eio" where
  "util_reload_config E ipc_agent_url config_path =
     bind_io (lift (client_from_url E ipc_agent_url)) (\<lambda>client.
     bind_io (ask_agent E client (AgentReload config_path)) (\<lambda>_. ret ()))"

definition import_wallet :: "('a, 'c) it_env \<Rightarrow> string \<Rightarrow> string \<Rightarrow> (it_world, it_error, unit) eio" where
  "import_wallet E ipc_agent_url private_key =
     bind_io (lift (map_err ItMsg (lotus_json_from_str E private_key))) (\<lambda>params.
     bind_io (lift (client_from_url E ipc_agent_url)) (\<lambda>client.
     bind_io (ask_agent E client (AgentImport params)) (\<lambda>_. ret ())))"

definition send_token :: "('a, 'c) it_env \<Rightarrow> string \<Rightarrow> string \<Rightarrow> string \<Rightarrow> u8 \<Rightarrow> (it_world, it_error, unit) eio" where
  "send_token E eudico lotus_path addr amount =
     bind_io (command_output E \<lparr>program = eudico, cmd_args = [''send'', addr, show_nat (unat amount)], lotus_path_env = lotus_path\<rparr>) (\<lambda>status.
       if cmd_success status then ret () else bail (ItMsg (''cannot send token to wallet:'' @ addr)))"

definition tcp_address :: "string list \<Rightarrow> (it_error, string) res" where
  "tcp_address addrs = ok_or (ItMsg ''no tcp address found'') (find (str_contains ''tcp'') addrs)"

section \<open>subnet.rs: data\<close>

datatype spawn_status = Running (process: nat) | Idle

record node_info =
  tcp_port :: u16
  quic_port :: u16
  status :: spawn_status
  net_addr :: "string option"

record 'a subnet_node =
  node_id :: "'a subnet_id"
  node_ipc_root_folder :: string
  node_of :: node_info
  validator_of :: node_info
  node_eudico :: string
  node_agent_url :: string
  wallet_address :: "string option"

definition node_new ::
    "'a subnet_id \<Rightarrow> string \<Rightarrow> u16 \<Rightarrow> u16 \<Rightarrow> u16 \<Rightarrow> u16 \<Rightarrow> string \<Rightarrow> string \<Rightarrow> 'a subnet_node" where
  "node_new i folder node_tcp node_quic validator_tcp validator_quic eudico url =
     \<lparr>node_id = i, node_ipc_root_folder = folder,
      node_of = \<lparr>tcp_port = node_tcp, quic_port = node_quic, status = Idle, net_addr = None\<rparr>,
      validator_of = \<lparr>tcp_port = validator_tcp, quic_port = validator_quic, status = Idle, net_addr = None\<rparr>,
      node_eudico = eudico, node_agent_url = url, wallet_address = None\<rparr>"

text \<open>\<open>&mut self\<close>: the node and the world.\<close>

type_synonym 'a node_state = "'a subnet_node \<times> it_world"

definition on_world :: "('a subnet_node \<Rightarrow> (it_world, 'e, 'b) eio) \<Rightarrow> ('a node_state, 'e, 'b) eio" where
  "on_world m = (\<lambda>(n, w). case m n w of (r, w') \<Rightarrow> (r, (n, w')))"

definition update_node :: "('a subnet_node \<Rightarrow> 'a subnet_node) \<Rightarrow> ('a node_state, 'e, unit) eio" where
  "update_node f = (\<lambda>(n, w). (Ok (), (f n, w)))"

definition subnet_id_cli_string :: "'a libs \<Rightarrow> 'a subnet_node \<Rightarrow> string" where
  "subnet_id_cli_string L n = replacen (CHR ''/'') ''_'' 1000 (subnet_to_string L (node_id n))"

definition lotus_path :: "('a, 'c) it_env \<Rightarrow> 'a libs \<Rightarrow> 'a subnet_node \<Rightarrow> ('e, string) res" where
  "lotus_path E L n =
     (case env_HOME E of
        None \<Rightarrow> Panic ''called `Result::unwrap()` on an `Err` value''
      | Some home \<Rightarrow> Ok (home @ ''/.lotus_subnet'' @ subnet_id_cli_string L n @ ''_'' @ show_u16 (tcp_port (node_of n))))"

definition genesis_path :: "'a libs \<Rightarrow> 'a subnet_node \<Rightarrow> string" where
  "genesis_path L n = node_ipc_root_folder n @ ''/subnet'' @ subnet_id_cli_string L n @ ''.car''"

text \<open>\<open>Command::new(eudico).args(..).env("LOTUS_PATH", self.lotus_path())\<close>\<close>

definition node_command :: "('a, 'c) it_env \<Rightarrow> 'a libs \<Rightarrow> 'a subnet_node \<Rightarrow> string list \<Rightarrow> ('e, command) res" where
  "node_command E L n as = and_then (lotus_path E L n) (\<lambda>p. Ok \<lparr>program = node_eudico n, cmd_args = as, lotus_path_env = p\<rparr>)"

definition node_output ::
    "('a, 'c) it_env \<Rightarrow> 'a libs \<Rightarrow> string list \<Rightarrow> 'a subnet_node \<Rightarrow> (it_world, it_error, cmd_output) eio" where
  "node_output E L as n = bind_io (lift (node_command E L n as)) (command_output E)"

section \<open>subnet.rs: commands of a node\<close>

definition network_addresses :: "('a, 'c) it_env \<Rightarrow> 'a libs \<Rightarrow> 'a subnet_node \<Rightarrow> (it_world, it_error, string list) eio" where
  "network_addresses E L n =
     bind_io (node_output E L [''net'', ''listen''] n) (\<lambda>out.
       if cmd_success out then ret (str_split (CHR 0x0A) (from_utf8_lossy (cmd_stdout out)))
       else bail (ItDebug (''cannot get network addresses admin token in subnet:'' @ subnet_to_string L (node_id n) @ '' with status: '')
              (exit_status out)))"

definition new_wallet_address :: "('a, 'c) it_env \<Rightarrow> 'a libs \<Rightarrow> ('a node_state, it_error, unit) eio" where
  "new_wallet_address E L = (\<lambda>(n, w).
     if wallet_address n \<noteq> None then (Ok (), (n, w))
     else bind_io (on_world (node_output E L [''wallet'', ''new''])) (\<lambda>out.
       if cmd_success out
       then update_node (\<lambda>n. n\<lparr>wallet_address := Some (trim_newline (from_utf8_lossy (cmd_stdout out)))\<rparr>)
       else bail (ItDebug (''cannot create new wallet address in subnet:'' @ subnet_to_string L (node_id n) @ '' with error: '')
              (from_utf8_lossy (cmd_stderr out)))) (n, w))"

definition export_wallet_to_ipc_key_store :: "('a, 'c) it_env \<Rightarrow> 'a libs \<Rightarrow> 'a subnet_node \<Rightarrow> (it_world, it_error, unit) eio" where
  "export_wallet_to_ipc_key_store E L n =
     (case wallet_address n of
        None \<Rightarrow> bail (ItMsg ''wallet not created'')
      | Some a \<Rightarrow>
          bind_io (node_output E L [''wallet'', ''export'', ''--lotus-json'', a] n) (\<lambda>out.
            if cmd_success out
            then import_wallet E (node_agent_url n) (trim_newline (from_utf8_lossy (cmd_stdout out)))
            else bail (ItDebug (''cannot create new wallet address in subnet:'' @ subnet_to_string L (node_id n) @ '' with error: '')
                   (from_utf8_lossy (cmd_stderr out)))))"

definition config_default_wallet :: "('a, 'c) it_env \<Rightarrow> 'a libs \<Rightarrow> 'a subnet_node \<Rightarrow> (it_world, it_error, unit) eio" where
  "config_default_wallet E L n =
     (case wallet_address n of
        None \<Rightarrow> bail (ItMsg ''wallet not created yet'')
      | Some a \<Rightarrow>
          bind_io (node_output E L [''wallet'', ''set-default'', a] n) (\<lambda>st.
            if cmd_success st then ret ()
            else bail (ItMsg (''cannot set default wallet address in subnet:'' @ subnet_to_string L (node_id n)))))"

text \<open>\<open>fs::metadata(..).is_ok()\<close>\<close>

definition metadata_ok :: "fs \<Rightarrow> string \<Rightarrow> bool" where
  "metadata_ok f p \<longleftrightarrow> fault f (path_of_string p) = None \<and> path_exists f (path_of_string p)"

definition gen_genesis :: "('a, 'c) it_env \<Rightarrow> 'a libs \<Rightarrow> 'a subnet_node \<Rightarrow> (it_world, it_error, unit) eio" where
  "gen_genesis E L n = (\<lambda>w.
     if metadata_ok (it_fs w) (genesis_path L n) then (Ok (), w)
     else bind_io (node_output E L [''genesis'', ''new'', ''--subnet-id'', subnet_to_string L (node_id n), ''-out'', genesis_path L n] n) (\<lambda>st.
       if \<not> cmd_success st
       then bail (ItDebug (''generate genesis for subnet: '' @ subnet_to_string L (node_id n) @ '' failed with status: '') (exit_status st))
       else ret ()) w)"

definition DEFAULT_LOG_DIR :: string where
  "DEFAULT_LOG_DIR = ''./logs''"

definition create_log :: "string \<Rightarrow> (it_world, it_error, unit) eio" where
  "create_log p = on_it_fs (fs_create (path_of_string p))"

definition spawn_node :: "('a, 'c) it_env \<Rightarrow> 'a libs \<Rightarrow> ('a node_state, it_error, unit) eio" where
  "spawn_node E L = (\<lambda>(n, w).
     if status (node_of n) \<noteq> Idle
     then (Err (ItMsg (''subnet node: '' @ subnet_to_string L (node_id n) @ '' already running'')), (n, w))
     else (let base = ''./'' @ subnet_id_cli_string L n @ ''_node_'' @ show_u16 (tcp_port (node_of n)) in
       bind_io (on_world (\<lambda>_. on_it_fs (fs_create_dir_all (path_of_string DEFAULT_LOG_DIR)))) (\<lambda>_.
       bind_io (on_world (\<lambda>_. create_log (DEFAULT_LOG_DIR @ ''/'' @ base @ ''.log''))) (\<lambda>_.
       bind_io (on_world (\<lambda>_. create_log (DEFAULT_LOG_DIR @ ''/'' @ base @ ''.err''))) (\<lambda>_.
       bind_io (lift (node_command E L n [''mir'', ''daemon'', ''--genesis='' @ genesis_path L n,
          ''--api='' @ show_u16 (tcp_port (node_of n)), ''--bootstrap=false''])) (\<lambda>c.
       bind_io (on_world (\<lambda>_. command_spawn E c)) (\<lambda>child.
         update_node (\<lambda>n. n\<lparr>node_of := (node_of n)\<lparr>status := Running child\<rparr>\<rparr>)))))) (n, w)))"

definition connect_peer :: "('a, 'c) it_env \<Rightarrow> 'a libs \<Rightarrow> string \<Rightarrow> 'a subnet_node \<Rightarrow> (it_world, it_error, unit) eio" where
  "connect_peer E L peer n =
     bind_io (node_output E L [''net'', ''connect'', peer] n) (\<lambda>st.
       if \<not> cmd_success st
       then bail (ItDebug (''cannot connect to peer '' @ peer @ '' genesis for subnet: '' @ subnet_to_string L (node_id n) @ '' failed with status: '')
              (exit_status st))
       else ret ())"

definition unwrap :: "'b option \<Rightarrow> ('e, 'b) res" where
  "unwrap r = (case r of Some b \<Rightarrow> Ok b | None \<Rightarrow> Panic ''called `Option::unwrap()` on a `None` value'')"

definition node_join_subnet :: "('a, 'c) it_env \<Rightarrow> 'a libs \<Rightarrow> 'a subnet_node \<Rightarrow> (it_world, it_error, unit) eio" where
  "node_join_subnet E L n =
     bind_io (lift (unwrap (wallet_address n))) (\<lambda>a.
     bind_io (lift (unwrap (net_addr (validator_of n)))) (\<lambda>na.
       util_join_subnet E (node_agent_url n) None (Some a) (subnet_to_string L (node_id n)) DEFAULT_MIN_STAKE na))"

definition config_validator :: "('a, 'c) it_env \<Rightarrow> 'a libs \<Rightarrow> ('a node_state, it_error, unit) eio" where
  "config_validator E L = (\<lambda>(n, w).
     bind_io (on_world (node_output E L [''mir'', ''validator'', ''config'', ''init'',
        ''--quic-libp2p-port'', show_u16 (quic_port (validator_of n)),
        ''--tcp-libp2p-port'', show_u16 (tcp_port (validator_of n)), ''-f''])) (\<lambda>st.
     if \<not> cmd_success st then bail (ItMsg (''cannot init validator in subnet:'' @ subnet_to_string L (node_id n)))
     else bind_io (on_world (node_output E L [''mir'', ''validator'', ''config'', ''validator-addr''])) (\<lambda>out.
       if cmd_success out
       then bind_io (lift (tcp_address (str_lines (from_utf8_lossy (cmd_stdout out))))) (\<lambda>tcp_addr.
            bind_io (lift (case str_split (CHR ''@'') (trim_newline tcp_addr) of
                _ # part # _ \<Rightarrow> Ok part
              | _ \<Rightarrow> Panic ''index out of bounds: the len is 1 but the index is 1'')) (\<lambda>part.
              update_node (\<lambda>n. n\<lparr>validator_of := (validator_of n)\<lparr>net_addr := Some part\<rparr>\<rparr>)))
       else bail (ItMsg (''cannot get validator addresses in subnet:'' @ subnet_to_string L (node_id n))))) (n, w))"

definition spawn_validator :: "('a, 'c) it_env \<Rightarrow> 'a libs \<Rightarrow> ('a node_state, it_error, unit) eio" where
  "spawn_validator E L = (\<lambda>(n, w).
     if status (validator_of n) \<noteq> Idle
     then (Err (ItMsg (''subnet node: '' @ subnet_to_string L (node_id n) @ '' already running'')), (n, w))
     else (let base = ''./'' @ subnet_id_cli_string L n @ ''_validator_'' @ show_u16 (tcp_port (validator_of n)) in
       bind_io (on_world (\<lambda>_. create_log (base @ ''.log''))) (\<lambda>_.
       bind_io (on_world (\<lambda>_. create_log (base @ ''.err''))) (\<lambda>_.
       bind_io (lift (node_command E L n [''mir'', ''validator'', ''run'', ''--membership=onchain'', ''--nosync'',
          ''--ipcagent-url='' @ node_agent_url n])) (\<lambda>c.
       bind_io (on_world (\<lambda>_. command_spawn E c)) (\<lambda>child.
         update_node (\<lambda>n. n\<lparr>validator_of := (validator_of n)\<lparr>status := Running child\<rparr>\<rparr>))))) (n, w)))"

definition create_admin_token :: "('a, 'c) it_env \<Rightarrow> 'a libs \<Rightarrow> 'a subnet_node \<Rightarrow> (it_world, it_error, string) eio" where
  "create_admin_token E L n =
     bind_io (node_output E L [''auth'', ''create-token'', ''--perm'', ''admin''] n) (\<lambda>out.
       if cmd_success out then ret (from_utf8_lossy (cmd_stdout out))
       else bail (ItMsg (''cannot create admin token in subnet:'' @ subnet_to_string L (node_id n))))"

section \<open>Stopping\<close>

definition stop_info :: "('a, 'c) it_env \<Rightarrow> node_info \<Rightarrow> (it_world, it_error, unit) eio" where
  "stop_info E i = (case status i of Running h \<Rightarrow> child_kill E h | Idle \<Rightarrow> ret ())"

definition stop_validator :: "('a, 'c) it_env \<Rightarrow> 'a subnet_node \<Rightarrow> (it_world, it_error, unit) eio" where
  "stop_validator E n = stop_info E (validator_of n)"

definition stop_node :: "('a, 'c) it_env \<Rightarrow> 'a subnet_node \<Rightarrow> (it_world, it_error, unit) eio" where
  "stop_node E n = stop_info E (node_of n)"

text \<open>\<open>Drop for SubnetNode\<close>: errors are ignored. It also runs when a function returns early
  or unwinds while it owns a node.\<close>

definition drop_node :: "('a, 'c) it_env \<Rightarrow> 'a subnet_node \<Rightarrow> it_world \<Rightarrow> it_world" where
  "drop_node E n w = snd (stop_node E n (snd (stop_validator E n w)))"

definition drop_nodes :: "('a, 'c) it_env \<Rightarrow> 'a subnet_node list \<Rightarrow> it_world \<Rightarrow> it_world" where
  "drop_nodes E ns w = foldl (\<lambda>w n. drop_node E n w) w ns"

end
