(* ===== verification/Itest_Infra.thy ===== *)
theory Itest_Infra
  imports Itest_Node
begin

text \<open>
  \<open>ipc/testing/itest/src/infra/mod.rs\<close> and the functions of \<open>util.rs\<close> and \<open>subnet.rs\<close> that
  start a subnet: the port counter, the retry loops, and \<open>SubnetInfra\<close>, which owns the nodes. A
  function that contains a retry loop returns \<open>None\<close> when it never returns. Where a function
  leaves early, by an error or a panic, the nodes it owns are dropped.
\<close>

section \<open>Loops that may not end\<close>

type_synonym ('w, 'e, 'b) loop_io = "'w \<Rightarrow> (('e, 'b) res \<times> 'w) option"

definition once :: "('w, 'e, 'b) eio \<Rightarrow> ('w, 'e, 'b) loop_io" where
  "once m = (\<lambda>w. Some (m w))"

definition bind_loop :: "('w, 'e, 'b) loop_io \<Rightarrow> ('b \<Rightarrow> ('w, 'e, 'd) loop_io) \<Rightarrow> ('w, 'e, 'd) loop_io" where
  "bind_loop m f = (\<lambda>w. case m w of
       None \<Rightarrow> None
     | Some (Ok a, w') \<Rightarrow> f a w'
     | Some (Err e, w') \<Rightarrow> Some (Err e, w')
     | Some (Panic p, w') \<Rightarrow> Some (Panic p, w'))"

text \<open>\<open>loop { match body() { Ok(v) => break v, Err(_) => sleep } }\<close>\<close>

partial_function (option) retry :: "('w, 'e, 'b) eio \<Rightarrow> ('w, 'e, 'b) loop_io" where
  "retry body w = (case body w of
       (Ok v, w') \<Rightarrow> Some (Ok v, w')
     | (Err e, w') \<Rightarrow> retry body w'
     | (Panic p, w') \<Rightarrow> Some (Panic p, w'))"

section \<open>SubnetConfig\<close>

record 'a itest_config =
  ic_id :: "'a subnet_id option"
  ic_name :: string
  ic_parent :: "'a subnet_id"
  number_of_nodes :: nat
  eudico_binary_path :: string
  parent_wallet_address :: string
  parent_lotus_path :: string
  ipc_root_folder :: string
  ic_agent_url :: "string option"

definition itest_config_new ::
    "string \<Rightarrow> string \<Rightarrow> string \<Rightarrow> string \<Rightarrow> nat \<Rightarrow> string \<Rightarrow> 'a subnet_id \<Rightarrow> 'a itest_config" where
  "itest_config_new name wallet lotus folder n eudico par =
     \<lparr>ic_id = None, ic_name = name, ic_parent = par, number_of_nodes = n, eudico_binary_path = eudico,
      parent_wallet_address = wallet, parent_lotus_path = lotus, ipc_root_folder = folder, ic_agent_url = None\<rparr>"

definition itest_config_new_with_subnet_id ::
    "string \<Rightarrow> string \<Rightarrow> string \<Rightarrow> string \<Rightarrow> nat \<Rightarrow> string \<Rightarrow> 'a subnet_id \<Rightarrow> 'a subnet_id \<Rightarrow> 'a itest_config" where
  "itest_config_new_with_subnet_id name wallet lotus folder n eudico par i =
     \<lparr>ic_id = Some i, ic_name = name, ic_parent = par, number_of_nodes = n, eudico_binary_path = eudico,
      parent_wallet_address = wallet, parent_lotus_path = lotus, ipc_root_folder = folder, ic_agent_url = None\<rparr>"

definition DEFAULT_IPC_AGENT_URL :: string where
  "DEFAULT_IPC_AGENT_URL = ''http://localhost:3030/json_rpc''"

definition ipc_agent_url :: "'a itest_config \<Rightarrow> string" where
  "ipc_agent_url c = (case ic_agent_url c of Some u \<Rightarrow> u | None \<Rightarrow> DEFAULT_IPC_AGENT_URL)"

definition DEFAULT_NODE_API_BASE_PORT :: u16 where
  "DEFAULT_NODE_API_BASE_PORT = 1230"

text \<open>The addition of a test build: an overflow panics.\<close>

definition checked_add_u16 :: "u16 \<Rightarrow> u16 \<Rightarrow> ('e, u16) res" where
  "checked_add_u16 a b =
     (if unat a + unat b < 2 ^ 16 then Ok (a + b) else Panic ''attempt to add with overflow'')"

text \<open>Load, then \<open>compare_exchange\<close>: another holder of the counter may have written it in
  between, then the loop starts over.\<close>

partial_function (option) next_port :: "('a, 'c) it_env \<Rightarrow> (it_world, it_error, u16) loop_io" where
  "next_port E w =
     (let r = it_ports w in
      case checked_add_u16 r 1 of
        Ok r1 \<Rightarrow>
          (let cur = other_holders E (it_time w) r; w1 = w\<lparr>it_time := it_time w + 1, it_ports := cur\<rparr> in
           if cur = r then Some (checked_add_u16 r DEFAULT_NODE_API_BASE_PORT, w1\<lparr>it_ports := r1\<rparr>)
           else next_port E w1)
      | Err e \<Rightarrow> Some (Err e, w)
      | Panic p \<Rightarrow> Some (Panic p, w))"

lemma retry_eval:
  "body w = (Ok v, w') \<Longrightarrow> retry body w = Some (Ok v, w')"
  "body w = (Err e, w') \<Longrightarrow> retry body w = retry body w'"
  "body w = (Panic p, w') \<Longrightarrow> retry body w = Some (Panic p, w')"
  by (subst retry.simps, simp)+

lemma next_port_eval:
  "unat (it_ports w) + 1 < 2 ^ 16 \<Longrightarrow> other_holders E (it_time w) (it_ports w) = it_ports w \<Longrightarrow>
     next_port E w = Some (checked_add_u16 (it_ports w) DEFAULT_NODE_API_BASE_PORT,
       w\<lparr>it_time := it_time w + 1, it_ports := it_ports w + 1\<rparr>)"
  "unat (it_ports w) + 1 < 2 ^ 16 \<Longrightarrow> other_holders E (it_time w) (it_ports w) \<noteq> it_ports w \<Longrightarrow>
     next_port E w = next_port E (w\<lparr>it_time := it_time w + 1, it_ports := other_holders E (it_time w) (it_ports w)\<rparr>)"
  by (subst next_port.simps, simp add: checked_add_u16_def Let_def)+

section \<open>Starting nodes\<close>

definition node_from_topology :: "('a, 'c) it_env \<Rightarrow> 'a itest_config \<Rightarrow> (it_world, it_error, 'a subnet_node) loop_io" where
  "node_from_topology E topology =
     bind_loop (once (lift (unwrap (ic_id topology)))) (\<lambda>i.
     bind_loop (next_port E) (\<lambda>p1.
     bind_loop (next_port E) (\<lambda>p2.
     bind_loop (next_port E) (\<lambda>p3.
     bind_loop (next_port E) (\<lambda>p4.
       once (ret (node_new i (ipc_root_folder topology) p1 p2 p3 p4 (eudico_binary_path topology) (ipc_agent_url topology))))))))"

text \<open>\<open>util::create_wallet\<close>: the loop ends with a wallet or with a panic.\<close>

definition create_wallet :: "('a, 'c) it_env \<Rightarrow> 'a libs \<Rightarrow> ('a node_state, it_error, unit) loop_io" where
  "create_wallet E L = retry (new_wallet_address E L)"

text \<open>A function that owns a node and returns it, or drops it when it fails.\<close>

definition owning :: "('a, 'c) it_env \<Rightarrow> 'a subnet_node \<Rightarrow> ('a node_state, 'e, unit) loop_io \<Rightarrow> (it_world, 'e, 'a subnet_node) loop_io" where
  "owning E n m = (\<lambda>w. case m (n, w) of
       None \<Rightarrow> None
     | Some (Ok _, (n', w')) \<Rightarrow> Some (Ok n', w')
     | Some (Err e, (n', w')) \<Rightarrow> Some (Err e, drop_node E n' w')
     | Some (Panic p, (n', w')) \<Rightarrow> Some (Panic p, drop_node E n' w'))"

definition spawn_first_node :: "('a, 'c) it_env \<Rightarrow> 'a libs \<Rightarrow> 'a itest_config \<Rightarrow> (it_world, it_error, 'a subnet_node) loop_io" where
  "spawn_first_node E L topology =
     bind_loop (node_from_topology E topology) (\<lambda>node.
       owning E node (bind_loop (once (on_world (gen_genesis E L))) (\<lambda>_.
         bind_loop (once (spawn_node E L)) (\<lambda>_.
         bind_loop (create_wallet E L) (\<lambda>_.
           once (on_world (config_default_wallet E L)))))))"

definition spawn_next_node :: "('a, 'c) it_env \<Rightarrow> 'a libs \<Rightarrow> 'a itest_config \<Rightarrow> (it_world, it_error, 'a subnet_node) loop_io" where
  "spawn_next_node E L topology =
     bind_loop (node_from_topology E topology) (\<lambda>node.
       owning E node (bind_loop (once (spawn_node E L)) (\<lambda>_.
         bind_loop (create_wallet E L) (\<lambda>_.
           once (on_world (config_default_wallet E L))))))"

text \<open>The loop over \<open>1..number_of_nodes\<close>; a failure drops the nodes collected so far.\<close>

fun spawn_nodes :: "('a, 'c) it_env \<Rightarrow> 'a libs \<Rightarrow> 'a itest_config \<Rightarrow> nat \<Rightarrow> 'a subnet_node list \<Rightarrow> (it_world, it_error, 'a subnet_node list) loop_io" where
  "spawn_nodes E L topology 0 nodes w = Some (Ok nodes, w)"
| "spawn_nodes E L topology (Suc k) nodes w =
     (case spawn_next_node E L topology w of
        None \<Rightarrow> None
      | Some (Ok node, w') \<Rightarrow> spawn_nodes E L topology k (nodes @ [node]) w'
      | Some (Err e, w') \<Rightarrow> Some (Err e, drop_nodes E nodes w')
      | Some (Panic p, w') \<Rightarrow> Some (Panic p, drop_nodes E nodes w'))"

text \<open>Work on nodes that are dropped when it fails.\<close>

definition guarding :: "('a, 'c) it_env \<Rightarrow> 'a subnet_node list \<Rightarrow> (it_world, 'e, 'b) loop_io \<Rightarrow> (it_world, 'e, 'b) loop_io" where
  "guarding E ns m = (\<lambda>w. case m w of
       None \<Rightarrow> None
     | Some (Ok b, w') \<Rightarrow> Some (Ok b, w')
     | Some (Err e, w') \<Rightarrow> Some (Err e, drop_nodes E ns w')
     | Some (Panic p, w') \<Rightarrow> Some (Panic p, drop_nodes E ns w'))"

definition spawn_other_nodes ::
    "('a, 'c) it_env \<Rightarrow> 'a libs \<Rightarrow> 'a itest_config \<Rightarrow> 'a subnet_node \<Rightarrow> (it_world, it_error, 'a subnet_node list) loop_io" where
  "spawn_other_nodes E L topology first =
     bind_loop (spawn_nodes E L topology (number_of_nodes topology - 1) []) (\<lambda>nodes.
       guarding E nodes
        (bind_loop (retry (network_addresses E L first)) (\<lambda>addrs.
         bind_loop (once (lift (tcp_address addrs))) (\<lambda>first_node_addr.
         bind_loop (once (for_io nodes (connect_peer E L (trim_newline first_node_addr)))) (\<lambda>_.
           once (ret nodes))))))"

section \<open>SubnetInfra\<close>

record 'a subnet_infra =
  infra_config :: "'a itest_config"
  infra_nodes :: "'a subnet_node list option"

definition infra_new :: "'a itest_config \<Rightarrow> 'a subnet_infra" where
  "infra_new c = \<lparr>infra_config = c, infra_nodes = None\<rparr>"

type_synonym 'a infra_state = "'a subnet_infra \<times> it_world"

definition infra_create_subnet :: "('a, 'c) it_env \<Rightarrow> 'a libs \<Rightarrow> ('a infra_state, it_error, unit) eio" where
  "infra_create_subnet E L = (\<lambda>(s, w).
     let c = infra_config s in
     case util_create_subnet E (ipc_agent_url c) None (subnet_to_string L (ic_parent c)) (ic_name c) (of_nat (number_of_nodes c)) w of
       (r, w') \<Rightarrow>
         (case and_then r (\<lambda>actor_addr. map_err ItMsg (addr_from_str L actor_addr)) of
            Ok a \<Rightarrow> (Ok (), (s\<lparr>infra_config := c\<lparr>ic_id := Some (new_from_parent (ic_parent c) a)\<rparr>\<rparr>, w'))
          | Err e \<Rightarrow> (Err e, (s, w'))
          | Panic p \<Rightarrow> (Panic p, (s, w'))))"

text \<open>The last assignment drops the nodes of an earlier call.\<close>

definition drop_old_nodes :: "('a, 'c) it_env \<Rightarrow> 'a subnet_infra \<Rightarrow> it_world \<Rightarrow> it_world" where
  "drop_old_nodes E s = (case infra_nodes s of Some ns \<Rightarrow> drop_nodes E ns | None \<Rightarrow> id)"

definition start_nodes :: "('a, 'c) it_env \<Rightarrow> 'a libs \<Rightarrow> ('a infra_state, it_error, unit) loop_io" where
  "start_nodes E L = (\<lambda>(s, w).
     case bind_loop (spawn_first_node E L (infra_config s)) (\<lambda>first_node.
          bind_loop (guarding E [first_node] (spawn_other_nodes E L (infra_config s) first_node)) (\<lambda>nodes.
            once (ret (nodes @ [first_node])))) w of
       None \<Rightarrow> None
     | Some (Ok nodes, w') \<Rightarrow> Some (Ok (), (s\<lparr>infra_nodes := Some nodes\<rparr>, drop_old_nodes E s w'))
     | Some (Err e, w') \<Rightarrow> Some (Err e, (s, w'))
     | Some (Panic p, w') \<Rightarrow> Some (Panic p, (s, w')))"

text \<open>\<open>for node in nodes.as_mut()\<close>: the body may change the node; the nodes stay where they are
  when it fails.\<close>

fun each_node :: "('a node_state, 'e, unit) eio \<Rightarrow> 'a subnet_node list \<Rightarrow> it_world \<Rightarrow> ('e, unit) res \<times> 'a subnet_node list \<times> it_world" where
  "each_node m [] w = (Ok (), [], w)"
| "each_node m (n # ns) w =
     (case m (n, w) of
        (Ok _, (n', w')) \<Rightarrow> (case each_node m ns w' of (r, ns', w'') \<Rightarrow> (r, n' # ns', w''))
      | (Err e, (n', w')) \<Rightarrow> (Err e, n' # ns, w')
      | (Panic p, (n', w')) \<Rightarrow> (Panic p, n' # ns, w'))"

definition start_validator :: "('a, 'c) it_env \<Rightarrow> 'a libs \<Rightarrow> ('a node_state, it_error, unit) eio" where
  "start_validator E L =
     bind_io (config_validator E L) (\<lambda>_.
     bind_io (on_world (export_wallet_to_ipc_key_store E L)) (\<lambda>_.
     bind_io (on_world (node_join_subnet E L)) (\<lambda>_.
       spawn_validator E L)))"

definition start_validators :: "('a, 'c) it_env \<Rightarrow> 'a libs \<Rightarrow> ('a infra_state, it_error, unit) eio" where
  "start_validators E L = (\<lambda>(s, w).
     case infra_nodes s of
       None \<Rightarrow> (Err (ItMsg ''nodes not spawned yet''), (s, w))
     | Some ns \<Rightarrow> (case each_node (start_validator E L) ns w of (r, ns', w') \<Rightarrow> (r, (s\<lparr>infra_nodes := Some ns'\<rparr>, w'))))"

definition fund_wallet_in_nodes ::
    "('a, 'c) it_env \<Rightarrow> string \<Rightarrow> string \<Rightarrow> 'a subnet_node list \<Rightarrow> u8 \<Rightarrow> (it_world, it_error, unit) eio" where
  "fund_wallet_in_nodes E eudico lotus nodes amount =
     for_io nodes (\<lambda>node.
       bind_io (lift (unwrap (wallet_address node))) (\<lambda>a. send_token E eudico lotus a amount))"

definition on_infra :: "('a subnet_infra \<Rightarrow> (it_world, 'e, 'b) eio) \<Rightarrow> ('a infra_state, 'e, 'b) eio" where
  "on_infra m = (\<lambda>(s, w). case m s w of (r, w') \<Rightarrow> (r, (s, w')))"

definition fund_node_wallets :: "('a, 'c) it_env \<Rightarrow> ('a infra_state, it_error, unit) eio" where
  "fund_node_wallets E = on_infra (\<lambda>s.
     case infra_nodes s of
       None \<Rightarrow> bail (ItMsg ''no nodes launched'')
     | Some ns \<Rightarrow> fund_wallet_in_nodes E (eudico_binary_path (infra_config s)) (parent_lotus_path (infra_config s)) ns 10)"

definition tear_down :: "('a, 'c) it_env \<Rightarrow> ('a infra_state, it_error, unit) eio" where
  "tear_down E = (\<lambda>(s, w).
     case infra_nodes s of
       None \<Rightarrow> (Err (ItMsg ''no nodes launched''), (s, w))
     | Some ns \<Rightarrow> (Ok (), (s\<lparr>infra_nodes := None\<rparr>, drop_nodes E ns w)))"

definition ipc_config_path :: "'a subnet_infra \<Rightarrow> string" where
  "ipc_config_path s = ipc_root_folder (infra_config s) @ ''/'' @ ''config.toml''"

definition infra_subnet_config :: "('a, 'c) it_env \<Rightarrow> 'a libs \<Rightarrow> 'a subnet_infra \<Rightarrow> (it_world, it_error, 'a agent_subnet) eio" where
  "infra_subnet_config E L s =
     (case infra_nodes s of
        None \<Rightarrow> bail (ItMsg ''nodes not up'')
      | Some ns \<Rightarrow>
        (case ic_id (infra_config s) of
           None \<Rightarrow> bail (ItMsg ''subnet id not set'')
         | Some i \<Rightarrow>
             bind_io (lift (traverse (\<lambda>n. case wallet_address n of
                 None \<Rightarrow> Err (ItMsg ''node wallet node setup'')
               | Some a \<Rightarrow> map_err ItMsg (addr_from_str L a)) ns)) (\<lambda>accounts.
             bind_io (lift (case ns of [] \<Rightarrow> Panic ''index out of bounds: the len is 0 but the index is 0'' | n # _ \<Rightarrow> Ok n)) (\<lambda>n.
             bind_io (create_admin_token E L n) (\<lambda>admin_token.
             bind_io (lift (map_err ItMsg (addr_from_str L ''t064''))) (\<lambda>gw.
             bind_io (lift (map_err ItMsg (agent_url_parse E
                 (''http://127.0.0.1:'' @ show_u16 (tcp_port (node_of n)) @ ''/rpc/v1'')))) (\<lambda>url.
               ret \<lparr>as_id = i, as_network_name = ic_name (infra_config s), as_gateway_addr = gw, as_jsonrpc_api_http = url,
                    as_auth_token = Some (trim_newline admin_token), as_accounts = accounts\<rparr>)))))))"

definition load_agent_config :: "('a, 'c) it_env \<Rightarrow> string \<Rightarrow> (it_world, it_error, 'c) eio" where
  "load_agent_config E p = (\<lambda>w. (map_err ItMsg (agent_config_from_file E p (it_fs w)), w))"

definition update_ipc_agent_config :: "('a, 'c) it_env \<Rightarrow> 'a libs \<Rightarrow> ('a infra_state, it_error, unit) eio" where
  "update_ipc_agent_config E L = on_infra (\<lambda>s.
     if ic_id (infra_config s) = None then bail (ItMsg ''subnet id not set'')
     else let config_path = ipc_config_path s in
       bind_io (map_err_io (\<lambda>e. case e of
           ItMsg m \<Rightarrow> ItMsg (''cannot load config from '' @ [CHR 0x22] @ config_path @ [CHR 0x22] @ '' due to: '' @ m) | e' \<Rightarrow> e') (load_agent_config E config_path)) (\<lambda>config.
       bind_io (infra_subnet_config E L s) (\<lambda>sn.
         on_it_fs (agent_config_write E config_path (agent_add_subnet E sn config)))))"

definition remove_from_ipc_agent_config :: "('a, 'c) it_env \<Rightarrow> ('a infra_state, it_error, unit) eio" where
  "remove_from_ipc_agent_config E = on_infra (\<lambda>s.
     case ic_id (infra_config s) of
       None \<Rightarrow> bail (ItMsg ''subnet id not set'')
     | Some i \<Rightarrow>
         bind_io (load_agent_config E (ipc_config_path s)) (\<lambda>config.
           on_it_fs (agent_config_write E (ipc_config_path s) (agent_remove_subnet E i config))))"

definition trigger_ipc_config_reload :: "('a, 'c) it_env \<Rightarrow> ('a infra_state, it_error, unit) eio" where
  "trigger_ipc_config_reload E = on_infra (\<lambda>s.
     util_reload_config E (ipc_agent_url (infra_config s)) (Some (ipc_config_path s)))"

section \<open>Calls\<close>

datatype infra_call =
    CallCreateSubnet
  | CallStartNodes
  | CallStartValidators
  | CallFund
  | CallTearDown
  | CallUpdateConfig
  | CallRemoveConfig
  | CallReload

fun infra_op :: "('a, 'c) it_env \<Rightarrow> 'a libs \<Rightarrow> infra_call \<Rightarrow> ('a infra_state, it_error, unit) loop_io" where
  "infra_op E L CallCreateSubnet = once (infra_create_subnet E L)"
| "infra_op E L CallStartNodes = start_nodes E L"
| "infra_op E L CallStartValidators = once (start_validators E L)"
| "infra_op E L CallFund = once (fund_node_wallets E)"
| "infra_op E L CallTearDown = once (tear_down E)"
| "infra_op E L CallUpdateConfig = once (update_ipc_agent_config E L)"
| "infra_op E L CallRemoveConfig = once (remove_from_ipc_agent_config E)"
| "infra_op E L CallReload = once (trigger_ipc_config_reload E)"

text \<open>A test is a sequence of calls, each of which returned.\<close>

inductive infra_reach :: "('a, 'c) it_env \<Rightarrow> 'a libs \<Rightarrow> 'a infra_state \<Rightarrow> 'a infra_state \<Rightarrow> bool" for E L where
  infra_start: "infra_reach E L s s"
| infra_next: "infra_reach E L s t \<Longrightarrow> infra_op E L c t = Some (r, t') \<Longrightarrow> infra_reach E L s t'"

section \<open>e2e/src/lib.rs\<close>

text \<open>The client of the end-to-end tests calls the command-line handlers of \<open>ipc_agent\<close>, which are a parameter.
  The stake and the collateral are the \<open>f64\<close> numbers 1.0 and 10.0.\<close>

record create_subnet_request =
  cr_agent_url :: "string option"
  cr_from :: "string option"
  cr_parent :: string
  cr_name :: string
  cr_min_validator_stake :: nat
  cr_min_validators :: u64
  cr_bottomup_check_period :: int
  cr_topdown_check_period :: int

datatype agent_command =
    AgentCreateSubnet create_subnet_request
  | AgentJoinSubnet "string option" "string option" string nat string "string option"
  | AgentKillSubnet "string option" "string option" string
  | AgentLeaveSubnet "string option" "string option" string

record test_client =
  json_rpc_url :: "string option"

definition test_client_new :: "string option \<Rightarrow> test_client" where
  "test_client_new url = \<lparr>json_rpc_url = url\<rparr>"

definition e2e_create_subnet ::
    "'a libs \<Rightarrow> (agent_command \<Rightarrow> ('w, string) io) \<Rightarrow> test_client \<Rightarrow> string \<Rightarrow> ('w, 'a) io" where
  "e2e_create_subnet L run c par =
     bind_io (run (AgentCreateSubnet \<lparr>cr_agent_url = json_rpc_url c, cr_from = None, cr_parent = par, cr_name = ''test'',
        cr_min_validator_stake = 1, cr_min_validators = 0, cr_bottomup_check_period = 10, cr_topdown_check_period = 10\<rparr>)) (\<lambda>raw.
       lift (addr_from_str L raw))"

definition e2e_join_subnet ::
    "'a libs \<Rightarrow> (agent_command \<Rightarrow> ('w, string) io) \<Rightarrow> test_client \<Rightarrow> 'a subnet_id \<Rightarrow> string \<Rightarrow> ('w, unit) io" where
  "e2e_join_subnet L run c i validator_net_addr =
     bind_io (run (AgentJoinSubnet (json_rpc_url c) None (subnet_to_string L i) 10 validator_net_addr None)) (\<lambda>_. ret ())"

definition e2e_kill_subnet :: "'a libs \<Rightarrow> (agent_command \<Rightarrow> ('w, string) io) \<Rightarrow> test_client \<Rightarrow> 'a subnet_id \<Rightarrow> ('w, unit) io" where
  "e2e_kill_subnet L run c i = bind_io (run (AgentKillSubnet (json_rpc_url c) None (subnet_to_string L i))) (\<lambda>_. ret ())"

definition e2e_leave_subnet :: "'a libs \<Rightarrow> (agent_command \<Rightarrow> ('w, string) io) \<Rightarrow> test_client \<Rightarrow> 'a subnet_id \<Rightarrow> ('w, unit) io" where
  "e2e_leave_subnet L run c i = bind_io (run (AgentLeaveSubnet (json_rpc_url c) None (subnet_to_string L i))) (\<lambda>_. ret ())"

end
