(* ===== verification/Itest_Termination.thy ===== *)
theory Itest_Termination
  imports Itest_Infra
begin

text \<open>
  The retry loops of the test infrastructure return when the node binary comes up, and only then.
\<close>

section \<open>Loops\<close>

text \<open>A retried body that fails takes time; at some later time it no longer fails.\<close>

lemma retry_returns:
  assumes step: "\<And>w e w'. I w \<Longrightarrow> body w = (Err e, w') \<Longrightarrow> I w' \<and> time w' = Suc (time w)"
    and up: "\<And>w. I w \<Longrightarrow> time w = t \<Longrightarrow> \<not> (\<exists>e. fst (body w) = Err e)"
    and "I w" "time w \<le> t"
  shows "retry body w \<noteq> None"
  using assms(3,4)
proof (induction "t - time w" arbitrary: w)
  case 0
  then have "time w = t" by simp
  from up [OF 0(2) this] show ?case by (subst retry.simps) (auto split: prod.splits res.splits)
next
  case (Suc d)
  show ?case
  proof (cases "body w")
    case (Pair r w')
    show ?thesis
    proof (cases r)
      case (Err e)
      from step [OF Suc.prems(1) Pair [unfolded Err]] have "I w'" "time w' = Suc (time w)" by simp_all
      with Suc have "retry body w' \<noteq> None" by simp
      with Pair Err show ?thesis by (subst retry.simps) simp
    qed (use Pair in \<open>subst retry.simps, simp\<close>)+
  qed
qed

text \<open>Induction over the rounds of a loop that returned.\<close>

lemma retry_induct:
  assumes "retry body w = Some (r, w')"
    and stop: "\<And>w r w'. body w = (r, w') \<Longrightarrow> (\<And>e. r \<noteq> Err e) \<Longrightarrow> Q w r w'"
    and again: "\<And>w e w1 r w'. body w = (Err e, w1) \<Longrightarrow> Q w1 r w' \<Longrightarrow> Q w r w'"
  shows "Q w r w'"
proof -
  have "body = body \<longrightarrow> Q w (fst (r, w')) (snd (r, w'))"
  proof (rule retry.raw_induct [where P = "\<lambda>b w y. b = body \<longrightarrow> Q w (fst y) (snd y)", OF _ assms(1)], intro impI)
    fix retry' b w y
    assume IH: "\<And>w b y. retry' w b = Some y \<Longrightarrow> w = body \<longrightarrow> Q b (fst y) (snd y)" and b: "b = body"
      and run: "(case b w of (Ok v, w') \<Rightarrow> Some (Ok v, w') | (Err e, w') \<Rightarrow> retry' b w' | (Panic p, w') \<Rightarrow> Some (Panic p, w')) = Some y"
    show "Q w (fst y) (snd y)"
    proof (cases "body w")
      case (Pair r1 w1)
      with run b IH stop again show ?thesis by (cases r1) auto
    qed
  qed
  then show ?thesis by simp
qed

lemma retry_loops:
  assumes step: "\<And>w. I w \<Longrightarrow> \<exists>e w'. body w = (Err e, w') \<and> I w'" and "I w"
  shows "retry body w = None"
proof -
  have "\<not> I w" if "retry body w = Some (r, w')" for r w'
    using that by (rule retry_induct) (use step in fastforce)+
  with assms(2) show ?thesis by (cases "retry body w") auto
qed

lemma retry_run:
  assumes "retry body w = Some (r, w')" "\<And>w e w'. I w \<Longrightarrow> body w = (Err e, w') \<Longrightarrow> I w'" "I w"
  shows "\<exists>w1. I w1 \<and> body w1 = (r, w') \<and> (\<forall>e. r \<noteq> Err e)"
proof -
  have "I w \<longrightarrow> (\<exists>w1. I w1 \<and> body w1 = (r, w') \<and> (\<forall>e. r \<noteq> Err e))"
    using assms(1)
  proof (rule retry_induct)
    fix w r w' assume "body w = (r, w')" "\<And>e. r \<noteq> Err e"
    then show "I w \<longrightarrow> (\<exists>w1. I w1 \<and> body w1 = (r, w') \<and> (\<forall>e. r \<noteq> Err e))" by metis
  next
    fix w e w1 r w'
    assume "body w = (Err e, w1)" "I w1 \<longrightarrow> (\<exists>w2. I w2 \<and> body w2 = (r, w') \<and> (\<forall>e. r \<noteq> Err e))"
    with assms(2) [of w e w1] show "I w \<longrightarrow> (\<exists>w1. I w1 \<and> body w1 = (r, w') \<and> (\<forall>e. r \<noteq> Err e))" by (metis (no_types))
  qed
  with assms(3) show ?thesis by blast
qed

text \<open>The same for the port counter.\<close>

lemma next_port_returns:
  assumes "\<And>t p. T \<le> t \<Longrightarrow> other_holders E t p = p"
  shows "next_port E w \<noteq> None"
proof (induction "T - it_time w" arbitrary: w)
  case 0
  then show ?case using assms by (subst next_port.simps) (simp add: Let_def split: res.splits)
next
  case (Suc d)
  have "next_port E (w\<lparr>it_time := it_time w + 1, it_ports := cur\<rparr>) \<noteq> None" for cur
    by (rule Suc(1)) (use Suc(2) in simp)
  then show ?case by (subst next_port.simps) (auto simp: Let_def split: res.splits)
qed

section \<open>Composition\<close>

definition returns :: "('w, 'e, 'b) loop_io \<Rightarrow> bool" where
  "returns m \<longleftrightarrow> (\<forall>w. m w \<noteq> None)"

lemma returns_once [intro]: "returns (once m)"
  by (simp add: returns_def once_def)

lemma returns_bind [intro]: "returns m \<Longrightarrow> (\<And>a. returns (f a)) \<Longrightarrow> returns (bind_loop m f)"
  unfolding returns_def bind_loop_def by (auto split: option.splits res.splits)

lemma returns_owning [intro]: "returns m \<Longrightarrow> returns (owning E n m)"
  unfolding returns_def owning_def by (auto split: option.splits res.splits)

lemma returns_guarding [intro]: "returns m \<Longrightarrow> returns (guarding E ns m)"
  unfolding returns_def guarding_def by (auto split: option.splits res.splits)

text \<open>The answer of the node binary to a command succeeds.\<close>

definition cmd_works :: "('a, 'c) it_env \<Rightarrow> nat \<Rightarrow> command \<Rightarrow> bool" where
  "cmd_works E t c = (case run_cmd E t c of Inr out \<Rightarrow> cmd_success out | Inl _ \<Rightarrow> False)"

lemma command_output_time [simp]: "it_time (snd (command_output E c w)) = Suc (it_time w)"
  by (simp add: command_output_def it_event_def)

lemma new_wallet_step:
  assumes "wallet_address n = None" "node_command E L n [''wallet'', ''new''] = (Ok c :: (it_error, command) res)"
  shows "\<exists>w'. it_time w' = Suc (it_time w) \<and>
    (if cmd_works E (it_time w) c then \<exists>a. new_wallet_address E L (n, w) = (Ok (), (n\<lparr>wallet_address := Some a\<rparr>, w'))
     else \<exists>e. new_wallet_address E L (n, w) = (Err e, (n, w')))"
proof -
  obtain r w' where run: "command_output E c w = (r, w')" by (cases "command_output E c w")
  then have t: "it_time w' = Suc (it_time w)" using command_output_time [of E c w] by simp
  have "r = io_result (run_cmd E (it_time w) c)" using run by (simp add: command_output_def)
  then show ?thesis using t run assms
    by (cases "run_cmd E (it_time w) c")
      (auto simp: new_wallet_address_def cmd_works_def node_output_def on_world_def update_node_def io_defs)
qed

lemma create_wallet_not_stuck:
  assumes "\<exists>t \<ge> it_time w. \<forall>c. node_command E L n [''wallet'', ''new''] = (Ok c :: (it_error, command) res) \<longrightarrow> cmd_works E t c"
  shows "create_wallet E L (n, w) \<noteq> None"
proof (cases "wallet_address n = None \<and> env_HOME E \<noteq> None")
  case True
  then obtain c where c: "node_command E L n [''wallet'', ''new''] = (Ok c :: (it_error, command) res)"
    by (auto simp: node_command_def lotus_path_def)
  with assms obtain t where t: "it_time w \<le> t" "cmd_works E t c" by auto
  note step = new_wallet_step [OF conjunct1 [OF True] c]
  show ?thesis unfolding create_wallet_def
  proof (rule retry_returns [where I = "\<lambda>s. fst s = n" and time = "\<lambda>s. it_time (snd s)" and t = t])
    fix s e and s' :: "'a node_state" assume "fst s = n" "new_wallet_address E L s = (Err e, s')"
    with step [of "snd s"] show "fst s' = n \<and> it_time (snd s') = Suc (it_time (snd s))"
      by (cases s) (auto split: if_splits)
  next
    fix s :: "'a node_state" assume "fst s = n" "it_time (snd s) = t"
    with step [of "snd s"] t(2) show "\<nexists>e. fst (new_wallet_address E L s) = Err e"
      by (cases s) auto
  qed (use t in simp_all)
next
  case False
  then have "\<not> (\<exists>e. fst (new_wallet_address E L (n, w)) = Err e)"
    by (auto simp: new_wallet_address_def node_output_def node_command_def lotus_path_def on_world_def io_defs)
  then show ?thesis unfolding create_wallet_def by (subst retry.simps) (auto split: prod.splits res.splits)
qed

lemma network_addresses_not_stuck:
  assumes "\<exists>t \<ge> it_time w. \<forall>c. node_command E L n [''net'', ''listen''] = (Ok c :: (it_error, command) res) \<longrightarrow> cmd_works E t c"
  shows "retry (network_addresses E L n) w \<noteq> None"
proof (cases "node_command E L n [''net'', ''listen''] :: (it_error, command) res")
  case (Ok c)
  with assms obtain t where t: "it_time w \<le> t" "cmd_works E t c" by auto
  have run: "network_addresses E L n w = (case command_output E c w of (r, w') \<Rightarrow>
      (and_then r (\<lambda>out. if cmd_success out then Ok (str_split (CHR 0x0A) (from_utf8_lossy (cmd_stdout out)))
        else Err (ItDebug (''cannot get network addresses admin token in subnet:'' @ subnet_to_string L (node_id n) @ '' with status: '')
              (exit_status out))), w'))" for w
    by (auto simp: network_addresses_def node_output_def Ok io_defs split: prod.splits res.splits)
  show ?thesis
  proof (rule retry_returns [where I = "\<lambda>_. True" and time = it_time and t = t])
    fix w e w' assume "network_addresses E L n w = (Err e, w')"
    then show "True \<and> it_time w' = Suc (it_time w)"
      using command_output_time [of E c w] by (cases "command_output E c w") (simp add: run)
  next
    fix w :: it_world assume "it_time w = t"
    with t(2) show "\<nexists>e. fst (network_addresses E L n w) = Err e"
      by (cases "run_cmd E t c") (auto simp: run command_output_def cmd_works_def)
  qed (use t in simp_all)
next
  case (Err e)
  then show ?thesis by (auto simp: node_command_def lotus_path_def split: option.splits)
next
  case (Panic p)
  then have "network_addresses E L n w = (Panic p, w)" by (simp add: network_addresses_def node_output_def io_defs)
  then show ?thesis by (subst retry.simps) simp
qed

text \<open>From every time on, the two commands that are retried succeed again; the other holders of the port counter
  leave it alone in the end.\<close>

definition comes_up :: "('a, 'c) it_env \<Rightarrow> bool" where
  "comes_up E \<longleftrightarrow> (\<forall>c t. cmd_args c = [''wallet'', ''new''] \<or> cmd_args c = [''net'', ''listen''] \<longrightarrow> (\<exists>t' \<ge> t. cmd_works E t' c))"

definition counter_settles :: "('a, 'c) it_env \<Rightarrow> bool" where
  "counter_settles E \<longleftrightarrow> (\<exists>T. \<forall>t \<ge> T. \<forall>p. other_holders E t p = p)"

lemma node_command_args: "node_command E L n as = Ok c \<Longrightarrow> cmd_args c = as"
  by (auto simp: node_command_def res_simps)

lemma comes_upD:
  assumes "comes_up E" "as = [''wallet'', ''new''] \<or> as = [''net'', ''listen'']"
  shows "\<exists>t' \<ge> t. \<forall>c. node_command E L n as = (Ok c :: (it_error, command) res) \<longrightarrow> cmd_works E t' c"
proof (cases "node_command E L n as :: (it_error, command) res")
  case (Ok c)
  then show ?thesis using assms node_command_args [OF Ok] unfolding comes_up_def by auto
qed auto

lemma returns_create_wallet [intro]: "comes_up E \<Longrightarrow> returns (create_wallet E L)"
  unfolding returns_def using comes_upD [of E "[''wallet'', ''new'']"] create_wallet_not_stuck by (metis prod.collapse)

lemma returns_network_addresses [intro]: "comes_up E \<Longrightarrow> returns (retry (network_addresses E L n))"
  unfolding returns_def using comes_upD [of E "[''net'', ''listen'']"] network_addresses_not_stuck by metis

lemma returns_next_port [intro]: "counter_settles E \<Longrightarrow> returns (next_port E)"
  unfolding returns_def counter_settles_def using next_port_returns [of _ E] by metis

lemma returns_node_from_topology [intro]: "counter_settles E \<Longrightarrow> returns (node_from_topology E c)"
  unfolding node_from_topology_def by blast

lemma returns_spawn_nodes [intro]:
  assumes "comes_up E" "counter_settles E"
  shows "returns (spawn_nodes E L c k ns)"
proof -
  have "returns (spawn_next_node E L c)" unfolding spawn_next_node_def using assms by blast
  then have next_ok: "spawn_next_node E L c w \<noteq> None" for w by (simp add: returns_def)
  have "spawn_nodes E L c k ns w \<noteq> None" for w
  proof (induction k arbitrary: ns w)
    case (Suc k)
    then show ?case using next_ok [of w] by (auto split: option.splits res.splits)
  qed simp
  then show ?thesis by (simp add: returns_def)
qed

end
