(* ===== verification/Itest_Processes.thy ===== *)
theory Itest_Processes
  imports Itest_Termination
begin

text \<open>
  The child processes of the test infrastructure. Whatever a test does, and however its calls end, a
  process that was spawned is owned by a node of the infrastructure, has been killed, or the operating
  system refused to kill it; the subnet
  that \<open>start_nodes\<close> reports as started is complete, and its servers have different ports.
\<close>

section \<open>What happened to the processes\<close>

definition spawned :: "it_world \<Rightarrow> nat set" where
  "spawned w = {h. \<exists>c. Spawned h c \<in> set (it_log w)}"

text \<open>Killed, or the operating system refused a kill: \<open>Drop\<close> ignores that error.\<close>

definition gone :: "('a, 'c) it_env \<Rightarrow> it_world \<Rightarrow> nat set" where
  "gone E w = {h. Killed h \<in> set (it_log w)
     \<or> KillFailed h \<in> set (it_log w) \<and> (\<exists>t e. kill_child E t h = Inl e)}"

fun info_process :: "node_info \<Rightarrow> nat set" where
  "info_process i = (case status i of Running h \<Rightarrow> {h} | Idle \<Rightarrow> {})"

declare info_process.simps [simp del]

definition owned :: "'a subnet_node \<Rightarrow> nat set" where
  "owned n = info_process (node_of n) \<union> info_process (validator_of n)"

definition owned_all :: "'a subnet_node list \<Rightarrow> nat set" where
  "owned_all ns = (\<Union>n \<in> set ns. owned n)"

definition accounted :: "('a, 'c) it_env \<Rightarrow> nat set \<Rightarrow> it_world \<Rightarrow> bool" where
  "accounted E H w \<longleftrightarrow> spawned w \<subseteq> H \<union> gone E w"

lemma accounted_mono: "accounted E H w \<Longrightarrow> H \<subseteq> H' \<Longrightarrow> accounted E H' w"
  by (auto simp: accounted_def)

text \<open>An operation that spawns nothing, takes no kill back and does not touch the port counter.\<close>

definition no_spawn :: "('a, 'c) it_env \<Rightarrow> it_world \<Rightarrow> it_world \<Rightarrow> bool" where
  "no_spawn E w w' \<longleftrightarrow> spawned w' = spawned w \<and> gone E w \<subseteq> gone E w' \<and> it_ports w' = it_ports w"

lemma no_spawn_refl [simp]: "no_spawn E w w"
  by (simp add: no_spawn_def)

lemma no_spawn_trans: "no_spawn E w w1 \<Longrightarrow> no_spawn E w1 w2 \<Longrightarrow> no_spawn E w w2"
  by (auto simp: no_spawn_def)

lemma no_spawn_accounted: "no_spawn E w w' \<Longrightarrow> accounted E H w \<Longrightarrow> accounted E H w'"
  by (auto simp: no_spawn_def accounted_def)

definition quiet :: "('a, 'c) it_env \<Rightarrow> (it_world, 'e, 'b) eio \<Rightarrow> bool" where
  "quiet E m \<longleftrightarrow> (\<forall>w. no_spawn E w (snd (m w)))"

lemma quiet_run: "quiet E m \<Longrightarrow> m w = (r, w') \<Longrightarrow> no_spawn E w w'"
  by (metis quiet_def snd_conv)

lemma quiet_bind [intro]:
  assumes "quiet E m" "\<And>a. quiet E (f a)"
  shows "quiet E (bind_io m f)"
  unfolding quiet_def
proof
  fix w
  obtain r w1 where m: "m w = (r, w1)" by (cases "m w")
  with quiet_run [OF assms(1)] have "no_spawn E w w1" by blast
  with m assms(2) show "no_spawn E w (snd (bind_io m f w))"
    unfolding bind_io_def quiet_def by (cases r) (auto intro: no_spawn_trans)
qed

lemma quiet_pure [intro]: "quiet E (ret a)" "quiet E (lift r)" "quiet E (bail e)"
  by (simp_all add: quiet_def io_defs)

lemma quiet_map_err [intro]: "quiet E m \<Longrightarrow> quiet E (map_err_io g m)"
  by (simp add: quiet_def map_err_io_def case_prod_beta)

lemma quiet_for [intro]: "(\<And>x. quiet E (f x)) \<Longrightarrow> quiet E (for_io xs f)"
  by (induction xs) auto

lemma quiet_if [intro]: "quiet E m \<Longrightarrow> quiet E m' \<Longrightarrow> quiet E (if b then m else m')"
  by simp

lemma event_no_spawn: "(\<And>h c. e \<noteq> Spawned h c) \<Longrightarrow> no_spawn E w (it_event e w)"
  by (auto simp: no_spawn_def spawned_def gone_def it_event_def)

lemma no_spawn_fs [simp]: "no_spawn E w (w'\<lparr>it_fs := f\<rparr>) = no_spawn E w w'" "no_spawn E w (w'\<lparr>it_time := t\<rparr>) = no_spawn E w w'"
  by (simp_all add: no_spawn_def spawned_def gone_def)

lemma quiet_command_output [intro]: "quiet E (command_output E c)"
  by (simp add: quiet_def command_output_def event_no_spawn)

lemma quiet_on_it_fs [intro]: "quiet E (on_it_fs m)"
  by (simp add: quiet_def on_it_fs_def case_prod_beta)

lemma quiet_ask_agent [intro]: "quiet E (ask_agent E u q)"
  by (simp add: quiet_def ask_agent_def event_no_spawn)

lemma quiet_child_kill [intro]: "quiet E (child_kill E h)"
  by (simp add: quiet_def child_kill_def event_no_spawn split: sum.split)

lemma quiet_node_output [intro]: "quiet E (node_output E L as n)"
  unfolding node_output_def by blast

lemma quiet_import_wallet [intro]: "quiet E (import_wallet E u k)"
  unfolding import_wallet_def by blast

lemma quiet_ops [intro]:
  "quiet E (network_addresses E L n)" "quiet E (config_default_wallet E L n)" "quiet E (connect_peer E L peer n)"
  "quiet E (create_admin_token E L n)" "quiet E (export_wallet_to_ipc_key_store E L n)" "quiet E (node_join_subnet E L n)"
  "quiet E (send_token E b l a k)" "quiet E (util_create_subnet E u fr pa na mv)" "quiet E (util_reload_config E u p)"
  unfolding network_addresses_def config_default_wallet_def connect_peer_def create_admin_token_def
    export_wallet_to_ipc_key_store_def node_join_subnet_def send_token_def util_create_subnet_def
    util_reload_config_def util_join_subnet_def
  by (blast | (cases "wallet_address n"; auto))+

lemma quiet_gen_genesis [intro]: "quiet E (gen_genesis E L n)"
proof -
  have "quiet E (bind_io (node_output E L as n) (\<lambda>st. if \<not> cmd_success st then bail (e st) else ret ()))" for as and e :: "cmd_output \<Rightarrow> it_error" by blast
  then show ?thesis unfolding gen_genesis_def quiet_def by simp
qed

section \<open>Operations on one node\<close>

definition node_ports :: "'a subnet_node \<Rightarrow> u16 list" where
  "node_ports n = [tcp_port (node_of n), quic_port (node_of n), tcp_port (validator_of n), quic_port (validator_of n)]"

text \<open>From node \<open>n\<close>, the operation loses no process and keeps the ports.\<close>

definition safe_at :: "('x, 'c) it_env \<Rightarrow> 'a subnet_node \<Rightarrow> ('a node_state, 'e, 'b) eio \<Rightarrow> bool" where
  "safe_at E n m \<longleftrightarrow> (\<forall>w r n' w' H. m (n, w) = (r, (n', w')) \<longrightarrow> accounted E (H \<union> owned n) w \<longrightarrow>
     accounted E (H \<union> owned n') w' \<and> it_ports w' = it_ports w \<and> node_ports n' = node_ports n)"

lemma safe_atD: "safe_at E n m \<Longrightarrow> m (n, w) = (r, (n', w')) \<Longrightarrow> accounted E (H \<union> owned n) w \<Longrightarrow>
     accounted E (H \<union> owned n') w' \<and> it_ports w' = it_ports w \<and> node_ports n' = node_ports n"
  unfolding safe_at_def by blast

lemma safe_at_bind [intro]:
  assumes m: "safe_at E n m" and f: "\<And>a n'. safe_at E n' (f a)"
  shows "safe_at E n (bind_io m f)"
  unfolding safe_at_def
proof (intro allI impI)
  fix w r n' w' H
  assume "bind_io m f (n, w) = (r, (n', w'))" and acc: "accounted E (H \<union> owned n) w"
  then show "accounted E (H \<union> owned n') w' \<and> it_ports w' = it_ports w \<and> node_ports n' = node_ports n"
  proof (cases rule: bind_io_cases)
    case (stop r1)
    with safe_atD [OF m _ acc] show ?thesis by blast
  next
    case (go a s1)
    then show ?thesis using safe_atD [OF m _ acc] safe_atD [OF f] by (cases s1) metis
  qed
qed

lemma safe_at_world_bind:
  assumes "quiet E (m n)" "\<And>a. safe_at E n (f a)"
  shows "safe_at E n (bind_io (on_world m) f)"
  unfolding safe_at_def
proof (intro allI impI)
  fix w r n' w' H
  assume run: "bind_io (on_world m) f (n, w) = (r, (n', w'))" and acc: "accounted E (H \<union> owned n) w"
  obtain r1 w1 where m: "m n w = (r1, w1)" by (cases "m n w")
  note q = quiet_run [OF assms(1) m]
  then have w1: "accounted E (H \<union> owned n) w1" "it_ports w1 = it_ports w" using no_spawn_accounted acc by (auto simp: no_spawn_def)
  show "accounted E (H \<union> owned n') w' \<and> it_ports w' = it_ports w \<and> node_ports n' = node_ports n"
  proof (cases r1)
    case (Ok a)
    with run m have "f a (n, w1) = (r, (n', w'))" by (simp add: bind_io_def on_world_def)
    with safe_atD [OF assms(2)] w1 show ?thesis by metis
  qed (use run m w1 in \<open>auto simp: bind_io_def on_world_def\<close>)
qed

lemma safe_at_pure [intro]: "safe_at E n (ret a)" "safe_at E n (lift r)" "safe_at E n (bail e)"
  by (simp_all add: safe_at_def io_defs)

lemma safe_at_world [intro]:
  assumes "quiet E (m n)" shows "safe_at E n (on_world m)"
proof -
  have "bind_io (on_world m) ret = on_world m"
    by (auto simp: fun_eq_iff bind_io_def ret_def on_world_def split: prod.splits res.splits)
  then show ?thesis using safe_at_world_bind [of E m n ret] assms by auto
qed

lemma safe_at_lift_bind: "(\<And>a. safe_at E n (f a)) \<Longrightarrow> safe_at E n (bind_io (lift r) f)"
  by (cases r) (auto simp: safe_at_def bind_io_def lift_def)

lemma safe_at_update [intro]: "owned (f n) = owned n \<Longrightarrow> node_ports (f n) = node_ports n \<Longrightarrow> safe_at E n (update_node f)"
  by (simp add: safe_at_def update_node_def)

lemma spawned_spawn:
  assumes "command_spawn E c w = (Ok h, w')"
  shows "spawned w' = insert h (spawned w)" "gone E w' = gone E w" "it_ports w' = it_ports w"
  using assms by (auto simp: command_spawn_def it_event_def spawned_def gone_def split: option.splits)

lemma quiet_spawn_failed:
  assumes "command_spawn E c w = (r, w')" "\<not> is_ok r"
  shows "no_spawn E w w'"
  using assms by (auto simp: command_spawn_def split: option.splits)

text \<open>The handle of a new process is stored where none was.\<close>

lemma safe_at_spawn:
  assumes "\<And>h. owned n \<union> {h} \<subseteq> owned (f h n)" "\<And>h. node_ports (f h n) = node_ports n"
  shows "safe_at E n (bind_io (on_world (\<lambda>_. command_spawn E c)) (\<lambda>child. update_node (f child)))"
  unfolding safe_at_def
proof (intro allI impI)
  fix w r n' w' H
  assume run: "bind_io (on_world (\<lambda>_. command_spawn E c)) (\<lambda>child. update_node (f child)) (n, w) = (r, (n', w'))"
    and acc: "accounted E (H \<union> owned n) w"
  obtain r1 w1 where m: "command_spawn E c w = (r1, w1)" by (cases "command_spawn E c w")
  show "accounted E (H \<union> owned n') w' \<and> it_ports w' = it_ports w \<and> node_ports n' = node_ports n"
  proof (cases r1)
    case (Ok h)
    with run m have "n' = f h n" "w' = w1" by (auto simp: bind_io_def on_world_def update_node_def)
    then show ?thesis using spawned_spawn [OF m [unfolded Ok]] acc assms [of h] by (auto simp: accounted_def)
  qed (use run m quiet_spawn_failed [OF m] acc no_spawn_accounted in \<open>auto simp: bind_io_def on_world_def no_spawn_def\<close>)
qed

lemma safe_at_cong: "safe_at E n m \<Longrightarrow> (\<And>w. m' (n, w) = m (n, w)) \<Longrightarrow> safe_at E n m'"
  unfolding safe_at_def by metis

lemma quiet_create_log [intro]: "quiet E (create_log p)"
  unfolding create_log_def by blast

lemmas safe_at_steps = safe_at_world_bind safe_at_lift_bind safe_at_spawn quiet_create_log quiet_on_it_fs

lemma safe_spawn_node [intro]: "safe_at E n (spawn_node E L)"
proof (cases "status (node_of n) = Idle")
  case True
  show ?thesis
  proof (rule safe_at_cong)
    show "safe_at E n (bind_io (on_world (\<lambda>_. on_it_fs (fs_create_dir_all (path_of_string DEFAULT_LOG_DIR)))) (\<lambda>_.
       bind_io (on_world (\<lambda>_. create_log (DEFAULT_LOG_DIR @ ''/'' @ (''./'' @ subnet_id_cli_string L n @ ''_node_'' @ show_u16 (tcp_port (node_of n))) @ ''.log''))) (\<lambda>_.
       bind_io (on_world (\<lambda>_. create_log (DEFAULT_LOG_DIR @ ''/'' @ (''./'' @ subnet_id_cli_string L n @ ''_node_'' @ show_u16 (tcp_port (node_of n))) @ ''.err''))) (\<lambda>_.
       bind_io (lift (node_command E L n [''mir'', ''daemon'', ''--genesis='' @ genesis_path L n,
          ''--api='' @ show_u16 (tcp_port (node_of n)), ''--bootstrap=false''])) (\<lambda>c.
       bind_io (on_world (\<lambda>_. command_spawn E c)) (\<lambda>child.
         update_node (\<lambda>n. n\<lparr>node_of := (node_of n)\<lparr>status := Running child\<rparr>\<rparr>)))))))"
      by (intro safe_at_steps) (use True in \<open>auto simp: owned_def node_ports_def info_process.simps\<close>)
  qed (simp add: spawn_node_def True Let_def)
qed (auto simp: safe_at_def spawn_node_def)

lemma safe_spawn_validator [intro]: "safe_at E n (spawn_validator E L)"
proof (cases "status (validator_of n) = Idle")
  case True
  show ?thesis
  proof (rule safe_at_cong)
    show "safe_at E n (bind_io (on_world (\<lambda>_. create_log ((''./'' @ subnet_id_cli_string L n @ ''_validator_'' @ show_u16 (tcp_port (validator_of n))) @ ''.log''))) (\<lambda>_.
       bind_io (on_world (\<lambda>_. create_log ((''./'' @ subnet_id_cli_string L n @ ''_validator_'' @ show_u16 (tcp_port (validator_of n))) @ ''.err''))) (\<lambda>_.
       bind_io (lift (node_command E L n [''mir'', ''validator'', ''run'', ''--membership=onchain'', ''--nosync'',
          ''--ipcagent-url='' @ node_agent_url n])) (\<lambda>c.
       bind_io (on_world (\<lambda>_. command_spawn E c)) (\<lambda>child.
         update_node (\<lambda>n. n\<lparr>validator_of := (validator_of n)\<lparr>status := Running child\<rparr>\<rparr>))))))"
      by (intro safe_at_steps) (use True in \<open>auto simp: owned_def node_ports_def info_process.simps\<close>)
  qed (simp add: spawn_validator_def True Let_def)
qed (auto simp: safe_at_def spawn_validator_def)

lemma safe_at_if [intro]: "safe_at E n m \<Longrightarrow> safe_at E n m' \<Longrightarrow> safe_at E n (if b then m else m')"
  by simp

lemma safe_new_wallet_address [intro]: "safe_at E n (new_wallet_address E L)"
proof (cases "wallet_address n")
  case None
  have "safe_at E n (bind_io (on_world (node_output E L [''wallet'', ''new''])) (\<lambda>out.
       if cmd_success out
       then update_node (\<lambda>n. n\<lparr>wallet_address := Some (trim_newline (from_utf8_lossy (cmd_stdout out)))\<rparr>)
       else bail (ItDebug (''cannot create new wallet address in subnet:'' @ subnet_to_string L (node_id n) @ '' with error: '')
              (from_utf8_lossy (cmd_stderr out)))))"
    by (intro safe_at_world_bind safe_at_if safe_at_update safe_at_pure) (auto simp: owned_def node_ports_def)
  then show ?thesis by (rule safe_at_cong) (simp add: new_wallet_address_def None)
qed (auto simp: safe_at_def new_wallet_address_def)

lemma safe_config_validator [intro]: "safe_at E n (config_validator E L)"
proof -
  have upd: "safe_at E n (update_node (\<lambda>n. n\<lparr>validator_of := (validator_of n)\<lparr>net_addr := x\<rparr>\<rparr>))" for n :: "'a subnet_node" and x
    by (rule safe_at_update) (auto simp: owned_def node_ports_def info_process.simps)
  have "safe_at E n (\<lambda>s. bind_io (on_world (node_output E L as)) (\<lambda>st.
     if \<not> cmd_success st then bail e
     else bind_io (on_world (node_output E L bs)) (\<lambda>out.
       if cmd_success out
       then bind_io (lift (tcp_address (str_lines (from_utf8_lossy (cmd_stdout out))))) (\<lambda>tcp_addr.
            bind_io (lift (f tcp_addr)) (\<lambda>part.
              update_node (\<lambda>n. n\<lparr>validator_of := (validator_of n)\<lparr>net_addr := Some part\<rparr>\<rparr>)))
       else bail e')) s)" for as bs e e' and f :: "string \<Rightarrow> (it_error, string) res"
    by (intro safe_at_world_bind safe_at_lift_bind safe_at_if safe_at_pure upd quiet_node_output)
  then show ?thesis by (rule safe_at_cong) (simp add: config_validator_def)
qed

lemma safe_start_validator [intro]: "safe_at E n (start_validator E L)"
  unfolding start_validator_def by blast

section \<open>Dropping\<close>

lemma child_kill_gone: "h \<in> gone E (snd (child_kill E h w))"
  by (cases "kill_child E (it_time w) h") (auto simp: child_kill_def gone_def it_event_def)

lemma stop_info_run:
  "no_spawn E w (snd (stop_info E i w)) \<and> info_process i \<subseteq> gone E (snd (stop_info E i w))"
  using quiet_child_kill [of E]
  by (cases "status i") (simp_all add: stop_info_def info_process.simps ret_def quiet_def child_kill_gone)

lemma drop_node_run: "no_spawn E w (drop_node E n w) \<and> owned n \<subseteq> gone E (drop_node E n w)"
proof -
  let ?w = "snd (stop_validator E n w)"
  have "no_spawn E w ?w" "info_process (validator_of n) \<subseteq> gone E ?w"
    using stop_info_run [of E w "validator_of n"] by (simp_all add: stop_validator_def)
  moreover have "no_spawn E ?w (drop_node E n w)" "info_process (node_of n) \<subseteq> gone E (drop_node E n w)"
    using stop_info_run [of E ?w "node_of n"] by (simp_all add: drop_node_def stop_node_def)
  ultimately show ?thesis using no_spawn_trans unfolding owned_def no_spawn_def by blast
qed

lemma drop_node_accounted: "accounted E (H \<union> owned n) w \<Longrightarrow> accounted E H (drop_node E n w)"
  using drop_node_run [of E w n] unfolding accounted_def no_spawn_def by blast

lemma drop_node_ports [simp]: "it_ports (drop_node E n w) = it_ports w"
  using drop_node_run [of E w n] by (simp add: no_spawn_def)

lemma drop_nodes_accounted: "accounted E (H \<union> owned_all ns) w \<Longrightarrow> accounted E H (drop_nodes E ns w)"
proof (induction ns arbitrary: w)
  case (Cons n ns)
  from Cons.prems have "accounted E ((H \<union> owned_all ns) \<union> owned n) w" by (simp add: owned_all_def Un_ac)
  from Cons.IH [OF drop_node_accounted [OF this]] show ?case by (simp add: drop_nodes_def)
qed (simp add: drop_nodes_def owned_all_def)

section \<open>Starting\<close>

definition safe_loop_at :: "('x, 'c) it_env \<Rightarrow> 'a subnet_node \<Rightarrow> ('a node_state, 'e, 'b) loop_io \<Rightarrow> bool" where
  "safe_loop_at E n m \<longleftrightarrow> (\<forall>w r n' w' H. m (n, w) = Some (r, (n', w')) \<longrightarrow> accounted E (H \<union> owned n) w \<longrightarrow>
     accounted E (H \<union> owned n') w' \<and> it_ports w' = it_ports w \<and> node_ports n' = node_ports n)"

lemma safe_loop_atD: "safe_loop_at E n m \<Longrightarrow> m (n, w) = Some (r, (n', w')) \<Longrightarrow> accounted E (H \<union> owned n) w \<Longrightarrow>
     accounted E (H \<union> owned n') w' \<and> it_ports w' = it_ports w \<and> node_ports n' = node_ports n"
  unfolding safe_loop_at_def by blast

lemma safe_loop_once [intro]: "safe_at E n m \<Longrightarrow> safe_loop_at E n (once m)"
  unfolding safe_loop_at_def once_def using safe_atD by blast

lemma bind_loop_cases:
  assumes "bind_loop m f w = Some (r, w')"
  obtains (stop) r1 where "m w = Some (r1, w')" "\<not> is_ok r1" "\<not> is_ok r" "\<And>e. r = Err e \<longleftrightarrow> r1 = Err e" "\<And>p. r = Panic p \<longleftrightarrow> r1 = Panic p"
    | (go) a w1 where "m w = Some (Ok a, w1)" "f a w1 = Some (r, w')"
proof (cases "m w")
  case (Some p)
  obtain r1 w1 where p: "p = (r1, w1)" by (cases p)
  show ?thesis using assms Some p that by (cases r1) (auto simp: bind_loop_def)
qed (use assms in \<open>simp add: bind_loop_def\<close>)

lemma safe_loop_bind [intro]:
  assumes m: "safe_loop_at E n m" and f: "\<And>a n'. safe_loop_at E n' (f a)"
  shows "safe_loop_at E n (bind_loop m f)"
  unfolding safe_loop_at_def
proof (intro allI impI)
  fix w r n' w' H
  assume "bind_loop m f (n, w) = Some (r, (n', w'))" and acc: "accounted E (H \<union> owned n) w"
  then show "accounted E (H \<union> owned n') w' \<and> it_ports w' = it_ports w \<and> node_ports n' = node_ports n"
  proof (cases rule: bind_loop_cases)
    case (stop r1)
    with safe_loop_atD [OF m _ acc] show ?thesis by blast
  next
    case (go a s1)
    then show ?thesis using safe_loop_atD [OF m _ acc] safe_loop_atD [OF f] by (cases s1) metis
  qed
qed

lemma safe_create_wallet [intro]: "safe_loop_at E n (create_wallet E L)"
  unfolding safe_loop_at_def
proof (intro allI impI)
  fix w r n' w' H
  assume run: "create_wallet E L (n, w) = Some (r, (n', w'))" and acc: "accounted E (H \<union> owned n) w"
  let ?I = "\<lambda>s. accounted E (H \<union> owned (fst s)) (snd s) \<and> it_ports (snd s) = it_ports w \<and> node_ports (fst s) = node_ports n"
  have step: "?I s'" if "?I s" "new_wallet_address E L s = (r, s')" for r s s'
    using that safe_atD [OF safe_new_wallet_address, of E L "fst s" "snd s" r "fst s'" "snd s'" H] by simp
  have "\<exists>s1. ?I s1 \<and> new_wallet_address E L s1 = (r, (n', w')) \<and> (\<forall>e. r \<noteq> Err e)"
    by (rule retry_run [OF run [unfolded create_wallet_def]]) (rule step, assumption+, use acc in simp)
  then obtain s1 where "?I s1" "new_wallet_address E L s1 = (r, (n', w'))" by blast
  from step [OF this] show "accounted E (H \<union> owned n') w' \<and> it_ports w' = it_ports w \<and> node_ports n' = node_ports n" by simp
qed

text \<open>What a function owes for the nodes it returns: nothing is lost, and on failure nothing is kept.\<close>

fun handed :: "('b \<Rightarrow> nat set) \<Rightarrow> ('e, 'b) res \<Rightarrow> nat set" where
  "handed own (Ok b) = own b"
| "handed own _ = {}"

lemma handed_not_ok: "\<not> is_ok r \<Longrightarrow> handed own r = {}"
  by (cases r) auto

lemma handed_nothing [simp]: "handed (\<lambda>_. {}) r = {}"
  by (cases r) auto

definition hands_over :: "('x, 'c) it_env \<Rightarrow> ('b \<Rightarrow> nat set) \<Rightarrow> (it_world, 'e, 'b) loop_io \<Rightarrow> bool" where
  "hands_over E own m \<longleftrightarrow> (\<forall>w r w' H. m w = Some (r, w') \<longrightarrow> accounted E H w \<longrightarrow>
     accounted E (H \<union> handed own r) w')"

lemma hands_overD:
  "hands_over E own m \<Longrightarrow> m w = Some (r, w') \<Longrightarrow> accounted E H w \<Longrightarrow> accounted E (H \<union> handed own r) w'"
  unfolding hands_over_def by blast

lemma hands_over_bind:
  assumes "hands_over E (\<lambda>_. {}) m" "\<And>a. hands_over E own (f a)"
  shows "hands_over E own (bind_loop m f)"
  unfolding hands_over_def
proof (intro allI impI)
  fix w r w' H assume "bind_loop m f w = Some (r, w')" and acc: "accounted E H w"
  then show "accounted E (H \<union> handed own r) w'"
  proof (cases rule: bind_loop_cases)
    case (stop r1)
    with hands_overD [OF assms(1) stop(1) acc] show ?thesis by (simp add: handed_not_ok)
  next
    case (go a w1)
    with hands_overD [OF assms(1) go(1) acc] hands_overD [OF assms(2) go(2)] show ?thesis by simp
  qed
qed

lemma hands_over_once: "quiet E m \<Longrightarrow> hands_over E (\<lambda>_. {}) (once m)"
  unfolding hands_over_def once_def by (auto dest: quiet_run no_spawn_accounted)

lemma next_port_log:
  assumes "next_port E w = Some (r, w')"
  shows "it_log w' = it_log w"
proof -
  have "it_log (snd (r, w')) = it_log w"
  proof (rule next_port.raw_induct [where P = "\<lambda>E w y. it_log (snd y) = it_log w", OF _ assms])
    fix next' and E :: "('a, 'b) it_env" and w y
    assume IH: "\<And>E w y. next' E w = Some y \<Longrightarrow> it_log (snd y) = it_log w"
      and run: "(let r = it_ports w in case checked_add_u16 r 1 of
        Ok r1 \<Rightarrow> (let cur = other_holders E (it_time w) r; w1 = w\<lparr>it_time := it_time w + 1, it_ports := cur\<rparr> in
           if cur = r then Some (checked_add_u16 r DEFAULT_NODE_API_BASE_PORT, w1\<lparr>it_ports := r1\<rparr>) else next' E w1)
      | Err e \<Rightarrow> Some (Err e, w) | Panic p \<Rightarrow> Some (Panic p, w)) = Some y"
    then show "it_log (snd y) = it_log w"
      by (auto simp: Let_def split: res.splits if_splits dest!: IH)
  qed
  then show ?thesis by simp
qed

lemma same_log: "it_log w' = it_log w \<Longrightarrow> accounted E H w' = accounted E H w"
  by (simp add: accounted_def spawned_def gone_def)

lemma hands_over_next_port: "hands_over E (\<lambda>_. {}) (next_port E)"
  unfolding hands_over_def handed_nothing Un_empty_right using next_port_log same_log by metis

lemma hands_over_ret: "own a = {} \<Longrightarrow> hands_over E own (once (ret a))"
  by (simp add: hands_over_def once_def ret_def)

lemma hands_over_lift: "hands_over E (\<lambda>_. {}) (once (lift r))"
  by (simp add: hands_over_def once_def lift_def)

lemma owned_new [simp]: "owned (node_new i f a b c d e u) = {}"
  by (simp add: owned_def node_new_def info_process.simps)

lemma node_from_topology_idle:
  assumes "node_from_topology E c w = Some (Ok n, w')"
  shows "owned n = {}"
  using assms by (auto simp: node_from_topology_def once_def ret_def elim!: bind_loop_cases)

lemma hands_over_from_topology: "hands_over E (\<lambda>_. {}) (node_from_topology E c)"
  unfolding node_from_topology_def
  by (intro hands_over_bind hands_over_next_port hands_over_lift hands_over_ret) simp

lemma hands_over_owning:
  assumes "safe_loop_at E n m" "owned n = {}"
  shows "hands_over E owned (owning E n m)"
  unfolding hands_over_def
proof (intro allI impI)
  fix w r w' H assume run: "owning E n m w = Some (r, w')" and acc: "accounted E H w"
  then obtain r1 n1 w1 where m: "m (n, w) = Some (r1, (n1, w1))"
    by (auto simp: owning_def split: option.splits)
  have "accounted E (H \<union> owned n1) w1" using safe_loop_atD [OF assms(1) m, of H] acc assms(2) by simp
  with run m show "accounted E (H \<union> handed owned r) w'"
    by (cases r1) (auto simp: owning_def intro: drop_node_accounted)
qed

lemma hands_over_started:
  assumes "\<And>n. safe_loop_at E n (m :: ('a node_state, it_error, unit) loop_io)"
  shows "hands_over E owned (bind_loop (node_from_topology E c) (\<lambda>node. owning E node m))"
  unfolding hands_over_def
proof (intro allI impI)
  fix w r w' H assume "bind_loop (node_from_topology E c) (\<lambda>node. owning E node m) w = Some (r, w')" and acc: "accounted E H w"
  then show "accounted E (H \<union> handed owned r) w'"
  proof (cases rule: bind_loop_cases)
    case (stop r1)
    with hands_overD [OF hands_over_from_topology stop(1) acc] show ?thesis by (simp add: handed_not_ok)
  next
    case (go n w1)
    with hands_overD [OF hands_over_from_topology go(1) acc]
      hands_overD [OF hands_over_owning [OF assms node_from_topology_idle [OF go(1)]] go(2)] show ?thesis by simp
  qed
qed

lemma hands_over_first: "hands_over E owned (spawn_first_node E L c)"
  unfolding spawn_first_node_def by (rule hands_over_started) blast

lemma hands_over_next: "hands_over E owned (spawn_next_node E L c)"
  unfolding spawn_next_node_def by (rule hands_over_started) blast

lemma owned_all_simps [simp]: "owned_all [] = {}" "owned_all (n # ns) = owned n \<union> owned_all ns"
  "owned_all (ns @ ms) = owned_all ns \<union> owned_all ms"
  by (auto simp: owned_all_def)

lemma spawn_nodes_accounted:
  "spawn_nodes E L c k ns w = Some (r, w') \<Longrightarrow> accounted E (H \<union> owned_all ns) w \<Longrightarrow> accounted E (H \<union> handed owned_all r) w'"
proof (induction k arbitrary: ns w)
  case (Suc k)
  then obtain r1 w1 where one: "spawn_next_node E L c w = Some (r1, w1)" by (auto split: option.splits)
  note acc = hands_overD [OF hands_over_next one Suc.prems(2)]
  show ?case
  proof (cases r1)
    case (Ok n)
    with Suc one acc show ?thesis by (simp add: Un_ac)
  qed (use Suc.prems(1) one acc drop_nodes_accounted in auto)
qed auto

lemma guarding_run:
  assumes "guarding E ns m w = Some (r, w')"
  obtains w1 where "m w = Some (r, w1)" "w' = (if is_ok r then w1 else drop_nodes E ns w1)"
  using assms by (auto simp: guarding_def split: option.splits res.splits)

lemma hands_over_guarding:
  assumes "hands_over E own m" "guarding E ns m w = Some (r, w')" "accounted E (H \<union> owned_all ns) w"
  shows "accounted E (H \<union> (if is_ok r then handed own r \<union> owned_all ns else {})) w'"
proof -
  obtain w1 where w1: "m w = Some (r, w1)" "w' = (if is_ok r then w1 else drop_nodes E ns w1)" by (rule guarding_run [OF assms(2)])
  from hands_overD [OF assms(1) w1(1) assms(3)] w1(2) drop_nodes_accounted show ?thesis
    by (auto simp: handed_not_ok Un_ac)
qed

lemma hands_over_others: "hands_over E owned_all (spawn_other_nodes E L c n)"
  unfolding hands_over_def
proof (intro allI impI)
  fix w r w' H assume run: "spawn_other_nodes E L c n w = Some (r, w')" and acc: "accounted E H w"
  from run [unfolded spawn_other_nodes_def] show "accounted E (H \<union> handed owned_all r) w'"
  proof (cases rule: bind_loop_cases)
    case (stop r1)
    with spawn_nodes_accounted [OF stop(1), of H] acc show ?thesis by (simp add: handed_not_ok)
  next
    case (go ns w1)
    have acc1: "accounted E (H \<union> owned_all ns) w1" using spawn_nodes_accounted [OF go(1), of H] acc by simp
    have "quiet E (for_io ns (connect_peer E L p))" for p by blast
    moreover have "hands_over E (\<lambda>_. {}) (retry (network_addresses E L n))"
      unfolding hands_over_def
    proof (intro allI impI)
      fix w r w' H assume run: "retry (network_addresses E L n) w = Some (r, w')" and acc: "accounted E H w"
      have step: "accounted E H w'" if "accounted E H w" "network_addresses E L n w = (r, w')" for w r w'
        using that no_spawn_accounted quiet_run [OF quiet_ops(1)] by blast
      have "\<exists>w1. accounted E H w1 \<and> network_addresses E L n w1 = (r, w') \<and> (\<forall>e. r \<noteq> Err e)"
        by (rule retry_run [OF run]) (rule step, assumption+, rule acc)
      with step show "accounted E (H \<union> handed (\<lambda>_. {}) r) w'" by auto
    qed
    ultimately have m: "hands_over E (\<lambda>_. {}) (bind_loop (retry (network_addresses E L n)) (\<lambda>addrs.
         bind_loop (once (lift (tcp_address addrs))) (\<lambda>first_node_addr.
         bind_loop (once (for_io ns (connect_peer E L (trim_newline first_node_addr)))) (\<lambda>_.
           once (ret ns)))))"
      by (intro hands_over_bind hands_over_once hands_over_lift hands_over_ret) auto
    have "r = Ok ns" if "is_ok r"
      using go(2) that by (auto simp: once_def ret_def elim!: guarding_run bind_loop_cases)
    with hands_over_guarding [OF m go(2) acc1] show ?thesis by (cases "is_ok r") (simp_all add: handed_not_ok)
  qed
qed

definition infra_owned :: "'a subnet_infra \<Rightarrow> nat set" where
  "infra_owned s = (case infra_nodes s of Some ns \<Rightarrow> owned_all ns | None \<Rightarrow> {})"

lemma start_nodes_accounted:
  assumes "start_nodes E L (s, w) = Some (r, (s', w'))" "accounted E (infra_owned s) w"
  shows "accounted E (infra_owned s') w'"
proof -
  let ?m = "bind_loop (spawn_first_node E L (infra_config s)) (\<lambda>first_node.
          bind_loop (guarding E [first_node] (spawn_other_nodes E L (infra_config s) first_node)) (\<lambda>nodes.
            once (ret (nodes @ [first_node]))))"
  obtain r1 w1 where run: "?m w = Some (r1, w1)" using assms(1) by (auto simp: start_nodes_def split: option.splits)
  have "accounted E (infra_owned s \<union> handed owned_all r1) w1"
    using run
  proof (cases rule: bind_loop_cases)
    case (stop r2)
    with hands_overD [OF hands_over_first stop(1) assms(2)] show ?thesis by (simp add: handed_not_ok)
  next
    case (go n w2)
    have acc: "accounted E (infra_owned s \<union> owned_all [n]) w2" using hands_overD [OF hands_over_first go(1) assms(2)] by simp
    from go(2) show ?thesis
    proof (cases rule: bind_loop_cases)
      case (stop r2)
      with hands_over_guarding [OF hands_over_others stop(1) acc] show ?thesis by (simp add: handed_not_ok)
    next
      case (go ns w3)
      with hands_over_guarding [OF hands_over_others go(1) acc] show ?thesis by (auto simp: once_def ret_def)
    qed
  qed
  with assms(1) run show ?thesis
    by (cases r1; cases "infra_nodes s")
      (auto simp: start_nodes_def infra_owned_def drop_old_nodes_def Un_ac intro: drop_nodes_accounted)
qed

section \<open>All calls\<close>

lemma each_node_accounted:
  assumes m: "\<And>n. safe_at E n m"
  shows "each_node m ns w = (r, ns', w') \<Longrightarrow> accounted E (H \<union> owned_all ns) w \<Longrightarrow> accounted E (H \<union> owned_all ns') w'"
proof (induction ns arbitrary: w ns' H r w')
  case (Cons n ns)
  obtain r1 n1 w1 where one: "m (n, w) = (r1, (n1, w1))" by (cases "m (n, w)") auto
  have acc: "accounted E ((H \<union> owned_all ns) \<union> owned n1) w1"
    using safe_atD [OF m one, of "H \<union> owned_all ns"] Cons.prems(2) by (simp add: Un_ac)
  show ?case
  proof (cases r1)
    case (Ok u)
    obtain r2 ns2 w2 where rest: "each_node m ns w1 = (r2, ns2, w2)" by (cases "each_node m ns w1") auto
    from Cons.IH [OF rest, of "H \<union> owned n1"] acc have "accounted E ((H \<union> owned n1) \<union> owned_all ns2) w2" by (simp add: Un_ac)
    with Cons.prems(1) one Ok rest show ?thesis by (auto simp: Un_ac)
  qed (use Cons.prems(1) one acc in \<open>auto simp: Un_ac\<close>)
qed simp

lemma on_infra_accounted:
  assumes "\<And>s. quiet E (m s)" "on_infra m (s, w) = (r, (s', w'))" "accounted E (infra_owned s) w"
  shows "accounted E (infra_owned s') w'"
proof -
  obtain w1 where "m s w = (r, w1)" "s' = s" "w' = w1" using assms(2) by (auto simp: on_infra_def split: prod.splits)
  with quiet_run [OF assms(1)] no_spawn_accounted assms(3) show ?thesis by blast
qed

lemma quiet_option [intro]: "quiet E m \<Longrightarrow> (\<And>a. quiet E (f a)) \<Longrightarrow> quiet E (case x of None \<Rightarrow> m | Some a \<Rightarrow> f a)"
  by (cases x) auto

lemma quiet_load [intro]: "quiet E (load_agent_config E p)"
  by (simp add: quiet_def load_agent_config_def)

lemma quiet_subnet_config [intro]: "quiet E (infra_subnet_config E L s)"
  unfolding infra_subnet_config_def by (intro quiet_option quiet_bind quiet_pure quiet_ops)

lemma infra_op_accounted:
  assumes "infra_op E L c (s, w) = Some (r, (s', w'))" "accounted E (infra_owned s) w"
  shows "accounted E (infra_owned s') w'"
proof (cases c)
  case CallStartNodes
  with assms start_nodes_accounted show ?thesis by simp
next
  case CallCreateSubnet
  let ?c = "infra_config s"
  obtain r1 w1 where run: "util_create_subnet E (ipc_agent_url ?c) None (subnet_to_string L (ic_parent ?c)) (ic_name ?c) (of_nat (number_of_nodes ?c)) w = (r1, w1)"
    by (metis prod.collapse)
  have "accounted E (infra_owned s) w1" using quiet_run [OF quiet_ops(8) run] no_spawn_accounted assms(2) by blast
  moreover have "w' = w1 \<and> infra_nodes s' = infra_nodes s"
    using assms(1) run by (auto simp: CallCreateSubnet once_def infra_create_subnet_def Let_def split: res.splits)
  ultimately show ?thesis by (simp add: infra_owned_def)
next
  case CallStartValidators
  then show ?thesis using assms each_node_accounted [OF safe_start_validator, of E L _ w _ _ w' "{}"]
    by (auto simp: once_def start_validators_def infra_owned_def split: option.splits prod.splits)
next
  case CallTearDown
  then show ?thesis using assms drop_nodes_accounted [of _ "{}"]
    by (auto simp: once_def tear_down_def infra_owned_def split: option.splits)
next
  case CallFund
  then show ?thesis using assms
    by (auto simp: once_def fund_node_wallets_def elim!: on_infra_accounted [rotated] split: option.split)
      (auto simp: fund_wallet_in_nodes_def)
next
  case CallUpdateConfig
  show ?thesis using assms
    unfolding CallUpdateConfig infra_op.simps once_def update_ipc_agent_config_def Let_def option.inject
    by (elim on_infra_accounted [rotated])
      (assumption | intro quiet_if quiet_bind quiet_map_err quiet_pure quiet_load quiet_subnet_config quiet_on_it_fs)+
next
  case CallRemoveConfig
  then show ?thesis using assms
    by (auto simp: once_def remove_from_ipc_agent_config_def elim!: on_infra_accounted [rotated] split: option.split)
next
  case CallReload
  then show ?thesis using assms
    by (auto simp: once_def trigger_ipc_config_reload_def elim!: on_infra_accounted [rotated])
qed

lemma infra_reach_accounted:
  "infra_reach E L s t \<Longrightarrow> accounted E (infra_owned (fst s)) (snd s) \<Longrightarrow> accounted E (infra_owned (fst t)) (snd t)"
proof (induction rule: infra_reach.induct)
  case (infra_next s t c r t')
  then show ?case using infra_op_accounted [of E L c "fst t" "snd t" r "fst t'" "snd t'"] by simp
qed

end
