(* ===== verification/Itest_Started.thy ===== *)
theory Itest_Started
  imports Itest_Processes
begin

text \<open>
  What \<open>start_nodes\<close> has done when it reports success: all nodes of the configuration run, each
  with a wallet, and no two of their servers share a port.
\<close>

lemma bind_loop_Ok_iff:
  "bind_loop m f w = Some (Ok b, w') \<longleftrightarrow> (\<exists>a w1. m w = Some (Ok a, w1) \<and> f a w1 = Some (Ok b, w'))"
  by (auto simp: bind_loop_def split: option.splits res.splits)

section \<open>Ports\<close>

text \<open>The other holders of the port counter only count up.\<close>

definition counts_up :: "('a, 'c) it_env \<Rightarrow> bool" where
  "counts_up E \<longleftrightarrow> (\<forall>t p. p \<le> other_holders E t p)"

lemma next_port_value:
  assumes "next_port E w = Some (Ok p, w')" "counts_up (E :: ('a, 'b) it_env)"
  shows "\<exists>r :: u16. unat p = unat r + 1230 \<and> unat (it_ports w) \<le> unat r \<and> unat r < unat (it_ports w')"
proof -
  let ?P = "\<lambda>(E :: ('a, 'b) it_env) w y. counts_up E \<longrightarrow> (\<forall>p. fst y = (Ok p :: (it_error, u16) res) \<longrightarrow>
      (\<exists>r :: u16. unat p = unat r + 1230 \<and> unat (it_ports w) \<le> unat r \<and> unat r < unat (it_ports (snd y))))"
  have "?P E w (Ok p, w')"
  proof (rule next_port.raw_induct [where P = ?P, OF _ assms(1)], intro impI allI)
    fix next' and E :: "('a, 'b) it_env" and w y p
    assume IH: "\<And>E w y. next' E w = Some y \<Longrightarrow> ?P E w y" and up: "counts_up E" and p: "fst y = Ok p"
      and run: "(let r = it_ports w in case checked_add_u16 r 1 of
        Ok r1 \<Rightarrow> (let cur = other_holders E (it_time w) r; w1 = w\<lparr>it_time := it_time w + 1, it_ports := cur\<rparr> in
           if cur = r then Some (checked_add_u16 r DEFAULT_NODE_API_BASE_PORT, w1\<lparr>it_ports := r1\<rparr>) else next' E w1)
      | Err e \<Rightarrow> Some (Err e, w) | Panic p \<Rightarrow> Some (Panic p, w)) = Some y"
    let ?r = "it_ports w" let ?cur = "other_holders E (it_time w) ?r"
    have no_ovf: "unat ?r + 1 < 2 ^ 16" and add1: "unat (?r + 1) = unat ?r + 1"
      using run p by (auto simp: checked_add_u16_def Let_def unat_word_ariths split: if_splits)
    show "\<exists>r :: u16. unat p = unat r + 1230 \<and> unat (it_ports w) \<le> unat r \<and> unat r < unat (it_ports (snd y))"
    proof (cases "?cur = ?r")
      case True
      then have y: "y = (checked_add_u16 ?r DEFAULT_NODE_API_BASE_PORT, w\<lparr>it_time := it_time w + 1, it_ports := ?r + 1\<rparr>)"
        using run no_ovf by (auto simp: Let_def checked_add_u16_def)
      then have "unat p = unat ?r + 1230"
        using p by (auto simp: checked_add_u16_def DEFAULT_NODE_API_BASE_PORT_def unat_word_ariths split: if_splits)
      with y add1 show ?thesis by (intro exI [of _ ?r]) simp
    next
      case False
      then have "next' E (w\<lparr>it_time := it_time w + 1, it_ports := ?cur\<rparr>) = Some y"
        using run no_ovf by (auto simp: Let_def checked_add_u16_def)
      from IH [OF this] up p obtain r :: u16 where "unat p = unat r + 1230" "unat ?cur \<le> unat r" "unat r < unat (it_ports (snd y))" by auto
      moreover have "unat ?r \<le> unat ?cur" using up by (simp add: counts_up_def word_le_nat_alt [symmetric])
      ultimately show ?thesis by (intro exI [of _ r]) simp
    qed
  qed
  with assms(2) show ?thesis by simp
qed

definition ports_within :: "nat \<Rightarrow> nat \<Rightarrow> u16 list \<Rightarrow> bool" where
  "ports_within lo hi ps \<longleftrightarrow> lo \<le> hi \<and> distinct ps \<and> (\<forall>p \<in> set ps. lo + 1230 \<le> unat p \<and> unat p < hi + 1230)"

lemma ports_within_append:
  "ports_within lo mid ps \<Longrightarrow> ports_within mid hi qs \<Longrightarrow> ports_within lo hi (ps @ qs) \<and> ports_within lo hi (qs @ ps)"
  by (auto simp: ports_within_def) (meson leD le_trans less_le_trans linorder_not_le add_le_mono1)+

lemma ports_within_Nil [simp]: "ports_within lo lo []"
  by (simp add: ports_within_def)

lemma node_from_topology_run:
  assumes "node_from_topology E c w = Some (Ok n, w')" "counts_up E"
  shows "ports_within (unat (it_ports w)) (unat (it_ports w')) (node_ports n) \<and> status (node_of n) = Idle \<and> status (validator_of n) = Idle"
proof -
  obtain i p1 p2 p3 p4 w1 w2 w3 where run: "next_port E w = Some (Ok p1, w1)" "next_port E w1 = Some (Ok p2, w2)"
      "next_port E w2 = Some (Ok p3, w3)" "next_port E w3 = Some (Ok p4, w')"
      and n: "n = node_new i (ipc_root_folder c) p1 p2 p3 p4 (eudico_binary_path c) (ipc_agent_url c)"
    using assms(1) by (auto simp: node_from_topology_def once_def ret_def lift_def elim!: bind_loop_cases)
  note v = run [THEN next_port_value, OF assms(2)]
  show ?thesis using v by (auto simp: n node_new_def node_ports_def ports_within_def)
qed

section \<open>Nodes\<close>

definition started :: "'a subnet_node \<Rightarrow> bool" where
  "started n \<longleftrightarrow> (\<exists>h. status (node_of n) = Running h) \<and> status (validator_of n) = Idle \<and> wallet_address n \<noteq> None"

lemma new_wallet_infos:
  "new_wallet_address E L s = (r, s') \<Longrightarrow> node_of (fst s') = node_of (fst s) \<and> validator_of (fst s') = validator_of (fst s)"
  by (cases s) (auto simp: new_wallet_address_def on_world_def update_node_def io_defs split: if_splits prod.splits res.splits)

lemma create_wallet_infos:
  assumes "create_wallet E L s = Some (r, s')"
  shows "node_of (fst s') = node_of (fst s) \<and> validator_of (fst s') = validator_of (fst s)"
proof -
  let ?I = "\<lambda>t. node_of (fst t) = node_of (fst s) \<and> validator_of (fst t) = validator_of (fst s)"
  have step: "?I t'" if "?I t" "new_wallet_address E L t = (r, t')" for r t t'
    using that new_wallet_infos [OF that(2)] by simp
  have "\<exists>t. ?I t \<and> new_wallet_address E L t = (r, s') \<and> (\<forall>e. r \<noteq> Err e)"
    by (rule retry_run [OF assms [unfolded create_wallet_def]]) (rule step, assumption+, simp)
  with step show ?thesis by blast
qed

lemma spawn_node_ok:
  assumes "spawn_node E L (n, w) = (Ok u, (n', w'))"
  shows "(\<exists>h. status (node_of n') = Running h) \<and> validator_of n' = validator_of n"
  using assms by (auto simp: spawn_node_def Let_def on_world_def update_node_def io_defs split: if_splits prod.splits res.splits)

lemma config_default_ok: "config_default_wallet E L n w = (Ok u, w') \<Longrightarrow> wallet_address n \<noteq> None"
  by (auto simp: config_default_wallet_def bail_def split: option.splits)

text \<open>The part that all nodes share.\<close>

abbreviation bring_up :: "('a, 'c) it_env \<Rightarrow> 'a libs \<Rightarrow> ('a node_state, it_error, unit) loop_io" where
  "bring_up E L \<equiv> bind_loop (once (spawn_node E L)) (\<lambda>_. bind_loop (create_wallet E L) (\<lambda>_. once (on_world (config_default_wallet E L))))"

lemma bring_up_started:
  assumes "bring_up E L (n, w) = Some (Ok u, (n', w'))" "status (validator_of n) = Idle"
  shows "started n'"
proof -
  obtain n1 w1 s2 where sp: "spawn_node E L (n, w) = (Ok (), (n1, w1))"
      and cw: "create_wallet E L (n1, w1) = Some (Ok (), s2)" and cd: "on_world (config_default_wallet E L) s2 = (Ok u, (n', w'))"
    using assms(1) by (auto simp: once_def elim!: bind_loop_cases)
  have "n' = fst s2" "wallet_address n' \<noteq> None"
    using cd config_default_ok by (cases s2; fastforce simp: on_world_def split: prod.splits)+
  with spawn_node_ok [OF sp] create_wallet_infos [OF cw] assms(2) show ?thesis by (simp add: started_def)
qed

lemma accounted_UNIV [simp]: "accounted E UNIV w"
  by (simp add: accounted_def)

lemma owning_run:
  assumes "owning E n m w = Some (Ok n', w')"
  shows "m (n, w) = Some (Ok (), (n', w'))"
  using assms by (auto simp: owning_def split: option.splits res.splits)

text \<open>What is known of a function that makes one node.\<close>

definition makes_node :: "(it_world, it_error, 'a subnet_node) loop_io \<Rightarrow> bool" where
  "makes_node m \<longleftrightarrow> (\<forall>w n w'. m w = Some (Ok n, w') \<longrightarrow>
     started n \<and> ports_within (unat (it_ports w)) (unat (it_ports w')) (node_ports n))"

lemma makes_nodeI:
  assumes "counts_up E" and safe: "\<And>n. safe_loop_at E n m"
    and st: "\<And>n w u n' w'. m (n, w) = Some (Ok u, (n', w')) \<Longrightarrow> status (node_of n) = Idle \<Longrightarrow> status (validator_of n) = Idle \<Longrightarrow> started n'"
  shows "makes_node (bind_loop (node_from_topology E c) (\<lambda>node. owning E node m))"
  unfolding makes_node_def
proof (intro allI impI)
  fix w n w' assume "bind_loop (node_from_topology E c) (\<lambda>node. owning E node m) w = Some (Ok n, w')"
  then obtain n0 w1 where n0: "node_from_topology E c w = Some (Ok n0, w1)" and run: "m (n0, w1) = Some (Ok (), (n, w'))"
    by (auto elim!: bind_loop_cases dest!: owning_run)
  have "it_ports w' = it_ports w1" "node_ports n = node_ports n0"
    using safe_loop_atD [OF safe run, of UNIV] by simp_all
  with node_from_topology_run [OF n0 assms(1)] st [OF run]
  show "started n \<and> ports_within (unat (it_ports w)) (unat (it_ports w')) (node_ports n)" by simp
qed

lemma makes_first:
  assumes "counts_up E" shows "makes_node (spawn_first_node E L c)"
  unfolding spawn_first_node_def
proof (rule makes_nodeI [OF assms])
  fix n w u n' w'
  assume "bind_loop (once (on_world (gen_genesis E L))) (\<lambda>_. bring_up E L) (n, w) = Some (Ok u, (n', w'))"
    and idle: "status (validator_of n) = Idle"
  then obtain s1 where s1: "once (on_world (gen_genesis E L)) (n, w) = Some (Ok (), s1)" "bring_up E L s1 = Some (Ok u, (n', w'))"
    by (auto simp: bind_loop_Ok_iff)
  have "fst s1 = n" using s1(1) by (auto simp: once_def on_world_def split: prod.splits)
  with s1(2) idle bring_up_started [of E L n "snd s1" u n' w'] show "started n'" by (metis prod.collapse)
qed blast

lemma makes_next: "counts_up E \<Longrightarrow> makes_node (spawn_next_node E L c)"
  unfolding spawn_next_node_def by (rule makes_nodeI) (blast | rule bring_up_started)+

lemma spawn_nodes_run:
  assumes "counts_up E"
  shows "spawn_nodes E L c k ns w = Some (Ok ns', w') \<Longrightarrow> \<exists>ms. ns' = ns @ ms \<and> length ms = k \<and> list_all started ms
     \<and> ports_within (unat (it_ports w)) (unat (it_ports w')) (concat (map node_ports ms))"
proof (induction k arbitrary: ns w)
  case (Suc k)
  then obtain n w1 where one: "spawn_next_node E L c w = Some (Ok n, w1)" and rest: "spawn_nodes E L c k (ns @ [n]) w1 = Some (Ok ns', w')"
    by (auto split: option.splits res.splits)
  from one makes_next [OF assms, of L c] have n: "started n" "ports_within (unat (it_ports w)) (unat (it_ports w1)) (node_ports n)"
    unfolding makes_node_def by blast+
  from Suc.IH [OF rest] obtain ms where "ns' = (ns @ [n]) @ ms" "length ms = k" "list_all started ms"
      "ports_within (unat (it_ports w1)) (unat (it_ports w')) (concat (map node_ports ms))" by blast
  with n ports_within_append [OF n(2)] show ?case by (intro exI [of _ "n # ms"]) auto
qed simp

lemma retry_network_ports:
  assumes "retry (network_addresses E L n) w = Some (r, w')"
  shows "it_ports w' = it_ports w"
proof -
  have step: "it_ports w2 = it_ports w" if "it_ports w1 = it_ports w" "network_addresses E L n w1 = (r, w2)" for w1 r w2
    using that quiet_run [OF quiet_ops(1) that(2)] by (simp add: no_spawn_def)
  have "\<exists>w1. it_ports w1 = it_ports w \<and> network_addresses E L n w1 = (r, w') \<and> (\<forall>e. r \<noteq> Err e)"
    by (rule retry_run [OF assms]) (rule step, assumption+, rule refl)
  with step show ?thesis by blast
qed

lemma spawn_other_nodes_run:
  assumes "counts_up E" "spawn_other_nodes E L c first w = Some (Ok ns, w')"
  shows "length ns = number_of_nodes c - 1 \<and> list_all started ns
     \<and> ports_within (unat (it_ports w)) (unat (it_ports w')) (concat (map node_ports ns))"
proof -
  obtain ms w1 where ms: "spawn_nodes E L c (number_of_nodes c - 1) [] w = Some (Ok ms, w1)" and
      rest: "bind_loop (retry (network_addresses E L first)) (\<lambda>addrs.
         bind_loop (once (lift (tcp_address addrs))) (\<lambda>first_node_addr.
         bind_loop (once (for_io ms (connect_peer E L (trim_newline first_node_addr)))) (\<lambda>_.
           once (ret ms)))) w1 = Some (Ok ns, w')"
    using assms(2) unfolding spawn_other_nodes_def by (auto simp: bind_loop_Ok_iff elim!: guarding_run)
  obtain a w2 p where w2: "retry (network_addresses E L first) w1 = Some (Ok a, w2)"
      and w3: "for_io ms (connect_peer E L p) w2 = (Ok (), w')" and ns: "ns = ms"
    using rest by (auto simp: once_def ret_def lift_def bind_loop_Ok_iff)
  have "quiet E (for_io ms (connect_peer E L p))" by blast
  from quiet_run [OF this w3] retry_network_ports [OF w2] have "it_ports w' = it_ports w1" by (simp add: no_spawn_def)
  with spawn_nodes_run [OF assms(1) ms] ns show ?thesis by auto
qed

end
