(* ===== verification/Itest_Properties.thy ===== *)
theory Itest_Properties
  imports Itest_Started
begin

text \<open>
  The guarantees of the test infrastructure, each at work on a concrete run: a subnet of two nodes whose
  binary fails at first, with another holder of the port counter that interferes once.
\<close>

section \<open>A run\<close>

definition demo_it :: "(demo_addr, unit) it_env" where
  "demo_it = \<lparr>env_HOME = Some ''/root'',
     run_cmd = (\<lambda>t c. if t < 8 then Inl ''not found'' else
        Inr \<lparr>cmd_success = True, exit_status = ''0'', cmd_stdout = (if cmd_args c = [''net'', ''listen''] then ''/tcp/1'' else ''w'' @ [CHR 0x0A]), cmd_stderr = []\<rparr>),
     cmd_files = (\<lambda>t c f. f), spawn_cmd = (\<lambda>t c. None), kill_child = (\<lambda>t h. Inr ()), agent = (\<lambda>t u q. Ok ''f01''),
     agent_url_parse = Ok, lotus_json_from_str = Ok, other_holders = (\<lambda>t p. if t = 1 \<and> p < 100 then p + 1 else p),
     agent_config_from_file = (\<lambda>p f. Ok ()), agent_add_subnet = (\<lambda>s c. c), agent_remove_subnet = (\<lambda>i c. c),
     agent_config_write = (\<lambda>p c f. (Ok (), f))\<rparr>"

definition demo_genesis :: path where
  "demo_genesis = path_of_string ''/ipc/subnet_r5.car''"

definition demo_it_world :: it_world where
  "demo_it_world = \<lparr>it_time = 0, it_ports = 10, it_children = 0,
     it_fs = \<lparr>files = [(demo_genesis, [])], dirs = [], fault = (\<lambda>_. None), write_fault = (\<lambda>_. None)\<rparr>, it_log = []\<rparr>"

definition demo_it_config :: "demo_addr itest_config" where
  "demo_it_config = itest_config_new_with_subnet_id ''test'' ''w0'' ''/lotus'' ''/ipc'' 2 ''eudico'' (new_root 5) (new_root 5)"


lemma demo_it_simps [simp]:
  "env_HOME demo_it = Some ''/root''"
  "run_cmd demo_it t c = (if t < 8 then Inl ''not found'' else
     Inr \<lparr>cmd_success = True, exit_status = ''0'', cmd_stdout = (if cmd_args c = [''net'', ''listen''] then ''/tcp/1'' else ''w'' @ [CHR 0x0A]), cmd_stderr = []\<rparr>)"
  "cmd_files demo_it t c f = f" "spawn_cmd demo_it t c = None" "kill_child demo_it t h = Inr ()" "agent demo_it t u q = Ok ''f01''"
  "other_holders demo_it t p = (if t = 1 \<and> p < 100 then p + 1 else p)"
  by (simp_all add: demo_it_def)

lemmas demo_it_eval = next_port_eval retry_eval bind_loop_def once_def io_defs unwrap_def
  demo_it_config_def itest_config_new_with_subnet_id_def checked_add_u16_def DEFAULT_NODE_API_BASE_PORT_def ipc_agent_url_def
  on_world_def update_node_def node_output_def node_command_def command_output_def command_spawn_def it_event_def
  lotus_path_def node_new_def

lemma demo_logs: "on_it_fs m w = (map_err ItMsg (fst (m (it_fs w))), w\<lparr>it_fs := snd (m (it_fs w))\<rparr>)"
  by (simp add: on_it_fs_def case_prod_beta)

lemma demo_cli: "subnet_to_string demo_libs (new_root 5) = ''/r5''" "replacen (CHR ''/'') ''_'' 1000 ''/r5'' = ''_r5''"
  by (simp_all add: subnet_to_string_def new_root_def show_u64_def show_nat.simps digit_char_def char_of_def) (code_simp)+


lemma demo_log_path:
  "path_of_string DEFAULT_LOG_DIR = \<lparr>absolute = False, comps = [''logs'']\<rparr>"
  "path_of_string (DEFAULT_LOG_DIR @ ''/'' @ (''./'' @ ''_r5'' @ ''_node_'' @ show_u16 1240) @ ''.log'') = \<lparr>absolute = False, comps = [''logs'', ''_r5_node_1240.log'']\<rparr>"
  "path_of_string (DEFAULT_LOG_DIR @ ''/'' @ (''./'' @ ''_r5'' @ ''_node_'' @ show_u16 1240) @ ''.err'') = \<lparr>absolute = False, comps = [''logs'', ''_r5_node_1240.err'']\<rparr>"
  by code_simp+

lemma demo_show: "show_u16 1240 = ''1240''" "show_u16 1245 = ''1245''"
  by code_simp+

lemmas demo_start_defs = start_nodes_def infra_new_def spawn_first_node_def spawn_other_nodes_def spawn_next_node_def node_from_topology_def
    owning_def guarding_def create_wallet_def new_wallet_address_def gen_genesis_def metadata_ok_def genesis_path_def config_default_wallet_def
    network_addresses_def connect_peer_def tcp_address_def drop_old_nodes_def node_ports_def
    spawn_node_def subnet_id_cli_string_def demo_cli demo_show Let_def demo_it_world_def create_log_def from_utf8_lossy_ascii
    demo_logs fs_create_dir_all_def fs_create_def path_of_string_def path_exists_def starts_with_def empty_path_def is_dir_def path_parent_def DEFAULT_LOG_DIR_def
    demo_genesis_def trim_newline_def

lemma demo_start_run:
  "map_option (\<lambda>(r, (s, w)). (r, map node_ports (the (infra_nodes s)), it_children w))
      (start_nodes demo_it demo_libs (infra_new demo_it_config, demo_it_world))
   = Some (Ok (), [[1245, 1246, 1247, 1248], [1240, 1242, 1243, 1244]], 2)"
  by (simp add: demo_start_defs demo_it_eval)

lemma demo_start:
  obtains s w where "start_nodes demo_it demo_libs (infra_new demo_it_config, demo_it_world) = Some (Ok (), (s, w))"
    "map node_ports (the (infra_nodes s)) = [[1245, 1246, 1247, 1248], [1240, 1242, 1243, 1244]]" "it_children w = 2"
  using demo_start_run by auto

lemma demo_comes_up: "comes_up demo_it"
proof -
  have "\<exists>t' \<ge> t. cmd_works demo_it t' c" for t c by (rule exI [of _ "t + 8"]) (simp add: cmd_works_def)
  then show ?thesis by (simp add: comes_up_def)
qed

lemma demo_settles: "counter_settles demo_it"
  unfolding counter_settles_def by (intro exI [of _ 2]) simp

lemma demo_counts_up: "counts_up demo_it"
proof -
  have "p \<le> p + 1" if "p < 100" for p :: u16
    using that by (simp add: word_le_nat_alt word_less_nat_alt unat_word_ariths)
  then show ?thesis by (simp add: counts_up_def)
qed

section \<open>Properties\<close>

text \<open>C21: \<open>create_wallet\<close> retries until the node binary makes a wallet: on a node without a wallet it returns
  exactly when some attempt, now or later, succeeds, and it returns success with the wallet set, never an error. When
  the binary can never be run it does not return.\<close>

theorem create_wallet_returns_iff:
  assumes "wallet_address n = None" "env_HOME E = Some home"
  shows "((\<exists>r s. create_wallet E L (n, w) = Some (r, s)) \<longleftrightarrow>
       (\<exists>t \<ge> it_time w. cmd_works E t \<lparr>program = node_eudico n, cmd_args = [''wallet'', ''new''],
          lotus_path_env = home @ ''/.lotus_subnet'' @ subnet_id_cli_string L n @ ''_'' @ show_u16 (tcp_port (node_of n))\<rparr>))
     \<and> (\<forall>r s. create_wallet E L (n, w) = Some (r, s) \<longrightarrow> r = Ok () \<and> (\<exists>a. fst s = n\<lparr>wallet_address := Some a\<rparr>))"
proof -
  let ?c = "\<lparr>program = node_eudico n, cmd_args = [''wallet'', ''new''],
          lotus_path_env = home @ ''/.lotus_subnet'' @ subnet_id_cli_string L n @ ''_'' @ show_u16 (tcp_port (node_of n))\<rparr>"
  have c: "node_command E L n [''wallet'', ''new''] = (Ok ?c :: (it_error, command) res)"
    using assms(2) by (simp add: node_command_def lotus_path_def)
  note step = new_wallet_step [OF assms(1) c]
  have "create_wallet E L (n, w) = None" if "\<not> (\<exists>t \<ge> it_time w. cmd_works E t ?c)"
    unfolding create_wallet_def
  proof (rule retry_loops [where I = "\<lambda>s. fst s = n \<and> it_time w \<le> it_time (snd s)"])
    fix s :: "'a node_state" assume "fst s = n \<and> it_time w \<le> it_time (snd s)"
    with step [of "snd s"] that show "\<exists>e s'. new_wallet_address E L s = (Err e, s') \<and> fst s' = n \<and> it_time w \<le> it_time (snd s')"
      by (cases s) force
  qed simp
  moreover have "create_wallet E L (n, w) \<noteq> None" if "\<exists>t \<ge> it_time w. cmd_works E t ?c"
    using that c by (intro create_wallet_not_stuck) auto
  ultimately have iff: "(\<exists>r s. create_wallet E L (n, w) = Some (r, s)) \<longleftrightarrow> (\<exists>t \<ge> it_time w. cmd_works E t ?c)" by fastforce
  have "r = Ok () \<and> (\<exists>a. fst s = n\<lparr>wallet_address := Some a\<rparr>)" if ran: "create_wallet E L (n, w) = Some (r, s)" for r s
  proof -
    have stay: "fst s2 = n" if "fst s1 = n" "new_wallet_address E L s1 = (Err e, s2)" for s1 e s2
      using step [of "snd s1"] that by (cases s1) (auto split: if_splits)
    have "\<exists>s1. fst s1 = n \<and> new_wallet_address E L s1 = (r, s) \<and> (\<forall>e. r \<noteq> Err e)"
      by (rule retry_run [OF ran [unfolded create_wallet_def]]) (rule stay, assumption+, simp)
    then obtain s1 where "fst s1 = n" "new_wallet_address E L s1 = (r, s)" "\<forall>e. r \<noteq> Err e" by blast
    with step [of "snd s1"] show ?thesis by (cases s1) (auto split: if_splits)
  qed
  with iff show ?thesis by blast
qed

lemma create_wallet_returns_iff_witness:
  "\<exists>r s. create_wallet demo_it demo_libs (node_new (new_root 5) ''/ipc'' 1240 1242 1243 1244 ''eudico'' ''url'', demo_it_world) = Some (r, s)
     \<and> r = Ok () \<and> wallet_address (fst s) \<noteq> None"
proof -
  let ?n = "node_new (new_root 5) ''/ipc'' 1240 1242 1243 1244 ''eudico'' ''url'' :: demo_addr subnet_node"
  have "cmd_works demo_it 8 c" for c by (simp add: cmd_works_def)
  moreover have "it_time demo_it_world \<le> 8" by (simp add: demo_it_world_def)
  moreover have "wallet_address ?n = None" by (simp add: node_new_def)
  ultimately show ?thesis
    using create_wallet_returns_iff [of ?n demo_it "''/root''" demo_libs demo_it_world] by fastforce
qed

text \<open>C23: Starting the nodes of a subnet returns: if the node binary answers again after every failure and the other
  holders of the port counter leave it alone in the end, then \<open>start_nodes\<close> ends, with success, an error or a panic,
  for every configuration, in every state.\<close>

theorem start_nodes_returns:
  assumes "comes_up E" "counter_settles E"
  shows "\<exists>r s'. start_nodes E L s = Some (r, s')"
proof -
  have "returns (spawn_first_node E L c)" for c unfolding spawn_first_node_def using assms by blast
  moreover have "returns (spawn_other_nodes E L c n)" for c n unfolding spawn_other_nodes_def using assms by blast
  ultimately have "returns (bind_loop (spawn_first_node E L c) (\<lambda>first_node.
          bind_loop (guarding E [first_node] (spawn_other_nodes E L c first_node)) (\<lambda>nodes.
            once (ret (nodes @ [first_node])))))" for c by blast
  then show ?thesis unfolding start_nodes_def returns_def by (cases s) (auto split: option.splits res.splits)
qed

lemma start_nodes_returns_witness:
  "\<exists>r s'. start_nodes demo_it demo_libs (infra_new demo_it_config, demo_it_world) = Some (r, s')"
  by (rule start_nodes_returns [OF demo_comes_up demo_settles])

text \<open>C22: When \<open>start_nodes\<close> succeeds, the infrastructure holds as many nodes as the configuration asks for, and at
  least one; every node's process runs, its validator does not run yet and it has a wallet; and the ports of all
  nodes and validators are pairwise different, although the port counter is shared with other holders that
  count it up concurrently.\<close>

theorem start_nodes_complete:
  assumes "counts_up E" "start_nodes E L (s, w) = Some (Ok (), (s', w'))"
  shows "\<exists>ns. infra_nodes s' = Some ns \<and> length ns = max 1 (number_of_nodes (infra_config s)) \<and> list_all started ns
     \<and> distinct (concat (map node_ports ns))"
proof -
  let ?c = "infra_config s"
  obtain n w1 ns w2 where first: "spawn_first_node E L ?c w = Some (Ok n, w1)"
      and others: "spawn_other_nodes E L ?c n w1 = Some (Ok ns, w2)" and s': "infra_nodes s' = Some (ns @ [n])"
    using assms(2) by (auto simp: start_nodes_def once_def ret_def elim!: bind_loop_cases guarding_run split: option.splits res.splits)
  from first makes_first [OF assms(1), of L ?c] have n: "started n" "ports_within (unat (it_ports w)) (unat (it_ports w1)) (node_ports n)"
    unfolding makes_node_def by blast+
  note ns = spawn_other_nodes_run [OF assms(1) others]
  have "ports_within (unat (it_ports w)) (unat (it_ports w2)) (concat (map node_ports ns) @ node_ports n)"
    using ports_within_append [OF n(2)] ns by blast
  then have "distinct (concat (map node_ports (ns @ [n])))" by (simp add: ports_within_def)
  with s' n ns show ?thesis by (intro exI [of _ "ns @ [n]"]) auto
qed

lemma start_nodes_complete_witness:
  "\<exists>s w ns. start_nodes demo_it demo_libs (infra_new demo_it_config, demo_it_world) = Some (Ok (), (s, w))
     \<and> infra_nodes s = Some ns \<and> length ns = 2 \<and> list_all started ns \<and> distinct (concat (map node_ports ns))"
proof -
  obtain s w where run: "start_nodes demo_it demo_libs (infra_new demo_it_config, demo_it_world) = Some (Ok (), (s, w))"
    by (rule demo_start)
  from start_nodes_complete [OF demo_counts_up run] run show ?thesis
    by (auto simp: infra_new_def demo_it_config_def itest_config_new_with_subnet_id_def)
qed

text \<open>C12: No child process of the test infrastructure is lost unnoticed. After any sequence of its calls, whether they
  succeeded, failed or panicked, every process that was spawned is held by a node of the infrastructure, or has been killed,
  or the operating system refused a kill of it (\<open>Drop\<close> ignores that error); after \<open>tear_down\<close> no process is
  merely held: each has been killed or its kill was refused. Where no kill is refused, \<open>tear_down\<close> has killed every
  process.\<close>

theorem no_process_lost:
  assumes "infra_reach E L (infra_new c, w0) (s, w)" "it_log w0 = []"
  shows "(\<forall>h cmd. Spawned h cmd \<in> set (it_log w) \<longrightarrow>
       (\<exists>ns. infra_nodes s = Some ns \<and> (\<exists>n \<in> set ns. status (node_of n) = Running h \<or> status (validator_of n) = Running h))
       \<or> Killed h \<in> set (it_log w) \<or> KillFailed h \<in> set (it_log w) \<and> (\<exists>t e. kill_child E t h = Inl e))
     \<and> (\<forall>h cmd. Spawned h cmd \<in> set (it_log (snd (snd (tear_down E (s, w))))) \<longrightarrow>
       Killed h \<in> set (it_log (snd (snd (tear_down E (s, w)))))
       \<or> KillFailed h \<in> set (it_log (snd (snd (tear_down E (s, w))))) \<and> (\<exists>t e. kill_child E t h = Inl e))
     \<and> ((\<forall>t h. kill_child E t h = Inr ()) \<longrightarrow> (\<forall>h cmd. Spawned h cmd \<in> set (it_log (snd (snd (tear_down E (s, w))))) \<longrightarrow>
       Killed h \<in> set (it_log (snd (snd (tear_down E (s, w)))))))"
proof -
  have "accounted E (infra_owned (infra_new c)) w0" using assms(2) by (simp add: accounted_def spawned_def)
  with infra_reach_accounted [OF assms(1)] have held: "accounted E (infra_owned s) w" by simp
  then have down: "accounted E {} (snd (snd (tear_down E (s, w))))"
    using drop_nodes_accounted [of _ "{}"] by (auto simp: tear_down_def infra_owned_def split: option.splits)
  note acc = accounted_def spawned_def gone_def
  have "h \<in> info_process i \<longleftrightarrow> status i = Running h" for h i by (auto simp: info_process.simps split: spawn_status.splits)
  then have "h \<in> infra_owned s \<longleftrightarrow> (\<exists>ns. infra_nodes s = Some ns \<and> (\<exists>n \<in> set ns. status (node_of n) = Running h \<or> status (validator_of n) = Running h))" for h
    by (simp add: infra_owned_def owned_all_def owned_def split: option.splits)
  with held have "\<forall>h cmd. Spawned h cmd \<in> set (it_log w) \<longrightarrow>
       (\<exists>ns. infra_nodes s = Some ns \<and> (\<exists>n \<in> set ns. status (node_of n) = Running h \<or> status (validator_of n) = Running h))
       \<or> Killed h \<in> set (it_log w) \<or> KillFailed h \<in> set (it_log w) \<and> (\<exists>t e. kill_child E t h = Inl e)"
    unfolding acc by blast
  moreover from down have "\<forall>h cmd. Spawned h cmd \<in> set (it_log (snd (snd (tear_down E (s, w))))) \<longrightarrow>
       Killed h \<in> set (it_log (snd (snd (tear_down E (s, w)))))
       \<or> KillFailed h \<in> set (it_log (snd (snd (tear_down E (s, w))))) \<and> (\<exists>t e. kill_child E t h = Inl e)"
    unfolding acc by blast
  ultimately show ?thesis by (metis sum.distinct(1))
qed

text \<open>After the start two processes run; the demo system refuses no kill.\<close>

lemma no_process_lost_witness:
  "\<exists>s w. infra_reach demo_it demo_libs (infra_new demo_it_config, demo_it_world) (s, w) \<and> it_children w = 2
     \<and> (\<forall>h cmd. Spawned h cmd \<in> set (it_log (snd (snd (tear_down demo_it (s, w))))) \<longrightarrow>
       Killed h \<in> set (it_log (snd (snd (tear_down demo_it (s, w))))))"
proof -
  obtain s w where run: "start_nodes demo_it demo_libs (infra_new demo_it_config, demo_it_world) = Some (Ok (), (s, w))" "it_children w = 2"
    by (rule demo_start)
  have reach: "infra_reach demo_it demo_libs (infra_new demo_it_config, demo_it_world) (s, w)"
    by (rule infra_next [OF infra_start, where c = CallStartNodes]) (simp add: run)
  have "it_log demo_it_world = []" by (simp add: demo_it_world_def)
  from no_process_lost [OF reach this] have "\<forall>h cmd. Spawned h cmd \<in> set (it_log (snd (snd (tear_down demo_it (s, w))))) \<longrightarrow>
       Killed h \<in> set (it_log (snd (snd (tear_down demo_it (s, w)))))"
    by (simp only: demo_it_simps simp_thms) blast
  with reach run(2) show ?thesis by blast
qed

end
