(* ===== verification/Spec2Isabelle.thy ===== *)
theory Spec2Isabelle
  imports Cli_Properties Lotus_Client Lotus_Ipc Wallet_Cache Itest_Properties
begin

text \<open>
  A verification library for the IPC client (\<open>src/ipc\<close>): the Rust program that manages the
  subnets of a hierarchical network of blockchains, their keys and the relaying of checkpoints.

  \<^bold>\<open>The program.\<close> The crate \<open>sdk\<close> holds the data of the network: subnet identifiers (a root chain and a
  route of subnet actors), addresses and cross-network messages over them, and the conversions to
  the types of the smart contracts. The crate \<open>identity\<close> holds the keys: an Ethereum key store (in memory and
  on disk) and a Filecoin key store (clear or encrypted) with the wallet that keeps its keys in it. The crate
  \<open>provider\<close> holds the configuration file, the managers that turn an operation on a subnet into a
  transaction or a query at a node, the client object that picks the manager and the sender, the
  checkpoint relayer, and the JSON-RPC client of Lotus nodes. The crate \<open>cli\<close> is the command line: each command builds a
  client from the configuration, reads its arguments and calls it. The crate \<open>testing/itest\<close> starts a subnet of node
  processes for the integration tests. An operation such as \<open>stake\<close> goes
  from \<open>IpcProvider\<close> (which subnet, which sender) to \<open>EthSubnetManager\<close> (which contract, which
  call, which amount and fees), reads the key store to sign, and hands one transaction to the node.

  \<^bold>\<open>Theories and sources\<close>
  \<^item> \<open>Prelude\<close>: results with errors and panics (\<open>res\<close>), effects as explicit world passing (\<open>io\<close>, \<open>bind_io\<close>), the
    rules for both (\<open>res_simps\<close>, \<open>io_steps\<close>), the interface \<open>codec\<close> of a printer and its reader, and sequences of calls
    (\<open>run_calls\<close>) with the simulation rule that the refinement and the equivalence below use.
  \<^item> \<open>Rust_Std\<close>, \<open>Rust_Fs\<close>, \<open>Rust_Net\<close>: what the code uses of the standard library: splitting and parsing of text,
    big-endian bytes, a file system with paths and faults, socket addresses.
  \<^item> \<open>Libs\<close>: the third-party conversions as one record of functions with the laws relied on.
  \<^item> \<open>Subnet_Id\<close> (\<open>sdk/src/subnet_id.rs\<close>), \<open>Ipc_Address\<close> (\<open>sdk/src/{address,cross}.rs\<close>), \<open>Evm_Convert\<close>
    (\<open>sdk/src/{evm,staking,validator,checkpoint}.rs\<close>).
  \<^item> \<open>Evm_Keystore\<close> (\<open>identity/src/evm\<close>), with the abstract key ring it refines in \<open>Keystore_Refinement\<close>; \<open>Fvm_Keystore\<close> and \<open>Fvm_Wallet\<close>
    (\<open>identity/src/fvm\<close>), with the equivalence of the wallet and a wallet without cache in \<open>Wallet_Cache\<close>.
  \<^item> \<open>Config\<close> (\<open>provider/src/config\<close>).
  \<^item> \<open>Eth_Fees\<close> and \<open>Eth_Manager\<close> (\<open>provider/src/manager/evm/manager.rs\<close>): \<open>Eth_Fees\<close> is the fee estimation at
    the width of the integers, \<open>Eth_Manager\<close> every operation of the traits \<open>SubnetManager\<close>, \<open>TopDownFinalityQuery\<close>,
    \<open>EthManager\<close> and \<open>BottomUpCheckpointRelayer\<close>. \<open>Eth_Properties\<close> states what they send.
  \<^item> \<open>Checkpoint_Manager\<close> (\<open>provider/src/checkpoint.rs\<close>): the relayer, over the interface of a relayer handler;
    \<open>Eth_Relay\<close> puts it on the Ethereum managers.
  \<^item> \<open>Provider\<close> (\<open>provider/src/lib.rs\<close>), with its properties in \<open>Provider_Properties\<close>; \<open>Client_Runs\<close> is the client object as a
    transition system, with its invariant.
  \<^item> \<open>Cli_Amount\<close> (\<open>f64_to_token_amount\<close> over a model of binary64), \<open>Cli\<close> (\<open>cli/src/lib.rs\<close>, \<open>commands/mod.rs\<close>,
    \<open>commands/subnet\<close>), \<open>Cli_Commands\<close> (the other commands, the dispatch and the process of one invocation, \<open>cli\<close>);
    \<open>Cli_Sends\<close> bounds what each command sends, \<open>Cli_Properties\<close> holds the end-to-end properties.
  \<^item> \<open>Json_Rpc\<close> (\<open>provider/src/jsonrpc/mod.rs\<close>), \<open>Lotus_Message\<close> (\<open>provider/src/lotus/message\<close>, \<open>lotus/json.rs\<close>),
    \<open>Lotus_Ipc\<close> (\<open>provider/src/lotus/message/ipc.rs\<close>), \<open>Lotus_Client\<close> (\<open>provider/src/lotus/client.rs\<close>).
  \<^item> \<open>Itest_Node\<close> (\<open>testing/itest/src/infra/{util,subnet}.rs\<close>) and \<open>Itest_Infra\<close> (\<open>infra/mod.rs\<close>, \<open>testing/e2e/src/lib.rs\<close>): the nodes
    the integration tests start, with their processes and retry loops; \<open>Itest_Termination\<close>, \<open>Itest_Processes\<close> and \<open>Itest_Started\<close> hold the
    lemmas on loops, child processes and ports, \<open>Itest_Properties\<close> the properties.
  \<^item> \<open>Eth_Demo\<close> and the definitions named \<open>demo_\<dots>\<close>: concrete nodes, libraries and key stores, for the
    theorems that exhibit an instance.

  \<^bold>\<open>State and operations.\<close> A Rust struct is a record, an enum a datatype, integers keep their width (\<open>u64\<close>,
  \<open>u256\<close>) or are \<open>int\<close> with the range test of the code where it converts. A \<open>Result\<close> is \<open>Ok\<close> or \<open>Err\<close>; every
  \<open>unwrap\<close>, index and overflow that can fail is the third outcome \<open>Panic\<close>. A method with effects maps the
  world it touches to an outcome and the new world: the key store with its files (\<open>pks_world\<close>,
  \<open>ks_state\<close>), the chain with the log of transactions handed to it (\<open>chain_world\<close>), the client with its
  key stores and networks (\<open>client_world\<close>), a command with the files, the networks and its output (\<open>process\<close>), the
  Lotus node with the requests posted (\<open>lotus_world\<close>), the machine of an integration test with its processes and the log of
  commands, spawns and kills (\<open>it_world\<close>). A node that goes out of scope, on an early return or a panic too, is dropped, and
  the drop kills its processes; a kill that the operating system refuses is an event of its own, as the drop ignores it.
  Code outside the repository (nodes, contracts, cryptography, TOML and JSON text) is an argument
  of the definitions, and what a theorem needs of it is a named hypothesis.

  \<^bold>\<open>Interfaces.\<close> \<open>codec\<close> (interpreted for integers, subnet identifiers and addresses), \<open>evm_keystore\<close> (put,
  remove, default; interpreted by the key store in memory, \<open>mem\<close>, and on disk, \<open>pks\<close>) and its extension \<open>ring_keystore\<close>
  with the refusals (\<open>mem_ring\<close>, and \<open>pks_ring\<close> for a store in step with its file),
  \<open>string_keystore\<close> (interpreted by the Filecoin key store, \<open>ks\<close>, and by the wallet over it, \<open>wks\<close>), and
  \<open>checkpoint_relay\<close>, the contract between the relayer and the two networks it connects, interpreted by
  the Ethereum managers of parent and child (\<open>relay\<close>). Clients are proved against the interface.

  \<^bold>\<open>What is shown\<close>
  \<^item> The relayer, as a transition system: in every reachable state a round submits nothing before the child
    chain is final at the next height, then exactly the bundles of the reported quorums in block order;
    with answering nodes a round completes, after submitting the last bundle again where the parent lacks the submitter's;
    it never sends anything but submissions by its submitter.
  \<^item> Each operation of the client hands the right node (the parent of the subnet) one transaction with the
    amount, call and signer of its arguments, or fails without sending; the sender is the given one,
    the configured one or the default key; the gateway is the configured one. A network that is not configured is refused by
    every operation and query; a bootstrap endpoint is advertised exactly when it is a key and a socket address, IPv4 or IPv6.
  \<^item> The command line, end to end: a staking command sends one transaction with the amount typed, signed by the
    sender; joining with a balance funds first; no command but the relayer sends more than it is named for, and queries
    and wallet commands send nothing; the relayer command sends only submissions of its submitter; a key exported on one
    machine and imported on another is the same key; the error of an amount read as a binary64 number is bounded.
  \<^item> The client object: in every state it can reach, its configuration is that of the file and its keys are filed
    under their own addresses.
  \<^item> The Ethereum key store on disk refines a map of keys with a default, over all sequences of calls and restarts.
  \<^item> The cache of the Filecoin wallet cannot be observed: a wallet answers every sequence of calls as one opened anew for
    each call. No assumption on collisions of addresses is made for a store of one network; where a store holds entries of the test network
    beside the network's own, no address may end up with two different keys.
  \<^item> The test infrastructure: its retry loops return exactly when the node binary comes up, a subnet that started is
    complete with different ports, and on every path each spawned process is owned, has been killed, or could not be killed.
  \<^item> Key stores: a stored key survives reopening the store from its file, in clear and encrypted; a put never
    overwrites; removal, default keys, import and export.
  \<^item> Round trips of identifiers, addresses, messages, checkpoints, validators and configuration files, and the
    algebra of subnet routes (common parent as a meet, the next hop down and up).
  \<^item> Fee estimation: the median bound, the surge bound and the cap above the priority fee, without overflow.
  \<^item> The Lotus client: a pushed message is signed over exactly what is pushed, at most once.
  \<^item> The error paths, among them the inputs on which the code panics or does not do what it means to.

  \<^bold>\<open>Bounds.\<close> Loops are recursion over the data they walk. The relayer daemon runs forever and is an inductive
  step relation. The retry loops and the port counter of the test infrastructure may run forever and are partial
  functions into \<open>option\<close>, \<open>None\<close> meaning that they never return; when they return is a theorem. Waiting for a receipt is one operation of the node given the number of retries. The
  socket address parser of the standard library counts the eight groups of an IPv6 address; eight is
  the number the format has, so no input is cut short.

  \<^bold>\<open>Not modelled\<close>
  \<^item> In \<open>ipc/cli\<close> the parsing of arguments and shell completion (the \<open>clap\<close> library), \<open>main.rs\<close> (logger and runtime), and
    \<open>commands/daemon.rs\<close>, which is commented out of the build.
  \<^item> \<open>sdk/src/runtime.rs\<close> and the CBOR methods of identifiers and addresses (feature \<open>fil-actor\<close>): the former names types that
    this version does not have, the latter are library calls.
  \<^item> Trait declarations and re-exports; logging, sleeping and the polling interval; poisoned locks; the wiping of memory
    except where a destructor does it; the writers of the Lotus cross-message structs, whose fields are library types.
  \<^item> In \<open>ipc/testing\<close> the tests and examples themselves, the shell scripts and the containers.
\<close>

end
